(* ===== verification/Telga_Prelude.thy ===== *)
theory Telga_Prelude
  imports Main "HOL-Library.Char_ord" "HOL-Library.List_Lexorder"
begin

text \<open>
  What every component shares: the collections of hints, results of fallible code
  (\<open>'e + 'a\<close>, \<open>Inl\<close> an error), JavaScript numbers, decimal and hexadecimal
  printing, and lemmas on \<open>find\<close>, \<open>filter\<close> and sums over lists.

  JavaScript numbers. A \<open>number\<close> the code computes with is an integer of magnitude far
  below \<open>2^1024\<close>; it is modelled as an \<open>int\<close>, and an addition or multiplication
  whose result is not checked by \<open>Number.isSafeInteger\<close> at once is written with
  \<open>js_add\<close> or \<open>js_mul\<close>, which round to 53 significant bits, ties to even, as IEEE
  double arithmetic does. A \<open>number\<close> argument that may be anything is a
  \<open>jsnum\<close>: an integer, or one of the values that are not integers (a fraction, NaN or
  an infinity), which the code only ever tests for.

  Strings are lists of characters with code below 256: UTF-16 code units of ASCII and Latin-1 text.
\<close>

section \<open>Hint collections\<close>

named_theorems telga_defs \<open>definitions that proofs of a component unfold\<close>
named_theorems wp_rules \<open>weakest-precondition equations of store programs\<close>
named_theorems frame_rules \<open>fields of the store an operation leaves alone\<close>

section \<open>Results\<close>

definition rbind :: "'e + 'a \<Rightarrow> ('a \<Rightarrow> 'e + 'b) \<Rightarrow> 'e + 'b" where
  "rbind r f = (case r of Inl e \<Rightarrow> Inl e | Inr x \<Rightarrow> f x)"

lemma rbind_simps [simp]: "rbind (Inl e) f = Inl e" "rbind (Inr x) f = f x"
  by (simp_all add: rbind_def)

lemma rbind_Inr_iff: "rbind r f = Inr y \<longleftrightarrow> (\<exists>x. r = Inr x \<and> f x = Inr y)"
  by (cases r) simp_all

definition isOk :: "'e + 'a \<Rightarrow> bool" where
  "isOk r = (case r of Inl _ \<Rightarrow> False | Inr _ \<Rightarrow> True)"

lemma isOk_simps [simp]: "isOk (Inl e) = False" "isOk (Inr x) = True"
  by (simp_all add: isOk_def)

lemma isOk_iff: "isOk r \<longleftrightarrow> (\<exists>x. r = Inr x)"
  by (cases r) simp_all

section \<open>JavaScript numbers\<close>

datatype jsnum = JInt int | JNotInt

definition max_safe :: int where
  "max_safe = 2 ^ 53 - 1"

lemma max_safe_eq: "max_safe = 9007199254740991"
  by (simp add: max_safe_def)

definition safe_int :: "int \<Rightarrow> bool" where
  "safe_int x \<longleftrightarrow> \<bar>x\<bar> \<le> max_safe"

definition js_is_safe_integer :: "jsnum \<Rightarrow> bool" where
  "js_is_safe_integer n = (case n of JInt x \<Rightarrow> safe_int x | JNotInt \<Rightarrow> False)"

lemma js_is_safe_integer_simps [simp]:
  "js_is_safe_integer (JInt x) = safe_int x" "js_is_safe_integer JNotInt = False"
  by (simp_all add: js_is_safe_integer_def)

lemma safe_int_iff: "safe_int x \<longleftrightarrow> - 9007199254740991 \<le> x \<and> x \<le> 9007199254740991"
  by (auto simp: safe_int_def max_safe_eq)

text \<open>Rounding a non-negative integer to 53 significant bits: \<open>e\<close> low bits are dropped.\<close>

function bits :: "int \<Rightarrow> nat" where
  "bits x = (if x \<le> 0 then 0 else Suc (bits (x div 2)))"
  by pat_completeness auto
termination by (relation "measure nat") auto

declare bits.simps [simp del]

definition fl_pos :: "int \<Rightarrow> int" where
  "fl_pos a =
     (let e = bits a - 53; q = a div 2 ^ e; r = a mod 2 ^ e
      in if e = 0 then a
         else if 2 * r < 2 ^ e \<or> (2 * r = 2 ^ e \<and> even q) then q * 2 ^ e
         else (q + 1) * 2 ^ e)"

definition fl53 :: "int \<Rightarrow> int" where
  "fl53 x = (if x < 0 then - fl_pos (- x) else fl_pos x)"

definition js_add :: "int \<Rightarrow> int \<Rightarrow> int" where
  "js_add x y = fl53 (x + y)"

definition js_mul :: "int \<Rightarrow> int \<Rightarrow> int" where
  "js_mul x y = fl53 (x * y)"

lemma bits_upper: "x < 2 ^ bits x"
proof (induction x rule: bits.induct)
  case (1 x)
  show ?case
  proof (cases "x \<le> 0")
    case True
    then show ?thesis by (simp add: bits.simps [of x])
  next
    case False
    with 1 have "x div 2 < 2 ^ bits (x div 2)" by simp
    then show ?thesis using False by (simp add: bits.simps [of x])
  qed
qed

lemma bits_lower: "0 < x \<Longrightarrow> 2 ^ (bits x - 1) \<le> x"
proof (induction x rule: bits.induct)
  case (1 x)
  show ?case
  proof (cases "x div 2 \<le> 0")
    case True
    then have "bits (x div 2) = 0" by (simp add: bits.simps [of "x div 2"])
    with 1(2) show ?thesis by (simp add: bits.simps [of x])
  next
    case False
    with 1 have "2 ^ (bits (x div 2) - 1) \<le> x div 2" by simp
    moreover have "bits (x div 2) = Suc (bits (x div 2) - 1)"
      using False by (simp add: bits.simps [of "x div 2"])
    ultimately have "2 ^ bits (x div 2) \<le> 2 * (x div 2)" by (metis mult_le_cancel_left_pos power_Suc zero_less_numeral)
    then show ?thesis using 1(2) by (simp add: bits.simps [of x])
  qed
qed

lemma bits_le_53:
  assumes "x < 2 ^ 53"
  shows "bits x \<le> 53"
proof (cases "0 < x")
  case True
  have "(2::int) ^ (bits x - 1) < 2 ^ 53" using bits_lower [OF True] assms by (rule le_less_trans)
  then have "bits x - 1 < 53" by (rule power_less_imp_less_exp [rotated]) simp
  then show ?thesis by simp
next
  case False
  then show ?thesis by (simp add: bits.simps [of x])
qed

lemma fl_pos_exact: "a < 2 ^ 53 \<Longrightarrow> fl_pos a = a"
  using bits_le_53 by (simp add: fl_pos_def)

lemma fl_pos_large:
  assumes "2 ^ 53 \<le> a"
  shows "2 ^ 53 \<le> fl_pos a"
proof -
  define e where "e = bits a - 53"
  define q where "q = a div 2 ^ e"
  have "(0::int) < 2 ^ 53" by simp
  then have pos: "0 < a" using assms by (rule less_le_trans)
  have lt: "(2::int) ^ 53 < 2 ^ bits a" by (rule le_less_trans [OF assms bits_upper])
  have len: "53 < bits a" by (rule power_less_imp_less_exp [OF _ lt]) simp
  then have e: "bits a - 1 = 52 + e" "0 < e" by (simp_all add: e_def)
  have "(2::int) ^ 52 = 2 ^ (52 + e) div 2 ^ e" by (simp add: power_add)
  also have "\<dots> \<le> q" unfolding q_def using bits_lower [OF pos] e(1) by (intro zdiv_mono1) simp_all
  finally have q: "2 ^ 52 \<le> q" .
  have "(2::int) ^ 53 = 2 ^ 52 * 2 ^ 1" by simp
  also have "\<dots> \<le> q * 2 ^ e"
    using q e(2) by (intro mult_mono power_increasing) simp_all
  finally have "2 ^ 53 \<le> q * 2 ^ e" .
  moreover have "q * 2 ^ e \<le> fl_pos a"
    using e(2) by (simp add: fl_pos_def Let_def e_def [symmetric] q_def [symmetric])
  ultimately show ?thesis by (rule order_trans)
qed

lemma fl_pos_nonneg: "0 \<le> a \<Longrightarrow> 0 \<le> fl_pos a"
  by (simp add: fl_pos_def Let_def pos_imp_zdiv_nonneg_iff)

lemma fl53_exact: "safe_int x \<Longrightarrow> fl53 x = x"
  by (simp add: fl53_def safe_int_iff fl_pos_exact)

text \<open>
  A rounded result is a safe integer exactly when the exact result is one: a check by
  \<open>Number.isSafeInteger\<close> right after one operation catches every inexact result.
\<close>

lemma safe_fl53: "safe_int (fl53 x) \<longleftrightarrow> safe_int x"
proof (cases "safe_int x")
  case True
  then show ?thesis by (simp add: fl53_exact)
next
  case False
  then have "2 ^ 53 \<le> x \<or> 2 ^ 53 \<le> - x" by (simp add: safe_int_iff) linarith
  then have "\<not> safe_int (fl53 x)"
    using fl_pos_large [of x] fl_pos_large [of "- x"] by (auto simp: fl53_def safe_int_iff)
  with False show ?thesis by simp
qed

lemma js_add_exact: "safe_int (x + y) \<Longrightarrow> js_add x y = x + y"
  by (simp add: js_add_def fl53_exact)

lemma js_mul_exact: "safe_int (x * y) \<Longrightarrow> js_mul x y = x * y"
  by (simp add: js_mul_def fl53_exact)

text \<open>\<open>Math.round(n / d)\<close>: ties towards plus infinity.\<close>

definition js_round_div :: "int \<Rightarrow> int \<Rightarrow> int" where
  "js_round_div n d = (2 * n + d) div (2 * d)"

lemma js_round_div_nonneg: "0 \<le> n \<Longrightarrow> 0 < d \<Longrightarrow> 0 \<le> js_round_div n d"
  by (simp add: js_round_div_def pos_imp_zdiv_nonneg_iff)

lemma js_round_div_bounds:
  assumes "0 < d"
  shows "2 * d * js_round_div n d \<le> 2 * n + d" "2 * n + d < 2 * d * js_round_div n d + 2 * d"
proof -
  have "2 * n + d = 2 * d * js_round_div n d + (2 * n + d) mod (2 * d)"
    by (simp add: js_round_div_def)
  moreover have "0 \<le> (2 * n + d) mod (2 * d)" "(2 * n + d) mod (2 * d) < 2 * d"
    using assms by simp_all
  ultimately show "2 * d * js_round_div n d \<le> 2 * n + d"
    "2 * n + d < 2 * d * js_round_div n d + 2 * d" by linarith+
qed

lemma js_round_div_mono: "0 < d \<Longrightarrow> m \<le> n \<Longrightarrow> js_round_div m d \<le> js_round_div n d"
  by (simp add: js_round_div_def zdiv_mono1)

text \<open>A part of an amount, rounded, never exceeds the amount.\<close>

lemma js_round_div_le:
  assumes "0 \<le> a" "b \<le> d" "0 < d"
  shows "js_round_div (a * b) d \<le> a"
proof -
  have "a * b \<le> a * d" using assms by (simp add: mult_left_mono)
  then have "js_round_div (a * b) d \<le> js_round_div (a * d) d"
    using assms by (simp add: js_round_div_mono)
  also have "js_round_div (a * d) d = a"
  proof -
    have "2 * (a * d) + d = d + a * (2 * d)" by simp
    then have "(2 * (a * d) + d) div (2 * d) = a + d div (2 * d)"
      using assms by (metis div_mult_self1 less_irrefl mult_pos_pos zero_less_numeral add.commute)
    moreover have "d div (2 * d) = 0" using assms by simp
    ultimately show ?thesis by (simp add: js_round_div_def)
  qed
  finally show ?thesis .
qed

section \<open>Printing numbers\<close>

definition digit_char :: "nat \<Rightarrow> char" where
  "digit_char d = (if d < 10 then char_of (48 + d) else char_of (87 + d))"

text \<open>The value of a \<open>let\<close> is computed before its body, when a rule asks for it.\<close>

lemma Let_lazy: "s = t \<Longrightarrow> Let s f = Let t f"
  by simp

text \<open>Characters are compared, not computed bit by bit.\<close>

lemma char_of_code: "of_char c = (n :: nat) \<Longrightarrow> char_of n = c"
  by auto

lemma digit_char_code [code]: "digit_char d = (if d < 10 then ''0123456789'' ! d else char_of (87 + d))"
proof -
  have "char_of (48::nat) = CHR ''0''" "char_of (49::nat) = CHR ''1''" "char_of (50::nat) = CHR ''2''" "char_of (51::nat) = CHR ''3''"
    "char_of (52::nat) = CHR ''4''" "char_of (53::nat) = CHR ''5''" "char_of (54::nat) = CHR ''6''" "char_of (55::nat) = CHR ''7''"
    "char_of (56::nat) = CHR ''8''" "char_of (57::nat) = CHR ''9''"
    by (rule char_of_code, simp)+
  then show ?thesis by (auto simp: digit_char_def numeral_eq_Suc less_Suc_eq)
qed

function show_radix :: "int \<Rightarrow> int \<Rightarrow> string" where
  "show_radix b n =
     (if b < 2 \<or> n < b then [digit_char (nat n)]
      else show_radix b (n div b) @ [digit_char (nat (n mod b))])"
  by pat_completeness auto
termination by (relation "measure (nat \<circ> snd)") (auto simp: int_div_less_self)

declare show_radix.simps [simp del]

definition dec_nat :: "nat \<Rightarrow> string" where
  "dec_nat n = show_radix 10 (int n)"

definition dec_int :: "int \<Rightarrow> string" where
  "dec_int n = (if n < 0 then CHR ''-'' # show_radix 10 (- n) else show_radix 10 n)"

lemma dec_int_nonneg: "0 \<le> n \<Longrightarrow> dec_int n = dec_nat (nat n)"
  by (simp add: dec_int_def dec_nat_def)

definition pad_start :: "nat \<Rightarrow> char \<Rightarrow> string \<Rightarrow> string" where
  "pad_start n c s = replicate (n - length s) c @ s"

lemma length_pad_start [simp]: "length (pad_start n c s) = max n (length s)"
  by (simp add: pad_start_def)

lemma show_radix_nonempty [simp]: "show_radix b n \<noteq> []"
  by (subst show_radix.simps) simp

lemma length_show_radix_le:
  assumes "2 \<le> b" "n < b ^ k" "0 < k"
  shows "length (show_radix b n) \<le> k"
  using assms(2,3)
proof (induction k arbitrary: n)
  case 0
  then show ?case by simp
next
  case (Suc k)
  show ?case
  proof (cases "n < b")
    case True
    then show ?thesis by (subst show_radix.simps) simp
  next
    case False
    then have "0 < k" using Suc.prems by (cases k) auto
    moreover have "n div b < b ^ k"
    proof (rule ccontr)
      assume "\<not> n div b < b ^ k"
      then have "b ^ k * b \<le> n div b * b" using assms(1) by (intro mult_right_mono) simp_all
      moreover have "n div b * b \<le> n" using assms(1) using div_mult_mod_eq [of n b] pos_mod_sign [of b n] by linarith
      ultimately show False using Suc.prems by (simp add: mult.commute)
    qed
    ultimately have "length (show_radix b (n div b)) \<le> k" using Suc.IH by blast
    then show ?thesis using False assms(1) by (subst show_radix.simps) simp
  qed
qed

fun join_with :: "string \<Rightarrow> string list \<Rightarrow> string" where
  "join_with sep [] = []"
| "join_with sep [s] = s"
| "join_with sep (s # ss) = s @ sep @ join_with sep ss"

section \<open>Lists\<close>

lemma find_append: "find P (xs @ ys) = (case find P xs of None \<Rightarrow> find P ys | Some x \<Rightarrow> Some x)"
  by (induction xs) simp_all

lemma find_SomeD: "find P xs = Some x \<Longrightarrow> x \<in> set xs \<and> P x"
  by (induction xs) (auto split: if_splits)

lemma find_None_iff_all: "find P xs = None \<longleftrightarrow> (\<forall>x\<in>set xs. \<not> P x)"
  by (induction xs) auto

lemma find_map_same:
  assumes "\<And>x. P (f x) = P x"
  shows "find P (map f xs) = map_option f (find P xs)"
  by (induction xs) (simp_all add: assms)

text \<open>A row found by a key that is unique in the table is the only one with that key.\<close>

lemma find_unique:
  assumes "distinct (map key xs)" "x \<in> set xs"
  shows "find (\<lambda>y. key y = key x) xs = Some x"
  using assms by (induction xs) (auto simp: image_iff)

lemma sum_list_filter_if: "sum_list (map f (filter P xs)) = sum_list (map (\<lambda>x. if P x then f x else (0::int)) xs)"
  by (induction xs) simp_all

text \<open>Updating the one row with a given key changes a sum by the change of that row.\<close>

lemma sum_list_update_unique:
  fixes f :: "'a \<Rightarrow> int"
  assumes "distinct (map key xs)" "x \<in> set xs" "\<And>y. key (g y) = key y"
  shows "sum_list (map f (map (\<lambda>y. if key y = key x then g y else y) xs))
       = sum_list (map f xs) - f x + f (g x)"
  using assms(1,2)
proof (induction xs)
  case Nil
  then show ?case by simp
next
  case (Cons a xs)
  show ?case
  proof (cases "key a = key x")
    case True
    then have "x = a" using Cons.prems by (auto simp: image_iff)
    moreover have "map (\<lambda>y. if key y = key x then g y else y) xs = xs"
      using Cons.prems True by (intro map_idI) (auto simp: image_iff)
    ultimately show ?thesis by simp
  next
    case False
    then show ?thesis using Cons by auto
  qed
qed

lemma map_update_keys:
  assumes "\<And>y. key (g y) = key y"
  shows "map key (map (\<lambda>y. if P y then g y else y) xs) = map key xs"
  using assms by simp

end
