(* ===== verification/Js_Time.thy ===== *)
theory Js_Time
  imports Telga_Prelude
begin

text \<open>
  Timestamps. The program stores every moment as the string \<open>Date.prototype.toISOString\<close>
  prints and compares such strings with \<open><\<close> and \<open><=\<close>, in TypeScript and in SQL alike; it turns
  them back into milliseconds with \<open>Date.parse\<close> or \<open>new Date(s).getTime()\<close>. This theory models the
  three (the day number of a year as ECMAScript's DayFromYear), and proves that parsing inverts
  printing and that the string order is the order in time, for years 0 to 9999.

  \<open>date_parse\<close> reads the one format \<open>toISOString\<close> prints for these years, the only one the
  program's timestamps have; any other text is NaN, written \<open>None\<close>.
\<close>

type_synonym timestamp = string

section \<open>Calendar arithmetic\<close>

definition day_from_year :: "int \<Rightarrow> int" where
  "day_from_year y = 365 * (y - 1970) + (y - 1969) div 4 - (y - 1901) div 100 + (y - 1601) div 400"

definition leap_year :: "int \<Rightarrow> bool" where
  "leap_year y \<longleftrightarrow> y mod 4 = 0 \<and> (y mod 100 \<noteq> 0 \<or> y mod 400 = 0)"

lemma div_Suc_int:
  fixes x k :: int
  assumes "0 < k"
  shows "(x + 1) div k = x div k + (if (x + 1) mod k = 0 then 1 else 0)"
proof -
  have e: "x + 1 = k * (x div k) + (x mod k + 1)" by simp
  have r: "0 \<le> x mod k" "x mod k < k" using assms by simp_all
  show ?thesis
  proof (cases "x mod k + 1 = k")
    case True
    then have "x + 1 = k * (x div k + 1)" using e by (simp add: distrib_left)
    then show ?thesis using assms by simp
  next
    case False
    then have "(x + 1) div k = x div k \<and> (x + 1) mod k = x mod k + 1"
      using r by (intro div_pos_pos_trivial int_div_pos_eq [OF e, THEN conjI] int_mod_pos_eq [OF e] conjI) auto
    then show ?thesis using r by simp
  qed
qed

lemma radix_less:
  fixes a b k :: int
  assumes "0 < k"
  shows "a < b \<longleftrightarrow> a div k < b div k \<or> a div k = b div k \<and> a mod k < b mod k"
proof (cases "a div k" "b div k" rule: linorder_cases)
  case less
  then have "\<not> b \<le> a" using zdiv_mono1 [of b a k] assms by auto
  with less show ?thesis by auto
next
  case equal
  have "a = k * (a div k) + a mod k" "b = k * (b div k) + b mod k" by simp_all
  with equal show ?thesis by (metis add_less_cancel_left less_irrefl)
next
  case greater
  then have "\<not> a \<le> b" using zdiv_mono1 [of a b k] assms by auto
  with greater show ?thesis by auto
qed

lemma radix_less_nat:
  fixes a b k :: nat
  shows "a < b \<longleftrightarrow> a div k < b div k \<or> a div k = b div k \<and> a mod k < b mod k"
proof (cases "a div k" "b div k" rule: linorder_cases)
  case less
  then have "\<not> b \<le> a" using div_le_mono [of b a k] by auto
  with less show ?thesis by auto
next
  case equal
  have "a = k * (a div k) + a mod k" "b = k * (b div k) + b mod k" by simp_all
  with equal show ?thesis by (metis add_less_cancel_left less_irrefl)
next
  case greater
  then have "\<not> a \<le> b" using div_le_mono [of a b k] by auto
  with greater show ?thesis by auto
qed

lemma radix_eq:
  fixes a b k :: int
  shows "a = b \<longleftrightarrow> a div k = b div k \<and> a mod k = b mod k"
  by (metis mult_div_mod_eq)

lemma day_from_year_Suc: "day_from_year (y + 1) = day_from_year y + (if leap_year y then 366 else 365)"
proof -
  have m: "(y - 1968) mod 4 = y mod 4" "(y - 1900) mod 100 = y mod 100" "(y - 1600) mod 400 = y mod 400"
    using mod_mult_self1 [of y "- 492" 4] mod_mult_self1 [of y "- 19" 100] mod_mult_self1 [of y "- 4" 400]
    by simp_all
  have eqs: "y - 1969 + 1 = y - 1968" "y - 1901 + 1 = y - 1900" "y - 1601 + 1 = y - 1600" by simp_all
  have "(y - 1968) div 4 = (y - 1969) div 4 + (if y mod 4 = 0 then 1 else 0)"
    "(y - 1900) div 100 = (y - 1901) div 100 + (if y mod 100 = 0 then 1 else 0)"
    "(y - 1600) div 400 = (y - 1601) div 400 + (if y mod 400 = 0 then 1 else 0)"
    by (rule div_Suc_int [of 4 "y - 1969", simplified eqs m], simp,
        rule div_Suc_int [of 100 "y - 1901", simplified eqs m], simp,
        rule div_Suc_int [of 400 "y - 1601", simplified eqs m], simp)
  moreover have "y mod 100 = 0" if "y mod 400 = 0"
    using that unfolding mod_eq_0_iff_dvd by (rule dvd_trans [rotated]) simp
  moreover have "y mod 4 = 0" if "y mod 100 = 0"
    using that unfolding mod_eq_0_iff_dvd by (rule dvd_trans [rotated]) simp
  moreover have "365 * (y + 1 - 1970) + (A + (if p then 1 else 0)) - (B + (if q then 1 else 0))
      + (C + (if z then 1 else 0))
      = 365 * (y - 1970) + A - B + C + (if p \<and> (\<not> q \<or> z) then 366 else 365)"
    if "z \<Longrightarrow> q" "q \<Longrightarrow> p" for A B C :: int and p q z
    using that by (cases p; cases q; cases z) simp_all
  moreover have "y + 1 - 1969 = y - 1968" "y + 1 - 1901 = y - 1900" "y + 1 - 1601 = y - 1600" by simp_all
  ultimately show ?thesis
    unfolding day_from_year_def leap_year_def by presburger
qed

lemma day_from_year_less_Suc: "day_from_year y < day_from_year (y + 1)"
  by (simp add: day_from_year_Suc)

function year_search :: "int \<Rightarrow> int \<Rightarrow> int" where
  "year_search d y = (if day_from_year (y + 1) \<le> d then year_search d (y + 1) else y)"
  by pat_completeness auto
termination
proof (relation "measure (\<lambda>(d, y). nat (d - day_from_year y))")
  fix d y :: int
  assume "day_from_year (y + 1) \<le> d"
  then show "((d, y + 1), d, y) \<in> measure (\<lambda>(d, y). nat (d - day_from_year y))"
    using day_from_year_less_Suc [of y] by simp
qed simp

declare year_search.simps [simp del]

text \<open>The search starts at a year that is certainly not too late.\<close>

definition year_from_day :: "int \<Rightarrow> int" where
  "year_from_day d = year_search d (1970 + (if 0 \<le> d then d div 366 else d div 365))"

lemma year_search_correct:
  "day_from_year y \<le> d \<Longrightarrow>
   day_from_year (year_search d y) \<le> d \<and> d < day_from_year (year_search d y + 1)"
proof (induction d y rule: year_search.induct)
  case (1 d y)
  then show ?case by (auto simp: year_search.simps [of d y])
qed

lemma div_bounds:
  fixes x k :: int
  assumes "0 < k"
  shows "k * (x div k) \<le> x" "x < k * (x div k) + k"
  using pos_mod_bound [OF assms, of x] pos_mod_sign [OF assms, of x] mult_div_mod_eq [of k x] by linarith+

lemma year_guess_pos:
  assumes "0 \<le> k"
  shows "day_from_year (1970 + k) \<le> 366 * k"
proof (cases "k \<le> 1")
  case True
  with assms have "k = 0 \<or> k = 1" by auto
  then show ?thesis by (auto simp: day_from_year_def)
next
  case False
  have "0 \<le> (69 + k) div 100" using assms by simp
  then show ?thesis
    using False div_bounds(1) [of 4 "1 + k"] div_bounds(1) [of 400 "369 + k"]
    by (simp add: day_from_year_def)
qed

lemma year_guess_neg:
  assumes "k < 0"
  shows "day_from_year (1970 + k) \<le> 365 * k"
proof (cases "k < - 6")
  case True
  have combine: "A + B - C \<le> 0"
    if "4 * A \<le> 1 + k" "400 * B \<le> 369 + k" "69 + k < 100 * C + 100" for A B C :: int
    using that True by linarith
  have "(1 + k) div 4 + (369 + k) div 400 - (69 + k) div 100 \<le> 0"
    by (rule combine) (rule div_bounds, simp)+
  then show ?thesis by (simp add: day_from_year_def)
next
  case False
  with assms have "k = - 1 \<or> k = - 2 \<or> k = - 3 \<or> k = - 4 \<or> k = - 5 \<or> k = - 6" by auto
  then show ?thesis by (auto simp: day_from_year_def)
qed

lemma year_from_day_correct:
  "day_from_year (year_from_day d) \<le> d \<and> d < day_from_year (year_from_day d + 1)"
proof -
  have "day_from_year (1970 + (if 0 \<le> d then d div 366 else d div 365)) \<le> d"
  proof (cases "0 \<le> d")
    case True
    then show ?thesis
      using year_guess_pos [of "d div 366"] div_bounds(1) [of 366 d] by (simp add: pos_imp_zdiv_nonneg_iff)
  next
    case False
    then show ?thesis
      using year_guess_neg [of "d div 365"] div_bounds(1) [of 365 d] by (simp add: pos_imp_zdiv_neg_iff)
  qed
  then show ?thesis unfolding year_from_day_def by (rule year_search_correct)
qed

text \<open>First day of a month (0 to 12) within its year; month 12 is the day after the year.\<close>

definition month_start :: "bool \<Rightarrow> int \<Rightarrow> int" where
  "month_start lp m =
     (if m \<le> 0 then 0 else if m = 1 then 31
      else (if lp then 1 else 0) +
        (if m = 2 then 59 else if m = 3 then 90 else if m = 4 then 120 else if m = 5 then 151
         else if m = 6 then 181 else if m = 7 then 212 else if m = 8 then 243 else if m = 9 then 273
         else if m = 10 then 304 else if m = 11 then 334 else 365))"

definition month_from_yday :: "bool \<Rightarrow> int \<Rightarrow> int" where
  "month_from_yday lp d =
     (if d < month_start lp 1 then 0 else if d < month_start lp 2 then 1
      else if d < month_start lp 3 then 2 else if d < month_start lp 4 then 3
      else if d < month_start lp 5 then 4 else if d < month_start lp 6 then 5
      else if d < month_start lp 7 then 6 else if d < month_start lp 8 then 7
      else if d < month_start lp 9 then 8 else if d < month_start lp 10 then 9
      else if d < month_start lp 11 then 10 else 11)"

lemma month_from_yday_range: "0 \<le> month_from_yday lp d \<and> month_from_yday lp d \<le> 11"
  by (simp add: month_from_yday_def)

lemma month_from_yday_correct:
  assumes "0 \<le> d" "d < (if lp then 366 else 365)"
  shows "month_start lp (month_from_yday lp d) \<le> d \<and> d < month_start lp (month_from_yday lp d + 1)"
  using assms by (cases lp) (auto simp: month_from_yday_def month_start_def)

lemma month_length_le: "0 \<le> m \<Longrightarrow> m \<le> 11 \<Longrightarrow> month_start lp (m + 1) - month_start lp m \<le> 31"
  by (cases lp) (auto simp: month_start_def)

lemma month_start_mono: "0 \<le> m \<Longrightarrow> m < n \<Longrightarrow> n \<le> 12 \<Longrightarrow> month_start lp (m + 1) \<le> month_start lp n"
proof -
  have step: "month_start lp k \<le> month_start lp (k + 1)" for k
    by (cases lp) (auto simp: month_start_def)
  assume "m < n"
  then show "month_start lp (m + 1) \<le> month_start lp n"
  proof (induction n rule: int_gr_induct)
    case base
    then show ?case by simp
  next
    case (step k)
    then show ?case using \<open>\<And>k. month_start lp k \<le> month_start lp (k + 1)\<close> [of k] by linarith
  qed
qed

section \<open>Fields of a moment\<close>

record civil =
  c_year :: int
  c_month :: int
  c_day :: int
  c_hour :: int
  c_minute :: int
  c_second :: int
  c_ms :: int

definition civil_of_ms :: "int \<Rightarrow> civil" where
  "civil_of_ms t =
     (let day = t div 86400000; r = t mod 86400000; y = year_from_day day;
          yd = day - day_from_year y; mo = month_from_yday (leap_year y) yd
      in \<lparr>c_year = y, c_month = mo + 1, c_day = yd - month_start (leap_year y) mo + 1,
          c_hour = r div 3600000, c_minute = r div 60000 mod 60, c_second = r div 1000 mod 60,
          c_ms = r mod 1000\<rparr>)"

definition ms_of_civil :: "civil \<Rightarrow> int" where
  "ms_of_civil c =
     86400000 * (day_from_year (c_year c) + month_start (leap_year (c_year c)) (c_month c - 1) + c_day c - 1)
     + 3600000 * c_hour c + 60000 * c_minute c + 1000 * c_second c + c_ms c"

lemma clock_div:
  fixes r :: int
  shows "r div 1000 div 60 = r div 60000" "r div 60000 div 60 = r div 3600000"
  using zdiv_zmult2_eq [of 60 r 1000] zdiv_zmult2_eq [of 60 r 60000] by simp_all

lemma clock_split:
  fixes r :: int
  shows "3600000 * (r div 3600000) + 60000 * (r div 60000 mod 60) + 1000 * (r div 1000 mod 60) + r mod 1000 = r"
proof -
  have combine: "3600000 * c + 60000 * u + 1000 * v + w = r"
    if "1000 * a + w = r" "60 * b + v = a" "60 * c + u = b" for a b c u v w :: int
    by (simp flip: that)
  show ?thesis
    by (rule combine [OF mult_div_mod_eq mult_div_mod_eq [of 60 "r div 1000", unfolded clock_div]
          mult_div_mod_eq [of 60 "r div 60000", unfolded clock_div]])
qed

lemma ms_of_civil_of_ms: "ms_of_civil (civil_of_ms t) = t"
proof -
  define r where "r = t mod 86400000"
  have e: "86400000 * (t div 86400000) + r = t" unfolding r_def by (rule mult_div_mod_eq)
  have combine: "86400000 * (Y + M + (q - Y - M + 1) - 1) + a + b + c + w = t"
    if "86400000 * q + r = t" "a + b + c + w = r" for Y M q a b c w :: int
    by (simp flip: that)
  show ?thesis
    unfolding ms_of_civil_def civil_of_ms_def Let_def r_def [symmetric] civil.simps add_diff_cancel_right'
    by (rule combine [OF e clock_split])
qed

lemma yday_bounds:
  "0 \<le> d - day_from_year (year_from_day d)"
  "d - day_from_year (year_from_day d) < (if leap_year (year_from_day d) then 366 else 365)"
  using year_from_day_correct [of d] by (simp_all add: day_from_year_Suc)

lemma civil_ranges:
  "1 \<le> c_month (civil_of_ms t)" "c_month (civil_of_ms t) \<le> 12"
  "1 \<le> c_day (civil_of_ms t)" "c_day (civil_of_ms t) \<le> 31"
  "0 \<le> c_hour (civil_of_ms t)" "c_hour (civil_of_ms t) < 24"
  "0 \<le> c_minute (civil_of_ms t)" "c_minute (civil_of_ms t) < 60"
  "0 \<le> c_second (civil_of_ms t)" "c_second (civil_of_ms t) < 60"
  "0 \<le> c_ms (civil_of_ms t)" "c_ms (civil_of_ms t) < 1000"
proof -
  define lp where "lp = leap_year (year_from_day (t div 86400000))"
  define yd where "yd = t div 86400000 - day_from_year (year_from_day (t div 86400000))"
  have yd: "month_start lp (month_from_yday lp yd) \<le> yd" "yd < month_start lp (month_from_yday lp yd + 1)"
    using month_from_yday_correct yday_bounds by (auto simp: lp_def yd_def)
  note mr = month_from_yday_range [of lp yd]
  show "1 \<le> c_month (civil_of_ms t)" "c_month (civil_of_ms t) \<le> 12"
    using mr by (simp_all add: civil_of_ms_def Let_def lp_def yd_def)
  show "1 \<le> c_day (civil_of_ms t)" "c_day (civil_of_ms t) \<le> 31"
    using yd month_length_le [of "month_from_yday lp yd" lp] mr
    by (simp_all add: civil_of_ms_def Let_def lp_def [symmetric] yd_def [symmetric])
  show "0 \<le> c_hour (civil_of_ms t)" "0 \<le> c_minute (civil_of_ms t)" "c_minute (civil_of_ms t) < 60"
    "0 \<le> c_second (civil_of_ms t)" "c_second (civil_of_ms t) < 60"
    "0 \<le> c_ms (civil_of_ms t)" "c_ms (civil_of_ms t) < 1000"
    by (simp_all add: civil_of_ms_def Let_def pos_imp_zdiv_nonneg_iff)
  have "t mod 86400000 < 24 * 3600000" by simp
  then show "c_hour (civil_of_ms t) < 24"
    by (simp add: civil_of_ms_def Let_def)
qed

section \<open>Printing and parsing\<close>

fun fixed_dec :: "nat \<Rightarrow> nat \<Rightarrow> string" where
  "fixed_dec 0 n = []"
| "fixed_dec (Suc k) n = fixed_dec k (n div 10) @ [digit_char (n mod 10)]"

lemma fixed_dec_numeral: "fixed_dec (numeral k) n = fixed_dec (pred_numeral k) (n div 10) @ [digit_char (n mod 10)]"
  by (subst numeral_eq_Suc) (rule fixed_dec.simps(2))

definition digit_value :: "char \<Rightarrow> nat option" where
  "digit_value c = (let v = of_char c in if 48 \<le> v \<and> v \<le> 57 then Some (v - 48) else None)"

fun parse_digits :: "nat \<Rightarrow> string \<Rightarrow> nat option" where
  "parse_digits acc [] = Some acc"
| "parse_digits acc (c # cs) =
     (case digit_value c of None \<Rightarrow> None | Some d \<Rightarrow> parse_digits (10 * acc + d) cs)"

definition iso_of_ms :: "int \<Rightarrow> timestamp" where
  "iso_of_ms t =
     (let c = civil_of_ms t
      in fixed_dec 4 (nat (c_year c)) @ ''-'' @ fixed_dec 2 (nat (c_month c)) @ ''-'' @
         fixed_dec 2 (nat (c_day c)) @ ''T'' @ fixed_dec 2 (nat (c_hour c)) @ '':'' @
         fixed_dec 2 (nat (c_minute c)) @ '':'' @ fixed_dec 2 (nat (c_second c)) @ ''.'' @
         fixed_dec 3 (nat (c_ms c)) @ ''Z'')"

text \<open>Take a number of \<open>k\<close> digits followed by a separator off the front of a text.\<close>

definition take_field :: "nat \<Rightarrow> char \<Rightarrow> string \<Rightarrow> (int \<times> string) option" where
  "take_field k sep s =
     (case (parse_digits 0 (take k s), drop k s) of
        (Some n, c # rest) \<Rightarrow> if c = sep then Some (int n, rest) else None
      | _ \<Rightarrow> None)"

definition date_parse :: "string \<Rightarrow> int option" where
  "date_parse s =
     Option.bind (take_field 4 (CHR ''-'') s) (\<lambda>(y, s).
     Option.bind (take_field 2 (CHR ''-'') s) (\<lambda>(mo, s).
     Option.bind (take_field 2 (CHR ''T'') s) (\<lambda>(d, s).
     Option.bind (take_field 2 (CHR '':'') s) (\<lambda>(h, s).
     Option.bind (take_field 2 (CHR '':'') s) (\<lambda>(mi, s).
     Option.bind (take_field 2 (CHR ''.'') s) (\<lambda>(sec, s).
     Option.bind (take_field 3 (CHR ''Z'') s) (\<lambda>(ms, s).
       if s = [] \<and> 1 \<le> mo \<and> mo \<le> 12 \<and> 1 \<le> d
          \<and> d \<le> month_start (leap_year y) mo - month_start (leap_year y) (mo - 1)
          \<and> h < 24 \<and> mi < 60 \<and> sec < 60
       then Some (ms_of_civil \<lparr>c_year = y, c_month = mo, c_day = d, c_hour = h, c_minute = mi,
                               c_second = sec, c_ms = ms\<rparr>)
       else None)))))))"

lemma length_fixed_dec [simp]: "length (fixed_dec k n) = k"
  by (induction k arbitrary: n) simp_all

lemma digit_value_char: "d < 10 \<Longrightarrow> digit_value (digit_char d) = Some d"
  by (simp add: digit_value_def digit_char_def Let_def)

lemma parse_digits_append:
  "parse_digits acc (xs @ ys) =
     (case parse_digits acc xs of None \<Rightarrow> None | Some v \<Rightarrow> parse_digits v ys)"
  by (induction xs arbitrary: acc) (auto split: option.splits)

lemma parse_fixed_dec: "n < 10 ^ k \<Longrightarrow> parse_digits acc (fixed_dec k n) = Some (acc * 10 ^ k + n)"
proof (induction k arbitrary: n)
  case 0
  then show ?case by simp
next
  case (Suc k)
  then have "n div 10 < 10 ^ k" by (simp add: less_mult_imp_div_less mult.commute)
  then have "parse_digits acc (fixed_dec k (n div 10)) = Some (acc * 10 ^ k + n div 10)"
    by (rule Suc.IH)
  then show ?case
    by (simp add: parse_digits_append digit_value_char algebra_simps)
qed

lemma take_field_fixed:
  assumes "0 \<le> n" "n < 10 ^ k"
  shows "take_field k sep (fixed_dec k (nat n) @ sep # rest) = Some (n, rest)"
proof -
  have "nat n < 10 ^ k" using assms by (simp add: nat_less_iff)
  then show ?thesis using assms(1) by (simp add: take_field_def parse_fixed_dec)
qed

text \<open>The moments whose printed year has exactly four digits.\<close>

definition iso_range :: "int \<Rightarrow> bool" where
  "iso_range t \<longleftrightarrow> 0 \<le> c_year (civil_of_ms t) \<and> c_year (civil_of_ms t) \<le> 9999"

lemma civil_day_in_month:
  "c_day (civil_of_ms t) \<le> month_start (leap_year (c_year (civil_of_ms t))) (c_month (civil_of_ms t))
     - month_start (leap_year (c_year (civil_of_ms t))) (c_month (civil_of_ms t) - 1)"
proof -
  define y where "y = year_from_day (t div 86400000)"
  define yd where "yd = t div 86400000 - day_from_year y"
  have "yd < month_start (leap_year y) (month_from_yday (leap_year y) yd + 1)"
    using month_from_yday_correct [of yd "leap_year y"] yday_bounds [of "t div 86400000"]
    by (simp add: y_def yd_def)
  then show ?thesis
    unfolding civil_of_ms_def Let_def y_def [symmetric] yd_def [symmetric] civil.simps by simp
qed

lemma date_parse_iso:
  assumes "iso_range t"
  shows "date_parse (iso_of_ms t) = Some t"
proof -
  note r = civil_ranges [of t]
  define c where "c = civil_of_ms t"
  have fields: "0 \<le> c_year c" "c_year c < 10 ^ 4" "0 \<le> c_month c" "c_month c < 10 ^ 2"
    "0 \<le> c_day c" "c_day c < 10 ^ 2" "0 \<le> c_hour c" "c_hour c < 10 ^ 2"
    "0 \<le> c_minute c" "c_minute c < 10 ^ 2" "0 \<le> c_second c" "c_second c < 10 ^ 2"
    "0 \<le> c_ms c" "c_ms c < 10 ^ 3"
    using assms r by (simp_all add: iso_range_def c_def)
  have "ms_of_civil c = t" by (simp add: c_def ms_of_civil_of_ms)
  then have "ms_of_civil \<lparr>c_year = c_year c, c_month = c_month c, c_day = c_day c, c_hour = c_hour c,
         c_minute = c_minute c, c_second = c_second c, c_ms = c_ms c\<rparr> = t"
    unfolding ms_of_civil_def civil.simps .
  then show ?thesis
    using r civil_day_in_month [of t]
    unfolding date_parse_def iso_of_ms_def Let_def c_def [symmetric]
    by (simp add: take_field_fixed [OF fields(1,2)] take_field_fixed [OF fields(3,4)]
        take_field_fixed [OF fields(5,6)] take_field_fixed [OF fields(7,8)]
        take_field_fixed [OF fields(9,10)] take_field_fixed [OF fields(11,12)]
        take_field_fixed [OF fields(13,14)])
qed

section \<open>String order is order in time\<close>

lemma append_less_iff:
  fixes a b c d :: string
  assumes "length a = length b"
  shows "a @ c < b @ d \<longleftrightarrow> a < b \<or> a = b \<and> c < d"
  using assms by (induction a b rule: list_induct2) auto

lemma digit_char_less: "m < 10 \<Longrightarrow> n < 10 \<Longrightarrow> digit_char m < digit_char n \<longleftrightarrow> m < n"
  by (simp add: digit_char_def less_char_def)

lemma digit_char_eq: "m < 10 \<Longrightarrow> n < 10 \<Longrightarrow> digit_char m = digit_char n \<longleftrightarrow> m = n"
  by (metis digit_value_char option.inject)

lemma fixed_dec_order:
  "m < 10 ^ k \<Longrightarrow> n < 10 ^ k \<Longrightarrow>
   (fixed_dec k m < fixed_dec k n \<longleftrightarrow> m < n) \<and> (fixed_dec k m = fixed_dec k n \<longleftrightarrow> m = n)"
proof (induction k arbitrary: m n)
  case 0
  then show ?case by simp
next
  case (Suc k)
  have "m div 10 < 10 ^ k" "n div 10 < 10 ^ k"
    using Suc.prems by (simp_all add: less_mult_imp_div_less mult.commute)
  note IH = Suc.IH [OF this]
  have "m < n \<longleftrightarrow> m div 10 < n div 10 \<or> m div 10 = n div 10 \<and> m mod 10 < n mod 10"
    by (rule radix_less_nat)
  moreover have "m = n \<longleftrightarrow> m div 10 = n div 10 \<and> m mod 10 = n mod 10" by (metis mult_div_mod_eq)
  ultimately show ?case
    using IH by (simp add: append_less_iff digit_char_less digit_char_eq)
qed

lemma fixed_field_less:
  assumes "0 \<le> m" "m < 10 ^ k" "0 \<le> n" "n < 10 ^ k"
  shows "fixed_dec k (nat m) @ c < fixed_dec k (nat n) @ d \<longleftrightarrow> m < n \<or> m = n \<and> c < d"
proof -
  have "nat m < 10 ^ k" "nat n < 10 ^ k" using assms by (simp_all add: nat_less_iff)
  note o = fixed_dec_order [OF this]
  show ?thesis using o assms by (auto simp add: append_less_iff eq_nat_nat_iff)
qed

text \<open>
  Two points in consecutive buckets: the point in the earlier bucket is the smaller one, and in one
  bucket the offsets decide. Years within the day count, and months within a year, are such buckets.
\<close>

lemma bucket_order:
  fixes S :: "int \<Rightarrow> int"
  assumes "S i \<le> x" "x < S (i + 1)" "S j \<le> y" "y < S (j + 1)"
    and mono: "i < j \<Longrightarrow> S (i + 1) \<le> S j" "j < i \<Longrightarrow> S (j + 1) \<le> S i"
  shows "x < y \<longleftrightarrow> i < j \<or> i = j \<and> x - S i < y - S j"
proof (cases i j rule: linorder_cases)
  case less
  then show ?thesis using assms by auto
next
  case equal
  then show ?thesis by auto
next
  case greater
  then show ?thesis using assms by auto
qed

lemma day_from_year_mono: "i < j \<Longrightarrow> day_from_year (i + 1) \<le> day_from_year j"
proof (induction "nat (j - i - 1)" arbitrary: j)
  case 0
  then have "j = i + 1" by simp
  then show ?case by simp
next
  case (Suc n)
  then have "n = nat ((j - 1) - i - 1)" "i < j - 1" by linarith+
  then have "day_from_year (i + 1) \<le> day_from_year (j - 1)" by (rule Suc.hyps(1))
  also have "\<dots> \<le> day_from_year j" using day_from_year_less_Suc [of "j - 1"] by simp
  finally show ?case .
qed

lemma day_order:
  "d < e \<longleftrightarrow> year_from_day d < year_from_day e \<or>
     year_from_day d = year_from_day e \<and>
     d - day_from_year (year_from_day d) < e - day_from_year (year_from_day e)"
  using year_from_day_correct [of d] year_from_day_correct [of e]
  by (intro bucket_order) (auto intro: day_from_year_mono)

lemma yday_order:
  assumes "0 \<le> d" "d < (if lp then 366 else 365)" "0 \<le> e" "e < (if lp then 366 else 365)"
  shows "d < e \<longleftrightarrow> month_from_yday lp d < month_from_yday lp e \<or>
     month_from_yday lp d = month_from_yday lp e \<and>
     d - month_start lp (month_from_yday lp d) < e - month_start lp (month_from_yday lp e)"
  using month_from_yday_correct [OF assms(1,2)] month_from_yday_correct [OF assms(3,4)]
    month_from_yday_range [of lp d] month_from_yday_range [of lp e]
  by (intro bucket_order) (auto intro: month_start_mono)

lemma clock_order:
  fixes r s :: int
  shows "r < s \<longleftrightarrow> r div 3600000 < s div 3600000 \<or> r div 3600000 = s div 3600000 \<and>
     (r div 60000 mod 60 < s div 60000 mod 60 \<or> r div 60000 mod 60 = s div 60000 mod 60 \<and>
     (r div 1000 mod 60 < s div 1000 mod 60 \<or> r div 1000 mod 60 = s div 1000 mod 60 \<and>
      r mod 1000 < s mod 1000))"
proof -
  have k: "(0::int) < 1000" "(0::int) < 60" by simp_all
  show ?thesis
  using radix_less [OF k(1), of r s] radix_less [OF k(2), of "r div 1000" "s div 1000"]
    radix_less [OF k(2), of "r div 60000" "s div 60000"] radix_eq [of "r div 1000" "s div 1000" 60]
    radix_eq [of "r div 60000" "s div 60000" 60]
  unfolding clock_div by blast
qed

definition civil_less :: "civil \<Rightarrow> civil \<Rightarrow> bool" where
  "civil_less c e \<longleftrightarrow>
     c_year c < c_year e \<or> c_year c = c_year e \<and>
     (c_month c < c_month e \<or> c_month c = c_month e \<and>
     (c_day c < c_day e \<or> c_day c = c_day e \<and>
     (c_hour c < c_hour e \<or> c_hour c = c_hour e \<and>
     (c_minute c < c_minute e \<or> c_minute c = c_minute e \<and>
     (c_second c < c_second e \<or> c_second c = c_second e \<and> c_ms c < c_ms e)))))"

lemma civil_less_iff: "civil_less (civil_of_ms t) (civil_of_ms u) \<longleftrightarrow> t < u"
proof -
  define d where "d = t div 86400000"
  define e where "e = u div 86400000"
  define r where "r = t mod 86400000"
  define s where "s = u mod 86400000"
  define dy where "dy = d - day_from_year (year_from_day d)"
  define ey where "ey = e - day_from_year (year_from_day e)"
  have tu: "t < u \<longleftrightarrow> d < e \<or> d = e \<and> r < s"
    unfolding d_def e_def r_def s_def by (rule radix_less) simp
  have de: "d < e \<longleftrightarrow> year_from_day d < year_from_day e \<or> year_from_day d = year_from_day e \<and> dy < ey"
    "d = e \<longleftrightarrow> year_from_day d = year_from_day e \<and> dy = ey"
    using day_order [of d e] by (auto simp: dy_def ey_def)
  have yo: "dy < ey \<longleftrightarrow> month_from_yday lp dy < month_from_yday lp ey \<or>
      month_from_yday lp dy = month_from_yday lp ey \<and>
      dy - month_start lp (month_from_yday lp dy) < ey - month_start lp (month_from_yday lp ey)"
    "dy = ey \<longleftrightarrow> month_from_yday lp dy = month_from_yday lp ey \<and>
      dy - month_start lp (month_from_yday lp dy) = ey - month_start lp (month_from_yday lp ey)"
    if "year_from_day d = year_from_day e" "lp = leap_year (year_from_day e)" for lp
    using yday_order [of dy lp ey] yday_bounds [of d] yday_bounds [of e] that
    by (auto simp: dy_def ey_def)
  note fields = civil_less_def civil_of_ms_def Let_def d_def [symmetric] e_def [symmetric]
    r_def [symmetric] s_def [symmetric] dy_def [symmetric] ey_def [symmetric] civil.simps
    add_less_cancel_right add_right_cancel
  show ?thesis
  proof (cases "year_from_day d = year_from_day e")
    case True
    show ?thesis
      unfolding tu de fields clock_order [of r s]
      unfolding yo(1) [OF True refl] yo(2) [OF True refl] True
      by auto
  next
    case False
    then show ?thesis unfolding tu de fields by blast
  qed
qed

lemma iso_less_iff:
  assumes "iso_range t" "iso_range u"
  shows "iso_of_ms t < iso_of_ms u \<longleftrightarrow> t < u"
proof -
  note r = civil_ranges [of t] and s = civil_ranges [of u]
  have y: "0 \<le> c_year (civil_of_ms t)" "c_year (civil_of_ms t) < 10 ^ 4"
    "0 \<le> c_year (civil_of_ms u)" "c_year (civil_of_ms u) < 10 ^ 4"
    using assms by (simp_all add: iso_range_def)
  have "iso_of_ms t < iso_of_ms u \<longleftrightarrow> civil_less (civil_of_ms t) (civil_of_ms u)"
    unfolding iso_of_ms_def Let_def civil_less_def using r s
    by (simp add: fixed_field_less [OF y] fixed_field_less)
  then show ?thesis by (simp add: civil_less_iff)
qed

lemma iso_le_iff:
  assumes "iso_range t" "iso_range u"
  shows "iso_of_ms t \<le> iso_of_ms u \<longleftrightarrow> t \<le> u"
  using iso_less_iff [OF assms(2,1)] by (simp add: linorder_not_less [symmetric])

section \<open>Timestamp arithmetic of the application\<close>

text \<open>
  \<open>addMs\<close> and \<open>isAfter\<close>. A date that cannot be parsed, or one beyond the 8.64e15 ms of an
  ECMAScript time value, makes \<open>toISOString\<close> throw a RangeError (\<open>None\<close>); a comparison with NaN is false.
\<close>

definition addMs :: "timestamp \<Rightarrow> int \<Rightarrow> timestamp option" where
  "addMs ts ms =
     (case date_parse ts of None \<Rightarrow> None
      | Some t \<Rightarrow> if \<bar>t + ms\<bar> \<le> 8640000000000000 then Some (iso_of_ms (t + ms)) else None)"

definition isAfter :: "string \<Rightarrow> string \<Rightarrow> bool" where
  "isAfter a b = (case (date_parse a, date_parse b) of (Some x, Some y) \<Rightarrow> y \<le> x | _ \<Rightarrow> False)"

definition msBetween :: "string \<Rightarrow> string \<Rightarrow> int option" where
  "msBetween from to = (case (date_parse from, date_parse to) of (Some x, Some y) \<Rightarrow> Some (y - x) | _ \<Rightarrow> None)"

lemma isAfter_iso: "iso_range t \<Longrightarrow> iso_range u \<Longrightarrow> isAfter (iso_of_ms t) (iso_of_ms u) \<longleftrightarrow> u \<le> t"
  by (simp add: isAfter_def date_parse_iso)

lemma addMs_iso:
  "iso_range t \<Longrightarrow> \<bar>t + ms\<bar> \<le> 8640000000000000 \<Longrightarrow> addMs (iso_of_ms t) ms = Some (iso_of_ms (t + ms))"
  by (simp add: addMs_def date_parse_iso)

section \<open>Running the clock\<close>

text \<open>The rules that print a given moment, with \<open>Let_lazy\<close> as a congruence, and the year of the moments the examples use.\<close>

lemma year_of_examples: "year_from_day 20710 = 2026" "year_from_day 20711 = 2026"
  by (simp_all add: year_from_day_def year_search.simps [of _ 2026] day_from_year_def)

lemmas run_iso = iso_of_ms_def iso_range_def civil_of_ms_def year_of_examples Let_def day_from_year_def leap_year_def month_from_yday_def
  month_start_def fixed_dec_numeral digit_char_code

end
