(* ===== verification/Js_Number.thy ===== *)
theory Js_Number
  imports Telga_Prelude
begin

text \<open>
  The conversion \<open>Number(text)\<close> of JavaScript, for the settings the code stores as text: white
  space around the literal is ignored, the empty text is 0, a literal is a decimal number with an
  optional fraction and exponent, or a hexadecimal, octal or binary integer, and anything else is
  NaN. The value is rounded to the nearest double, ties to even; \<open>JNotInt\<close> stands for
  every result that is not an integer (a fraction, NaN, an infinity).
\<close>

definition js_space :: "char \<Rightarrow> bool" where
  "js_space c \<longleftrightarrow> of_char c \<in> {9, 10, 11, 12, 13, 32, 160 :: nat}"

definition js_trim :: "string \<Rightarrow> string" where
  "js_trim s = rev (dropWhile js_space (rev (dropWhile js_space s)))"

definition digit_in :: "nat \<Rightarrow> char \<Rightarrow> nat option" where
  "digit_in b c =
     (let k = (of_char c :: nat);
          d = (if 48 \<le> k \<and> k \<le> 57 then k - 48
               else if 97 \<le> k \<and> k \<le> 122 then k - 87
               else if 65 \<le> k \<and> k \<le> 90 then k - 55 else b)
      in if d < b then Some d else None)"

text \<open>The longest prefix of digits: its value, its length and what follows.\<close>

fun span_digits :: "nat \<Rightarrow> int \<Rightarrow> nat \<Rightarrow> string \<Rightarrow> int \<times> nat \<times> string" where
  "span_digits b acc k [] = (acc, k, [])"
| "span_digits b acc k (c # cs) =
     (case digit_in b c of
        None \<Rightarrow> (acc, k, c # cs)
      | Some d \<Rightarrow> span_digits b (acc * int b + int d) (Suc k) cs)"

text \<open>The double nearest to \<open>n / d\<close>, for \<open>0 \<le> n\<close> and \<open>0 < d\<close>, if it is an integer.\<close>

definition half_even :: "int \<Rightarrow> int \<Rightarrow> int" where
  "half_even n d =
     (let q = n div d; r = n mod d
      in if 2 * r < d \<or> (2 * r = d \<and> even q) then q else q + 1)"

definition fl_ratio :: "int \<Rightarrow> int \<Rightarrow> jsnum" where
  "fl_ratio n d =
     (if n mod d = 0 then
        (if 2 ^ 1024 \<le> fl53 (n div d) then JNotInt else JInt (fl53 (n div d)))
      else
        let s = 53 - bits (n div d); m = half_even (n * 2 ^ s) d
        in if bits (n div d) > 53 then
             (let e = bits (n div d) - 53; k = half_even n (d * 2 ^ e) * 2 ^ e
              in if 2 ^ 1024 \<le> k then JNotInt else JInt k)
           else if n div d = 0 \<and> n * 2 ^ 1075 \<le> d then JInt 0
           else if n div d = 0 \<and> m = 0 then JNotInt
           else if m mod 2 ^ s = 0 then JInt (m div 2 ^ s)
           else JNotInt)"

definition scaled :: "int \<Rightarrow> int \<Rightarrow> jsnum" where
  "scaled n x = (if 0 \<le> x then fl_ratio (n * 10 ^ nat x) 1 else fl_ratio n (10 ^ nat (- x)))"

text \<open>An unsigned decimal literal.\<close>

definition js_exponent :: "string \<Rightarrow> int option" where
  "js_exponent s =
     (case s of
        [] \<Rightarrow> Some 0
      | c # cs \<Rightarrow>
          if c \<noteq> CHR ''e'' \<and> c \<noteq> CHR ''E'' then None
          else let neg = (case cs of d # _ \<Rightarrow> d = CHR ''-'' | [] \<Rightarrow> False);
                   ds = (case cs of d # r \<Rightarrow> if d = CHR ''-'' \<or> d = CHR ''+'' then r else cs | [] \<Rightarrow> []);
                   (v, k, rest) = span_digits 10 0 0 ds
               in if k = 0 \<or> rest \<noteq> [] then None
                  else Some (if neg then - v else v))"

definition js_decimal :: "string \<Rightarrow> jsnum" where
  "js_decimal s =
     (let (v, k, rest) = span_digits 10 0 0 s;
          (w, j, rest') = (case rest of c # cs \<Rightarrow> if c = CHR ''.'' then span_digits 10 v 0 cs else (v, 0, rest)
                                      | [] \<Rightarrow> (v, 0, []))
      in if k + j = 0 then JNotInt
         else case js_exponent rest' of None \<Rightarrow> JNotInt | Some x \<Rightarrow> scaled w (x - int j))"

definition js_radix_literal :: "nat \<Rightarrow> string \<Rightarrow> jsnum" where
  "js_radix_literal b s =
     (let (v, k, rest) = span_digits b 0 0 s
      in if k = 0 \<or> rest \<noteq> [] then JNotInt else scaled v 0)"

definition js_number :: "string \<Rightarrow> jsnum" where
  "js_number text =
     (let s = js_trim text in
      case s of
        [] \<Rightarrow> JInt 0
      | c # cs \<Rightarrow>
          if c = CHR ''-'' then (case js_decimal cs of JInt x \<Rightarrow> JInt (- x) | JNotInt \<Rightarrow> JNotInt)
          else if c = CHR ''+'' then js_decimal cs
          else if c = CHR ''0'' \<and> take 1 cs \<in> {''x'', ''X''} then js_radix_literal 16 (drop 1 cs)
          else if c = CHR ''0'' \<and> take 1 cs \<in> {''o'', ''O''} then js_radix_literal 8 (drop 1 cs)
          else if c = CHR ''0'' \<and> take 1 cs \<in> {''b'', ''B''} then js_radix_literal 2 (drop 1 cs)
          else js_decimal s)"

section \<open>Reading back a printed number\<close>

lemma digit_in_digit_char: "d < 10 \<Longrightarrow> digit_in 10 (digit_char d) = Some d"
  by (simp add: digit_in_def digit_char_def of_char_of)

lemma span_digits_append:
  "list_all (\<lambda>c. digit_in b c \<noteq> None) xs \<Longrightarrow>
   span_digits b acc k (xs @ ys) =
     (let (v, j, _) = span_digits b acc k xs in span_digits b v j ys)"
proof (induction xs arbitrary: acc k)
  case Nil
  then show ?case by simp
next
  case (Cons c xs)
  then obtain d where "digit_in b c = Some d" by auto
  then show ?case using Cons by simp
qed

lemma dec_nat_rec: "dec_nat n = (if n < 10 then [digit_char n] else dec_nat (n div 10) @ [digit_char (n mod 10)])"
proof -
  have "int n div 10 = int (n div 10)" "int n mod 10 = int (n mod 10)" by (simp_all add: zdiv_int zmod_int)
  then show ?thesis unfolding dec_nat_def by (subst show_radix.simps) (simp del: of_nat_div of_nat_mod)
qed

lemma digits_dec_nat: "list_all (\<lambda>c. digit_in 10 c \<noteq> None) (dec_nat n)"
proof (induction n rule: less_induct)
  case (less n)
  show ?case
  proof (cases "n < 10")
    case True
    then show ?thesis by (simp add: dec_nat_rec [of n] digit_in_digit_char)
  next
    case False
    then show ?thesis using less.IH [of "n div 10"]
      by (simp add: dec_nat_rec [of n] digit_in_digit_char)
  qed
qed

lemma span_dec_nat: "\<exists>k. span_digits 10 0 0 (dec_nat n) = (int n, Suc k, [])"
proof (induction n rule: less_induct)
  case (less n)
  show ?case
  proof (cases "n < 10")
    case True
    then show ?thesis by (simp add: dec_nat_rec [of n] digit_in_digit_char)
  next
    case False
    then obtain k where IH: "span_digits 10 0 0 (dec_nat (n div 10)) = (int (n div 10), Suc k, [])"
      using less.IH [of "n div 10"] by auto
    have "span_digits 10 0 0 (dec_nat n) =
        span_digits 10 0 0 (dec_nat (n div 10) @ [digit_char (n mod 10)])"
      using False by (simp add: dec_nat_rec [of n])
    also have "\<dots> = (int n, Suc (Suc k), [])"
      using IH digits_dec_nat [of "n div 10"]
      by (simp add: span_digits_append digit_in_digit_char zdiv_int zmod_int)
    finally show ?thesis by blast
  qed
qed

lemma dec_nat_Cons:
  obtains c cs where "dec_nat n = c # cs" "digit_in 10 c \<noteq> None"
proof (cases "dec_nat n")
  case Nil
  then show ?thesis by (simp add: dec_nat_def)
next
  case (Cons c cs)
  then show ?thesis using digits_dec_nat [of n] that by simp
qed

lemma digit_not_space: "digit_in 10 c \<noteq> None \<Longrightarrow> \<not> js_space c"
  by (auto simp: digit_in_def js_space_def Let_def split: if_splits)

lemma js_trim_digits: "list_all (\<lambda>c. digit_in 10 c \<noteq> None) s \<Longrightarrow> js_trim s = s"
proof -
  assume a: "list_all (\<lambda>c. digit_in 10 c \<noteq> None) s"
  have drop: "dropWhile js_space t = t" if "\<forall>c\<in>set t. \<not> js_space c" for t
    using that by (cases t) auto
  have "\<forall>c\<in>set s. \<not> js_space c" using a digit_not_space by (auto simp: list_all_iff)
  then show ?thesis by (simp add: js_trim_def drop)
qed

lemma js_decimal_dec_nat:
  assumes "int n < 2 ^ 53"
  shows "js_decimal (dec_nat n) = JInt (int n)"
proof -
  obtain k where k: "span_digits 10 0 0 (dec_nat n) = (int n, Suc k, [])" using span_dec_nat by blast
  have "safe_int (int n)" using assms by (simp add: safe_int_iff)
  then have "scaled (int n) 0 = JInt (int n)"
    using assms by (simp add: scaled_def fl_ratio_def fl53_exact)
  then show ?thesis by (simp add: js_decimal_def k js_exponent_def)
qed

text \<open>A number printed in decimal is read back, and text whose second character is a letter is not.\<close>

lemma js_number_dec_nat:
  assumes "int n < 2 ^ 53"
  shows "js_number (dec_nat n) = JInt (int n)"
proof -
  obtain c cs where c: "dec_nat n = c # cs" "digit_in 10 c \<noteq> None" by (rule dec_nat_Cons)
  have all: "list_all (\<lambda>c. digit_in 10 c \<noteq> None) (dec_nat n)" by (rule digits_dec_nat)
  have "c \<noteq> CHR ''-''" "c \<noteq> CHR ''+''" using c(2) by (auto simp: digit_in_def)
  moreover have "take 1 cs \<notin> {''x'', ''X''}" "take 1 cs \<notin> {''o'', ''O''}" "take 1 cs \<notin> {''b'', ''B''}"
    using all c(1) by (cases cs; auto simp: digit_in_def)+
  ultimately have "js_number (dec_nat n) = js_decimal (dec_nat n)"
    using js_trim_digits [OF all] by (simp add: js_number_def c(1))
  then show ?thesis using js_decimal_dec_nat [OF assms] by simp
qed

end
