(* ===== verification/Commission.thy ===== *)
theory Commission
  imports States Js_Number
begin

text \<open>
  Commission and fee rules (\<open>packages/domain/src/commission.ts\<close>) and the split of a
  provider's commission between the shop and the platform (\<open>commissionSplit.ts\<close>). Rates are basis points.
  A quotient \<open>Math.round(a * b / 10000)\<close> is \<open>js_round_div (js_mul a b) 10000\<close>: the double
  quotient of an exact product below \<open>2^53\<close> by 10000 rounds to the same integer as the exact
  one, because a quotient that is not a tie is at least \<open>1/10000\<close>
  away from one and the quotient of such a product is represented to within \<open>2^-14\<close>.
\<close>

datatype rule_status = NOT_YET_CONFIRMED | RULE_CONFIRMED

datatype rate_error = InvalidProfitRate jsnum

definition DEFAULT_TRAINING_PROFIT_BPS :: int where
  "DEFAULT_TRAINING_PROFIT_BPS = 400"

definition DEFAULT_GLOBAL_COMMISSION_BPS :: int where
  "DEFAULT_GLOBAL_COMMISSION_BPS = 300"

definition BPS_PER_WHOLE :: int where
  "BPS_PER_WHOLE = 10000"

definition SHOP_COMMISSION_SHARE_BPS :: int where
  "SHOP_COMMISSION_SHARE_BPS = 7000"

definition trainingProfitMinor :: "jsnum \<Rightarrow> jsnum \<Rightarrow> rate_error + int" where
  "trainingProfitMinor face bps =
     (case bps of
        JNotInt \<Rightarrow> Inl (InvalidProfitRate bps)
      | JInt b \<Rightarrow>
          if \<not> safe_int b \<or> b < 0 \<or> 10000 < b then Inl (InvalidProfitRate bps)
          else case face of
                 JNotInt \<Rightarrow> Inr 0
               | JInt f \<Rightarrow> if \<not> safe_int f \<or> f < 0 then Inr 0
                            else Inr (js_round_div (js_mul f b) 10000))"

definition profitBpsFrom :: "string option \<Rightarrow> int" where
  "profitBpsFrom stored =
     (case stored of
        None \<Rightarrow> DEFAULT_TRAINING_PROFIT_BPS
      | Some s \<Rightarrow>
          if js_trim s = [] then DEFAULT_TRAINING_PROFIT_BPS
          else case js_number s of
                 JNotInt \<Rightarrow> DEFAULT_TRAINING_PROFIT_BPS
               | JInt p \<Rightarrow> if \<not> safe_int p \<or> p < 0 \<or> 10000 < p then DEFAULT_TRAINING_PROFIT_BPS else p)"

definition isFeeChargeable :: "tx_state \<Rightarrow> bool" where
  "isFeeChargeable s \<longleftrightarrow> s = SUCCESSFUL"

definition assertFeeChargeable :: "tx_state \<Rightarrow> domain_error + unit" where
  "assertFeeChargeable s = (if \<not> isFeeChargeable s then Inl (FeeNotChargeable s) else Inr ())"

definition computeGrossCommission :: "rule_status \<Rightarrow> 'money \<Rightarrow> domain_error + 'money" where
  "computeGrossCommission status amount =
     (if status \<noteq> RULE_CONFIRMED then Inl CommissionRateNotConfigured else Inl CommissionRateNotConfigured)"

definition computeTelgaFee :: "rule_status \<Rightarrow> 'money \<Rightarrow> domain_error + 'money" where
  "computeTelgaFee status amount =
     (if status \<noteq> RULE_CONFIRMED then Inl CommissionRateNotConfigured else Inl CommissionRateNotConfigured)"

record commission_split =
  providerCommissionMinor :: int
  shopShareMinor :: int
  telgaShareMinor :: int
  providerCommissionBps :: int
  shopShareBps :: int

definition assertBps :: "jsnum \<Rightarrow> rate_error + int" where
  "assertBps bps =
     (case bps of
        JNotInt \<Rightarrow> Inl (InvalidProfitRate bps)
      | JInt b \<Rightarrow> if \<not> safe_int b \<or> b < 0 \<or> BPS_PER_WHOLE < b then Inl (InvalidProfitRate bps) else Inr b)"

definition splitCommission :: "jsnum \<Rightarrow> jsnum \<Rightarrow> jsnum \<Rightarrow> rate_error + commission_split" where
  "splitCommission amount rate share =
     rbind (assertBps rate) (\<lambda>p. rbind (assertBps share) (\<lambda>s.
       let none = \<lparr>providerCommissionMinor = 0, shopShareMinor = 0, telgaShareMinor = 0,
                   providerCommissionBps = p, shopShareBps = s\<rparr>
       in case amount of
            JNotInt \<Rightarrow> Inr none
          | JInt a \<Rightarrow>
              if \<not> safe_int a \<or> a \<le> 0 then Inr none
              else let c = js_round_div (js_mul a p) BPS_PER_WHOLE;
                       sh = js_round_div (js_mul c s) BPS_PER_WHOLE
                   in Inr \<lparr>providerCommissionMinor = c, shopShareMinor = sh, telgaShareMinor = c - sh,
                           providerCommissionBps = p, shopShareBps = s\<rparr>))"

definition commissionBpsFrom :: "string option \<Rightarrow> int \<Rightarrow> int" where
  "commissionBpsFrom stored fallback =
     (case stored of
        None \<Rightarrow> fallback
      | Some s \<Rightarrow>
          if js_trim s = [] then fallback
          else case js_number s of
                 JNotInt \<Rightarrow> fallback
               | JInt p \<Rightarrow> if \<not> safe_int p \<or> p < 0 \<or> BPS_PER_WHOLE < p then fallback else p)"

section \<open>Lemmas\<close>

lemma assertBps_Inr: "assertBps b = Inr p \<longleftrightarrow> b = JInt p \<and> 0 \<le> p \<and> p \<le> 10000"
  by (auto simp: assertBps_def BPS_PER_WHOLE_def safe_int_iff split: jsnum.splits if_splits)

text \<open>Below 900,719,925,474 minor units the products are exact.\<close>

definition exact_amount :: "int \<Rightarrow> bool" where
  "exact_amount a \<longleftrightarrow> 0 \<le> a \<and> a * 10000 < 2 ^ 53"

lemma js_mul_bps:
  assumes "exact_amount a" "0 \<le> b" "b \<le> 10000"
  shows "js_mul a b = a * b"
proof (rule js_mul_exact)
  have "a * b \<le> a * 10000" "0 \<le> a * b"
    using assms by (auto simp: exact_amount_def intro: mult_left_mono)
  then show "safe_int (a * b)" using assms(1) by (simp add: exact_amount_def safe_int_iff)
qed

lemma share_bounds:
  assumes "exact_amount a" "0 \<le> b" "b \<le> 10000"
  shows "0 \<le> js_round_div (js_mul a b) 10000" "js_round_div (js_mul a b) 10000 \<le> a"
proof -
  have a: "0 \<le> a" using assms(1) by (simp add: exact_amount_def)
  show "0 \<le> js_round_div (js_mul a b) 10000"
    using assms a by (simp add: js_mul_bps js_round_div_nonneg)
  show "js_round_div (js_mul a b) 10000 \<le> a"
    using assms a by (simp add: js_mul_bps js_round_div_le)
qed

lemma exact_amount_le: "exact_amount a \<Longrightarrow> 0 \<le> b \<Longrightarrow> b \<le> a \<Longrightarrow> exact_amount b"
  by (simp add: exact_amount_def)

lemma splitCommission_cases:
  assumes "splitCommission amount rate share = Inr r"
  obtains p s where "rate = JInt p" "share = JInt s" "0 \<le> p" "p \<le> 10000" "0 \<le> s" "s \<le> 10000"
    "(providerCommissionMinor r = 0 \<and> shopShareMinor r = 0 \<and> telgaShareMinor r = 0) \<or>
     (\<exists>a. amount = JInt a \<and> 0 < a \<and>
          providerCommissionMinor r = js_round_div (js_mul a p) 10000 \<and>
          shopShareMinor r = js_round_div (js_mul (providerCommissionMinor r) s) 10000 \<and>
          telgaShareMinor r = providerCommissionMinor r - shopShareMinor r)"
proof -
  from assms obtain p s where b: "assertBps rate = Inr p" "assertBps share = Inr s"
    by (auto simp: splitCommission_def rbind_Inr_iff)
  show thesis
  proof (rule that [of p s])
    show "rate = JInt p" "share = JInt s" "0 \<le> p" "p \<le> 10000" "0 \<le> s" "s \<le> 10000"
      using b by (simp_all add: assertBps_Inr)
    show "(providerCommissionMinor r = 0 \<and> shopShareMinor r = 0 \<and> telgaShareMinor r = 0) \<or>
     (\<exists>a. amount = JInt a \<and> 0 < a \<and>
          providerCommissionMinor r = js_round_div (js_mul a p) 10000 \<and>
          shopShareMinor r = js_round_div (js_mul (providerCommissionMinor r) s) 10000 \<and>
          telgaShareMinor r = providerCommissionMinor r - shopShareMinor r)"
      using assms b
      by (cases amount) (auto simp: splitCommission_def Let_def BPS_PER_WHOLE_def split: if_splits)
  qed
qed

text \<open>A stored rate always lies within the bounds, and a printed rate is read back.\<close>

lemma profitBpsFrom_range: "0 \<le> profitBpsFrom s \<and> profitBpsFrom s \<le> 10000"
  by (auto simp: profitBpsFrom_def DEFAULT_TRAINING_PROFIT_BPS_def split: option.splits jsnum.splits)

lemma commissionBpsFrom_dec_nat:
  "n \<le> 10000 \<Longrightarrow> commissionBpsFrom (Some (dec_nat n)) fallback = int n"
  using js_trim_digits [OF digits_dec_nat [of n]]
  by (simp add: commissionBpsFrom_def js_number_dec_nat BPS_PER_WHOLE_def safe_int_iff) (simp add: dec_nat_def)

text \<open>
  C28. A commission split never creates or destroys money: the two shares sum to the commission,
  neither is negative and none exceeds the amount of the sale.
\<close>

theorem splitCommission_sums:
  assumes "splitCommission (JInt a) rate share = Inr r" and "a < 900719925474"
  shows "shopShareMinor r + telgaShareMinor r = providerCommissionMinor r \<and>
    0 \<le> shopShareMinor r \<and> 0 \<le> telgaShareMinor r \<and> providerCommissionMinor r \<le> max 0 a"
proof -
  obtain p s where ps: "0 \<le> p" "p \<le> 10000" "0 \<le> s" "s \<le> 10000"
    and r: "(providerCommissionMinor r = 0 \<and> shopShareMinor r = 0 \<and> telgaShareMinor r = 0) \<or>
     (0 < a \<and> providerCommissionMinor r = js_round_div (js_mul a p) 10000 \<and>
      shopShareMinor r = js_round_div (js_mul (providerCommissionMinor r) s) 10000 \<and>
      telgaShareMinor r = providerCommissionMinor r - shopShareMinor r)"
    using splitCommission_cases [OF assms(1)] by (metis jsnum.inject)
  have a: "exact_amount a" if "0 < a" using assms(2) that by (simp add: exact_amount_def)
  then have c: "0 \<le> js_round_div (js_mul a p) 10000 \<and> js_round_div (js_mul a p) 10000 \<le> a" if "0 < a"
    using share_bounds [of a p] ps that by blast
  then have "exact_amount (js_round_div (js_mul a p) 10000)" if "0 < a"
    using a exact_amount_le that by blast
  then have "0 \<le> js_round_div (js_mul (js_round_div (js_mul a p) 10000) s) 10000 \<and>
      js_round_div (js_mul (js_round_div (js_mul a p) 10000) s) 10000 \<le> js_round_div (js_mul a p) 10000"
    if "0 < a"
    using share_bounds [of "js_round_div (js_mul a p) 10000" s] ps that by blast
  with r c show ?thesis by auto
qed

theorem splitCommission_sums_witness:
  "splitCommission (JInt 10000) (JInt 300) (JInt 7000) =
     Inr \<lparr>providerCommissionMinor = 300, shopShareMinor = 210, telgaShareMinor = 90,
          providerCommissionBps = 300, shopShareBps = 7000\<rparr> \<and>
   shopShareMinor \<lparr>providerCommissionMinor = 300, shopShareMinor = 210, telgaShareMinor = 90,
          providerCommissionBps = 300, shopShareBps = 7000\<rparr> + 90 = 300"
proof -
  have "splitCommission (JInt 10000) (JInt 300) (JInt 7000) =
     Inr \<lparr>providerCommissionMinor = 300, shopShareMinor = 210, telgaShareMinor = 90,
          providerCommissionBps = 300, shopShareBps = 7000\<rparr>"
    by code_simp
  then show ?thesis using splitCommission_sums [of 10000 "JInt 300" "JInt 7000"] by simp
qed

end
