(* ===== verification/Deposit_Reference.thy ===== *)
theory Deposit_Reference
  imports Js_Number
begin

text \<open>
  \<open>packages/domain/src/depositReference.ts\<close>: the code a shop quotes at the bank, eight data
  characters and a check character over an alphabet of 32. \<open>randomBytes\<close> is a
  parameter: the list of the blocks of eight bytes it returns, call by call.
\<close>

definition DEPOSIT_REFERENCE_ALPHABET :: string where
  "DEPOSIT_REFERENCE_ALPHABET = ''ABCDEFGHJKLMNPQRSTUVWXYZ23456789''"

definition DEPOSIT_REFERENCE_DATA_LENGTH :: nat where
  "DEPOSIT_REFERENCE_DATA_LENGTH = 8"

definition DEPOSIT_REFERENCE_LENGTH :: nat where
  "DEPOSIT_REFERENCE_LENGTH = DEPOSIT_REFERENCE_DATA_LENGTH + 1"

definition N_symbols :: nat where
  "N_symbols = length DEPOSIT_REFERENCE_ALPHABET"

fun index_of :: "char \<Rightarrow> string \<Rightarrow> nat option" where
  "index_of c [] = None"
| "index_of c (d # ds) = (if c = d then Some 0 else map_option Suc (index_of c ds))"

text \<open>The loop of \<open>luhnSum\<close> runs from the last character to the first.\<close>

fun luhn_loop :: "string \<Rightarrow> nat \<Rightarrow> nat \<Rightarrow> nat option" where
  "luhn_loop [] factor acc = Some acc"
| "luhn_loop (c # cs) factor acc =
     (case index_of c DEPOSIT_REFERENCE_ALPHABET of
        None \<Rightarrow> None
      | Some v \<Rightarrow>
          let addend = factor * v
          in luhn_loop cs (if factor = 2 then 1 else 2)
               (acc + (addend div N_symbols + addend mod N_symbols)))"

definition luhnSum :: "string \<Rightarrow> nat \<Rightarrow> nat option" where
  "luhnSum input startFactor = luhn_loop (rev input) startFactor 0"

definition depositReferenceCheckCharacter :: "string \<Rightarrow> char option" where
  "depositReferenceCheckCharacter data =
     (case luhnSum data 2 of
        None \<Rightarrow> None
      | Some luhn \<Rightarrow> Some (DEPOSIT_REFERENCE_ALPHABET ! ((N_symbols - luhn mod N_symbols) mod N_symbols)))"

text \<open>\<open>toUpperCase\<close> on Latin-1 text; the two letters whose capital lies outside Latin-1 stay.\<close>

definition js_upper :: "char \<Rightarrow> string" where
  "js_upper c =
     (let k = (of_char c :: nat)
      in if (97 \<le> k \<and> k \<le> 122) \<or> (224 \<le> k \<and> k \<le> 254 \<and> k \<noteq> 247) then [char_of (k - 32)]
         else if k = 223 then ''SS'' else [c])"

definition toUpperCase :: "string \<Rightarrow> string" where
  "toUpperCase s = concat (map js_upper s)"

definition normalizeDepositReference :: "string \<Rightarrow> string" where
  "normalizeDepositReference input = toUpperCase (filter (\<lambda>c. \<not> (js_space c \<or> c = CHR ''-'')) input)"

datatype deposit_reference_rejection =
    REFERENCE_EMPTY | REFERENCE_WRONG_LENGTH | REFERENCE_BAD_CHARACTER | REFERENCE_CHECK_FAILED

definition depositReferenceRejection :: "string \<Rightarrow> deposit_reference_rejection option" where
  "depositReferenceRejection input =
     (let normalized = normalizeDepositReference input
      in if length normalized = 0 then Some REFERENCE_EMPTY
         else if length normalized \<noteq> DEPOSIT_REFERENCE_LENGTH then Some REFERENCE_WRONG_LENGTH
         else case luhnSum normalized 1 of
                None \<Rightarrow> Some REFERENCE_BAD_CHARACTER
              | Some luhn \<Rightarrow> if luhn mod N_symbols \<noteq> 0 then Some REFERENCE_CHECK_FAILED else None)"

definition isValidDepositReference :: "string \<Rightarrow> bool" where
  "isValidDepositReference input \<longleftrightarrow> depositReferenceRejection input = None"

fun chunks3 :: "string \<Rightarrow> string list" where
  "chunks3 (a # b # c # rest) = [a, b, c] # chunks3 rest"
| "chunks3 [] = []"
| "chunks3 s = [s]"

definition formatDepositReference :: "string \<Rightarrow> string" where
  "formatDepositReference reference = join_with ''-'' (chunks3 (normalizeDepositReference reference))"

text \<open>One block of random bytes: stop at eight characters, skip a byte that would bias the choice.\<close>

fun take_bytes :: "nat list \<Rightarrow> string \<Rightarrow> string" where
  "take_bytes [] data = data"
| "take_bytes (byte # bytes) data =
     (if length data = DEPOSIT_REFERENCE_DATA_LENGTH then data
      else if 256 - 256 mod N_symbols \<le> byte then take_bytes bytes data
      else take_bytes bytes (data @ [DEPOSIT_REFERENCE_ALPHABET ! (byte mod N_symbols)]))"

text \<open>The outer loop; \<open>None\<close> when the supply of blocks ends first.\<close>

fun draw_data :: "nat list list \<Rightarrow> string \<Rightarrow> string option" where
  "draw_data blocks data =
     (if DEPOSIT_REFERENCE_DATA_LENGTH \<le> length data then Some data
      else case blocks of [] \<Rightarrow> None | block # rest \<Rightarrow> draw_data rest (take_bytes block data))"

declare draw_data.simps [simp del]

definition newDepositReference :: "nat list list \<Rightarrow> string option" where
  "newDepositReference blocks =
     (case draw_data blocks [] of
        None \<Rightarrow> None
      | Some joined \<Rightarrow>
          (case depositReferenceCheckCharacter joined of
             None \<Rightarrow> None
           | Some check \<Rightarrow> Some (formatDepositReference (joined @ [check]))))"

section \<open>The sum\<close>

lemma N_symbols_eq [simp]: "N_symbols = 32"
  by (simp add: N_symbols_def DEPOSIT_REFERENCE_ALPHABET_def)

lemma index_of_less: "index_of c s = Some v \<Longrightarrow> v < length s \<and> s ! v = c"
  by (induction s arbitrary: v) (auto split: if_splits)

lemma index_of_None_iff: "index_of c s = None \<longleftrightarrow> c \<notin> set s"
  by (induction s) auto

lemma distinct_alphabet: "distinct DEPOSIT_REFERENCE_ALPHABET"
  by (simp add: DEPOSIT_REFERENCE_ALPHABET_def)

lemma index_of_nth: "distinct s \<Longrightarrow> v < length s \<Longrightarrow> index_of (s ! v) s = Some v"
proof (induction s arbitrary: v)
  case Nil
  then show ?case by simp
next
  case (Cons d ds)
  then show ?case by (cases v) auto
qed

lemma index_of_alphabet: "v < 32 \<Longrightarrow> index_of (DEPOSIT_REFERENCE_ALPHABET ! v) DEPOSIT_REFERENCE_ALPHABET = Some v"
  using N_symbols_eq distinct_alphabet by (intro index_of_nth) (simp_all only: N_symbols_def)

text \<open>The contribution of one character; for either factor it is a permutation of \<open>0..31\<close>.\<close>

definition fold_value :: "nat \<Rightarrow> nat \<Rightarrow> nat" where
  "fold_value factor v = (factor * v) div 32 + (factor * v) mod 32"

lemma fold_value_eq:
  assumes "v < 32"
  shows "fold_value 1 v = v" "fold_value 2 v = (if v < 16 then 2 * v else 2 * v - 31)"
proof -
  show "fold_value 1 v = v" using assms by (simp add: fold_value_def)
  show "fold_value 2 v = (if v < 16 then 2 * v else 2 * v - 31)"
  proof (cases "v < 16")
    case True
    then show ?thesis by (simp add: fold_value_def)
  next
    case False
    then obtain r where r: "2 * v = r + 32" "r < 32"
      using assms by (intro that [of "2 * v - 32"]) simp_all
    then have "2 * v div 32 = 1" "2 * v mod 32 = r" by simp_all
    then show ?thesis using False r by (simp add: fold_value_def)
  qed
qed

lemma fold_value_less: "v < 32 \<Longrightarrow> factor \<in> {1, 2} \<Longrightarrow> fold_value factor v < 32"
  using fold_value_eq [of v] by auto

lemma fold_value_inj:
  assumes "v < 32" "w < 32" "factor \<in> {1, 2}" "fold_value factor v = fold_value factor w"
  shows "v = w"
proof (cases "factor = 1")
  case True
  then show ?thesis using assms fold_value_eq(1) by simp
next
  case False
  then have "(if v < 16 then 2 * v else 2 * v - 31) = (if w < 16 then 2 * w else 2 * w - 31)"
    using assms fold_value_eq(2) by simp
  then show ?thesis by (simp split: if_splits) presburger+
qed

definition flip_factor :: "nat \<Rightarrow> nat" where
  "flip_factor f = (if f = 2 then 1 else 2)"

fun symbol_sum :: "nat \<Rightarrow> string \<Rightarrow> nat" where
  "symbol_sum f [] = 0"
| "symbol_sum f (c # cs) =
     fold_value f (the (index_of c DEPOSIT_REFERENCE_ALPHABET)) + symbol_sum (flip_factor f) cs"

lemma luhn_loop_eq:
  "luhn_loop cs f s =
     (if set cs \<subseteq> set DEPOSIT_REFERENCE_ALPHABET then Some (s + symbol_sum f cs) else None)"
proof (induction cs arbitrary: f s)
  case Nil
  then show ?case by simp
next
  case (Cons c cs)
  show ?case
  proof (cases "index_of c DEPOSIT_REFERENCE_ALPHABET")
    case None
    then have "c \<notin> set DEPOSIT_REFERENCE_ALPHABET" by (simp add: index_of_None_iff)
    then show ?thesis using None by simp
  next
    case (Some v)
    then have "c \<in> set DEPOSIT_REFERENCE_ALPHABET" by (metis index_of_None_iff option.distinct(1))
    then show ?thesis using Some Cons by (simp add: Let_def fold_value_def flip_factor_def)
  qed
qed

lemma index_range: "c \<in> set DEPOSIT_REFERENCE_ALPHABET \<Longrightarrow> the (index_of c DEPOSIT_REFERENCE_ALPHABET) < 32"
  using index_of_less [of c DEPOSIT_REFERENCE_ALPHABET] index_of_None_iff [of c DEPOSIT_REFERENCE_ALPHABET]
    N_symbols_eq unfolding N_symbols_def by auto

lemma flip_factor_in: "flip_factor f \<in> {1, 2}"
  by (simp add: flip_factor_def)

text \<open>Changing one symbol always changes the sum modulo 32.\<close>

lemma symbol_sum_change:
  assumes "i < length cs" "set cs \<subseteq> set DEPOSIT_REFERENCE_ALPHABET" "c \<in> set DEPOSIT_REFERENCE_ALPHABET"
    "c \<noteq> cs ! i" "f \<in> {1, 2}"
  shows "\<exists>u x y. symbol_sum f cs = u + x \<and> symbol_sum f (cs[i := c]) = u + y \<and> x < 32 \<and> y < 32 \<and> x \<noteq> y"
  using assms(1,2,4,5)
proof (induction cs arbitrary: i f)
  case Nil
  then show ?case by simp
next
  case (Cons d ds)
  let ?v = "\<lambda>c. the (index_of c DEPOSIT_REFERENCE_ALPHABET)"
  show ?case
  proof (cases i)
    case 0
    have d: "d \<in> set DEPOSIT_REFERENCE_ALPHABET" using Cons.prems by simp
    have "?v d \<noteq> ?v c"
      using Cons.prems(3) 0 d assms(3) index_of_None_iff index_of_less
      by (metis nth_Cons_0 option.exhaust_sel)
    then have ne: "fold_value f (?v d) \<noteq> fold_value f (?v c)"
      using fold_value_inj [of "?v d" "?v c" f] index_range [OF d] index_range [OF assms(3)] Cons.prems(4) by blast
    have "fold_value f (?v d) < 32" "fold_value f (?v c) < 32"
      using fold_value_less index_range [OF d] index_range [OF assms(3)] Cons.prems(4) by blast+
    with ne show ?thesis
      using 0 by (intro exI [of _ "symbol_sum (flip_factor f) ds"] exI [of _ "fold_value f (?v d)"]
        exI [of _ "fold_value f (?v c)"]) simp
  next
    case (Suc j)
    have "j < length ds" "set ds \<subseteq> set DEPOSIT_REFERENCE_ALPHABET" "c \<noteq> ds ! j"
      using Suc Cons.prems by auto
    then obtain u x y where "symbol_sum (flip_factor f) ds = u + x"
      "symbol_sum (flip_factor f) (ds[j := c]) = u + y" "x < 32" "y < 32" "x \<noteq> y"
      using Cons.IH [of j "flip_factor f"] flip_factor_in by blast
    then show ?thesis
      using Suc by (intro exI [of _ "fold_value f (?v d) + u"] exI [of _ x] exI [of _ y]) simp
  qed
qed

lemma mod32_differ:
  fixes u x y :: nat
  assumes "x < 32" "y < 32" "x \<noteq> y" "(u + x) mod 32 = 0"
  shows "(u + y) mod 32 \<noteq> 0"
proof
  assume "(u + y) mod 32 = 0"
  then have "(u + x) mod 32 = (u + y) mod 32" using assms(4) by simp
  then have "x mod 32 = y mod 32" by (simp add: nat_mod_eq_iff)
  then show False using assms by simp
qed

section \<open>Normalisation\<close>

text \<open>What \<open>toUpperCase\<close> does to one character.\<close>

definition upper_ok :: "char \<Rightarrow> bool" where
  "upper_ok c \<longleftrightarrow>
     toUpperCase (js_upper c) = js_upper c \<and> js_upper c \<noteq> [] \<and>
     (js_space c \<or> c = CHR ''-'' \<or> list_all (\<lambda>d. \<not> (js_space d \<or> d = CHR ''-'')) (js_upper c))"

lemma minus_code: "c = CHR ''-'' \<longleftrightarrow> (of_char c :: nat) = 45"
  using of_char_eq_iff [of c "CHR ''-''", where 'a = nat] by simp

lemma upper_ok: "upper_ok c"
proof -
  let ?k = "of_char c :: nat"
  let ?small = "97 \<le> ?k \<and> ?k \<le> 122 \<or> 224 \<le> ?k \<and> ?k \<le> 254 \<and> ?k \<noteq> 247"
  consider (small) ?small | (sharp) "\<not> ?small" "?k = 223" | (other) "\<not> ?small" "?k \<noteq> 223" by blast
  then show ?thesis
  proof cases
    case small
    define d where "d = (char_of (?k - 32) :: char)"
    have "?k - 32 < 256" using small by auto
    then have d: "of_char d = ?k - 32" by (simp add: d_def of_char_of)
    have up: "js_upper c = [d]" using small by (simp add: js_upper_def d_def)
    have "js_upper d = [d]" using small by (auto simp: js_upper_def Let_def d)
    moreover have "\<not> js_space d" "d \<noteq> CHR ''-''" using small by (auto simp: js_space_def minus_code d)
    ultimately show ?thesis by (simp add: upper_ok_def toUpperCase_def up)
  next
    case sharp
    then have "js_upper c = ''SS''" by (simp add: js_upper_def Let_def)
    then show ?thesis by (simp add: upper_ok_def toUpperCase_def js_upper_def js_space_def)
  next
    case other
    then have "js_upper c = [c]" by (auto simp: js_upper_def Let_def)
    then show ?thesis by (auto simp: upper_ok_def toUpperCase_def)
  qed
qed

lemma toUpperCase_append: "toUpperCase (s @ t) = toUpperCase s @ toUpperCase t"
  by (simp add: toUpperCase_def)

lemma toUpperCase_Cons: "toUpperCase (c # s) = js_upper c @ toUpperCase s"
  by (simp add: toUpperCase_def)

lemma toUpperCase_idem: "toUpperCase (toUpperCase s) = toUpperCase s"
proof (induction s)
  case Nil
  then show ?case by (simp add: toUpperCase_def)
next
  case (Cons c s)
  then show ?case using upper_ok [of c] by (simp add: toUpperCase_Cons toUpperCase_append upper_ok_def)
qed

definition separator :: "char \<Rightarrow> bool" where
  "separator c \<longleftrightarrow> js_space c \<or> c = CHR ''-''"

lemma normalize_def2: "normalizeDepositReference s = toUpperCase (filter (\<lambda>c. \<not> separator c) s)"
  by (simp add: normalizeDepositReference_def separator_def)

lemma normalize_no_separator: "d \<in> set (normalizeDepositReference s) \<Longrightarrow> \<not> separator d"
proof (induction s)
  case Nil
  then show ?case by (simp add: normalize_def2 toUpperCase_def)
next
  case (Cons c s)
  then show ?case using upper_ok [of c]
    by (auto simp: normalize_def2 toUpperCase_Cons upper_ok_def list_all_iff separator_def split: if_splits)
qed

lemma normalize_idem: "normalizeDepositReference (normalizeDepositReference s) = normalizeDepositReference s"
proof -
  have "filter (\<lambda>c. \<not> separator c) (normalizeDepositReference s) = normalizeDepositReference s"
    using normalize_no_separator by (simp add: filter_id_conv)
  then have "normalizeDepositReference (normalizeDepositReference s) = toUpperCase (normalizeDepositReference s)"
    by (simp add: normalize_def2)
  also have "\<dots> = normalizeDepositReference s" by (simp add: normalize_def2 toUpperCase_idem)
  finally show ?thesis .
qed

lemma chunks3_filter:
  "list_all (\<lambda>c. \<not> separator c) s \<Longrightarrow> filter (\<lambda>c. \<not> separator c) (join_with ''-'' (chunks3 s)) = s"
proof (induction s rule: chunks3.induct)
  case (1 a b c rest)
  then show ?case by (cases "chunks3 rest") (auto simp: separator_def)
qed (auto simp: separator_def)

lemma format_normalize:
  "normalizeDepositReference (formatDepositReference r) = normalizeDepositReference r"
proof -
  have "list_all (\<lambda>c. \<not> separator c) (normalizeDepositReference r)"
    using normalize_no_separator by (simp add: list_all_iff)
  then have "normalizeDepositReference (formatDepositReference r) = toUpperCase (normalizeDepositReference r)"
    by (simp add: formatDepositReference_def normalize_def2 [of "join_with _ _"] chunks3_filter)
  then show ?thesis by (simp add: normalize_def2 toUpperCase_idem)
qed

section \<open>Validity\<close>

lemma alphabet_normal: "list_all (\<lambda>c. js_upper c = [c] \<and> \<not> separator c) DEPOSIT_REFERENCE_ALPHABET"
  by code_simp

lemma normalize_alphabet: "set s \<subseteq> set DEPOSIT_REFERENCE_ALPHABET \<Longrightarrow> normalizeDepositReference s = s"
proof (induction s)
  case Nil
  then show ?case by (simp add: normalize_def2 toUpperCase_def)
next
  case (Cons c s)
  then have "js_upper c = [c]" "\<not> separator c" using alphabet_normal by (auto simp: list_all_iff)
  then show ?case using Cons by (simp add: normalize_def2 toUpperCase_Cons)
qed

lemma rejection_cong:
  "normalizeDepositReference s = normalizeDepositReference t \<Longrightarrow> depositReferenceRejection s = depositReferenceRejection t"
  by (simp add: depositReferenceRejection_def)

lemma rejection_of_symbols:
  assumes "set s \<subseteq> set DEPOSIT_REFERENCE_ALPHABET" "length s = 9"
  shows "depositReferenceRejection s =
    (if symbol_sum 1 (rev s) mod 32 \<noteq> 0 then Some REFERENCE_CHECK_FAILED else None)"
  using assms
  by (auto simp: depositReferenceRejection_def normalize_alphabet DEPOSIT_REFERENCE_LENGTH_def
      DEPOSIT_REFERENCE_DATA_LENGTH_def luhnSum_def luhn_loop_eq)

lemma valid_symbols:
  assumes "isValidDepositReference r"
  shows "length (normalizeDepositReference r) = 9"
    "set (normalizeDepositReference r) \<subseteq> set DEPOSIT_REFERENCE_ALPHABET"
    "symbol_sum 1 (rev (normalizeDepositReference r)) mod 32 = 0"
  using assms
  by (auto simp: isValidDepositReference_def depositReferenceRejection_def Let_def luhnSum_def luhn_loop_eq
      DEPOSIT_REFERENCE_LENGTH_def DEPOSIT_REFERENCE_DATA_LENGTH_def split: if_splits option.splits)

text \<open>
  C29. A teller who miscopies one character never lands on another valid code: replacing any single
  character of a valid reference by any other symbol of the alphabet fails the check.
\<close>

theorem single_substitution_detected:
  assumes "isValidDepositReference r" and "i < 9" and "c \<in> set DEPOSIT_REFERENCE_ALPHABET"
    and "c \<noteq> normalizeDepositReference r ! i"
  shows "depositReferenceRejection ((normalizeDepositReference r)[i := c]) = Some REFERENCE_CHECK_FAILED"
proof -
  let ?n = "normalizeDepositReference r"
  note n = valid_symbols [OF assms(1)]
  have i: "8 - i < length (rev ?n)" "rev ?n ! (8 - i) = ?n ! i" "(rev ?n)[8 - i := c] = rev (?n[i := c])"
    using assms(2) n(1) by (simp_all add: rev_nth rev_update)
  obtain u x y where "symbol_sum 1 (rev ?n) = u + x" "symbol_sum 1 (rev (?n[i := c])) = u + y"
    "x < 32" "y < 32" "x \<noteq> y"
    using symbol_sum_change [of "8 - i" "rev ?n" c 1] i n(2) assms(3,4) by auto
  then have "symbol_sum 1 (rev (?n[i := c])) mod 32 \<noteq> 0" using mod32_differ n(3) by metis
  moreover have "set (?n[i := c]) \<subseteq> set DEPOSIT_REFERENCE_ALPHABET"
    using n(2) assms(3) set_update_subset_insert [of ?n i c] by auto
  ultimately show ?thesis using n(1) by (simp add: rejection_of_symbols)
qed

text \<open>
  The grouping of a reference is cosmetic: formatting a reference and normalising the result
  gives the normalised reference, so a written code compares equal to the stored one.
\<close>

theorem format_normalize_roundtrip:
  "normalizeDepositReference (formatDepositReference r) = normalizeDepositReference r"
  by (rule format_normalize)

theorem format_normalize_roundtrip_example:
  "formatDepositReference ''abc-def-ghjk'' = ''ABC-DEF-GHJ-K''"
  by code_simp

theorem single_substitution_detected_witness:
  "depositReferenceRejection ''AAAAAAAAA'' = None \<and>
   depositReferenceRejection ((normalizeDepositReference ''AAA-AAA-AAA'')[3 := CHR ''B'']) = Some REFERENCE_CHECK_FAILED"
proof
  show "depositReferenceRejection ''AAAAAAAAA'' = None" by code_simp
  have "isValidDepositReference ''AAA-AAA-AAA''" "CHR ''B'' \<in> set DEPOSIT_REFERENCE_ALPHABET"
    "CHR ''B'' \<noteq> normalizeDepositReference ''AAA-AAA-AAA'' ! 3" by code_simp+
  then show "depositReferenceRejection ((normalizeDepositReference ''AAA-AAA-AAA'')[3 := CHR ''B'']) = Some REFERENCE_CHECK_FAILED"
    by (intro single_substitution_detected) simp_all
qed

section \<open>Generation\<close>

lemma take_bytes_block:
  "length data + length bytes \<le> 8 \<Longrightarrow> \<forall>b\<in>set bytes. b < 256 \<Longrightarrow>
   take_bytes bytes data = data @ map (\<lambda>b. DEPOSIT_REFERENCE_ALPHABET ! (b mod 32)) bytes"
  by (induction bytes arbitrary: data) (auto simp: DEPOSIT_REFERENCE_DATA_LENGTH_def)

lemma alphabet_nth: "v < 32 \<Longrightarrow> DEPOSIT_REFERENCE_ALPHABET ! v \<in> set DEPOSIT_REFERENCE_ALPHABET"
  using N_symbols_eq unfolding N_symbols_def by simp

lemma complement_sum: "q * 32 + r = S \<Longrightarrow> r < 32 \<Longrightarrow> 32 - r + S = 32 * Suc q" for q r S :: nat
  by simp

lemma check_character_completes:
  assumes "set data \<subseteq> set DEPOSIT_REFERENCE_ALPHABET"
  shows "\<exists>c. depositReferenceCheckCharacter data = Some c \<and> c \<in> set DEPOSIT_REFERENCE_ALPHABET \<and>
    symbol_sum 1 (rev (data @ [c])) mod 32 = 0"
proof -
  define S where "S = symbol_sum 2 (rev data)"
  define v where "v = (32 - S mod 32) mod 32"
  have v: "v < 32" by (simp add: v_def)
  have "depositReferenceCheckCharacter data = Some (DEPOSIT_REFERENCE_ALPHABET ! v)"
    using assms by (simp add: depositReferenceCheckCharacter_def luhnSum_def luhn_loop_eq S_def v_def)
  moreover have "symbol_sum 1 (rev (data @ [DEPOSIT_REFERENCE_ALPHABET ! v])) = v + S"
    using v by (simp add: index_of_alphabet fold_value_eq fold_value_eq(1) [simplified] flip_factor_def S_def)
  moreover have "(v + S) mod 32 = 0"
  proof -
    have "32 - S mod 32 + S = 32 * Suc (S div 32)"
      by (rule complement_sum [OF div_mult_mod_eq]) simp
    moreover have "(v + S) mod 32 = (32 - S mod 32 + S) mod 32" by (simp only: v_def mod_add_left_eq)
    ultimately have "(v + S) mod 32 = (32 * Suc (S div 32)) mod 32" by (simp only:)
    then show ?thesis by simp
  qed
  ultimately show ?thesis using alphabet_nth [OF v] by auto
qed

text \<open>
  C30. Drawing a reference always returns on the first block of random bytes, whatever they are, and
  what it returns is a valid reference of nine symbols in three groups.
\<close>

theorem newDepositReference_valid:
  assumes "length block = 8" and "\<forall>b\<in>set block. b < 256"
  shows "\<exists>code. newDepositReference (block # rest) = Some code \<and> isValidDepositReference code \<and>
    length (normalizeDepositReference code) = 9"
proof -
  define data where "data = map (\<lambda>b. DEPOSIT_REFERENCE_ALPHABET ! (b mod 32)) block"
  have data: "set data \<subseteq> set DEPOSIT_REFERENCE_ALPHABET" "length data = 8"
    using assms by (auto simp: data_def alphabet_nth)
  have "take_bytes block [] = data" using take_bytes_block [of "[]" block] assms by (simp add: data_def)
  then have draw: "draw_data (block # rest) [] = Some data"
    using data(2) by (simp add: draw_data.simps [of "block # rest"] draw_data.simps [of rest] DEPOSIT_REFERENCE_DATA_LENGTH_def)
  obtain c where c: "depositReferenceCheckCharacter data = Some c" "c \<in> set DEPOSIT_REFERENCE_ALPHABET"
    "symbol_sum 1 (rev (data @ [c])) mod 32 = 0"
    using check_character_completes [OF data(1)] by (elim exE conjE)
  define code where "code = formatDepositReference (data @ [c])"
  have "newDepositReference (block # rest) = Some code"
    by (simp add: newDepositReference_def draw c(1) code_def)
  moreover have norm: "normalizeDepositReference code = data @ [c]"
    using data(1) c(2) by (simp add: code_def format_normalize normalize_alphabet)
  moreover have "depositReferenceRejection (data @ [c]) = None"
  proof (subst rejection_of_symbols)
    show "set (data @ [c]) \<subseteq> set DEPOSIT_REFERENCE_ALPHABET" using data(1) c(2) by simp
    show "length (data @ [c]) = 9" using data(2) by simp
  qed (simp only: c(3), simp)
  then have "isValidDepositReference code"
    using rejection_cong [of code "data @ [c]"] norm data(1) c(2)
    by (simp add: isValidDepositReference_def normalize_alphabet)
  ultimately show ?thesis using data(2) by auto
qed

theorem newDepositReference_valid_witness:
  "\<exists>code. newDepositReference [[0, 1, 2, 31, 32, 100, 200, 255]] = Some code \<and> isValidDepositReference code \<and>
    length (normalizeDepositReference code) = 9"
  by (rule newDepositReference_valid) simp_all

end
