(* ===== verification/Money.thy ===== *)
theory Money
  imports States
begin

text \<open>
  \<open>packages/domain/src/money.ts\<close>: integer santim, every construction checked by
  \<open>Number.isSafeInteger\<close>. The arithmetic is that of JavaScript (\<open>js_add\<close>, \<open>js_mul\<close>); the lemmas
  show that because each result goes through \<open>money\<close>, a result that is returned is exact.
\<close>

datatype currency = ETB

record money =
  currency :: currency
  minor :: int

definition MINOR_UNITS_PER_MAJOR :: "currency \<Rightarrow> int" where
  "MINOR_UNITS_PER_MAJOR c = (case c of ETB \<Rightarrow> 100)"

definition mk_money :: "jsnum \<Rightarrow> currency \<Rightarrow> domain_error + money" where
  "mk_money n c =
     (case n of
        JInt x \<Rightarrow> if safe_int x then Inr \<lparr>currency = c, minor = x\<rparr> else Inl InvalidMoney
      | JNotInt \<Rightarrow> Inl InvalidMoney)"

definition fromBirr :: "jsnum \<Rightarrow> jsnum \<Rightarrow> currency \<Rightarrow> domain_error + money" where
  "fromBirr birr santim c =
     (case (birr, santim) of
        (JInt b, JInt s) \<Rightarrow>
          if \<not> safe_int b \<or> \<not> safe_int s then Inl InvalidMoney
          else if s < 0 \<or> MINOR_UNITS_PER_MAJOR c \<le> s then Inl InvalidMoney
          else let sign = (if b < 0 then -1 else 1)
               in mk_money (JInt (js_add (js_mul b (MINOR_UNITS_PER_MAJOR c)) (sign * s))) c
      | _ \<Rightarrow> Inl InvalidMoney)"

definition zero_money :: "currency \<Rightarrow> money" where
  "zero_money c = \<lparr>currency = c, minor = 0\<rparr>"

definition assertSameCurrency :: "money \<Rightarrow> money \<Rightarrow> domain_error + unit" where
  "assertSameCurrency a b = (if currency a \<noteq> currency b then Inl CurrencyMismatch else Inr ())"

definition add_money :: "money \<Rightarrow> money \<Rightarrow> domain_error + money" where
  "add_money a b =
     rbind (assertSameCurrency a b) (\<lambda>_. mk_money (JInt (js_add (minor a) (minor b))) (currency a))"

definition subtract_money :: "money \<Rightarrow> money \<Rightarrow> domain_error + money" where
  "subtract_money a b =
     rbind (assertSameCurrency a b) (\<lambda>_. mk_money (JInt (js_add (minor a) (- minor b))) (currency a))"

definition negate_money :: "money \<Rightarrow> domain_error + money" where
  "negate_money a = mk_money (JInt (- minor a)) (currency a)"

definition times_money :: "money \<Rightarrow> jsnum \<Rightarrow> domain_error + money" where
  "times_money a f =
     (case f of
        JInt k \<Rightarrow> if safe_int k then mk_money (JInt (js_mul (minor a) k)) (currency a) else Inl InvalidMoney
      | JNotInt \<Rightarrow> Inl InvalidMoney)"

definition sum_money :: "money list \<Rightarrow> currency \<Rightarrow> domain_error + money" where
  "sum_money ms c = fold (\<lambda>m acc. rbind acc (\<lambda>a. add_money a m)) ms (Inr (zero_money c))"

definition isZero :: "money \<Rightarrow> bool" where
  "isZero a \<longleftrightarrow> minor a = 0"

definition isNegative :: "money \<Rightarrow> bool" where
  "isNegative a \<longleftrightarrow> minor a < 0"

definition isPositive :: "money \<Rightarrow> bool" where
  "isPositive a \<longleftrightarrow> 0 < minor a"

definition compare_money :: "money \<Rightarrow> money \<Rightarrow> domain_error + int" where
  "compare_money a b =
     rbind (assertSameCurrency a b)
       (\<lambda>_. Inr (if minor a < minor b then -1 else if minor b < minor a then 1 else 0))"

definition equals_money :: "money \<Rightarrow> money \<Rightarrow> bool" where
  "equals_money a b \<longleftrightarrow> currency a = currency b \<and> minor a = minor b"

definition greaterThan :: "money \<Rightarrow> money \<Rightarrow> domain_error + bool" where
  "greaterThan a b = rbind (compare_money a b) (\<lambda>c. Inr (c = 1))"

definition lessThan :: "money \<Rightarrow> money \<Rightarrow> domain_error + bool" where
  "lessThan a b = rbind (compare_money a b) (\<lambda>c. Inr (c = -1))"

definition gte :: "money \<Rightarrow> money \<Rightarrow> domain_error + bool" where
  "gte a b = rbind (compare_money a b) (\<lambda>c. Inr (0 \<le> c))"

definition assertPositive :: "money \<Rightarrow> domain_error + unit" where
  "assertPositive a = (if isPositive a then Inr () else Inl NegativeAmount)"

text \<open>\<open>toLocaleString('en-US')\<close> of a whole number: groups of three digits separated by commas.\<close>

fun group_digits :: "string \<Rightarrow> string" where
  "group_digits (a # b # c # d # rest) = a # b # c # CHR '','' # group_digits (d # rest)"
| "group_digits ds = ds"

definition to_locale :: "int \<Rightarrow> string" where
  "to_locale n = rev (group_digits (rev (dec_int n)))"

definition currency_name :: "currency \<Rightarrow> string" where
  "currency_name c = (case c of ETB \<Rightarrow> ''ETB'')"

definition format_money :: "money \<Rightarrow> string" where
  "format_money a =
     (let per = MINOR_UNITS_PER_MAJOR (currency a); abs = \<bar>minor a\<bar>;
          major = abs div per; sub = abs mod per
      in (if minor a < 0 then ''-'' else '''') @ to_locale major @ ''.'' @
         pad_start 2 (CHR ''0'') (dec_int sub) @ '' '' @ currency_name (currency a))"

section \<open>Lemmas\<close>

definition safe_money :: "money \<Rightarrow> bool" where
  "safe_money m \<longleftrightarrow> safe_int (minor m)"

lemma currency_all: "(c :: currency) = d"
  by (cases c; cases d) simp

lemma mk_money_Inr: "mk_money n c = Inr m \<longleftrightarrow> (\<exists>x. n = JInt x \<and> safe_int x \<and> m = \<lparr>currency = c, minor = x\<rparr>)"
  by (auto simp: mk_money_def split: jsnum.splits if_splits)

lemma mk_money_safe: "mk_money n c = Inr m \<Longrightarrow> safe_money m"
  by (auto simp: mk_money_Inr safe_money_def)

text \<open>Checked arithmetic is exact arithmetic with an error outside the safe range.\<close>

lemma mk_money_fl53: "mk_money (JInt (fl53 x)) c = mk_money (JInt x) c"
  by (auto simp: mk_money_def safe_fl53 fl53_exact)

lemma add_money_eq: "add_money a b = mk_money (JInt (minor a + minor b)) (currency a)"
  by (simp add: add_money_def assertSameCurrency_def currency_all [of "currency a" "currency b"] js_add_def mk_money_fl53)

lemma subtract_money_eq: "subtract_money a b = mk_money (JInt (minor a - minor b)) (currency a)"
  by (simp add: subtract_money_def assertSameCurrency_def currency_all [of "currency a" "currency b"] js_add_def mk_money_fl53)

lemma times_money_eq:
  "times_money a (JInt k) = (if safe_int k then mk_money (JInt (minor a * k)) (currency a) else Inl InvalidMoney)"
  by (simp add: times_money_def js_mul_def mk_money_fl53)

lemma gte_eq [simp]: "gte a b = Inr (minor b \<le> minor a)"
  by (auto simp: gte_def compare_money_def assertSameCurrency_def currency_all [of "currency a" "currency b"])

lemma assertPositive_ok [simp]: "assertPositive a = Inr u \<longleftrightarrow> 0 < minor a"
  by (simp add: assertPositive_def isPositive_def)

lemma fold_rbind_Inl: "fold (\<lambda>m acc. rbind acc (\<lambda>a. f a m)) ms (Inl e) = Inl e"
  by (induction ms) simp_all

lemma sum_money_fold:
  "fold (\<lambda>m acc. rbind acc (\<lambda>a. add_money a m)) ms (Inr z) = Inr m
   \<Longrightarrow> minor m = minor z + sum_list (map minor ms)"
proof (induction ms arbitrary: z)
  case Nil
  then show ?case by simp
next
  case (Cons a ms)
  show ?case
  proof (cases "add_money z a")
    case (Inl e)
    with Cons.prems show ?thesis by (simp add: fold_rbind_Inl)
  next
    case (Inr z')
    then have "minor z' = minor z + minor a" by (auto simp: add_money_eq mk_money_Inr)
    moreover have "minor m = minor z' + sum_list (map minor ms)"
      using Cons.prems Inr by (intro Cons.IH) simp
    ultimately show ?thesis by simp
  qed
qed

lemma sum_money_exact: "sum_money ms c = Inr m \<Longrightarrow> minor m = sum_list (map minor ms)"
  unfolding sum_money_def by (drule sum_money_fold) (simp add: zero_money_def)

text \<open>
  \<open>fromBirr\<close> is exact although two rounding operations precede the check: an inexact product
  already lies at least one unit outside the safe range.
\<close>

lemma fromBirr_exact:
  "fromBirr (JInt b) (JInt s) c = Inr m \<Longrightarrow> minor m = 100 * b + (if b < 0 then - s else s)"
proof -
  assume h: "fromBirr (JInt b) (JInt s) c = Inr m"
  have per: "MINOR_UNITS_PER_MAJOR c = 100" by (cases c) (simp add: MINOR_UNITS_PER_MAJOR_def)
  define r where "r = (if b < 0 then - s else s)"
  have s: "0 \<le> s" "s < 100"
    using h by (auto simp: fromBirr_def per split: if_splits)
  have m: "mk_money (JInt (fl53 (fl53 (b * 100) + r))) c = Inr m"
    using h by (auto simp: fromBirr_def per js_add_def js_mul_def r_def Let_def split: if_splits)
  then have safe: "safe_int (fl53 (b * 100) + r)" and me: "minor m = fl53 (b * 100) + r"
    by (auto simp: mk_money_fl53 mk_money_Inr)
  have "safe_int (b * 100)"
  proof (rule ccontr)
    assume "\<not> safe_int (b * 100)"
    then have ns: "\<not> safe_int (fl53 (b * 100))" by (simp add: safe_fl53)
    show False
    proof (cases "b < 0")
      case True
      then have "fl53 (b * 100) \<le> 0" by (simp add: fl53_def fl_pos_nonneg)
      then show False using ns safe s True by (auto simp: safe_int_iff r_def)
    next
      case False
      then have "0 \<le> fl53 (b * 100)" by (simp add: fl53_def fl_pos_nonneg)
      then show False using ns safe s False by (auto simp: safe_int_iff r_def)
    qed
  qed
  then show ?thesis using me by (simp add: fl53_exact r_def)
qed

end
