(* ===== verification/Access.thy ===== *)
theory Access
  imports Money
begin

text \<open>
  Who may do what: merchant-side roles, permissions, sessions, devices and PINs
  (\<open>packages/domain/src/auth.ts\<close>), Telga staff and their step-up and dual-control rules
  (\<open>admin.ts\<close>).
\<close>

section \<open>Merchant roles and permissions\<close>

datatype actor_role =
    MERCHANT_OPERATOR | MERCHANT_OWNER | OPS_VERIFIER | OPS_APPROVER | OPS_RECONCILER
  | OPS_SUPPORT | ADMIN | SYSTEM

datatype permission =
    POS_VIEW_HOME | POS_CREATE_SALE | POS_VIEW_TRANSACTION | POS_VIEW_HISTORY
  | POS_VIEW_PENDING_QUEUE | POS_VIEW_UNDER_REVIEW_QUEUE | POS_REQUEST_SUPPORT_REVIEW | POS_LOGOUT
  | POS_MANAGE_SETTINGS | POS_DEPOSIT_TRAINING_FUNDS | DEVICE_ENROL | DEVICE_REVOKE
  | REVERSAL_REQUEST | REVERSAL_APPROVE | TRANSACTION_FORCE_STATE | FUNDS_RELEASE
  | RECOVERY_CONFIGURE | PROVIDER_OVERRIDE_OUTCOME | ADMIN_DIAGNOSTICS

definition PERMISSIONS :: "permission list" where
  "PERMISSIONS =
     [POS_VIEW_HOME, POS_CREATE_SALE, POS_VIEW_TRANSACTION, POS_VIEW_HISTORY,
      POS_VIEW_PENDING_QUEUE, POS_VIEW_UNDER_REVIEW_QUEUE, POS_REQUEST_SUPPORT_REVIEW, POS_LOGOUT,
      POS_MANAGE_SETTINGS, POS_DEPOSIT_TRAINING_FUNDS, DEVICE_ENROL, DEVICE_REVOKE,
      REVERSAL_REQUEST, REVERSAL_APPROVE, TRANSACTION_FORCE_STATE, FUNDS_RELEASE,
      RECOVERY_CONFIGURE, PROVIDER_OVERRIDE_OUTCOME, ADMIN_DIAGNOSTICS]"

definition OPERATOR_GRANTS :: "permission list" where
  "OPERATOR_GRANTS =
     [POS_VIEW_HOME, POS_CREATE_SALE, POS_VIEW_TRANSACTION, POS_VIEW_HISTORY,
      POS_VIEW_PENDING_QUEUE, POS_VIEW_UNDER_REVIEW_QUEUE, POS_REQUEST_SUPPORT_REVIEW, POS_LOGOUT]"

definition OWNER_GRANTS :: "permission list" where
  "OWNER_GRANTS = OPERATOR_GRANTS @ [DEVICE_ENROL, POS_MANAGE_SETTINGS, POS_DEPOSIT_TRAINING_FUNDS]"

fun ROLE_PERMISSIONS :: "actor_role \<Rightarrow> permission list" where
  "ROLE_PERMISSIONS MERCHANT_OPERATOR = OPERATOR_GRANTS"
| "ROLE_PERMISSIONS MERCHANT_OWNER = OWNER_GRANTS"
| "ROLE_PERMISSIONS OPS_VERIFIER = [POS_LOGOUT]"
| "ROLE_PERMISSIONS OPS_RECONCILER = [POS_LOGOUT]"
| "ROLE_PERMISSIONS OPS_SUPPORT = [POS_LOGOUT, REVERSAL_REQUEST, DEVICE_REVOKE]"
| "ROLE_PERMISSIONS OPS_APPROVER =
     [POS_LOGOUT, REVERSAL_REQUEST, REVERSAL_APPROVE, FUNDS_RELEASE, DEVICE_REVOKE]"
| "ROLE_PERMISSIONS ADMIN = PERMISSIONS"
| "ROLE_PERMISSIONS SYSTEM = []"

definition FORBIDDEN_TO_MERCHANT :: "permission list" where
  "FORBIDDEN_TO_MERCHANT =
     [REVERSAL_APPROVE, TRANSACTION_FORCE_STATE, FUNDS_RELEASE, RECOVERY_CONFIGURE,
      PROVIDER_OVERRIDE_OUTCOME, ADMIN_DIAGNOSTICS, DEVICE_REVOKE]"

definition MERCHANT_ROLES :: "actor_role list" where
  "MERCHANT_ROLES = [MERCHANT_OPERATOR, MERCHANT_OWNER]"

definition isMerchantRole :: "actor_role \<Rightarrow> bool" where
  "isMerchantRole r \<longleftrightarrow> r \<in> set MERCHANT_ROLES"

definition can :: "actor_role \<Rightarrow> permission \<Rightarrow> bool" where
  "can r p \<longleftrightarrow> p \<in> set (ROLE_PERMISSIONS r)"

section \<open>Devices and sessions\<close>

datatype enrollment_state = ENR_PENDING | ENROLLED | ENR_REVOKED | ENR_EXPIRED

record device_enrollment =
  de_deviceId :: string
  de_merchantId :: string
  de_state :: enrollment_state
  de_enrolledAt :: timestamp
  de_expiresAt :: "timestamp option"

datatype device_rejection =
    DEVICE_NOT_ENROLLED | DEVICE_REVOKED | DEVICE_ENROLLMENT_EXPIRED | DEVICE_NOT_ASSIGNED_TO_MERCHANT

definition deviceRejection :: "device_enrollment option \<Rightarrow> string \<Rightarrow> timestamp \<Rightarrow> device_rejection option" where
  "deviceRejection enrollment merchantId now =
     (case enrollment of
        None \<Rightarrow> Some DEVICE_NOT_ENROLLED
      | Some e \<Rightarrow>
          if de_state e = ENR_REVOKED then Some DEVICE_REVOKED
          else if de_state e = ENR_EXPIRED then Some DEVICE_ENROLLMENT_EXPIRED
          else if de_state e \<noteq> ENROLLED then Some DEVICE_NOT_ENROLLED
          else if (case de_expiresAt e of None \<Rightarrow> False | Some x \<Rightarrow> x \<le> now) then Some DEVICE_ENROLLMENT_EXPIRED
          else if de_merchantId e \<noteq> merchantId then Some DEVICE_NOT_ASSIGNED_TO_MERCHANT
          else None)"

datatype session_status = SES_ACTIVE | SES_REVOKED

record session_facts =
  sf_userId :: string
  sf_merchantId :: string
  sf_deviceId :: string
  sf_role :: actor_role
  sf_status :: session_status
  sf_createdAt :: timestamp
  sf_lastSeenAt :: timestamp
  sf_idleExpiresAt :: timestamp
  sf_absoluteExpiresAt :: timestamp

datatype session_rejection =
    SESSION_MISSING | SESSION_UNKNOWN | SESSION_REVOKED | SESSION_IDLE_EXPIRED | SESSION_LIFETIME_EXPIRED

definition sessionRejection :: "session_facts option \<Rightarrow> timestamp \<Rightarrow> session_rejection option" where
  "sessionRejection session now =
     (case session of
        None \<Rightarrow> Some SESSION_UNKNOWN
      | Some s \<Rightarrow>
          if sf_status s = SES_REVOKED then Some SESSION_REVOKED
          else if sf_absoluteExpiresAt s \<le> now then Some SESSION_LIFETIME_EXPIRED
          else if sf_idleExpiresAt s \<le> now then Some SESSION_IDLE_EXPIRED
          else None)"

section \<open>PINs, lockout and typed amounts\<close>

definition PIN_MIN_LENGTH :: nat where "PIN_MIN_LENGTH = 6"
definition PIN_MAX_LENGTH :: nat where "PIN_MAX_LENGTH = 12"

datatype pin_rejection = PIN_TOO_SHORT | PIN_TOO_LONG | PIN_NOT_NUMERIC | PIN_TOO_SIMPLE

definition is_digit :: "char \<Rightarrow> bool" where
  "is_digit c \<longleftrightarrow> (48::nat) \<le> of_char c \<and> of_char c \<le> (57::nat)"

text \<open>The pattern \<open>^(\d)\1+$\<close>: one digit, repeated at least once.\<close>

definition REPEATED :: "string \<Rightarrow> bool" where
  "REPEATED pin =
     (case pin of c # d # rest \<Rightarrow> is_digit c \<and> list_all (\<lambda>x. x = c) (d # rest) | _ \<Rightarrow> False)"

text \<open>The loop over neighbours, with its two flags.\<close>

fun sequential_loop :: "string \<Rightarrow> bool \<Rightarrow> bool \<Rightarrow> bool \<times> bool" where
  "sequential_loop (p # c # rest) ascending descending =
     sequential_loop (c # rest)
       (if (of_char c :: int) \<noteq> of_char p + 1 then False else ascending)
       (if (of_char c :: int) \<noteq> of_char p - 1 then False else descending)"
| "sequential_loop _ ascending descending = (ascending, descending)"

definition isSequential :: "string \<Rightarrow> bool" where
  "isSequential pin = (let (a, d) = sequential_loop pin True True in a \<or> d)"

definition pinRejection :: "string \<Rightarrow> pin_rejection option" where
  "pinRejection pin =
     (if pin = [] \<or> \<not> list_all is_digit pin then Some PIN_NOT_NUMERIC
      else if length pin < PIN_MIN_LENGTH then Some PIN_TOO_SHORT
      else if length pin > PIN_MAX_LENGTH then Some PIN_TOO_LONG
      else if REPEATED pin then Some PIN_TOO_SIMPLE
      else if isSequential pin then Some PIN_TOO_SIMPLE
      else None)"

record lockout_policy =
  maxFailedAttempts :: int
  lockoutMs :: int
  maxAttemptsPerWindow :: int
  rateWindowMs :: int

definition TRAINING_LOCKOUT_POLICY :: lockout_policy where
  "TRAINING_LOCKOUT_POLICY =
     \<lparr>maxFailedAttempts = 4, lockoutMs = 5 * 60000, maxAttemptsPerWindow = 10, rateWindowMs = 60000\<rparr>"

definition isLockedOut :: "timestamp option \<Rightarrow> timestamp \<Rightarrow> bool" where
  "isLockedOut lockedUntil now = (case lockedUntil of None \<Rightarrow> False | Some u \<Rightarrow> now < u)"

record custom_amount_limits =
  minMinor :: int
  maxMinor :: int
  incrementMinor :: int

definition TRAINING_CUSTOM_AMOUNT_LIMITS :: custom_amount_limits where
  "TRAINING_CUSTOM_AMOUNT_LIMITS = \<lparr>minMinor = 500, maxMinor = 100000, incrementMinor = 100\<rparr>"

datatype amount_rejection =
    AMOUNT_NOT_A_NUMBER | AMOUNT_BELOW_MINIMUM | AMOUNT_ABOVE_MAXIMUM | AMOUNT_NOT_A_MULTIPLE

text \<open>
  \<open>%\<close> keeps the sign of the dividend and its remainder is 0 exactly when \<open>mod\<close> is; by 0 it is NaN,
  which is not 0 either.
\<close>

definition customAmountRejection :: "jsnum \<Rightarrow> custom_amount_limits \<Rightarrow> amount_rejection option" where
  "customAmountRejection amount limits =
     (case amount of
        JNotInt \<Rightarrow> Some AMOUNT_NOT_A_NUMBER
      | JInt a \<Rightarrow>
          if \<not> safe_int a then Some AMOUNT_NOT_A_NUMBER
          else if a < minMinor limits then Some AMOUNT_BELOW_MINIMUM
          else if a > maxMinor limits then Some AMOUNT_ABOVE_MAXIMUM
          else if incrementMinor limits = 0 \<or> a mod incrementMinor limits \<noteq> 0 then Some AMOUNT_NOT_A_MULTIPLE
          else None)"

section \<open>Telga staff\<close>

datatype admin_role =
    PLATFORM_OWNER | OPERATIONS_ADMIN | FINANCE_VERIFIER | SUPPORT_AGENT | AUDITOR | SECURITY_ADMIN
  | DEPARTMENT_ADMIN

datatype admin_status = ADM_PENDING | ADM_ACTIVE | ADM_SUSPENDED | ADM_DEACTIVATED

datatype admin_permission =
    ADMIN_VIEW_MERCHANT | ADMIN_REVIEW_APPLICATION | ADMIN_APPROVE_MERCHANT | ADMIN_REJECT_MERCHANT
  | ADMIN_SUSPEND_MERCHANT | ADMIN_CLOSE_MERCHANT | ADMIN_VIEW_DEVICE | ADMIN_REGISTER_DEVICE
  | ADMIN_ISSUE_ENROLLMENT_TOKEN | ADMIN_REVOKE_DEVICE | ADMIN_REMOTE_STOP_SALES | ADMIN_VIEW_OPERATOR
  | ADMIN_CREATE_OPERATOR | ADMIN_RESET_OPERATOR_PIN | ADMIN_SUSPEND_OPERATOR | ADMIN_REVOKE_SESSION
  | ADMIN_VIEW_TRANSACTION | ADMIN_REPRINT_RECEIPT | ADMIN_VIEW_STATEMENT | ADMIN_EXPORT_DATA
  | ADMIN_REVIEW_FUNDING | ADMIN_APPROVE_FUNDING | ADMIN_SECOND_APPROVE_FUNDING | ADMIN_RECONCILE
  | ADMIN_VIEW_SUPPORT_CASE | ADMIN_MANAGE_SUPPORT_CASE | ADMIN_VIEW_PROVIDER_HEALTH | ADMIN_VIEW_AUDIT
  | ADMIN_CHANGE_FEATURE_FLAG | ADMIN_VIEW_FEE_POLICY | ADMIN_MANAGE_FEE_POLICY | ADMIN_MANAGE_ADMINS
  | ADMIN_MANAGE_PERMISSIONS

definition ADMIN_PERMISSIONS :: "admin_permission list" where
  "ADMIN_PERMISSIONS =
     [ADMIN_VIEW_MERCHANT, ADMIN_REVIEW_APPLICATION, ADMIN_APPROVE_MERCHANT, ADMIN_REJECT_MERCHANT,
      ADMIN_SUSPEND_MERCHANT, ADMIN_CLOSE_MERCHANT, ADMIN_VIEW_DEVICE, ADMIN_REGISTER_DEVICE,
      ADMIN_ISSUE_ENROLLMENT_TOKEN, ADMIN_REVOKE_DEVICE, ADMIN_REMOTE_STOP_SALES, ADMIN_VIEW_OPERATOR,
      ADMIN_CREATE_OPERATOR, ADMIN_RESET_OPERATOR_PIN, ADMIN_SUSPEND_OPERATOR, ADMIN_REVOKE_SESSION,
      ADMIN_VIEW_TRANSACTION, ADMIN_REPRINT_RECEIPT, ADMIN_VIEW_STATEMENT, ADMIN_EXPORT_DATA,
      ADMIN_REVIEW_FUNDING, ADMIN_APPROVE_FUNDING, ADMIN_SECOND_APPROVE_FUNDING, ADMIN_RECONCILE,
      ADMIN_VIEW_SUPPORT_CASE, ADMIN_MANAGE_SUPPORT_CASE, ADMIN_VIEW_PROVIDER_HEALTH, ADMIN_VIEW_AUDIT,
      ADMIN_CHANGE_FEATURE_FLAG, ADMIN_VIEW_FEE_POLICY, ADMIN_MANAGE_FEE_POLICY, ADMIN_MANAGE_ADMINS,
      ADMIN_MANAGE_PERMISSIONS]"

definition READ_ONLY :: "admin_permission list" where
  "READ_ONLY =
     [ADMIN_VIEW_MERCHANT, ADMIN_VIEW_DEVICE, ADMIN_VIEW_OPERATOR, ADMIN_VIEW_TRANSACTION,
      ADMIN_VIEW_STATEMENT, ADMIN_VIEW_SUPPORT_CASE, ADMIN_VIEW_PROVIDER_HEALTH, ADMIN_VIEW_AUDIT,
      ADMIN_VIEW_FEE_POLICY]"

fun ADMIN_ROLE_PERMISSIONS :: "admin_role \<Rightarrow> admin_permission list" where
  "ADMIN_ROLE_PERMISSIONS PLATFORM_OWNER = ADMIN_PERMISSIONS"
| "ADMIN_ROLE_PERMISSIONS OPERATIONS_ADMIN =
     READ_ONLY @ [ADMIN_REVIEW_APPLICATION, ADMIN_APPROVE_MERCHANT, ADMIN_REJECT_MERCHANT,
       ADMIN_SUSPEND_MERCHANT, ADMIN_REGISTER_DEVICE, ADMIN_ISSUE_ENROLLMENT_TOKEN, ADMIN_REVOKE_DEVICE,
       ADMIN_REMOTE_STOP_SALES, ADMIN_CREATE_OPERATOR, ADMIN_RESET_OPERATOR_PIN, ADMIN_SUSPEND_OPERATOR,
       ADMIN_REPRINT_RECEIPT]"
| "ADMIN_ROLE_PERMISSIONS FINANCE_VERIFIER =
     READ_ONLY @ [ADMIN_REVIEW_FUNDING, ADMIN_APPROVE_FUNDING, ADMIN_RECONCILE, ADMIN_EXPORT_DATA]"
| "ADMIN_ROLE_PERMISSIONS SUPPORT_AGENT = READ_ONLY @ [ADMIN_MANAGE_SUPPORT_CASE, ADMIN_REPRINT_RECEIPT]"
| "ADMIN_ROLE_PERMISSIONS AUDITOR = READ_ONLY"
| "ADMIN_ROLE_PERMISSIONS SECURITY_ADMIN =
     READ_ONLY @ [ADMIN_REVOKE_DEVICE, ADMIN_REVOKE_SESSION, ADMIN_SUSPEND_OPERATOR, ADMIN_REMOTE_STOP_SALES]"
| "ADMIN_ROLE_PERMISSIONS DEPARTMENT_ADMIN = READ_ONLY"

definition STEP_UP_REQUIRED :: "admin_permission list" where
  "STEP_UP_REQUIRED =
     [ADMIN_APPROVE_MERCHANT, ADMIN_SUSPEND_MERCHANT, ADMIN_CLOSE_MERCHANT, ADMIN_REGISTER_DEVICE,
      ADMIN_ISSUE_ENROLLMENT_TOKEN, ADMIN_REVOKE_DEVICE, ADMIN_REMOTE_STOP_SALES,
      ADMIN_RESET_OPERATOR_PIN, ADMIN_APPROVE_FUNDING, ADMIN_SECOND_APPROVE_FUNDING, ADMIN_EXPORT_DATA,
      ADMIN_CHANGE_FEATURE_FLAG, ADMIN_MANAGE_FEE_POLICY, ADMIN_MANAGE_ADMINS, ADMIN_MANAGE_PERMISSIONS]"

definition DUAL_CONTROL_REQUIRED :: "admin_permission list" where
  "DUAL_CONTROL_REQUIRED = [ADMIN_APPROVE_FUNDING, ADMIN_CHANGE_FEATURE_FLAG]"

record admin_user =
  au_id :: string
  au_role :: admin_role
  au_status :: admin_status
  au_mfaEnrolled :: bool
  au_grants :: "admin_permission list"

text \<open>A JavaScript \<open>Set\<close> keeps the order of first insertion.\<close>

definition set_add :: "'a \<Rightarrow> 'a list \<Rightarrow> 'a list" where
  "set_add x xs = (if x \<in> set xs then xs else xs @ [x])"

definition effectivePermissions :: "admin_user \<Rightarrow> admin_permission list" where
  "effectivePermissions user =
     (if au_status user \<noteq> ADM_ACTIVE then []
      else fold set_add (au_grants user) (fold set_add (ADMIN_ROLE_PERMISSIONS (au_role user)) []))"

datatype admin_denial = NOT_GRANTED | INACTIVE | MFA_REQUIRED | STEP_UP_NEEDED

record admin_context =
  ac_user :: admin_user
  ac_mfaSatisfied :: bool
  ac_steppedUpAt :: "timestamp option"

record admin_policy =
  requireMfa :: "bool option"
  requireStepUp :: "bool option"

definition STRICT_ADMIN_AUTH :: admin_policy where
  "STRICT_ADMIN_AUTH = \<lparr>requireMfa = Some True, requireStepUp = Some True\<rparr>"

definition STEP_UP_WINDOW_MS :: int where
  "STEP_UP_WINDOW_MS = 5 * 60 * 1000"

definition requireAdmin ::
  "admin_context \<Rightarrow> admin_permission \<Rightarrow> timestamp \<Rightarrow> admin_policy \<Rightarrow> admin_denial + unit" where
  "requireAdmin ctx permission now policy =
     (if au_status (ac_user ctx) \<noteq> ADM_ACTIVE then Inl INACTIVE
      else if requireMfa policy \<noteq> Some False \<and> \<not> ac_mfaSatisfied ctx then Inl MFA_REQUIRED
      else if permission \<notin> set (effectivePermissions (ac_user ctx)) then Inl NOT_GRANTED
      else if requireStepUp policy \<noteq> Some False \<and> permission \<in> set STEP_UP_REQUIRED then
        (case Option.bind (ac_steppedUpAt ctx) (\<lambda>s. msBetween s now) of
           None \<Rightarrow> Inl STEP_UP_NEEDED
         | Some elapsed \<Rightarrow> if elapsed > STEP_UP_WINDOW_MS then Inl STEP_UP_NEEDED else Inr ())
      else Inr ())"

definition needsDualControl :: "admin_permission \<Rightarrow> bool" where
  "needsDualControl p \<longleftrightarrow> p \<in> set DUAL_CONTROL_REQUIRED"

definition canSecondApprove :: "admin_user \<Rightarrow> admin_user \<Rightarrow> admin_permission \<Rightarrow> bool" where
  "canSecondApprove actor approver permission =
     (if au_id approver = au_id actor then False
      else if au_status approver \<noteq> ADM_ACTIVE then False
      else permission \<in> set (effectivePermissions approver))"

section \<open>Lemmas\<close>

lemma set_fold_set_add: "set (fold set_add xs acc) = set xs \<union> set acc"
  by (induction xs arbitrary: acc) (auto simp: set_add_def)

lemma distinct_fold_set_add: "distinct acc \<Longrightarrow> distinct (fold set_add xs acc)"
  by (induction xs arbitrary: acc) (auto simp: set_add_def)

lemma effectivePermissions_set:
  "set (effectivePermissions u) =
     (if au_status u = ADM_ACTIVE then set (ADMIN_ROLE_PERMISSIONS (au_role u)) \<union> set (au_grants u) else {})"
  by (auto simp: effectivePermissions_def set_fold_set_add)

lemma sequential_loop_flags:
  "sequential_loop pin a d =
     (a \<and> (\<forall>i. Suc i < length pin \<longrightarrow> (of_char (pin ! Suc i) :: int) = of_char (pin ! i) + 1),
      d \<and> (\<forall>i. Suc i < length pin \<longrightarrow> (of_char (pin ! Suc i) :: int) = of_char (pin ! i) - 1))"
proof (induction pin a d rule: sequential_loop.induct)
  case (1 p c rest ascending descending)
  have split: "(\<forall>i. Suc i < length (p # c # rest) \<longrightarrow> P i) \<longleftrightarrow>
      P 0 \<and> (\<forall>i. Suc i < length (c # rest) \<longrightarrow> P (Suc i))" for P
    by (metis Suc_less_eq length_Cons not0_implies_Suc zero_less_Suc)
  show ?case
    unfolding sequential_loop.simps 1 split by auto
qed simp_all

lemma REPEATED_iff: "REPEATED pin \<longleftrightarrow> (\<exists>c n. is_digit c \<and> 2 \<le> n \<and> pin = replicate n c)"
proof
  assume "REPEATED pin"
  then obtain c d rest where p: "pin = c # d # rest" "is_digit c" "\<forall>x\<in>set (d # rest). x = c"
    by (auto simp: REPEATED_def list_all_iff split: list.splits)
  then have "d # rest = replicate (length (d # rest)) c"
    by (intro replicate_eqI) auto
  with p have "pin = replicate (length pin) c" by simp
  with p show "\<exists>c n. is_digit c \<and> 2 \<le> n \<and> pin = replicate n c"
    by (intro exI [of _ c] exI [of _ "length pin"]) auto
next
  assume "\<exists>c n. is_digit c \<and> 2 \<le> n \<and> pin = replicate n c"
  then obtain c m where "is_digit c" "pin = replicate (Suc (Suc m)) c"
    by (metis Suc_le_D One_nat_def numeral_2_eq_2 Suc_le_mono)
  then show "REPEATED pin" by (simp add: REPEATED_def list_all_iff)
qed

end
