(* ===== verification/Idempotency.thy ===== *)
theory Idempotency
  imports Money "HOL-Library.Word"
begin

unbundle bit_operations_syntax

text \<open>
  \<open>packages/domain/src/idempotency.ts\<close>: the FNV-1a fingerprint on 32-bit words, the key
  of a request (its identity) and the fingerprint of its payload, and the in-memory store. The store
  is a \<open>Map\<close>, modelled as an association list in insertion order. What the store relies on
  of that map is the interface \<open>keyed_store\<close>.
\<close>

section \<open>Stores where the first entry under a key wins\<close>

locale keyed_store =
  fixes get :: "'s \<Rightarrow> 'k \<Rightarrow> 'v option"
    and put :: "'k \<Rightarrow> 'v \<Rightarrow> 's \<Rightarrow> 's"
  assumes get_put_same: "get (put k v s) k = Some v"
    and get_put_other: "k \<noteq> j \<Longrightarrow> get (put k v s) j = get s j"
begin

definition put_once :: "'k \<Rightarrow> 'v \<Rightarrow> 's \<Rightarrow> 's" where
  "put_once k v s = (case get s k of None \<Rightarrow> put k v s | Some _ \<Rightarrow> s)"

lemma get_put_once: "get (put_once k v s) j = (if k = j \<and> get s k = None then Some v else get s j)"
  by (cases "k = j") (auto simp: put_once_def get_put_same get_put_other split: option.splits)

lemma put_once_keeps: "get s j = Some v \<Longrightarrow> get (put_once k w s) j = Some v"
  by (auto simp: get_put_once)

lemma fold_put_once_keeps:
  "get s j = Some v \<Longrightarrow> get (fold (\<lambda>(k, w). put_once k w) kvs s) j = Some v"
proof (induction kvs arbitrary: s)
  case Nil
  then show ?case by simp
next
  case (Cons kw kvs)
  then show ?case by (cases kw) (simp add: put_once_keeps)
qed

text \<open>After any history of insertions a key holds the first value inserted under it.\<close>

lemma get_fold_put_once:
  "get (fold (\<lambda>(k, w). put_once k w) kvs s) j =
     (case get s j of Some v \<Rightarrow> Some v | None \<Rightarrow> map_option snd (find (\<lambda>(k, w). k = j) kvs))"
proof (induction kvs arbitrary: s)
  case Nil
  then show ?case by (simp split: option.splits)
next
  case (Cons kw kvs)
  obtain k w where kw: "kw = (k, w)" by (cases kw)
  show ?case
    using Cons.IH [of "put_once k w s"] by (auto simp: kw get_put_once split: option.splits)
qed

end

section \<open>Requests and records\<close>

record sale_intent =
  si_merchantId :: string
  si_deviceId :: string
  si_productId :: string
  si_amount :: money
  si_recipient :: string
  si_clientRequestId :: string

record idem_record =
  ir_key :: string
  ir_merchantId :: string
  ir_deviceId :: string
  ir_payloadFingerprint :: string
  ir_transactionId :: string
  ir_createdAt :: timestamp

definition fnv_step :: "char \<Rightarrow> 32 word \<Rightarrow> 32 word" where
  "fnv_step c hash = (hash XOR of_char c) * 0x01000193"

definition fingerprint :: "string \<Rightarrow> string" where
  "fingerprint input =
     (let hash = fold fnv_step input 0x811c9dc5
      in pad_start 8 (CHR ''0'') (show_radix 16 (uint hash)))"

definition canonicalPayload :: "sale_intent \<Rightarrow> string" where
  "canonicalPayload i =
     join_with ''|''
       [si_merchantId i, si_deviceId i, si_productId i, currency_name (currency (si_amount i)),
        dec_int (minor (si_amount i)), si_recipient i, si_clientRequestId i]"

definition payloadFingerprint :: "sale_intent \<Rightarrow> string" where
  "payloadFingerprint i = fingerprint (canonicalPayload i)"

definition canonicalKeySource :: "sale_intent \<Rightarrow> string" where
  "canonicalKeySource i = join_with ''|'' [si_merchantId i, si_deviceId i, si_clientRequestId i]"

definition deriveIdempotencyKey :: "sale_intent \<Rightarrow> string" where
  "deriveIdempotencyKey i = ''idem_'' @ fingerprint (canonicalKeySource i)"

section \<open>The store\<close>

type_synonym idem_store = "(string \<times> idem_record) list"

datatype idem_outcome = IdemNew idem_record | IdemReplay idem_record

definition map_get :: "('k \<times> 'v) list \<Rightarrow> 'k \<Rightarrow> 'v option" where
  "map_get m k = map_of m k"

text \<open>\<open>Map.set\<close>: a present key keeps its place, a new one goes to the end.\<close>

fun map_set :: "'k \<Rightarrow> 'v \<Rightarrow> ('k \<times> 'v) list \<Rightarrow> ('k \<times> 'v) list" where
  "map_set k v [] = [(k, v)]"
| "map_set k v ((j, w) # m) = (if j = k then (k, v) # m else (j, w) # map_set k v m)"

lemma map_get_set: "map_get (map_set k v m) j = (if k = j then Some v else map_get m j)"
  by (induction m) (auto simp: map_get_def)

interpretation idem: keyed_store map_get map_set
  by unfold_locales (simp_all add: map_get_set)

definition register :: "sale_intent \<Rightarrow> string \<Rightarrow> timestamp \<Rightarrow> idem_store \<Rightarrow> (domain_error + idem_outcome) \<times> idem_store" where
  "register intent txId t s =
     (let key = deriveIdempotencyKey intent; print = payloadFingerprint intent
      in case map_get s key of
           Some existing \<Rightarrow>
             if ir_payloadFingerprint existing \<noteq> print then (Inl (IdempotencyPayloadMismatch key), s)
             else (Inr (IdemReplay existing), s)
         | None \<Rightarrow>
             let r = \<lparr>ir_key = key, ir_merchantId = si_merchantId intent, ir_deviceId = si_deviceId intent,
                      ir_payloadFingerprint = print, ir_transactionId = txId, ir_createdAt = t\<rparr>
             in (Inr (IdemNew r), map_set key r s))"

definition assertNotInProgress :: "sale_intent \<Rightarrow> idem_store \<Rightarrow> domain_error + unit" where
  "assertNotInProgress intent s =
     (let key = deriveIdempotencyKey intent
      in case map_get s key of
           Some existing \<Rightarrow> Inl (DuplicateInProgress key (ir_transactionId existing))
         | None \<Rightarrow> Inr ())"

definition lookup_key :: "string \<Rightarrow> idem_store \<Rightarrow> idem_record option" where
  "lookup_key key s = map_get s key"

definition find_intent :: "sale_intent \<Rightarrow> idem_store \<Rightarrow> idem_record option" where
  "find_intent intent s = map_get s (deriveIdempotencyKey intent)"

definition idem_size :: "idem_store \<Rightarrow> nat" where
  "idem_size s = length s"

section \<open>Lemmas\<close>

definition record_of :: "sale_intent \<times> string \<times> timestamp \<Rightarrow> idem_record" where
  "record_of = (\<lambda>(i, tx, t).
     \<lparr>ir_key = deriveIdempotencyKey i, ir_merchantId = si_merchantId i, ir_deviceId = si_deviceId i,
      ir_payloadFingerprint = payloadFingerprint i, ir_transactionId = tx, ir_createdAt = t\<rparr>)"

text \<open>Whatever it answers, \<open>register\<close> inserts at most once under a key.\<close>

lemma register_state:
  "snd (register i tx t s) = idem.put_once (deriveIdempotencyKey i) (record_of (i, tx, t)) s"
  by (auto simp: register_def Let_def idem.put_once_def record_of_def split: option.splits)

definition register_all :: "(sale_intent \<times> string \<times> timestamp) list \<Rightarrow> idem_store \<Rightarrow> idem_store" where
  "register_all reqs s = fold (\<lambda>(i, tx, t) s. snd (register i tx t s)) reqs s"

lemma register_all_put_once:
  "register_all reqs s =
     fold (\<lambda>(k, w). idem.put_once k w) (map (\<lambda>r. (deriveIdempotencyKey (fst r), record_of r)) reqs) s"
  unfolding register_all_def
proof (induction reqs arbitrary: s)
  case Nil
  then show ?case by simp
next
  case (Cons r reqs)
  obtain i tx t where "r = (i, tx, t)" by (cases r) auto
  then show ?case using Cons [of "snd (register i tx t s)"] by (simp add: register_state)
qed

lemma map_get_register_all:
  "map_get (register_all reqs s) k =
     (case map_get s k of
        Some v \<Rightarrow> Some v
      | None \<Rightarrow> map_option record_of (find (\<lambda>r. deriveIdempotencyKey (fst r) = k) reqs))"
proof -
  have "map_option snd (find (\<lambda>(j, w :: idem_record). j = k) (map (\<lambda>r. (deriveIdempotencyKey (fst r), record_of r)) reqs)) =
      map_option record_of (find (\<lambda>r. deriveIdempotencyKey (fst r) = k) reqs)"
    by (induction reqs) auto
  then show ?thesis by (simp only: register_all_put_once idem.get_fold_put_once)
qed

lemma keys_map_set: "fst ` set (map_set k v m) = insert k (fst ` set m)"
proof (induction m)
  case Nil
  then show ?case by simp
next
  case (Cons jw m)
  then show ?case by (cases jw) auto
qed

lemma distinct_map_set: "distinct (map fst m) \<Longrightarrow> distinct (map fst (map_set k v m))"
proof (induction m)
  case Nil
  then show ?case by simp
next
  case (Cons jw m)
  then show ?case by (cases jw) (auto simp: keys_map_set)
qed

text \<open>
  Whatever requests came before, a request whose key was seen is answered from the first one:
  the same payload replays its transaction, another payload is refused, and the store is unchanged.
\<close>

theorem register_first_wins:
  assumes "find (\<lambda>r. deriveIdempotencyKey (fst r) = deriveIdempotencyKey i) reqs = Some (i0, tx0, t0)"
  shows "register i tx t (register_all reqs []) =
    (if payloadFingerprint i0 = payloadFingerprint i
     then Inr (IdemReplay (record_of (i0, tx0, t0)))
     else Inl (IdempotencyPayloadMismatch (deriveIdempotencyKey i)),
     register_all reqs [])"
proof -
  have "map_get (register_all reqs []) (deriveIdempotencyKey i) = Some (record_of (i0, tx0, t0))"
    using assms by (simp add: map_get_register_all) (simp add: map_get_def)
  then show ?thesis by (simp add: register_def Let_def) (simp add: record_of_def)
qed

definition sample_intent :: sale_intent where
  "sample_intent = \<lparr>si_merchantId = ''m'', si_deviceId = ''d'', si_productId = ''p'',
     si_amount = \<lparr>currency = ETB, minor = 1000\<rparr>, si_recipient = ''0911'', si_clientRequestId = ''r''\<rparr>"

theorem register_first_wins_witness:
  "fst (register (sample_intent\<lparr>si_recipient := ''0922''\<rparr>) ''tx2'' ''t2''
     (register_all [(sample_intent, ''tx1'', ''t1'')] [])) =
   Inl (IdempotencyPayloadMismatch (deriveIdempotencyKey sample_intent))"
proof -
  have key: "deriveIdempotencyKey (sample_intent\<lparr>si_recipient := ''0922''\<rparr>) = deriveIdempotencyKey sample_intent"
    by (simp add: deriveIdempotencyKey_def canonicalKeySource_def)
  have print: "payloadFingerprint sample_intent \<noteq> payloadFingerprint (sample_intent\<lparr>si_recipient := ''0922''\<rparr>)"
    by code_simp
  show ?thesis
    using register_first_wins [of "sample_intent\<lparr>si_recipient := ''0922''\<rparr>"
      "[(sample_intent, ''tx1'', ''t1'')]" sample_intent "''tx1''" "''t1''" "''tx2''" "''t2''"] print
    by (simp add: key)
qed

end
