(* ===== verification/Ledger.thy ===== *)
theory Ledger
  imports Access Idempotency Js_Number "HOL-Library.Sublist"
begin

text \<open>
  The in-memory domain aggregates: the append-only ledger (\<open>packages/domain/src/ledger.ts\<close>),
  reservations and the four balance views (\<open>balance.ts\<close>), the audit log (\<open>audit.ts\<close>) and
  the transaction aggregate (\<open>transaction.ts\<close>). A class with a private array is a function on
  the list of its elements. The ledger and the audit log share the contract \<open>append_only\<close>.
\<close>

section \<open>Append-only histories\<close>

locale append_only =
  fixes items :: "'s \<Rightarrow> 'i list"
    and append :: "'a \<Rightarrow> 's \<Rightarrow> ('e + 'r) \<times> 's"
    and key :: "'i \<Rightarrow> 'k"
    and inv :: "'s \<Rightarrow> bool"
  assumes append_grows: "prefix (items s) (items (snd (append a s)))"
    and append_refused: "fst (append a s) = Inl e \<Longrightarrow> snd (append a s) = s"
    and append_inv: "inv s \<Longrightarrow> inv (snd (append a s))"
    and inv_distinct: "inv s \<Longrightarrow> distinct (map key (items s))"
begin

definition append_all :: "'a list \<Rightarrow> 's \<Rightarrow> 's" where
  "append_all as s = fold (\<lambda>a s. snd (append a s)) as s"

lemma append_all_simps [simp]:
  "append_all [] s = s" "append_all (a # as) s = append_all as (snd (append a s))"
  by (simp_all add: append_all_def)

lemma append_all_prefix: "prefix (items s) (items (append_all as s))"
proof (induction as arbitrary: s)
  case Nil
  then show ?case by simp
next
  case (Cons a as)
  then show ?case using append_grows [of s a] prefix_order.order_trans by fastforce
qed

lemma append_all_inv: "inv s \<Longrightarrow> inv (append_all as s)"
  by (induction as arbitrary: s) (simp_all add: append_inv)

lemma append_all_distinct: "inv s \<Longrightarrow> distinct (map key (items (append_all as s)))"
  by (intro inv_distinct append_all_inv)

text \<open>An item once written stays at its position for ever, and no other item has its key.\<close>

lemma append_all_nth: "n < length (items s) \<Longrightarrow> items (append_all as s) ! n = items s ! n"
  using append_all_prefix [of s as] by (auto simp: prefix_def nth_append)

end

section \<open>The ledger\<close>

datatype account_kind =
    MERCHANT_FUNDS | MERCHANT_AVAILABLE | MERCHANT_RESERVED | MERCHANT_UNDER_REVIEW
  | TELGA_REVENUE | PROVIDER_SETTLEMENT | HARDWARE_DEPOSITS | REFUND_RESERVES | BANK_CLEARING

definition LEDGER_ACCOUNT_KINDS :: "account_kind list" where
  "LEDGER_ACCOUNT_KINDS =
     [MERCHANT_FUNDS, MERCHANT_AVAILABLE, MERCHANT_RESERVED, MERCHANT_UNDER_REVIEW,
      TELGA_REVENUE, PROVIDER_SETTLEMENT, HARDWARE_DEPOSITS, REFUND_RESERVES, BANK_CLEARING]"

definition MERCHANT_ACCOUNT_KINDS :: "account_kind list" where
  "MERCHANT_ACCOUNT_KINDS = [MERCHANT_FUNDS, MERCHANT_AVAILABLE, MERCHANT_RESERVED, MERCHANT_UNDER_REVIEW]"

definition isMerchantAccountKind :: "account_kind \<Rightarrow> bool" where
  "isMerchantAccountKind k \<longleftrightarrow> k \<in> set MERCHANT_ACCOUNT_KINDS"

definition NON_MERCHANT_FACING_KINDS :: "account_kind list" where
  "NON_MERCHANT_FACING_KINDS = [BANK_CLEARING]"

datatype direction = DEBIT | CREDIT

datatype entry_reason = FUNDING_CREDIT | SALE_DEBIT | COMMISSION_CREDIT | FEE_DEBIT | REVERSAL | ADJUSTMENT

record draft_entry =
  de_accountId :: string
  de_accountKind :: account_kind
  de_merchantId :: "string option"
  de_transactionId :: "string option"
  de_direction :: direction
  de_amount :: money
  de_reason :: entry_reason
  de_ruleVersion :: "string option"
  de_providerReference :: "string option"
  de_memo :: "string option"

record ledger_entry = draft_entry +
  le_id :: string
  le_postingId :: string
  le_postedAt :: timestamp
  le_mode :: operating_mode

definition signedMinor :: "'a draft_entry_scheme \<Rightarrow> int" where
  "signedMinor e = (if de_direction e = CREDIT then minor (de_amount e) else - minor (de_amount e))"

definition residualMinor :: "'a draft_entry_scheme list \<Rightarrow> int" where
  "residualMinor es = fold (\<lambda>e acc. js_add acc (signedMinor e)) es 0"

definition assertBalanced :: "'a draft_entry_scheme list \<Rightarrow> domain_error + unit" where
  "assertBalanced es = (let r = residualMinor es in if r \<noteq> 0 then Inl (LedgerNotBalanced r) else Inr ())"

definition entry_id :: "string \<Rightarrow> nat \<Rightarrow> string" where
  "entry_id postingId i = postingId @ ''_'' @ dec_nat i"

fun number_entries :: "string \<Rightarrow> timestamp \<Rightarrow> operating_mode \<Rightarrow> nat \<Rightarrow> draft_entry list \<Rightarrow> ledger_entry list" where
  "number_entries pid t mode i [] = []"
| "number_entries pid t mode i (d # ds) =
     draft_entry.extend d (ledger_entry.fields (entry_id pid i) pid t mode) # number_entries pid t mode (Suc i) ds"

type_synonym ledger = "ledger_entry list"

definition post :: "string \<times> draft_entry list \<times> timestamp \<times> operating_mode \<Rightarrow> ledger \<Rightarrow>
    (domain_error + ledger_entry list) \<times> ledger" where
  "post = (\<lambda>(postingId, entries, t, mode) posted.
     case assertSimulated mode of
       Inl e \<Rightarrow> (Inl e, posted)
     | Inr _ \<Rightarrow>
         if length entries = 0 then (Inl (LedgerNotBalanced 0), posted)
         else case assertBalanced entries of
                Inl e \<Rightarrow> (Inl e, posted)
              | Inr _ \<Rightarrow>
                  if \<exists>e\<in>set posted. le_postingId e = postingId then (Inl (LedgerImmutable postingId), posted)
                  else let written = number_entries postingId t mode 0 entries
                       in (Inr written, posted @ written))"

definition forMerchant :: "ledger \<Rightarrow> string \<Rightarrow> ledger_entry list" where
  "forMerchant l m = filter (\<lambda>e. de_merchantId e = Some m) l"

definition forTransaction :: "ledger \<Rightarrow> string \<Rightarrow> ledger_entry list" where
  "forTransaction l tx = filter (\<lambda>e. de_transactionId e = Some tx) l"

definition forAccountKind :: "ledger \<Rightarrow> account_kind \<Rightarrow> string option \<Rightarrow> ledger_entry list" where
  "forAccountKind l k m = filter (\<lambda>e. de_accountKind e = k \<and> (m = None \<or> de_merchantId e = m)) l"

definition netOf :: "ledger \<Rightarrow> account_kind \<Rightarrow> string option \<Rightarrow> domain_error + money" where
  "netOf l k m = mk_money (JInt (residualMinor (forAccountKind l k m))) ETB"

definition ledger_residual :: "ledger \<Rightarrow> domain_error + money" where
  "ledger_residual l = (if length l = 0 then Inr (zero_money ETB) else mk_money (JInt (residualMinor l)) ETB)"

definition ledger_size :: "ledger \<Rightarrow> nat" where
  "ledger_size l = length l"

section \<open>Reservations and balances\<close>

datatype reservation_state = HELD | RES_UNDER_REVIEW | RELEASED | SETTLED

record reservation =
  rv_id :: string
  rv_merchantId :: string
  rv_transactionId :: string
  rv_amount :: money
  rv_state :: reservation_state
  rv_createdAt :: timestamp
  rv_updatedAt :: timestamp

record balance_view =
  bv_available :: money
  bv_reserved :: money
  bv_underReview :: money
  bv_total :: money

definition createReservation :: "string \<Rightarrow> string \<Rightarrow> string \<Rightarrow> money \<Rightarrow> timestamp \<Rightarrow> domain_error + reservation" where
  "createReservation rid m tx amount t =
     rbind (assertPositive amount) (\<lambda>_.
       Inr \<lparr>rv_id = rid, rv_merchantId = m, rv_transactionId = tx, rv_amount = amount,
            rv_state = HELD, rv_createdAt = t, rv_updatedAt = t\<rparr>)"

definition moveReservation :: "reservation \<Rightarrow> reservation_state \<Rightarrow> timestamp \<Rightarrow> reservation" where
  "moveReservation r s t = r\<lparr>rv_state := s, rv_updatedAt := t\<rparr>"

definition settledBalance :: "string \<Rightarrow> 'a draft_entry_scheme list \<Rightarrow> domain_error + money" where
  "settledBalance m es =
     mk_money (JInt (residualMinor
       (filter (\<lambda>e. isMerchantAccountKind (de_accountKind e) \<and> de_merchantId e = Some m) es))) ETB"

definition js_sum :: "int list \<Rightarrow> int" where
  "js_sum xs = fold (\<lambda>x acc. js_add acc x) xs 0"

definition computeBalance :: "string \<Rightarrow> 'a draft_entry_scheme list \<Rightarrow> reservation list \<Rightarrow> domain_error + balance_view" where
  "computeBalance m es rs =
     (let mine = filter (\<lambda>r. rv_merchantId r = m) rs;
          reservedMinor = js_sum (map (minor \<circ> rv_amount) (filter (\<lambda>r. rv_state r = HELD) mine));
          underReviewMinor = js_sum (map (minor \<circ> rv_amount) (filter (\<lambda>r. rv_state r = RES_UNDER_REVIEW) mine))
      in rbind (settledBalance m es) (\<lambda>tot.
         rbind (mk_money (JInt reservedMinor) ETB) (\<lambda>reserved.
         rbind (mk_money (JInt underReviewMinor) ETB) (\<lambda>underReview.
         rbind (subtract_money tot reserved) (\<lambda>rest.
         rbind (subtract_money rest underReview) (\<lambda>available.
           Inr \<lparr>bv_available = available, bv_reserved = reserved, bv_underReview = underReview, bv_total = tot\<rparr>))))))"

definition assertSufficientAvailable :: "balance_view \<Rightarrow> money \<Rightarrow> domain_error + unit" where
  "assertSufficientAvailable v amount =
     rbind (gte (bv_available v) amount) (\<lambda>ok. if \<not> ok then Inl InsufficientAvailableBalance else Inr ())"

definition assertSameMerchant :: "string \<Rightarrow> string \<Rightarrow> domain_error + unit" where
  "assertSameMerchant expected actual =
     (if expected \<noteq> actual then Inl (CrossMerchantAccess expected actual) else Inr ())"

section \<open>Audit events\<close>

datatype audit_action =
    TRANSACTION_CREATED | TRANSACTION_TRANSITIONED | BALANCE_RESERVED | BALANCE_RELEASED
  | BALANCE_UNDER_REVIEW | LEDGER_POSTED | RECEIPT_REPRINTED | IDEMPOTENT_REPLAY | PROVIDER_SUBMITTED
  | ADJUSTMENT_POSTED | RECOVERY_SCAN_STARTED | RECOVERY_CLAIMED | RECOVERY_DUPLICATE_WORKER_PREVENTED
  | RECOVERY_STATUS_LOOKUP | RECOVERY_OUTCOME_RECEIVED | RECOVERY_RECOVERED_SUCCESSFUL
  | RECOVERY_RECOVERED_FAILED | RECOVERY_MOVED_TO_PENDING | RECOVERY_ESCALATED_UNDER_REVIEW
  | RECOVERY_ATTEMPT_FAILED | MANUAL_REVIEW_CREATED | AUTH_LOGIN_SUCCEEDED | AUTH_LOGIN_FAILED
  | AUTH_LOGGED_OUT | AUTH_SESSION_EXPIRED | AUTH_SESSION_REVOKED | AUTH_LOCKED_OUT | AUTH_RATE_LIMITED
  | AUTH_ACCESS_DENIED | AUTH_CSRF_REJECTED | DEVICE_ENROLLED | DEVICE_REVOKED | DEVICE_REJECTED
  | MERCHANT_SETTINGS_CHANGED | TRAINING_DEPOSIT_CREDITED | PROFIT_TRANSFERRED_TO_BALANCE
  | OPERATOR_PIN_CHANGED | TOPUP_ORDER_CREATED | TOPUP_ORDER_CANCELLED

record audit_actor =
  ac_userId :: string
  ac_role :: actor_role
  ac_deviceId :: "string option"

record audit_event =
  ae_id :: string
  ae_at :: timestamp
  ae_action :: audit_action
  ae_actor :: audit_actor
  ae_merchantId :: string
  ae_transactionId :: "string option"
  ae_before :: "tx_state option"
  ae_after :: "tx_state option"
  ae_detail :: "string option"

type_synonym audit_log = "audit_event list"

definition append_event :: "audit_event \<Rightarrow> audit_log \<Rightarrow> (domain_error + audit_event) \<times> audit_log" where
  "append_event event events =
     (if \<exists>x\<in>set events. ae_id x = ae_id event then (Inl (LedgerImmutable (ae_id event)), events)
      else (Inr event, events @ [event]))"

definition events_forMerchant :: "audit_log \<Rightarrow> string \<Rightarrow> audit_event list" where
  "events_forMerchant es m = filter (\<lambda>e. ae_merchantId e = m) es"

definition events_forTransaction :: "audit_log \<Rightarrow> string \<Rightarrow> audit_event list" where
  "events_forTransaction es tx = filter (\<lambda>e. ae_transactionId e = Some tx) es"

section \<open>The transaction aggregate\<close>

record transition_record =
  tr_from :: tx_state
  tr_to :: tx_state
  tr_at :: timestamp
  tr_reason :: "string option"

record transaction =
  tx_id :: string
  tx_merchantId :: string
  tx_deviceId :: string
  tx_operatorId :: string
  tx_productId :: string
  tx_providerId :: "string option"
  tx_amount :: money
  tx_recipient :: string
  tx_idempotencyKey :: string
  tx_providerReference :: "string option"
  tx_state :: tx_state
  tx_mode :: operating_mode
  tx_createdAt :: timestamp
  tx_updatedAt :: timestamp
  tx_history :: "transition_record list"

text \<open>The argument of \<open>createTransaction\<close>.\<close>

record transaction_input =
  ti_id :: string
  ti_merchantId :: string
  ti_deviceId :: string
  ti_operatorId :: string
  ti_productId :: string
  ti_providerId :: "string option"
  ti_amount :: money
  ti_recipient :: string
  ti_idempotencyKey :: string
  ti_mode :: operating_mode
  ti_at :: timestamp

definition createTransaction :: "transaction_input \<Rightarrow> domain_error + transaction" where
  "createTransaction i =
     rbind (assertSimulated (ti_mode i)) (\<lambda>_.
     rbind (assertPositive (ti_amount i)) (\<lambda>_.
       Inr \<lparr>tx_id = ti_id i, tx_merchantId = ti_merchantId i, tx_deviceId = ti_deviceId i,
            tx_operatorId = ti_operatorId i, tx_productId = ti_productId i, tx_providerId = ti_providerId i,
            tx_amount = ti_amount i, tx_recipient = ti_recipient i, tx_idempotencyKey = ti_idempotencyKey i,
            tx_providerReference = None, tx_state = INITIAL_STATE, tx_mode = ti_mode i,
            tx_createdAt = ti_at i, tx_updatedAt = ti_at i, tx_history = []\<rparr>))"

definition coalesce :: "'a option \<Rightarrow> 'a option \<Rightarrow> 'a option" where
  "coalesce x y = (case x of None \<Rightarrow> y | Some _ \<Rightarrow> x)"

definition transitionTo :: "transaction \<Rightarrow> tx_state \<Rightarrow> timestamp \<Rightarrow> string option \<Rightarrow> string option \<Rightarrow> domain_error + transaction" where
  "transitionTo tx target t reason reference =
     rbind (assertTransition (tx_state tx) target) (\<lambda>_.
       Inr (tx\<lparr>tx_state := target,
               tx_providerReference := coalesce reference (tx_providerReference tx),
               tx_updatedAt := t,
               tx_history := tx_history tx @
                 [\<lparr>tr_from = tx_state tx, tr_to = target, tr_at = t, tr_reason = reason\<rparr>]\<rparr>))"

definition transitionWithAudit ::
  "transaction \<Rightarrow> tx_state \<Rightarrow> timestamp \<Rightarrow> string \<Rightarrow> audit_actor \<Rightarrow> string option \<Rightarrow> string option \<Rightarrow>
   domain_error + (transaction \<times> audit_event)" where
  "transitionWithAudit tx target t auditId actor reason reference =
     rbind (transitionTo tx target t reason reference) (\<lambda>tx'.
       Inr (tx', \<lparr>ae_id = auditId, ae_at = t, ae_action = TRANSACTION_TRANSITIONED, ae_actor = actor,
                  ae_merchantId = tx_merchantId tx, ae_transactionId = Some (tx_id tx),
                  ae_before = Some (tx_state tx), ae_after = Some target, ae_detail = reason\<rparr>))"

definition valueDisposition :: "transaction \<Rightarrow> value_disposition" where
  "valueDisposition tx = VALUE_DISPOSITION (tx_state tx)"

definition isComplete :: "transaction \<Rightarrow> bool" where
  "isComplete tx = isTerminal (tx_state tx)"

definition retryBlocked :: "transaction \<Rightarrow> bool" where
  "retryBlocked tx \<longleftrightarrow> \<not> isTerminal (tx_state tx)"

definition assertOwnedBy :: "transaction \<Rightarrow> string \<Rightarrow> domain_error + unit" where
  "assertOwnedBy tx m = assertSameMerchant (tx_merchantId tx) m"

section \<open>Lemmas: residuals\<close>

definition exact_residual :: "'a draft_entry_scheme list \<Rightarrow> int" where
  "exact_residual es = sum_list (map signedMinor es)"

lemma exact_residual_simps [simp]:
  "exact_residual [] = 0"
  "exact_residual (e # es) = signedMinor e + exact_residual es"
  "exact_residual (es @ fs) = exact_residual es + exact_residual fs"
  by (simp_all add: exact_residual_def)

definition volume :: "'a draft_entry_scheme list \<Rightarrow> int" where
  "volume es = sum_list (map (\<lambda>e. \<bar>minor (de_amount e)\<bar>) es)"

lemma volume_simps [simp]:
  "volume [] = 0" "volume (e # es) = \<bar>minor (de_amount e)\<bar> + volume es"
  "volume (es @ fs) = volume es + volume fs"
  by (simp_all add: volume_def)

lemma volume_nonneg: "0 \<le> volume es"
  by (induction es) simp_all

lemma abs_signedMinor: "\<bar>signedMinor e\<bar> = \<bar>minor (de_amount e)\<bar>"
  by (simp add: signedMinor_def)

lemma fold_residual:
  "\<bar>acc\<bar> + volume es \<le> max_safe \<Longrightarrow>
   fold (\<lambda>e acc. js_add acc (signedMinor e)) es acc = acc + exact_residual es"
proof (induction es arbitrary: acc)
  case Nil
  then show ?case by simp
next
  case (Cons e es)
  have "\<bar>acc + signedMinor e\<bar> \<le> \<bar>acc\<bar> + \<bar>minor (de_amount e)\<bar>"
    using abs_signedMinor [of e] abs_triangle_ineq [of acc "signedMinor e"] by simp
  then have le: "\<bar>acc + signedMinor e\<bar> + volume es \<le> max_safe" using Cons.prems by simp
  then have "safe_int (acc + signedMinor e)" using volume_nonneg [of es] by (simp add: safe_int_def)
  then show ?case using Cons.IH [OF le] by (simp add: js_add_exact)
qed

text \<open>While the amounts together stay in the safe range the floating-point residual is exact.\<close>

lemma residual_exact: "volume es \<le> max_safe \<Longrightarrow> residualMinor es = exact_residual es"
  using fold_residual [of 0 es] by (simp add: residualMinor_def)

lemma assertBalanced_exact: "volume es \<le> max_safe \<Longrightarrow> assertBalanced es = Inr u \<longleftrightarrow> exact_residual es = 0"
  by (simp add: assertBalanced_def residual_exact Let_def)

section \<open>Lemmas: entry numbering\<close>

lemma signedMinor_extend [simp]: "signedMinor (draft_entry.extend d x) = signedMinor d"
  by (simp add: signedMinor_def draft_entry.defs)

lemma number_entries_residual: "exact_residual (number_entries pid t mode i ds) = exact_residual ds"
  by (induction ds arbitrary: i) simp_all

lemma number_entries_volume: "volume (number_entries pid t mode i ds) = volume ds"
  by (induction ds arbitrary: i) (simp_all add: draft_entry.defs)

lemma number_entries_ids:
  "map le_id (number_entries pid t mode i ds) = map (entry_id pid) [i..<i + length ds]"
proof (induction ds arbitrary: i)
  case Nil
  then show ?case by simp
next
  case (Cons d ds)
  have "[i..<i + length (d # ds)] = i # [Suc i..<Suc i + length ds]" by (simp add: upt_rec)
  then show ?case using Cons by (simp add: draft_entry.defs ledger_entry.defs)
qed

lemma number_entries_posting: "e \<in> set (number_entries pid t mode i ds) \<Longrightarrow> le_postingId e = pid"
  by (induction ds arbitrary: i) (auto simp: draft_entry.defs ledger_entry.defs)

lemma dec_nat_inj: "dec_nat m = dec_nat n \<Longrightarrow> m = n"
proof -
  assume eq: "dec_nat m = dec_nat n"
  obtain j where "span_digits 10 0 0 (dec_nat m) = (int m, Suc j, [])" using span_dec_nat by blast
  moreover obtain k where "span_digits 10 0 0 (dec_nat n) = (int n, Suc k, [])" using span_dec_nat by blast
  ultimately have "int m = int n" unfolding eq by (simp only: prod.inject)
  then show "m = n" by simp
qed

lemma dec_nat_no_underscore: "CHR ''_'' \<notin> set (dec_nat n)"
  using digits_dec_nat [of n] by (auto simp: list_all_iff digit_in_def)

lemma takeWhile_to_separator: "c \<notin> set bs \<Longrightarrow> takeWhile (\<lambda>x. x \<noteq> c) (bs @ c # as) = bs"
  by (induction bs) auto

lemma split_last_separator:
  assumes "xs @ c # ys = us @ c # vs" "c \<notin> set ys" "c \<notin> set vs"
  shows "xs = us \<and> ys = vs"
proof -
  have "rev ys @ c # rev xs = rev vs @ c # rev us"
    using arg_cong [OF assms(1), of rev] by simp
  then have "rev ys = rev vs"
    using takeWhile_to_separator [of c "rev ys" "rev xs"] takeWhile_to_separator [of c "rev vs" "rev us"] assms(2,3)
    by simp
  then show ?thesis using assms(1) by simp
qed

lemma entry_id_inj: "entry_id p i = entry_id q j \<longleftrightarrow> p = q \<and> i = j"
proof
  assume "entry_id p i = entry_id q j"
  then have "p @ CHR ''_'' # dec_nat i = q @ CHR ''_'' # dec_nat j" by (simp add: entry_id_def)
  then have "p = q \<and> dec_nat i = dec_nat j"
    by (rule split_last_separator) (rule dec_nat_no_underscore)+
  then show "p = q \<and> i = j" using dec_nat_inj by blast
qed simp

lemma number_entries_distinct: "distinct (map le_id (number_entries pid t mode i ds))"
  unfolding number_entries_ids by (simp add: distinct_map inj_on_def entry_id_inj)

section \<open>The ledger and the audit log are append-only\<close>

definition numbered :: "ledger \<Rightarrow> bool" where
  "numbered l \<longleftrightarrow> (\<forall>e\<in>set l. \<exists>i. le_id e = entry_id (le_postingId e) i) \<and> distinct (map le_id l)"

lemma post_cases:
  obtains (refused) e where "post (pid, ds, t, mode) l = (Inl e, l)"
  | (written) "assertBalanced ds = Inr ()" "\<forall>e\<in>set l. le_postingId e \<noteq> pid" "mode = TRAINING"
      "post (pid, ds, t, mode) l =
         (Inr (number_entries pid t mode 0 ds), l @ number_entries pid t mode 0 ds)"
proof (cases "mode = TRAINING \<and> ds \<noteq> [] \<and> assertBalanced ds = Inr () \<and> (\<forall>e\<in>set l. le_postingId e \<noteq> pid)")
  case True
  then show thesis by (intro written) (auto simp: post_def assertSimulated_def Let_def)
next
  case False
  then have "\<exists>e. post (pid, ds, t, mode) l = (Inl e, l)"
    by (auto simp: post_def assertSimulated_def Let_def split: sum.splits)
  then show thesis using refused by blast
qed

lemma number_entries_numbered:
  "e \<in> set (number_entries pid t mode i ds) \<Longrightarrow> \<exists>j. le_id e = entry_id pid j"
  using number_entries_ids [of pid t mode i ds] by (metis (no_types, lifting) in_set_conv_nth length_map nth_map)

lemma numbered_append:
  assumes "numbered l" "\<forall>e\<in>set l. le_postingId e \<noteq> pid"
  shows "numbered (l @ number_entries pid t mode 0 ds)"
proof -
  let ?new = "number_entries pid t mode 0 ds"
  have "le_id e \<noteq> le_id f" if "e \<in> set l" "f \<in> set ?new" for e f
    using that assms number_entries_numbered [of f pid t mode 0 ds] by (auto simp: numbered_def entry_id_inj)
  then have "distinct (map le_id (l @ ?new))"
    using assms(1) number_entries_distinct [of pid t mode 0 ds] by (auto simp: numbered_def)
  moreover have "\<forall>e\<in>set (l @ ?new). \<exists>i. le_id e = entry_id (le_postingId e) i"
    using assms(1) number_entries_numbered [of _ pid t mode 0 ds] number_entries_posting [of _ pid t mode 0 ds]
    by (auto simp: numbered_def)
  ultimately show ?thesis by (simp add: numbered_def)
qed

interpretation led: append_only "\<lambda>l. l" post le_id numbered
proof
  fix p :: "string \<times> draft_entry list \<times> timestamp \<times> operating_mode" and l :: ledger and e
  obtain pid ds t mode where p: "p = (pid, ds, t, mode)" by (cases p)
  show "prefix l (snd (post p l))" unfolding p by (rule post_cases [of pid ds t mode l]) simp_all
  show "fst (post p l) = Inl e \<Longrightarrow> snd (post p l) = l"
    unfolding p by (rule post_cases [of pid ds t mode l]) simp_all
  show "numbered l \<Longrightarrow> numbered (snd (post p l))"
    unfolding p by (rule post_cases [of pid ds t mode l]) (simp_all add: numbered_append)
  show "numbered l \<Longrightarrow> distinct (map le_id l)" by (simp add: numbered_def)
qed

interpretation audit_trail: append_only "\<lambda>l. l" append_event ae_id "\<lambda>l. distinct (map ae_id l)"
  by unfold_locales (auto simp: append_event_def split: if_splits)

definition post_all :: "(string \<times> draft_entry list \<times> timestamp \<times> operating_mode) list \<Rightarrow> ledger \<Rightarrow> ledger" where
  "post_all ps l = fold (\<lambda>p l. snd (post p l)) ps l"

lemma post_all_eq: "post_all ps l = led.append_all ps l"
  by (simp add: post_all_def led.append_all_def)

text \<open>
  C26. The ledger is append-only: after any sequence of postings, further postings leave every entry
  written so far in its place, and no two entries ever share an id, so none is posted twice.
\<close>

theorem ledger_append_only:
  "prefix (post_all ps []) (post_all (ps @ qs) []) \<and> distinct (map le_id (post_all (ps @ qs) []))"
proof -
  have "post_all (ps @ qs) [] = led.append_all qs (led.append_all ps [])"
    by (simp add: post_all_eq led.append_all_def)
  moreover have "numbered []" by (simp add: numbered_def)
  ultimately show ?thesis
    using led.append_all_prefix led.append_all_distinct led.append_all_inv post_all_eq by metis
qed

lemma post_all_balanced:
  "volume (post_all ps []) \<le> max_safe \<Longrightarrow> exact_residual (post_all ps []) = 0"
proof (induction ps rule: rev_induct)
  case Nil
  then show ?case by (simp add: post_all_def)
next
  case (snoc p ps)
  obtain pid ds t mode where p: "p = (pid, ds, t, mode)" by (cases p)
  let ?l = "post_all ps []"
  have step: "post_all (ps @ [p]) [] = snd (post (pid, ds, t, mode) ?l)"
    by (simp add: post_all_def p)
  show ?case
  proof (rule post_cases [of pid ds t mode ?l])
    fix e
    assume "post (pid, ds, t, mode) ?l = (Inl e, ?l)"
    then show ?thesis using snoc step by simp
  next
    assume w: "assertBalanced ds = Inr ()"
      "post (pid, ds, t, mode) ?l = (Inr (number_entries pid t mode 0 ds), ?l @ number_entries pid t mode 0 ds)"
    have "volume ?l + volume ds \<le> max_safe" using snoc.prems step w(2) by (simp add: number_entries_volume)
    then have "volume ?l \<le> max_safe" "volume ds \<le> max_safe"
      using volume_nonneg [of ds] volume_nonneg [of ?l] by simp_all
    then have "exact_residual ds = 0" "exact_residual ?l = 0"
      using w(1) snoc.IH assertBalanced_exact by blast+
    then show ?thesis using step w(2) by (simp add: number_entries_residual)
  qed
qed

text \<open>
  Double entry holds over the whole ledger: as long as the amounts posted together stay below
  \<open>2^53\<close>, the residual the ledger reports after any sequence of postings is zero.
\<close>

theorem ledger_residual_zero:
  assumes "volume (post_all ps []) \<le> max_safe"
  shows "ledger_residual (post_all ps []) = Inr (zero_money ETB)"
  using assms post_all_balanced [OF assms]
  by (simp add: ledger_residual_def residual_exact mk_money_def safe_int_def max_safe_eq zero_money_def)

definition sample_draft :: "account_kind \<Rightarrow> direction \<Rightarrow> int \<Rightarrow> draft_entry" where
  "sample_draft k d n =
     \<lparr>de_accountId = ''a'', de_accountKind = k, de_merchantId = Some ''m'', de_transactionId = None,
      de_direction = d, de_amount = \<lparr>currency = ETB, minor = n\<rparr>, de_reason = FUNDING_CREDIT,
      de_ruleVersion = None, de_providerReference = None, de_memo = None\<rparr>"

definition sample_posts :: "(string \<times> draft_entry list \<times> timestamp \<times> operating_mode) list" where
  "sample_posts =
     [(''p1'', [sample_draft MERCHANT_FUNDS CREDIT 500, sample_draft BANK_CLEARING DEBIT 500], ''t'', TRAINING),
      (''p1'', [sample_draft MERCHANT_FUNDS CREDIT 900, sample_draft BANK_CLEARING DEBIT 900], ''t'', TRAINING),
      (''p2'', [sample_draft MERCHANT_FUNDS CREDIT 900], ''t'', TRAINING)]"

theorem ledger_residual_zero_witness:
  "length (post_all sample_posts []) = 2 \<and> ledger_residual (post_all sample_posts []) = Inr (zero_money ETB)"
proof -
  have "length (post_all sample_posts []) = 2 \<and> volume (post_all sample_posts []) \<le> max_safe" by code_simp
  then show ?thesis using ledger_residual_zero by blast
qed

section \<open>The life of a transaction\<close>

definition apply_transitions :: "(tx_state \<times> timestamp \<times> string option \<times> string option) list \<Rightarrow> transaction \<Rightarrow> domain_error + transaction" where
  "apply_transitions ms tx =
     fold (\<lambda>(target, t, reason, reference) r. rbind r (\<lambda>tx. transitionTo tx target t reason reference)) ms (Inr tx)"

lemma moves_snoc: "moves a bs b \<Longrightarrow> canTransition b c \<Longrightarrow> moves a (bs @ [c]) c"
  by (induction rule: moves.induct) (auto intro: moves.intros)

definition lawful_history :: "transaction \<Rightarrow> transaction \<Rightarrow> bool" where
  "lawful_history tx0 tx \<longleftrightarrow>
     moves (tx_state tx0) (map tr_to (drop (length (tx_history tx0)) (tx_history tx))) (tx_state tx) \<and>
     prefix (tx_history tx0) (tx_history tx) \<and>
     tx_id tx = tx_id tx0 \<and> tx_merchantId tx = tx_merchantId tx0 \<and> tx_amount tx = tx_amount tx0 \<and>
     tx_idempotencyKey tx = tx_idempotencyKey tx0"

lemma lawful_history_step:
  assumes "lawful_history tx0 tx" "transitionTo tx target t reason reference = Inr tx'"
  shows "lawful_history tx0 tx'"
proof -
  have can: "canTransition (tx_state tx) target" and tx': "tx' = tx\<lparr>tx_state := target,
      tx_providerReference := coalesce reference (tx_providerReference tx), tx_updatedAt := t,
      tx_history := tx_history tx @ [\<lparr>tr_from = tx_state tx, tr_to = target, tr_at = t, tr_reason = reason\<rparr>]\<rparr>"
    using assms(2) by (auto simp: transitionTo_def rbind_Inr_iff)
  have "length (tx_history tx0) \<le> length (tx_history tx)"
    using assms(1) by (auto simp: lawful_history_def prefix_def)
  then show ?thesis
    using assms(1) can moves_snoc unfolding tx' lawful_history_def by (auto simp: prefix_def)
qed

lemma apply_transitions_lawful: "apply_transitions ms tx0 = Inr tx \<Longrightarrow> lawful_history tx0 tx"
proof (induction ms arbitrary: tx rule: rev_induct)
  case Nil
  then show ?case by (simp add: apply_transitions_def lawful_history_def moves_nil)
next
  case (snoc m ms)
  obtain target t reason reference where m: "m = (target, t, reason, reference)" by (cases m)
  from snoc.prems obtain tx1 where "apply_transitions ms tx0 = Inr tx1" "transitionTo tx1 target t reason reference = Inr tx"
    by (auto simp: apply_transitions_def m rbind_Inr_iff)
  then show ?case using snoc.IH lawful_history_step by blast
qed

text \<open>
  C27. A sale has one life: whatever sequence of transitions is applied to a new transaction, the
  recorded history is a path of legal moves from CREATED to its state, at most eight moves long, its
  identity and amount never change, and once terminal it refuses every further transition.
\<close>

theorem transaction_life:
  assumes "createTransaction i = Inr tx0" and "apply_transitions ms tx0 = Inr tx"
  shows "moves CREATED (map tr_to (tx_history tx)) (tx_state tx) \<and> length (tx_history tx) \<le> 8 \<and>
    tx_id tx = ti_id i \<and> tx_merchantId tx = ti_merchantId i \<and> tx_amount tx = ti_amount i \<and>
    tx_idempotencyKey tx = ti_idempotencyKey i \<and>
    (isTerminal (tx_state tx) \<longrightarrow> transitionTo tx target t reason reference = Inl (TerminalState (tx_state tx) target))"
proof -
  have tx0: "tx_state tx0 = CREATED" "tx_history tx0 = []" "tx_id tx0 = ti_id i" "tx_merchantId tx0 = ti_merchantId i"
    "tx_amount tx0 = ti_amount i" "tx_idempotencyKey tx0 = ti_idempotencyKey i"
    using assms(1) by (auto simp: createTransaction_def rbind_Inr_iff INITIAL_STATE_def)
  note law = apply_transitions_lawful [OF assms(2), unfolded lawful_history_def tx0]
  then have m: "moves CREATED (map tr_to (tx_history tx)) (tx_state tx)" by simp
  have "length (tx_history tx) \<le> 8" using moves_rank [OF m] by simp
  moreover have "isTerminal (tx_state tx) \<Longrightarrow> transitionTo tx target t reason reference = Inl (TerminalState (tx_state tx) target)"
    by (simp add: transitionTo_def assertTransition_def canTransition_def isTerminal_iff)
  ultimately show ?thesis using law m by simp
qed

definition sample_input :: transaction_input where
  "sample_input = \<lparr>ti_id = ''tx1'', ti_merchantId = ''m'', ti_deviceId = ''d'', ti_operatorId = ''o'',
     ti_productId = ''p'', ti_providerId = None, ti_amount = \<lparr>currency = ETB, minor = 1000\<rparr>,
     ti_recipient = ''0911'', ti_idempotencyKey = ''k'', ti_mode = TRAINING, ti_at = ''t0''\<rparr>"

theorem transaction_life_witness:
  "\<exists>tx0 tx. createTransaction sample_input = Inr tx0 \<and>
     apply_transitions [(VALIDATED, ''t1'', None, None), (REJECTED, ''t2'', None, None)] tx0 = Inr tx \<and>
     transitionTo tx SUCCESSFUL ''t3'' None None = Inl (TerminalState REJECTED SUCCESSFUL)"
proof -
  define tx0 where "tx0 = (case createTransaction sample_input of Inr x \<Rightarrow> x)"
  define tx where "tx = (case apply_transitions [(VALIDATED, ''t1'', None, None), (REJECTED, ''t2'', None, None)] tx0 of Inr x \<Rightarrow> x)"
  have 1: "createTransaction sample_input = Inr tx0" unfolding tx0_def by code_simp
  have 2: "apply_transitions [(VALIDATED, ''t1'', None, None), (REJECTED, ''t2'', None, None)] tx0 = Inr tx"
    unfolding tx_def tx0_def by code_simp
  have 3: "tx_state tx = REJECTED" unfolding tx_def tx0_def by code_simp
  then have "isTerminal (tx_state tx)" by (simp add: isTerminal_iff)
  then have "transitionTo tx SUCCESSFUL ''t3'' None None = Inl (TerminalState REJECTED SUCCESSFUL)"
    using transaction_life [OF 1 2, of SUCCESSFUL "''t3''" None None] 3 by simp
  with 1 2 show ?thesis by blast
qed

end
