(* ===== verification/Tables.thy ===== *)
theory Tables
  imports Ledger Commission
begin

text \<open>
  Tables and programs over a database. A table is the list of its rows in insertion order; the
  SQL statements the code uses are functions on it. A program is a function of the world (the
  database, how often the clock and the id generator were asked, and the calls made to the
  provider) that returns a value or an error; \<open>transaction\<close> restores the database, and only
  the database, when its body fails, as a SQLite transaction or savepoint does.

  \<open>guarded_rows\<close> is the contract of a conditional update
  \<open>UPDATE ... SET status = .. WHERE id = .. AND status = ..\<close> whose row count the caller tests:
  the concurrency guard of reservations, pending jobs, claims and orders.
\<close>

section \<open>Tables\<close>

definition update_where :: "('r \<Rightarrow> bool) \<Rightarrow> ('r \<Rightarrow> 'r) \<Rightarrow> 'r list \<Rightarrow> 'r list" where
  "update_where P g rows = map (\<lambda>r. if P r then g r else r) rows"

definition count_where :: "('r \<Rightarrow> bool) \<Rightarrow> 'r list \<Rightarrow> nat" where
  "count_where P rows = length (filter P rows)"

definition order_by :: "('r \<Rightarrow> string) \<Rightarrow> ('r \<Rightarrow> string) \<Rightarrow> 'r list \<Rightarrow> 'r list" where
  "order_by f g rows = sort_key f (sort_key g rows)"

definition guarded_move ::
  "('r \<Rightarrow> 'k) \<Rightarrow> ('r \<Rightarrow> 's) \<Rightarrow> ('s \<Rightarrow> 'r \<Rightarrow> 'r) \<Rightarrow> 'k \<Rightarrow> 's \<Rightarrow> 's \<Rightarrow> 'r list \<Rightarrow> bool \<times> 'r list" where
  "guarded_move key status put k from target rows =
     (count_where (\<lambda>r. key r = k \<and> status r = from) rows = 1,
      update_where (\<lambda>r. key r = k \<and> status r = from) (put target) rows)"

lemma length_update_where [simp]: "length (update_where P g rows) = length rows"
  by (simp add: update_where_def)

lemma update_where_none: "count_where P rows = 0 \<Longrightarrow> update_where P g rows = rows"
  by (induction rows) (auto simp: update_where_def count_where_def split: if_splits)

lemma set_order_by [simp]: "set (order_by f g rows) = set rows"
  by (simp add: order_by_def)

lemma count_where_unique:
  assumes "distinct (map key rows)"
  shows "count_where (\<lambda>r. key r = k \<and> P r) rows \<le> 1"
  using assms
proof (induction rows)
  case Nil
  then show ?case by (simp add: count_where_def)
next
  case (Cons r rows)
  have "filter (\<lambda>s. key s = k \<and> P s) rows = []" if "key r = k"
    using Cons.prems that by (auto simp: filter_empty_conv image_iff)
  then show ?case using Cons by (auto simp: count_where_def)
qed

lemma count_where_pos: "0 < count_where P rows \<longleftrightarrow> (\<exists>r\<in>set rows. P r)"
  by (auto simp: count_where_def filter_empty_conv)

lemma count_where_zero: "count_where P rows = 0 \<longleftrightarrow> (\<forall>r\<in>set rows. \<not> P r)"
  by (simp add: count_where_def filter_empty_conv)

locale guarded_rows =
  fixes key :: "'r \<Rightarrow> 'k"
    and status :: "'r \<Rightarrow> 's"
    and put :: "'s \<Rightarrow> 'r \<Rightarrow> 'r"
  assumes key_put: "key (put s r) = key r"
    and status_put: "status (put s r) = s"
begin

lemma map_key_move: "map key (snd (guarded_move key status put k from target rows)) = map key rows"
  by (auto simp: guarded_move_def update_where_def key_put)

text \<open>With unique keys the move happens exactly when a row is in the state asked for.\<close>

lemma move_iff:
  "distinct (map key rows) \<Longrightarrow>
   fst (guarded_move key status put k from target rows) \<longleftrightarrow> (\<exists>r\<in>set rows. key r = k \<and> status r = from)"
proof -
  assume "distinct (map key rows)"
  then have "count_where (\<lambda>r. key r = k \<and> status r = from) rows \<le> 1" by (rule count_where_unique)
  then have "count_where (\<lambda>r. key r = k \<and> status r = from) rows = 1 \<longleftrightarrow>
      0 < count_where (\<lambda>r. key r = k \<and> status r = from) rows" by linarith
  then show ?thesis by (simp add: guarded_move_def count_where_pos)
qed

lemma move_refused_unchanged:
  assumes "distinct (map key rows)" "\<not> fst (guarded_move key status put k from target rows)"
  shows "snd (guarded_move key status put k from target rows) = rows"
proof -
  have "\<not> (\<exists>r\<in>set rows. key r = k \<and> status r = from)" using assms move_iff by blast
  then have "count_where (\<lambda>r. key r = k \<and> status r = from) rows = 0"
    by (simp only: count_where_zero) blast
  then show ?thesis by (simp add: guarded_move_def update_where_none)
qed

text \<open>After a move out of a state the same move is refused: only one caller ever wins.\<close>

lemma move_once:
  assumes "from \<noteq> target"
  shows "\<not> fst (guarded_move key status put k from target' (snd (guarded_move key status put k from target rows)))"
proof -
  let ?rows = "update_where (\<lambda>r. key r = k \<and> status r = from) (put target) rows"
  have "\<not> (key r = k \<and> status r = from)" if r: "r \<in> set ?rows" for r
  proof -
    from r obtain s where "r = (if key s = k \<and> status s = from then put target s else s)"
      unfolding update_where_def set_map by (rule imageE)
    then show ?thesis using assms by (cases "key s = k \<and> status s = from") (simp_all add: status_put)
  qed
  then have "count_where (\<lambda>r. key r = k \<and> status r = from) ?rows = 0"
    by (simp only: count_where_zero) blast
  then show ?thesis by (simp add: guarded_move_def)
qed

lemma move_only_there:
  "s \<in> set (snd (guarded_move key status put k from target rows)) \<Longrightarrow>
   s \<in> set rows \<or> (\<exists>r\<in>set rows. key r = k \<and> status r = from \<and> s = put target r)"
  by (auto simp: guarded_move_def update_where_def)

end

section \<open>Programs\<close>

datatype constraint = PRIMARYKEY | UNIQUE | CHECK | FOREIGNKEY | TRIGGER

datatype persistence_code =
    MIGRATION_FAILED | MIGRATION_CHECKSUM_MISMATCH | LEDGER_APPEND_ONLY_VIOLATION
  | DUPLICATE_IDEMPOTENCY_RECORD | MERCHANT_SCOPE_VIOLATION | ACCOUNT_NOT_FOUND | DRIVER_CLOSED
  | UNSUPPORTED_MODE

text \<open>What a program can throw: a domain error, a persistence error, a SQLite constraint, a plain \<open>Error\<close>, an
  \<open>Error\<close> with a name and a code.\<close>

datatype err =
    DomainErr domain_error
  | PersistErr persistence_code
  | SqliteErr constraint
  | RateErr rate_error
  | RangeErr
  | OtherErr string
  | ErrorWith string string

type_synonym ('w, 'a) program = "'w \<Rightarrow> (err + 'a) \<times> 'w"

definition ret :: "'a \<Rightarrow> ('w, 'a) program" where
  "ret x w = (Inr x, w)"

definition throw :: "err \<Rightarrow> ('w, 'a) program" where
  "throw e w = (Inl e, w)"

definition bnd :: "('w, 'a) program \<Rightarrow> ('a \<Rightarrow> ('w, 'b) program) \<Rightarrow> ('w, 'b) program" where
  "bnd m f w = (case m w of (Inl e, w') \<Rightarrow> (Inl e, w') | (Inr x, w') \<Rightarrow> f x w')"

definition seq :: "('w, unit) program \<Rightarrow> ('w, 'b) program \<Rightarrow> ('w, 'b) program" where
  "seq m n = bnd m (\<lambda>_. n)"

definition require :: "bool \<Rightarrow> err \<Rightarrow> ('w, unit) program" where
  "require b e = (if b then ret () else throw e)"

definition lift_domain :: "domain_error + 'a \<Rightarrow> ('w, 'a) program" where
  "lift_domain r = (case r of Inl e \<Rightarrow> throw (DomainErr e) | Inr x \<Rightarrow> ret x)"

definition try_catch :: "('w, 'a) program \<Rightarrow> (err \<Rightarrow> ('w, 'a) program) \<Rightarrow> ('w, 'a) program" where
  "try_catch m h w = (case m w of (Inl e, w') \<Rightarrow> h e w' | (Inr x, w') \<Rightarrow> (Inr x, w'))"

lemma ret_iff [simp]: "ret x w = (r, w') \<longleftrightarrow> r = Inr x \<and> w' = w"
  by (auto simp: ret_def)

lemma throw_iff [simp]: "throw e w = (r, w') \<longleftrightarrow> r = Inl e \<and> w' = w"
  by (auto simp: throw_def)

lemma bnd_Inr: "bnd m f w = (Inr y, w') \<longleftrightarrow> (\<exists>x w1. m w = (Inr x, w1) \<and> f x w1 = (Inr y, w'))"
  by (auto simp: bnd_def split: prod.splits sum.splits)

lemma bnd_Inl:
  "bnd m f w = (Inl e, w') \<longleftrightarrow>
   m w = (Inl e, w') \<or> (\<exists>x w1. m w = (Inr x, w1) \<and> f x w1 = (Inl e, w'))"
  by (auto simp: bnd_def split: prod.splits sum.splits)

lemma seq_Inr: "seq m n w = (Inr y, w') \<longleftrightarrow> (\<exists>w1. m w = (Inr (), w1) \<and> n w1 = (Inr y, w'))"
  by (auto simp: seq_def bnd_Inr)

lemma require_Inr [simp]: "require b e w = (Inr u, w') \<longleftrightarrow> b \<and> w' = w"
  by (auto simp: require_def)

lemma require_run: "require b e w = (if b then Inr () else Inl e, w)"
  by (simp add: require_def ret_def throw_def)

lemma lift_domain_Inr [simp]: "lift_domain r w = (Inr x, w') \<longleftrightarrow> r = Inr x \<and> w' = w"
  by (auto simp: lift_domain_def split: sum.splits)

lemma bnd_ret: "bnd (ret x) f = f x"
  by (auto simp: bnd_def ret_def fun_eq_iff)

lemma bnd_assoc: "bnd (bnd m f) g = bnd m (\<lambda>x. bnd (f x) g)"
  by (auto simp: bnd_def fun_eq_iff split: prod.splits sum.splits)

end
