(* ===== verification/Store.thy ===== *)
theory Store
  imports Tables
begin

text \<open>
  The database of \<open>packages/persistence\<close>: one record type per table (\<open>schema/types.ts\<close>), the
  database as the record of all tables, and the repositories (\<open>src/repositories\<close>) as programs.
  The constraints of the migrations (primary and unique keys, CHECKs, foreign keys) that an INSERT or
  UPDATE of the code can run into are tests that throw; foreign keys are on, as \<open>connection.ts\<close> sets
  them. A nullable column is an option. SQL integers are unbounded here: a sum over a ledger stays
  far below the engine's 64 bits.
\<close>

section \<open>Rows\<close>

datatype merchant_status = MER_ONBOARDING | MER_ACTIVE | MER_SUSPENDED | MER_CLOSED

datatype device_status = DEV_REGISTERED | DEV_ACTIVE | DEV_STOPPED | DEV_LOST

record merchant_row =
  me_id :: string
  me_status :: merchant_status
  me_createdAt :: timestamp
  me_updatedAt :: timestamp

record device_row =
  dv_id :: string
  dv_merchantId :: string
  dv_status :: device_status
  dv_deviceType :: string
  dv_createdAt :: timestamp
  dv_updatedAt :: timestamp

record transaction_row =
  tw_id :: string
  tw_merchantId :: string
  tw_deviceId :: string
  tw_operatorId :: "string option"
  tw_productType :: string
  tw_providerId :: "string option"
  tw_amountMinor :: int
  tw_currency :: currency
  tw_recipientMasked :: string
  tw_recipientHash :: string
  tw_state :: tx_state
  tw_idempotencyKey :: string
  tw_payloadFingerprint :: string
  tw_providerReference :: "string option"
  tw_mode :: operating_mode
  tw_createdAt :: timestamp
  tw_updatedAt :: timestamp

record idempotency_row =
  iw_key :: string
  iw_merchantId :: string
  iw_requestIdentity :: string
  iw_payloadFingerprint :: string
  iw_transactionId :: string
  iw_resultState :: "tx_state option"
  iw_createdAt :: timestamp
  iw_updatedAt :: timestamp

record account_row =
  aw_id :: string
  aw_merchantId :: "string option"
  aw_accountType :: account_kind
  aw_createdAt :: timestamp

record entry_row =
  ew_id :: string
  ew_postingId :: string
  ew_transactionId :: "string option"
  ew_accountId :: string
  ew_merchantId :: "string option"
  ew_accountType :: account_kind
  ew_direction :: direction
  ew_amountMinor :: int
  ew_currency :: currency
  ew_entryType :: entry_reason
  ew_correlationId :: string
  ew_ruleVersion :: "string option"
  ew_providerReference :: "string option"
  ew_metadata :: "string option"
  ew_mode :: operating_mode
  ew_createdAt :: timestamp

record reservation_row =
  rr_id :: string
  rr_merchantId :: string
  rr_transactionId :: string
  rr_amountMinor :: int
  rr_currency :: currency
  rr_status :: reservation_state
  rr_correlationId :: string
  rr_createdAt :: timestamp
  rr_updatedAt :: timestamp
  rr_releasedAt :: "timestamp option"

record audit_row =
  uw_id :: string
  uw_actorType :: actor_role
  uw_actorId :: string
  uw_eventType :: audit_action
  uw_entityType :: string
  uw_entityId :: "string option"
  uw_merchantId :: string
  uw_correlationId :: string
  uw_metadata :: "string option"
  uw_createdAt :: timestamp

datatype pending_status = AWAITING | PR_RESOLVED | ESCALATED

record pending_row =
  pw_transactionId :: string
  pw_merchantId :: string
  pw_idempotencyKey :: string
  pw_providerReference :: "string option"
  pw_correlationId :: string
  pw_attempts :: int
  pw_status :: pending_status
  pw_firstPendingAt :: timestamp
  pw_lastAttemptAt :: "timestamp option"
  pw_deadlineAt :: timestamp
  pw_createdAt :: timestamp
  pw_updatedAt :: timestamp
  pw_nextCheckAt :: "timestamp option"
  pw_lastOutcomeCategory :: "string option"
  pw_currentState :: "string option"
  pw_manualReviewStatus :: string

datatype support_reason = SR_UNDER_REVIEW | SR_REVERSAL_REQUIRED | SR_MERCHANT_REPORTED | SR_PROVIDER_DISPUTE

datatype support_status = SC_OPEN | SC_AWAITING_PROVIDER | SC_RESOLVED | SC_CLOSED

record support_row =
  sw_id :: string
  sw_merchantId :: string
  sw_transactionId :: "string option"
  sw_reason :: support_reason
  sw_status :: support_status
  sw_reference :: string
  sw_correlationId :: string
  sw_createdAt :: timestamp
  sw_updatedAt :: timestamp
  sw_approvedBy :: "string option"
  sw_approvedAt :: "timestamp option"

datatype claim_status = CL_ACTIVE | CL_RELEASED

record claim_row =
  cw_transactionId :: string
  cw_workerId :: string
  cw_scanId :: string
  cw_attemptNo :: int
  cw_claimedAt :: timestamp
  cw_expiresAt :: timestamp
  cw_releasedAt :: "timestamp option"
  cw_status :: claim_status
  cw_createdAt :: timestamp
  cw_updatedAt :: timestamp

record fee_settings =
  fs_defaultCommissionBps :: int
  fs_shopShareBps :: int
  fs_cardFeeBps :: int
  fs_softwareFeeMinor :: int
  fs_softwareFeeEnabled :: bool
  fs_softwareFeeFirstPeriod :: "string option"
  fs_updatedByAdminId :: "string option"
  fs_updatedAt :: timestamp

record rate_row =
  pr_id :: string
  pr_providerId :: string
  pr_productType :: "string option"
  pr_commissionBps :: int
  pr_source :: string
  pr_status :: rule_status
  pr_createdByAdminId :: "string option"
  pr_createdAt :: timestamp
  pr_updatedAt :: timestamp

datatype settlement_status = UNSETTLED | COM_SETTLED | DISPUTED

record commission_row =
  kw_id :: string
  kw_transactionId :: string
  kw_merchantId :: string
  kw_providerId :: "string option"
  kw_productType :: string
  kw_transactionAmountMinor :: int
  kw_providerCommissionBps :: int
  kw_shopShareBps :: int
  kw_providerCommissionMinor :: int
  kw_shopShareMinor :: int
  kw_telgaShareMinor :: int
  kw_cardFeeMinor :: int
  kw_settlementStatus :: settlement_status
  kw_reversed :: bool
  kw_reversedAt :: "timestamp option"
  kw_reversalTransactionId :: "string option"
  kw_createdAt :: timestamp

datatype charge_status = PAID | ARREARS | WAIVED

record charge_row =
  gw_id :: string
  gw_merchantId :: string
  gw_period :: string
  gw_amountMinor :: int
  gw_status :: charge_status
  gw_postingId :: "string option"
  gw_chargedAt :: "timestamp option"
  gw_waivedReason :: "string option"
  gw_waivedByAdminId :: "string option"
  gw_createdAt :: timestamp

datatype order_status = ORD_OPEN | ORD_AUTHORIZED | ORD_CANCELLED | ORD_EXPIRED

record order_row =
  ow_id :: string
  ow_merchantId :: string
  ow_deviceId :: string
  ow_operatorId :: string
  ow_sessionId :: string
  ow_network :: string
  ow_productType :: string
  ow_productId :: string
  ow_amountMinor :: int
  ow_quantity :: int
  ow_totalMinor :: int
  ow_clientRequestId :: string
  ow_status :: order_status
  ow_createdAt :: timestamp
  ow_expiresAt :: timestamp
  ow_transactionId :: "string option"
  ow_recipient :: "string option"

text \<open>What a merchant asks and Telga decides: reversals, complaints, transfers between shops.\<close>

datatype reversal_status = RV_REQUESTED | RV_NEEDS_APPROVAL | RV_APPROVED | RV_REFUSED | RV_SETTLED

record reversal_row =
  zr_id :: string
  zr_transactionId :: string
  zr_merchantId :: string
  zr_requestedBy :: string
  zr_deviceId :: string
  zr_reason :: string
  zr_amountMinor :: int
  zr_redemption :: string
  zr_status :: reversal_status
  zr_decidedBy :: "string option"
  zr_decidedAt :: "timestamp option"
  zr_decisionReason :: "string option"
  zr_reversalEntryId :: "string option"
  zr_correlationId :: string
  zr_createdAt :: timestamp
  zr_updatedAt :: timestamp

record complaint_row =
  zc_id :: string
  zc_supportCaseId :: string
  zc_merchantId :: string
  zc_description :: string
  zc_telgaState :: "string option"
  zc_providerState :: "string option"
  zc_redemption :: "string option"
  zc_verdict :: "string option"
  zc_reviewedBy :: "string option"
  zc_reviewedAt :: "timestamp option"
  zc_verdictReason :: "string option"
  zc_createdAt :: timestamp
  zc_updatedAt :: timestamp

datatype transfer_status = XT_REQUESTED | XT_NEEDS_APPROVAL | XT_SETTLED | XT_REFUSED

record transfer_row =
  zx_id :: string
  zx_senderMerchantId :: string
  zx_senderDeviceId :: string
  zx_senderOperatorId :: string
  zx_recipientDeviceId :: string
  zx_recipientMerchantId :: string
  zx_amountMinor :: int
  zx_feeMinor :: int
  zx_status :: transfer_status
  zx_refusalReason :: "string option"
  zx_approvedBy :: "string option"
  zx_approvedAt :: "timestamp option"
  zx_postingId :: "string option"
  zx_correlationId :: string
  zx_createdAt :: timestamp
  zx_updatedAt :: timestamp

text \<open>Deposits: the slips a shop orders, and the payments recorded against them.\<close>

datatype topup_method = BANK_COUNTER | CHAPA

datatype topup_status = TU_OPEN | TU_PAID | TU_EXPIRED | TU_CANCELLED

record topup_row =
  zt_id :: string
  zt_method :: topup_method
  zt_providerReference :: "string option"
  zt_providerStatus :: "string option"
  zt_merchantId :: string
  zt_deviceId :: string
  zt_operatorId :: string
  zt_reference :: string
  zt_amountMinor :: int
  zt_status :: topup_status
  zt_fundingSubmissionId :: "string option"
  zt_correlationId :: string
  zt_mode :: operating_mode
  zt_createdAt :: timestamp
  zt_expiresAt :: timestamp
  zt_updatedAt :: timestamp

record funding_row =
  zf_id :: string
  zf_merchantId :: "string option"
  zf_quotedReference :: string
  zf_bankReference :: string
  zf_claimedAmountMinor :: "int option"
  zf_bankAmountMinor :: "int option"
  zf_status :: string
  zf_outcomeReason :: "string option"
  zf_postingId :: "string option"
  zf_evidence :: "string option"
  zf_recordedBy :: "string option"
  zf_createdAt :: timestamp
  zf_updatedAt :: timestamp

section \<open>The database and the world\<close>

record db =
  merchants :: "merchant_row list"
  devices :: "device_row list"
  transactions :: "transaction_row list"
  idempotency_records :: "idempotency_row list"
  ledger_accounts :: "account_row list"
  ledger_entries :: "entry_row list"
  balance_reservations :: "reservation_row list"
  audit_events :: "audit_row list"
  pending_resolutions :: "pending_row list"
  support_cases :: "support_row list"
  recovery_claims :: "claim_row list"
  platform_fee_settings :: "fee_settings option"
  provider_commission_rates :: "rate_row list"
  commission_entries :: "commission_row list"
  software_fee_charges :: "charge_row list"
  pending_orders :: "order_row list"
  reversal_requests :: "reversal_row list"
  complaint_reviews :: "complaint_row list"
  shop_transfers :: "transfer_row list"
  topup_orders :: "topup_row list"
  funding_submissions :: "funding_row list"

record airtime_request =
  ar_transactionId :: string
  ar_merchantId :: string
  ar_productId :: string
  ar_amount :: money
  ar_recipient :: string
  ar_idempotencyKey :: string

record status_query =
  sq_transactionId :: string
  sq_providerReference :: "string option"
  sq_idempotencyKey :: string

datatype provider_call = Health_call | Submit_call airtime_request | Status_call status_query

record world =
  w_db :: db
  w_ticks :: nat
  w_ids :: nat
  w_calls :: "provider_call list"

type_synonym 'a prog = "(world, 'a) program"

definition get_db :: "(db \<Rightarrow> 'a) \<Rightarrow> 'a prog" where
  "get_db f w = (Inr (f (w_db w)), w)"

definition put_db :: "(db \<Rightarrow> db) \<Rightarrow> unit prog" where
  "put_db f w = (Inr (), w\<lparr>w_db := f (w_db w)\<rparr>)"

text \<open>\<open>driver.transaction\<close>: all of the body's writes, or none of them. It nests as a savepoint.\<close>

definition db_transaction :: "'a prog \<Rightarrow> 'a prog" where
  "db_transaction m w =
     (case m w of (Inr x, w') \<Rightarrow> (Inr x, w') | (Inl e, w') \<Rightarrow> (Inl e, w'\<lparr>w_db := w_db w\<rparr>))"

lemma get_db_Inr [simp]: "get_db f w = (r, w') \<longleftrightarrow> r = Inr (f (w_db w)) \<and> w' = w"
  by (auto simp: get_db_def)

lemma put_db_Inr [simp]: "put_db f w = (r, w') \<longleftrightarrow> r = Inr () \<and> w' = w\<lparr>w_db := f (w_db w)\<rparr>"
  by (auto simp: put_db_def)

lemma db_transaction_Inr [simp]: "db_transaction m w = (Inr x, w') \<longleftrightarrow> m w = (Inr x, w')"
  by (auto simp: db_transaction_def split: prod.splits sum.splits)

lemma db_transaction_Inl:
  "db_transaction m w = (Inl e, w') \<longleftrightarrow> (\<exists>w1. m w = (Inl e, w1) \<and> w' = w1\<lparr>w_db := w_db w\<rparr>)"
  by (auto simp: db_transaction_def split: prod.splits sum.splits)

text \<open>A failed transaction leaves the database as it was.\<close>

lemma db_transaction_rollback: "db_transaction m w = (Inl e, w') \<Longrightarrow> w_db w' = w_db w"
  by (auto simp: db_transaction_Inl)

end
