(* ===== verification/Repositories.thy ===== *)
theory Repositories
  imports Store
begin

text \<open>
  The repositories of \<open>packages/persistence/src/repositories\<close> that the sale, the ledger and
  the recovery use, one definition per function. A read is a function of the database, a write a
  program on the world. An upsert names its conflict target; a conflict with another unique key
  throws, and CHECKs come before uniqueness, as SQLite tests them.
\<close>

section \<open>Merchants and devices\<close>

definition saveMerchant :: "string \<Rightarrow> merchant_status \<Rightarrow> operating_mode \<Rightarrow> timestamp \<Rightarrow> unit prog" where
  "saveMerchant i status mode t =
     seq (require (mode = TRAINING) (SqliteErr CHECK))
     (put_db (\<lambda>d.
        if \<exists>m\<in>set (merchants d). me_id m = i
        then d\<lparr>merchants := update_where (\<lambda>m. me_id m = i) (\<lambda>m. m\<lparr>me_status := status, me_updatedAt := t\<rparr>) (merchants d)\<rparr>
        else d\<lparr>merchants := merchants d @ [\<lparr>me_id = i, me_status = status, me_createdAt = t, me_updatedAt = t\<rparr>]\<rparr>))"

definition findMerchant :: "db \<Rightarrow> string \<Rightarrow> merchant_row option" where
  "findMerchant d i = find (\<lambda>m. me_id m = i) (merchants d)"

definition activeMerchantIds :: "db \<Rightarrow> string list" where
  "activeMerchantIds d = sort (map me_id (filter (\<lambda>m. me_status m = MER_ACTIVE) (merchants d)))"

definition merchant_exists :: "db \<Rightarrow> string \<Rightarrow> bool" where
  "merchant_exists d m \<longleftrightarrow> (\<exists>x\<in>set (merchants d). me_id x = m)"

definition saveDevice :: "string \<Rightarrow> string \<Rightarrow> device_status \<Rightarrow> string \<Rightarrow> timestamp \<Rightarrow> unit prog" where
  "saveDevice i m status kind t =
     bnd (get_db (\<lambda>d. d)) (\<lambda>d.
       if \<exists>x\<in>set (devices d). dv_id x = i
       then put_db (\<lambda>d. d\<lparr>devices := update_where (\<lambda>x. dv_id x = i) (\<lambda>x. x\<lparr>dv_status := status, dv_updatedAt := t\<rparr>) (devices d)\<rparr>)
       else seq (require (merchant_exists d m) (SqliteErr FOREIGNKEY))
              (put_db (\<lambda>d. d\<lparr>devices := devices d @
                 [\<lparr>dv_id = i, dv_merchantId = m, dv_status = status, dv_deviceType = kind,
                   dv_createdAt = t, dv_updatedAt = t\<rparr>]\<rparr>)))"

definition findDevice :: "db \<Rightarrow> string \<Rightarrow> string option \<Rightarrow> device_row option" where
  "findDevice d i m =
     find (\<lambda>x. dv_id x = i \<and> (case m of None \<Rightarrow> True | Some k \<Rightarrow> dv_merchantId x = k)) (devices d)"

definition assertDeviceOwnership :: "string \<Rightarrow> string \<Rightarrow> unit prog" where
  "assertDeviceOwnership i m =
     bnd (get_db (\<lambda>d. findDevice d i (Some m)))
       (\<lambda>r. require (r \<noteq> None) (PersistErr MERCHANT_SCOPE_VIOLATION))"

section \<open>Transactions and idempotency records\<close>

definition findTransaction :: "db \<Rightarrow> string \<Rightarrow> string option \<Rightarrow> transaction_row option" where
  "findTransaction d i m =
     find (\<lambda>x. tw_id x = i \<and> (case m of None \<Rightarrow> True | Some k \<Rightarrow> tw_merchantId x = k)) (transactions d)"

text \<open>The columns of \<open>TransactionInput\<close> beside the transaction itself.\<close>

record transaction_extra =
  tp_productType :: string
  tp_recipientMasked :: string
  tp_recipientHash :: string
  tp_payloadFingerprint :: string

definition transaction_row_of :: "transaction \<Rightarrow> transaction_extra \<Rightarrow> transaction_row" where
  "transaction_row_of t x =
     \<lparr>tw_id = tx_id t, tw_merchantId = tx_merchantId t, tw_deviceId = tx_deviceId t,
      tw_operatorId = Some (tx_operatorId t), tw_productType = tp_productType x,
      tw_providerId = tx_providerId t, tw_amountMinor = minor (tx_amount t),
      tw_currency = currency (tx_amount t), tw_recipientMasked = tp_recipientMasked x,
      tw_recipientHash = tp_recipientHash x, tw_state = tx_state t,
      tw_idempotencyKey = tx_idempotencyKey t, tw_payloadFingerprint = tp_payloadFingerprint x,
      tw_providerReference = tx_providerReference t, tw_mode = tx_mode t,
      tw_createdAt = tx_createdAt t, tw_updatedAt = tx_updatedAt t\<rparr>"

definition rewrite_transaction :: "transaction \<Rightarrow> db \<Rightarrow> db" where
  "rewrite_transaction t d =
     d\<lparr>transactions := update_where (\<lambda>x. tw_id x = tx_id t)
         (\<lambda>x. x\<lparr>tw_state := tx_state t, tw_providerReference := tx_providerReference t, tw_updatedAt := tx_updatedAt t\<rparr>)
         (transactions d)\<rparr>"

definition saveTransaction :: "transaction \<Rightarrow> transaction_extra \<Rightarrow> unit prog" where
  "saveTransaction t x =
     bnd (get_db (\<lambda>d. d)) (\<lambda>d.
     seq (require (isTransactionState (state_name (tx_state t))) (OtherErr ''UNKNOWN_STATE''))
     (seq (require (0 < minor (tx_amount t) \<and> tx_mode t = TRAINING) (SqliteErr CHECK))
     (if \<exists>r\<in>set (transactions d). tw_id r = tx_id t then put_db (rewrite_transaction t)
      else
        seq (require (\<not> (\<exists>r\<in>set (transactions d).
                 tw_merchantId r = tx_merchantId t \<and> tw_idempotencyKey r = tx_idempotencyKey t))
              (SqliteErr UNIQUE))
        (seq (require (merchant_exists d (tx_merchantId t) \<and> (\<exists>v\<in>set (devices d). dv_id v = tx_deviceId t))
               (SqliteErr FOREIGNKEY))
        (put_db (\<lambda>d. d\<lparr>transactions := transactions d @ [transaction_row_of t x]\<rparr>))))))"

definition findTransactionsByMerchant :: "db \<Rightarrow> string \<Rightarrow> transaction_row list" where
  "findTransactionsByMerchant d m =
     order_by tw_createdAt tw_id (filter (\<lambda>x. tw_merchantId x = m) (transactions d))"

definition transaction_exists :: "db \<Rightarrow> string \<Rightarrow> bool" where
  "transaction_exists d i \<longleftrightarrow> (\<exists>x\<in>set (transactions d). tw_id x = i)"

definition findIdempotencyRecord :: "db \<Rightarrow> string \<Rightarrow> string \<Rightarrow> idempotency_row option" where
  "findIdempotencyRecord d m k = find (\<lambda>r. iw_merchantId r = m \<and> iw_key r = k) (idempotency_records d)"

text \<open>The argument of \<open>saveIdempotencyRecord\<close>.\<close>

record idempotency_input =
  ii_key :: string
  ii_merchantId :: string
  ii_requestIdentity :: string
  ii_payloadFingerprint :: string
  ii_transactionId :: string
  ii_at :: timestamp

definition saveIdempotencyRecord :: "idempotency_input \<Rightarrow> unit prog" where
  "saveIdempotencyRecord i =
     bnd (get_db (\<lambda>d. d)) (\<lambda>d.
     seq (require (findIdempotencyRecord d (ii_merchantId i) (ii_key i) = None) (PersistErr DUPLICATE_IDEMPOTENCY_RECORD))
     (seq (require (merchant_exists d (ii_merchantId i) \<and> transaction_exists d (ii_transactionId i)) (SqliteErr FOREIGNKEY))
     (put_db (\<lambda>d. d\<lparr>idempotency_records := idempotency_records d @
        [\<lparr>iw_key = ii_key i, iw_merchantId = ii_merchantId i, iw_requestIdentity = ii_requestIdentity i,
          iw_payloadFingerprint = ii_payloadFingerprint i, iw_transactionId = ii_transactionId i,
          iw_resultState = None, iw_createdAt = ii_at i, iw_updatedAt = ii_at i\<rparr>]\<rparr>))))"

definition recordIdempotencyResult :: "string \<Rightarrow> string \<Rightarrow> tx_state \<Rightarrow> timestamp \<Rightarrow> unit prog" where
  "recordIdempotencyResult m k state t =
     put_db (\<lambda>d. d\<lparr>idempotency_records :=
       update_where (\<lambda>r. iw_merchantId r = m \<and> iw_key r = k)
         (\<lambda>r. r\<lparr>iw_resultState := Some state, iw_updatedAt := t\<rparr>) (idempotency_records d)\<rparr>)"

section \<open>Privacy\<close>

definition maskRecipient :: "string \<Rightarrow> nat \<Rightarrow> nat \<Rightarrow> string" where
  "maskRecipient recipient pre suf =
     (let trimmed = js_trim recipient
      in if length trimmed \<le> pre + suf then replicate (length trimmed) (CHR ''*'')
         else take pre trimmed @ replicate (length trimmed - pre - suf) (CHR ''*'') @
              drop (length trimmed - suf) trimmed)"

definition FORBIDDEN_METADATA_KEYS :: "string list" where
  "FORBIDDEN_METADATA_KEYS =
     [''pin'', ''password'', ''secret'', ''token'', ''credential'', ''apikey'', ''api_key'',
      ''authorization'', ''recipient'', ''phone'', ''msisdn'']"

definition lower_char :: "char \<Rightarrow> char" where
  "lower_char c = (let k = (of_char c :: nat) in if 65 \<le> k \<and> k \<le> 90 then char_of (k + 32) else c)"

definition metadata_key :: "string \<Rightarrow> string" where
  "metadata_key key =
     filter (\<lambda>c. let k = (of_char c :: nat) in (97 \<le> k \<and> k \<le> 122) \<or> c = CHR ''_'') (map lower_char key)"

text \<open>Metadata is the list of its keys with the JSON text of each value; the keys are plain identifiers.\<close>

type_synonym metadata = "(string \<times> string) list"

definition assertSafeMetadata :: "metadata option \<Rightarrow> err + unit" where
  "assertSafeMetadata m =
     (case m of
        None \<Rightarrow> Inr ()
      | Some kvs \<Rightarrow>
          if \<exists>kv\<in>set kvs. \<exists>f\<in>set FORBIDDEN_METADATA_KEYS. sublist f (metadata_key (fst kv))
          then Inl (OtherErr ''SENSITIVE_METADATA'') else Inr ())"

definition serializeMetadata :: "metadata option \<Rightarrow> err + string option" where
  "serializeMetadata m =
     (case m of
        None \<Rightarrow> Inr None
      | Some kvs \<Rightarrow>
          rbind (assertSafeMetadata m) (\<lambda>_.
            Inr (Some (''{'' @ join_with '','' (map (\<lambda>(k, v). [CHR 0x22] @ k @ [CHR 0x22] @ '':'' @ v) kvs) @ ''}''))))"

definition lift_result :: "err + 'a \<Rightarrow> 'a prog" where
  "lift_result r = (case r of Inl e \<Rightarrow> throw e | Inr x \<Rightarrow> ret x)"

lemma lift_result_Inr [simp]: "lift_result r w = (Inr x, w') \<longleftrightarrow> r = Inr x \<and> w' = w"
  by (auto simp: lift_result_def split: sum.splits)

section \<open>Ledger\<close>

definition find_account_by_id :: "db \<Rightarrow> string \<Rightarrow> account_row option" where
  "find_account_by_id d i = find (\<lambda>a. aw_id a = i) (ledger_accounts d)"

definition ensureAccount :: "string \<Rightarrow> string option \<Rightarrow> account_kind \<Rightarrow> timestamp \<Rightarrow> unit prog" where
  "ensureAccount i m kind t =
     bnd (get_db (\<lambda>d. d)) (\<lambda>d.
       if find_account_by_id d i \<noteq> None then ret ()
       else
         seq (require (m = None \<or> \<not> (\<exists>a\<in>set (ledger_accounts d). aw_merchantId a = m \<and> aw_accountType a = kind))
               (SqliteErr UNIQUE))
         (seq (require (m = None \<or> merchant_exists d (the m)) (SqliteErr FOREIGNKEY))
         (put_db (\<lambda>d. d\<lparr>ledger_accounts := ledger_accounts d @
            [\<lparr>aw_id = i, aw_merchantId = m, aw_accountType = kind, aw_createdAt = t\<rparr>]\<rparr>))))"

definition findAccount :: "db \<Rightarrow> string \<Rightarrow> account_kind \<Rightarrow> account_row option" where
  "findAccount d m kind = find (\<lambda>a. aw_merchantId a = Some m \<and> aw_accountType a = kind) (ledger_accounts d)"

text \<open>\<open>PostingInput\<close>.\<close>

record posting =
  po_postingId :: string
  po_correlationId :: string
  po_at :: timestamp
  po_mode :: operating_mode
  po_entries :: "draft_entry list"
  po_metadata :: "metadata option"

definition entry_row_of :: "posting \<Rightarrow> string option \<Rightarrow> nat \<Rightarrow> draft_entry \<Rightarrow> account_row \<Rightarrow> entry_row" where
  "entry_row_of p metadata i e account =
     \<lparr>ew_id = entry_id (po_postingId p) i, ew_postingId = po_postingId p,
      ew_transactionId = de_transactionId e, ew_accountId = de_accountId e,
      ew_merchantId = coalesce (de_merchantId e) (aw_merchantId account),
      ew_accountType = de_accountKind e, ew_direction = de_direction e,
      ew_amountMinor = minor (de_amount e), ew_currency = currency (de_amount e),
      ew_entryType = de_reason e, ew_correlationId = po_correlationId p,
      ew_ruleVersion = de_ruleVersion e, ew_providerReference = de_providerReference e,
      ew_metadata = metadata, ew_mode = po_mode p, ew_createdAt = po_at p\<rparr>"

definition insert_entry :: "entry_row \<Rightarrow> unit prog" where
  "insert_entry r =
     bnd (get_db (\<lambda>d. d)) (\<lambda>d.
     seq (require (0 < ew_amountMinor r \<and> ew_mode r = TRAINING) (SqliteErr CHECK))
     (seq (require (\<not> (\<exists>x\<in>set (ledger_entries d). ew_id x = ew_id r)) (SqliteErr PRIMARYKEY))
     (seq (require ((ew_transactionId r = None \<or> transaction_exists d (the (ew_transactionId r))) \<and>
                    (ew_merchantId r = None \<or> merchant_exists d (the (ew_merchantId r))))
            (SqliteErr FOREIGNKEY))
     (put_db (\<lambda>d. d\<lparr>ledger_entries := ledger_entries d @ [r]\<rparr>)))))"

fun append_loop :: "posting \<Rightarrow> string option \<Rightarrow> nat \<Rightarrow> draft_entry list \<Rightarrow> unit prog" where
  "append_loop p metadata i [] = ret ()"
| "append_loop p metadata i (e # es) =
     bnd (get_db (\<lambda>d. find_account_by_id d (de_accountId e))) (\<lambda>a.
       case a of
         None \<Rightarrow> throw (PersistErr ACCOUNT_NOT_FOUND)
       | Some account \<Rightarrow>
           seq (require (\<not> (aw_merchantId account \<noteq> None \<and> de_merchantId e \<noteq> None \<and> aw_merchantId account \<noteq> de_merchantId e))
                 (PersistErr MERCHANT_SCOPE_VIOLATION))
           (seq (insert_entry (entry_row_of p metadata i e account))
           (append_loop p metadata (Suc i) es)))"

definition appendEntries :: "posting \<Rightarrow> unit prog" where
  "appendEntries p =
     seq (lift_domain (assertSimulated (po_mode p)))
     (seq (lift_domain (assertBalanced (po_entries p)))
     (bnd (lift_result (serializeMetadata (po_metadata p))) (\<lambda>metadata.
        append_loop p metadata 0 (po_entries p))))"

definition readEntries :: "db \<Rightarrow> nat option \<Rightarrow> entry_row list" where
  "readEntries d limit =
     (let rows = order_by ew_createdAt ew_id (ledger_entries d)
      in case limit of None \<Rightarrow> rows | Some n \<Rightarrow> take n rows)"

definition readEntriesByMerchant :: "db \<Rightarrow> string \<Rightarrow> entry_row list" where
  "readEntriesByMerchant d m = order_by ew_createdAt ew_id (filter (\<lambda>e. ew_merchantId e = Some m) (ledger_entries d))"

definition readEntriesByAccount :: "db \<Rightarrow> string \<Rightarrow> entry_row list" where
  "readEntriesByAccount d a = order_by ew_createdAt ew_id (filter (\<lambda>e. ew_accountId e = a) (ledger_entries d))"

definition readEntriesByTransaction :: "db \<Rightarrow> string \<Rightarrow> string option \<Rightarrow> entry_row list" where
  "readEntriesByTransaction d tx m =
     order_by ew_createdAt ew_id
       (filter (\<lambda>e. ew_transactionId e = Some tx \<and> (m = None \<or> ew_merchantId e = m)) (ledger_entries d))"

definition signed_row :: "entry_row \<Rightarrow> int" where
  "signed_row e = (if ew_direction e = CREDIT then ew_amountMinor e else - ew_amountMinor e)"

definition netMinor :: "db \<Rightarrow> string \<Rightarrow> account_kind list \<Rightarrow> int" where
  "netMinor d m kinds =
     sum_list (map signed_row (filter (\<lambda>e. ew_merchantId e = Some m \<and> ew_accountType e \<in> set kinds) (ledger_entries d)))"

definition balanceFor :: "db \<Rightarrow> string \<Rightarrow> domain_error + balance_view" where
  "balanceFor d m =
     (let available = netMinor d m [MERCHANT_AVAILABLE, MERCHANT_FUNDS];
          reserved = netMinor d m [MERCHANT_RESERVED];
          underReview = netMinor d m [MERCHANT_UNDER_REVIEW]
      in rbind (mk_money (JInt available) ETB) (\<lambda>a.
         rbind (mk_money (JInt reserved) ETB) (\<lambda>r.
         rbind (mk_money (JInt underReview) ETB) (\<lambda>u.
         rbind (mk_money (JInt (js_add (js_add available reserved) underReview)) ETB) (\<lambda>t.
           Inr \<lparr>bv_available = a, bv_reserved = r, bv_underReview = u, bv_total = t\<rparr>)))))"

definition postingExists :: "db \<Rightarrow> string \<Rightarrow> bool" where
  "postingExists d pid \<longleftrightarrow> (\<exists>e\<in>set (ledger_entries d). ew_postingId e = pid)"

text \<open>\<open>LIKE dayPrefix || '%'\<close> for a prefix of digits and hyphens, which it matches literally.\<close>

definition profitForDay :: "db \<Rightarrow> string \<Rightarrow> string \<Rightarrow> int" where
  "profitForDay d m dayPrefix =
     sum_list (map signed_row (filter (\<lambda>e. ew_merchantId e = Some m \<and> ew_accountType e = TELGA_REVENUE \<and>
        prefix dayPrefix (ew_createdAt e) \<and> ew_entryType e \<noteq> ADJUSTMENT) (ledger_entries d)))"

definition profitAvailableMinor :: "db \<Rightarrow> string \<Rightarrow> int" where
  "profitAvailableMinor d m =
     sum_list (map signed_row (filter (\<lambda>e. ew_merchantId e = Some m \<and> ew_accountType e = TELGA_REVENUE) (ledger_entries d)))"

definition ledgerResidualMinor :: "db \<Rightarrow> int" where
  "ledgerResidualMinor d = sum_list (map signed_row (ledger_entries d))"

section \<open>Reservations\<close>

definition findReservationById :: "db \<Rightarrow> string \<Rightarrow> reservation_row option" where
  "findReservationById d i = find (\<lambda>r. rr_id r = i) (balance_reservations d)"

definition findReservation :: "db \<Rightarrow> string \<Rightarrow> string option \<Rightarrow> reservation_row option" where
  "findReservation d tx m =
     find (\<lambda>r. rr_transactionId r = tx \<and> (case m of None \<Rightarrow> True | Some k \<Rightarrow> rr_merchantId r = k)) (balance_reservations d)"

definition findReservationsByMerchant :: "db \<Rightarrow> string \<Rightarrow> reservation_row list" where
  "findReservationsByMerchant d m =
     order_by rr_createdAt rr_id (filter (\<lambda>r. rr_merchantId r = m) (balance_reservations d))"

definition released_time :: "reservation_state \<Rightarrow> timestamp \<Rightarrow> timestamp option" where
  "released_time s t = (if s = RELEASED \<or> s = SETTLED then Some t else None)"

definition reservation_row_of :: "reservation \<Rightarrow> string \<Rightarrow> reservation_row" where
  "reservation_row_of r correlationId =
     \<lparr>rr_id = rv_id r, rr_merchantId = rv_merchantId r, rr_transactionId = rv_transactionId r,
      rr_amountMinor = minor (rv_amount r), rr_currency = currency (rv_amount r), rr_status = rv_state r,
      rr_correlationId = correlationId, rr_createdAt = rv_createdAt r, rr_updatedAt = rv_updatedAt r,
      rr_releasedAt = released_time (rv_state r) (rv_updatedAt r)\<rparr>"

definition saveReservation :: "reservation \<Rightarrow> string \<Rightarrow> unit prog" where
  "saveReservation r correlationId =
     bnd (get_db (\<lambda>d. d)) (\<lambda>d.
     seq (require (0 < minor (rv_amount r)) (SqliteErr CHECK))
     (if findReservationById d (rv_id r) \<noteq> None then
        put_db (\<lambda>d. d\<lparr>balance_reservations := update_where (\<lambda>x. rr_id x = rv_id r)
          (\<lambda>x. x\<lparr>rr_status := rv_state r, rr_updatedAt := rv_updatedAt r,
                 rr_releasedAt := released_time (rv_state r) (rv_updatedAt r)\<rparr>) (balance_reservations d)\<rparr>)
      else
        seq (require (findReservation d (rv_transactionId r) None = None) (SqliteErr UNIQUE))
        (seq (require (merchant_exists d (rv_merchantId r) \<and> transaction_exists d (rv_transactionId r)) (SqliteErr FOREIGNKEY))
        (put_db (\<lambda>d. d\<lparr>balance_reservations := balance_reservations d @ [reservation_row_of r correlationId]\<rparr>)))))"

definition set_reservation :: "timestamp \<Rightarrow> reservation_state \<Rightarrow> reservation_row \<Rightarrow> reservation_row" where
  "set_reservation t s r = r\<lparr>rr_status := s, rr_updatedAt := t, rr_releasedAt := released_time s t\<rparr>"

definition move_reservation :: "reservation_state \<Rightarrow> string \<Rightarrow> reservation_state \<Rightarrow> timestamp \<Rightarrow> bool prog" where
  "move_reservation from i target t =
     bnd (get_db (\<lambda>d. guarded_move rr_id rr_status (set_reservation t) i from target (balance_reservations d))) (\<lambda>(moved, rows).
     seq (put_db (\<lambda>d. d\<lparr>balance_reservations := rows\<rparr>)) (ret moved))"

definition transitionHeldReservation :: "string \<Rightarrow> reservation_state \<Rightarrow> timestamp \<Rightarrow> bool prog" where
  "transitionHeldReservation i target t = move_reservation HELD i target t"

definition transitionUnderReviewReservation :: "string \<Rightarrow> reservation_state \<Rightarrow> timestamp \<Rightarrow> bool prog" where
  "transitionUnderReviewReservation i target t = move_reservation RES_UNDER_REVIEW i target t"

section \<open>Audit\<close>

record audit_input =
  ui_event :: audit_event
  ui_correlationId :: string
  ui_entityType :: string
  ui_entityId :: "string option"
  ui_metadata :: "metadata option"

definition audit_row_of :: "audit_input \<Rightarrow> string option \<Rightarrow> audit_row" where
  "audit_row_of i metadata =
     (let e = ui_event i
      in \<lparr>uw_id = ae_id e, uw_actorType = ac_role (ae_actor e), uw_actorId = ac_userId (ae_actor e),
          uw_eventType = ae_action e, uw_entityType = ui_entityType i,
          uw_entityId = coalesce (ui_entityId i) (ae_transactionId e), uw_merchantId = ae_merchantId e,
          uw_correlationId = ui_correlationId i, uw_metadata = metadata, uw_createdAt = ae_at e\<rparr>)"

definition saveAuditEvent :: "audit_input \<Rightarrow> unit prog" where
  "saveAuditEvent i =
     bnd (lift_result (serializeMetadata (ui_metadata i))) (\<lambda>metadata.
     bnd (get_db (\<lambda>d. \<exists>x\<in>set (audit_events d). uw_id x = ae_id (ui_event i))) (\<lambda>present.
     seq (require (\<not> present) (SqliteErr PRIMARYKEY))
     (put_db (\<lambda>d. d\<lparr>audit_events := audit_events d @ [audit_row_of i metadata]\<rparr>))))"

definition readAuditEvents :: "db \<Rightarrow> string option \<Rightarrow> audit_row list" where
  "readAuditEvents d m =
     order_by uw_createdAt uw_id
       (filter (\<lambda>x. case m of None \<Rightarrow> True | Some k \<Rightarrow> uw_merchantId x = k) (audit_events d))"

definition readAuditEventsByCorrelation :: "db \<Rightarrow> string \<Rightarrow> audit_row list" where
  "readAuditEventsByCorrelation d c = order_by uw_createdAt uw_id (filter (\<lambda>x. uw_correlationId x = c) (audit_events d))"

definition countAuditEvents :: "db \<Rightarrow> audit_action \<Rightarrow> string \<Rightarrow> nat" where
  "countAuditEvents d kind entity =
     count_where (\<lambda>x. uw_eventType x = kind \<and> uw_entityId x = Some entity) (audit_events d)"

end
