(* ===== verification/Job_Repositories.thy ===== *)
theory Job_Repositories
  imports Repositories
begin

text \<open>
  The repositories behind the unattended work: pending resolutions and support cases
  (\<open>repositories/pending.ts\<close>), recovery claims (\<open>recovery.ts\<close>), voucher orders
  (\<open>pendingOrders.ts\<close>), the commission ledger and fee settings (\<open>commission.ts\<close>) and the monthly
  software fee (\<open>softwareFee.ts\<close>).
\<close>

section \<open>Pending resolutions and support cases\<close>

definition findPendingResolution :: "db \<Rightarrow> string \<Rightarrow> pending_row option" where
  "findPendingResolution d tx = find (\<lambda>p. pw_transactionId p = tx) (pending_resolutions d)"

record pending_input =
  pi_transactionId :: string
  pi_merchantId :: string
  pi_idempotencyKey :: string
  pi_providerReference :: "string option"
  pi_correlationId :: string
  pi_firstPendingAt :: timestamp
  pi_deadlineAt :: timestamp

definition pending_row_of :: "pending_input \<Rightarrow> pending_row" where
  "pending_row_of i =
     \<lparr>pw_transactionId = pi_transactionId i, pw_merchantId = pi_merchantId i,
      pw_idempotencyKey = pi_idempotencyKey i, pw_providerReference = pi_providerReference i,
      pw_correlationId = pi_correlationId i, pw_attempts = 0, pw_status = AWAITING,
      pw_firstPendingAt = pi_firstPendingAt i, pw_lastAttemptAt = None, pw_deadlineAt = pi_deadlineAt i,
      pw_createdAt = pi_firstPendingAt i, pw_updatedAt = pi_firstPendingAt i, pw_nextCheckAt = None,
      pw_lastOutcomeCategory = None, pw_currentState = None, pw_manualReviewStatus = ''NONE''\<rparr>"

definition upsertPendingResolution :: "pending_input \<Rightarrow> unit prog" where
  "upsertPendingResolution i =
     bnd (get_db (\<lambda>d. d)) (\<lambda>d.
       if findPendingResolution d (pi_transactionId i) \<noteq> None then ret ()
       else
         seq (require (transaction_exists d (pi_transactionId i) \<and> merchant_exists d (pi_merchantId i)) (SqliteErr FOREIGNKEY))
         (put_db (\<lambda>d. d\<lparr>pending_resolutions := pending_resolutions d @ [pending_row_of i]\<rparr>)))"

definition awaitingResolutions :: "db \<Rightarrow> string option \<Rightarrow> pending_row list" where
  "awaitingResolutions d m =
     sort_key pw_firstPendingAt
       (filter (\<lambda>p. pw_status p = AWAITING \<and> (case m of None \<Rightarrow> True | Some k \<Rightarrow> pw_merchantId p = k)) (pending_resolutions d))"

definition recordResolutionAttempt :: "string \<Rightarrow> timestamp \<Rightarrow> unit prog" where
  "recordResolutionAttempt tx t =
     put_db (\<lambda>d. d\<lparr>pending_resolutions :=
       update_where (\<lambda>p. pw_transactionId p = tx \<and> pw_status p = AWAITING)
         (\<lambda>p. p\<lparr>pw_attempts := pw_attempts p + 1, pw_lastAttemptAt := Some t, pw_updatedAt := t\<rparr>)
         (pending_resolutions d)\<rparr>)"

definition set_pending :: "timestamp \<Rightarrow> pending_status \<Rightarrow> pending_row \<Rightarrow> pending_row" where
  "set_pending t s p = p\<lparr>pw_status := s, pw_updatedAt := t\<rparr>"

definition closePendingResolution :: "string \<Rightarrow> pending_status \<Rightarrow> timestamp \<Rightarrow> bool prog" where
  "closePendingResolution tx target t =
     bnd (get_db (\<lambda>d. guarded_move pw_transactionId pw_status (set_pending t) tx AWAITING target (pending_resolutions d))) (\<lambda>(closed, rows).
     seq (put_db (\<lambda>d. d\<lparr>pending_resolutions := rows\<rparr>)) (ret closed))"

record support_input =
  si_case_id :: string
  si_case_merchantId :: string
  si_case_transactionId :: "string option"
  si_case_reason :: support_reason
  si_case_reference :: string
  si_case_correlationId :: string
  si_case_at :: timestamp

definition createSupportCase :: "support_input \<Rightarrow> unit prog" where
  "createSupportCase i =
     bnd (get_db (\<lambda>d. d)) (\<lambda>d.
       if \<exists>s\<in>set (support_cases d). sw_id s = si_case_id i then ret ()
       else
         seq (require (\<not> (\<exists>s\<in>set (support_cases d). sw_reference s = si_case_reference i)) (SqliteErr UNIQUE))
         (seq (require (merchant_exists d (si_case_merchantId i) \<and>
                 (si_case_transactionId i = None \<or> transaction_exists d (the (si_case_transactionId i)))) (SqliteErr FOREIGNKEY))
         (put_db (\<lambda>d. d\<lparr>support_cases := support_cases d @
            [\<lparr>sw_id = si_case_id i, sw_merchantId = si_case_merchantId i, sw_transactionId = si_case_transactionId i,
              sw_reason = si_case_reason i, sw_status = SC_OPEN, sw_reference = si_case_reference i,
              sw_correlationId = si_case_correlationId i, sw_createdAt = si_case_at i, sw_updatedAt = si_case_at i,
              sw_approvedBy = None, sw_approvedAt = None\<rparr>]\<rparr>))))"

definition findSupportCaseByTransaction :: "db \<Rightarrow> string \<Rightarrow> string option \<Rightarrow> support_row option" where
  "findSupportCaseByTransaction d tx m =
     find (\<lambda>s. sw_transactionId s = Some tx \<and> (case m of None \<Rightarrow> True | Some k \<Rightarrow> sw_merchantId s = k)) (support_cases d)"

definition findSupportCasesByMerchant :: "db \<Rightarrow> string \<Rightarrow> support_row list" where
  "findSupportCasesByMerchant d m =
     order_by sw_createdAt sw_id (filter (\<lambda>s. sw_merchantId s = m) (support_cases d))"

record pending_metadata =
  pm_at :: timestamp
  pm_nextCheckAt :: "timestamp option"
  pm_lastOutcomeCategory :: "string option"
  pm_currentState :: "string option"
  pm_manualReviewStatus :: "string option"
  pm_deadlineAt :: "timestamp option"

definition updatePendingMetadata :: "string \<Rightarrow> pending_metadata \<Rightarrow> unit prog" where
  "updatePendingMetadata tx i =
     put_db (\<lambda>d. d\<lparr>pending_resolutions :=
       update_where (\<lambda>p. pw_transactionId p = tx)
         (\<lambda>p. p\<lparr>pw_nextCheckAt := coalesce (pm_nextCheckAt i) (pw_nextCheckAt p),
                pw_lastOutcomeCategory := coalesce (pm_lastOutcomeCategory i) (pw_lastOutcomeCategory p),
                pw_currentState := coalesce (pm_currentState i) (pw_currentState p),
                pw_manualReviewStatus := (case pm_manualReviewStatus i of None \<Rightarrow> pw_manualReviewStatus p | Some s \<Rightarrow> s),
                pw_deadlineAt := (case pm_deadlineAt i of None \<Rightarrow> pw_deadlineAt p | Some t \<Rightarrow> t),
                pw_updatedAt := pm_at i\<rparr>)
         (pending_resolutions d)\<rparr>)"

definition approveSupportCase :: "string \<Rightarrow> string \<Rightarrow> timestamp \<Rightarrow> bool prog" where
  "approveSupportCase i approvedBy t =
     bnd (get_db (\<lambda>d. count_where (\<lambda>s. sw_id s = i \<and> sw_approvedBy s = None) (support_cases d))) (\<lambda>n.
     seq (put_db (\<lambda>d. d\<lparr>support_cases :=
            update_where (\<lambda>s. sw_id s = i \<and> sw_approvedBy s = None)
              (\<lambda>s. s\<lparr>sw_approvedBy := Some approvedBy, sw_approvedAt := Some t, sw_updatedAt := t\<rparr>) (support_cases d)\<rparr>))
     (ret (n = 1)))"

section \<open>Recovery claims\<close>

record claim_outcome =
  co_claimed :: bool
  co_claim :: "claim_row option"
  co_heldBy :: "string option"

record claim_input =
  ci_transactionId :: string
  ci_workerId :: string
  ci_scanId :: string
  ci_now :: timestamp
  ci_expiresAt :: timestamp

definition findClaim :: "db \<Rightarrow> string \<Rightarrow> claim_row option" where
  "findClaim d tx = find (\<lambda>c. cw_transactionId c = tx) (recovery_claims d)"

definition claim_free :: "timestamp \<Rightarrow> claim_row \<Rightarrow> bool" where
  "claim_free now c \<longleftrightarrow> cw_status c = CL_RELEASED \<or> cw_expiresAt c \<le> now"

definition take_over :: "claim_input \<Rightarrow> claim_row \<Rightarrow> claim_row" where
  "take_over i c =
     c\<lparr>cw_workerId := ci_workerId i, cw_scanId := ci_scanId i, cw_attemptNo := cw_attemptNo c + 1,
       cw_claimedAt := ci_now i, cw_expiresAt := ci_expiresAt i, cw_releasedAt := None,
       cw_status := CL_ACTIVE, cw_updatedAt := ci_now i\<rparr>"

definition fresh_claim :: "claim_input \<Rightarrow> claim_row" where
  "fresh_claim i =
     \<lparr>cw_transactionId = ci_transactionId i, cw_workerId = ci_workerId i, cw_scanId = ci_scanId i,
      cw_attemptNo = 1, cw_claimedAt = ci_now i, cw_expiresAt = ci_expiresAt i, cw_releasedAt = None,
      cw_status = CL_ACTIVE, cw_createdAt = ci_now i, cw_updatedAt = ci_now i\<rparr>"

definition claimTransaction :: "claim_input \<Rightarrow> claim_outcome prog" where
  "claimTransaction i =
     bnd (get_db (\<lambda>d. d)) (\<lambda>d.
       case findClaim d (ci_transactionId i) of
         None \<Rightarrow>
           seq (require (transaction_exists d (ci_transactionId i)) (SqliteErr FOREIGNKEY))
           (seq (put_db (\<lambda>d. d\<lparr>recovery_claims := recovery_claims d @ [fresh_claim i]\<rparr>))
           (ret \<lparr>co_claimed = True, co_claim = Some (fresh_claim i), co_heldBy = None\<rparr>))
       | Some c \<Rightarrow>
           if claim_free (ci_now i) c then
             seq (put_db (\<lambda>d. d\<lparr>recovery_claims :=
                    update_where (\<lambda>x. cw_transactionId x = ci_transactionId i) (take_over i) (recovery_claims d)\<rparr>))
             (ret \<lparr>co_claimed = True, co_claim = Some (take_over i c), co_heldBy = None\<rparr>)
           else ret \<lparr>co_claimed = False, co_claim = Some c, co_heldBy = Some (cw_workerId c)\<rparr>)"

definition release_row :: "timestamp \<Rightarrow> claim_row \<Rightarrow> claim_row" where
  "release_row t c = c\<lparr>cw_status := CL_RELEASED, cw_releasedAt := Some t, cw_updatedAt := t\<rparr>"

definition releaseClaim :: "string \<Rightarrow> string \<Rightarrow> timestamp \<Rightarrow> bool prog" where
  "releaseClaim tx worker t =
     bnd (get_db (\<lambda>d. count_where (\<lambda>c. cw_transactionId c = tx \<and> cw_workerId c = worker \<and> cw_status c = CL_ACTIVE) (recovery_claims d))) (\<lambda>n.
     seq (put_db (\<lambda>d. d\<lparr>recovery_claims :=
            update_where (\<lambda>c. cw_transactionId c = tx \<and> cw_workerId c = worker \<and> cw_status c = CL_ACTIVE)
              (release_row t) (recovery_claims d)\<rparr>))
     (ret (n = 1)))"

definition findInFlightOlderThan ::
  "db \<Rightarrow> tx_state list \<Rightarrow> timestamp \<Rightarrow> nat \<Rightarrow> string option \<Rightarrow> transaction_row list" where
  "findInFlightOlderThan d states olderThan limit m =
     take limit (order_by tw_updatedAt tw_id
       (filter (\<lambda>t. tw_state t \<in> set states \<and> tw_updatedAt t \<le> olderThan \<and>
                    (case m of None \<Rightarrow> True | Some k \<Rightarrow> tw_merchantId t = k)) (transactions d)))"

definition countTransactionsByState :: "db \<Rightarrow> tx_state \<Rightarrow> nat" where
  "countTransactionsByState d s = count_where (\<lambda>t. tw_state t = s) (transactions d)"

definition oldestUnresolved :: "db \<Rightarrow> tx_state list \<Rightarrow> transaction_row option" where
  "oldestUnresolved d states =
     (case sort_key tw_updatedAt (filter (\<lambda>t. tw_state t \<in> set states) (transactions d)) of
        [] \<Rightarrow> None | t # _ \<Rightarrow> Some t)"

definition countOpenManualReviews :: "db \<Rightarrow> nat" where
  "countOpenManualReviews d = count_where (\<lambda>s. sw_status s = SC_OPEN) (support_cases d)"

definition releaseClaimsOwnedBy :: "string \<Rightarrow> timestamp \<Rightarrow> nat prog" where
  "releaseClaimsOwnedBy worker t =
     bnd (get_db (\<lambda>d. count_where (\<lambda>c. cw_workerId c = worker \<and> cw_status c = CL_ACTIVE) (recovery_claims d))) (\<lambda>n.
     seq (put_db (\<lambda>d. d\<lparr>recovery_claims :=
            update_where (\<lambda>c. cw_workerId c = worker \<and> cw_status c = CL_ACTIVE) (release_row t) (recovery_claims d)\<rparr>))
     (ret n))"

definition countActiveClaims :: "db \<Rightarrow> string option \<Rightarrow> nat" where
  "countActiveClaims d worker =
     count_where (\<lambda>c. cw_status c = CL_ACTIVE \<and> (case worker of None \<Rightarrow> True | Some w \<Rightarrow> cw_workerId c = w)) (recovery_claims d)"

section \<open>Voucher orders\<close>

definition findPendingOrder :: "db \<Rightarrow> string \<Rightarrow> order_row option" where
  "findPendingOrder d i = find (\<lambda>r. ow_id r = i) (pending_orders d)"

definition expireIfDue :: "string \<Rightarrow> timestamp \<Rightarrow> unit prog" where
  "expireIfDue i now =
     put_db (\<lambda>d. d\<lparr>pending_orders :=
       update_where (\<lambda>r. ow_id r = i \<and> ow_status r = ORD_OPEN \<and> ow_expiresAt r \<le> now)
         (\<lambda>r. r\<lparr>ow_status := ORD_EXPIRED\<rparr>) (pending_orders d)\<rparr>)"

definition set_order :: "order_status \<Rightarrow> order_row \<Rightarrow> order_row" where
  "set_order s r = r\<lparr>ow_status := s\<rparr>"

definition cancelPendingOrder :: "string \<Rightarrow> bool prog" where
  "cancelPendingOrder i =
     bnd (get_db (\<lambda>d. guarded_move ow_id ow_status set_order i ORD_OPEN ORD_CANCELLED (pending_orders d))) (\<lambda>(moved, rows).
     seq (put_db (\<lambda>d. d\<lparr>pending_orders := rows\<rparr>)) (ret moved))"

definition authorize_order :: "string \<Rightarrow> order_status \<Rightarrow> order_row \<Rightarrow> order_row" where
  "authorize_order tx s r = r\<lparr>ow_status := s, ow_transactionId := Some tx\<rparr>"

definition authorizePendingOrder :: "string \<Rightarrow> string \<Rightarrow> bool prog" where
  "authorizePendingOrder i tx =
     bnd (get_db (\<lambda>d. guarded_move ow_id ow_status (authorize_order tx) i ORD_OPEN ORD_AUTHORIZED (pending_orders d))) (\<lambda>(moved, rows).
     seq (put_db (\<lambda>d. d\<lparr>pending_orders := rows\<rparr>)) (ret moved))"

section \<open>Fee settings and the commission ledger\<close>

definition readPlatformFeeSettings :: "fee_settings prog" where
  "readPlatformFeeSettings =
     bnd (get_db platform_fee_settings) (\<lambda>r.
       case r of None \<Rightarrow> throw (OtherErr ''NO_FEE_SETTINGS'') | Some s \<Rightarrow> ret s)"

record fee_update =
  fu_defaultCommissionBps :: "int option"
  fu_shopShareBps :: "int option"
  fu_cardFeeBps :: "int option"
  fu_softwareFeeMinor :: "int option"
  fu_softwareFeeEnabled :: "bool option"
  fu_softwareFeeFirstPeriod :: "string option"
  fu_adminId :: string
  fu_at :: timestamp

definition or_else :: "'a option \<Rightarrow> 'a \<Rightarrow> 'a" where
  "or_else x y = (case x of None \<Rightarrow> y | Some z \<Rightarrow> z)"

definition bps_ok :: "int \<Rightarrow> bool" where
  "bps_ok b \<longleftrightarrow> 0 \<le> b \<and> b \<le> 10000"

definition writePlatformFeeSettings :: "fee_update \<Rightarrow> unit prog" where
  "writePlatformFeeSettings u =
     bnd readPlatformFeeSettings (\<lambda>c.
       let n = \<lparr>fs_defaultCommissionBps = or_else (fu_defaultCommissionBps u) (fs_defaultCommissionBps c),
                fs_shopShareBps = or_else (fu_shopShareBps u) (fs_shopShareBps c),
                fs_cardFeeBps = or_else (fu_cardFeeBps u) (fs_cardFeeBps c),
                fs_softwareFeeMinor = or_else (fu_softwareFeeMinor u) (fs_softwareFeeMinor c),
                fs_softwareFeeEnabled = or_else (fu_softwareFeeEnabled u) (fs_softwareFeeEnabled c),
                fs_softwareFeeFirstPeriod = coalesce (fu_softwareFeeFirstPeriod u) (fs_softwareFeeFirstPeriod c),
                fs_updatedByAdminId = Some (fu_adminId u), fs_updatedAt = fu_at u\<rparr>
       in seq (require (bps_ok (fs_defaultCommissionBps n) \<and> bps_ok (fs_shopShareBps n) \<and>
                        bps_ok (fs_cardFeeBps n) \<and> 0 \<le> fs_softwareFeeMinor n) (SqliteErr CHECK))
          (put_db (\<lambda>d. d\<lparr>platform_fee_settings := Some n\<rparr>)))"

definition effectiveCommissionBps :: "string option \<Rightarrow> string \<Rightarrow> int prog" where
  "effectiveCommissionBps providerId productType =
     bnd (get_db provider_commission_rates) (\<lambda>rates.
       case providerId of
         None \<Rightarrow> bnd readPlatformFeeSettings (\<lambda>s. ret (fs_defaultCommissionBps s))
       | Some p \<Rightarrow>
           (case find (\<lambda>r. pr_providerId r = p \<and> pr_productType r = Some productType) rates of
              Some r \<Rightarrow> ret (pr_commissionBps r)
            | None \<Rightarrow>
                (case find (\<lambda>r. pr_providerId r = p \<and> pr_productType r = None) rates of
                   Some r \<Rightarrow> ret (pr_commissionBps r)
                 | None \<Rightarrow> bnd readPlatformFeeSettings (\<lambda>s. ret (fs_defaultCommissionBps s)))))"

record commission_input =
  mi_id :: string
  mi_transactionId :: string
  mi_merchantId :: string
  mi_providerId :: "string option"
  mi_productType :: string
  mi_transactionAmountMinor :: int
  mi_providerCommissionBps :: int
  mi_shopShareBps :: int
  mi_providerCommissionMinor :: int
  mi_shopShareMinor :: int
  mi_telgaShareMinor :: int
  mi_cardFeeMinor :: "int option"
  mi_at :: timestamp

definition commission_checks :: "commission_input \<Rightarrow> bool" where
  "commission_checks i \<longleftrightarrow>
     0 < mi_transactionAmountMinor i \<and> bps_ok (mi_providerCommissionBps i) \<and> bps_ok (mi_shopShareBps i) \<and>
     0 \<le> mi_providerCommissionMinor i \<and> 0 \<le> mi_shopShareMinor i \<and> 0 \<le> mi_telgaShareMinor i \<and>
     0 \<le> or_else (mi_cardFeeMinor i) 0 \<and>
     mi_shopShareMinor i + mi_telgaShareMinor i = mi_providerCommissionMinor i"

definition commission_row_of :: "commission_input \<Rightarrow> commission_row" where
  "commission_row_of i =
     \<lparr>kw_id = mi_id i, kw_transactionId = mi_transactionId i, kw_merchantId = mi_merchantId i,
      kw_providerId = mi_providerId i, kw_productType = mi_productType i,
      kw_transactionAmountMinor = mi_transactionAmountMinor i, kw_providerCommissionBps = mi_providerCommissionBps i,
      kw_shopShareBps = mi_shopShareBps i, kw_providerCommissionMinor = mi_providerCommissionMinor i,
      kw_shopShareMinor = mi_shopShareMinor i, kw_telgaShareMinor = mi_telgaShareMinor i,
      kw_cardFeeMinor = or_else (mi_cardFeeMinor i) 0, kw_settlementStatus = UNSETTLED, kw_reversed = False,
      kw_reversedAt = None, kw_reversalTransactionId = None, kw_createdAt = mi_at i\<rparr>"

definition recordCommission :: "commission_input \<Rightarrow> unit prog" where
  "recordCommission i =
     bnd (get_db (\<lambda>d. d)) (\<lambda>d.
     seq (require (commission_checks i) (SqliteErr CHECK))
     (seq (require (\<not> (\<exists>c\<in>set (commission_entries d). kw_id c = mi_id i)) (SqliteErr PRIMARYKEY))
     (seq (require (\<not> (\<exists>c\<in>set (commission_entries d). kw_transactionId c = mi_transactionId i)) (SqliteErr UNIQUE))
     (seq (require (transaction_exists d (mi_transactionId i) \<and> merchant_exists d (mi_merchantId i)) (SqliteErr FOREIGNKEY))
     (put_db (\<lambda>d. d\<lparr>commission_entries := commission_entries d @ [commission_row_of i]\<rparr>))))))"

record commission_totals =
  ct_entries :: nat
  ct_providerCommissionMinor :: int
  ct_shopShareMinor :: int
  ct_telgaShareMinor :: int
  ct_unsettledMinor :: int

definition totals_of :: "commission_row list \<Rightarrow> commission_totals" where
  "totals_of rows =
     \<lparr>ct_entries = length rows,
      ct_providerCommissionMinor = sum_list (map kw_providerCommissionMinor rows),
      ct_shopShareMinor = sum_list (map kw_shopShareMinor rows),
      ct_telgaShareMinor = sum_list (map kw_telgaShareMinor rows),
      ct_unsettledMinor = sum_list (map (\<lambda>r. if kw_settlementStatus r = UNSETTLED then kw_providerCommissionMinor r else 0) rows)\<rparr>"

definition commissionTotalsFor :: "db \<Rightarrow> string \<Rightarrow> commission_totals" where
  "commissionTotalsFor d m = totals_of (filter (\<lambda>r. kw_merchantId r = m \<and> \<not> kw_reversed r) (commission_entries d))"

definition platformCommissionTotals :: "db \<Rightarrow> commission_totals" where
  "platformCommissionTotals d = totals_of (filter (\<lambda>r. \<not> kw_reversed r) (commission_entries d))"

definition reverseCommission :: "string \<Rightarrow> timestamp \<Rightarrow> string option \<Rightarrow> unit prog" where
  "reverseCommission tx t reversal =
     put_db (\<lambda>d. d\<lparr>commission_entries :=
       update_where (\<lambda>r. kw_transactionId r = tx \<and> \<not> kw_reversed r)
         (\<lambda>r. r\<lparr>kw_reversed := True, kw_reversedAt := Some t, kw_reversalTransactionId := reversal\<rparr>)
         (commission_entries d)\<rparr>)"

section \<open>The monthly software fee\<close>

definition DEFAULT_SOFTWARE_FEE_MINOR :: int where
  "DEFAULT_SOFTWARE_FEE_MINOR = 125000"

definition periodOf :: "timestamp \<Rightarrow> string" where
  "periodOf t = take 7 t"

record charge_input =
  hi_id :: string
  hi_merchantId :: string
  hi_period :: string
  hi_amountMinor :: int
  hi_postingId :: string
  hi_at :: timestamp

definition findCharge :: "db \<Rightarrow> string \<Rightarrow> string \<Rightarrow> charge_row option" where
  "findCharge d m period = find (\<lambda>c. gw_merchantId c = m \<and> gw_period c = period) (software_fee_charges d)"

definition charge_checks :: "charge_input \<Rightarrow> bool" where
  "charge_checks i \<longleftrightarrow> length (hi_period i) = 7 \<and> 0 < hi_amountMinor i"

definition charge_row_of :: "charge_input \<Rightarrow> charge_status \<Rightarrow> string option \<Rightarrow> timestamp option \<Rightarrow> charge_row" where
  "charge_row_of i s pid t =
     \<lparr>gw_id = hi_id i, gw_merchantId = hi_merchantId i, gw_period = hi_period i, gw_amountMinor = hi_amountMinor i,
      gw_status = s, gw_postingId = pid, gw_chargedAt = t, gw_waivedReason = None, gw_waivedByAdminId = None,
      gw_createdAt = hi_at i\<rparr>"

definition insert_charge :: "charge_row \<Rightarrow> unit prog" where
  "insert_charge r =
     bnd (get_db (\<lambda>d. d)) (\<lambda>d.
     seq (require (\<not> (\<exists>c\<in>set (software_fee_charges d). gw_id c = gw_id r)) (SqliteErr PRIMARYKEY))
     (seq (require (merchant_exists d (gw_merchantId r)) (SqliteErr FOREIGNKEY))
     (put_db (\<lambda>d. d\<lparr>software_fee_charges := software_fee_charges d @ [r]\<rparr>))))"

definition insertPaidCharge :: "charge_input \<Rightarrow> unit prog" where
  "insertPaidCharge i =
     bnd (get_db (\<lambda>d. d)) (\<lambda>d.
     seq (require (charge_checks i) (SqliteErr CHECK))
     (case findCharge d (hi_merchantId i) (hi_period i) of
        None \<Rightarrow> insert_charge (charge_row_of i PAID (Some (hi_postingId i)) (Some (hi_at i)))
      | Some c \<Rightarrow>
          put_db (\<lambda>d. d\<lparr>software_fee_charges :=
            update_where (\<lambda>c. gw_merchantId c = hi_merchantId i \<and> gw_period c = hi_period i \<and> gw_status c = ARREARS)
              (\<lambda>c. c\<lparr>gw_status := PAID, gw_postingId := Some (hi_postingId i), gw_chargedAt := Some (hi_at i)\<rparr>)
              (software_fee_charges d)\<rparr>)))"

definition insertArrears :: "charge_input \<Rightarrow> unit prog" where
  "insertArrears i =
     bnd (get_db (\<lambda>d. d)) (\<lambda>d.
     seq (require (charge_checks i) (SqliteErr CHECK))
     (case findCharge d (hi_merchantId i) (hi_period i) of
        None \<Rightarrow> insert_charge (charge_row_of i ARREARS None None)
      | Some c \<Rightarrow> ret ()))"

definition outstandingCharges :: "db \<Rightarrow> string option \<Rightarrow> charge_row list" where
  "outstandingCharges d m =
     (case m of
        None \<Rightarrow> order_by gw_period gw_merchantId (filter (\<lambda>c. gw_status c = ARREARS) (software_fee_charges d))
      | Some k \<Rightarrow> sort_key gw_period (filter (\<lambda>c. gw_status c = ARREARS \<and> gw_merchantId c = k) (software_fee_charges d)))"

definition waiveCharge :: "string \<Rightarrow> string \<Rightarrow> string \<Rightarrow> string \<Rightarrow> bool prog" where
  "waiveCharge m period reason admin =
     (if js_trim reason = [] then ret False
      else
        bnd (get_db (\<lambda>d. count_where (\<lambda>c. gw_merchantId c = m \<and> gw_period c = period \<and> gw_status c = ARREARS) (software_fee_charges d))) (\<lambda>n.
        seq (put_db (\<lambda>d. d\<lparr>software_fee_charges :=
               update_where (\<lambda>c. gw_merchantId c = m \<and> gw_period c = period \<and> gw_status c = ARREARS)
                 (\<lambda>c. c\<lparr>gw_status := WAIVED, gw_waivedReason := Some reason, gw_waivedByAdminId := Some admin\<rparr>)
                 (software_fee_charges d)\<rparr>))
        (ret (0 < n))))"

section \<open>The guards\<close>

interpretation reservation_guard: guarded_rows rr_id rr_status "set_reservation t" for t
  by unfold_locales (simp_all add: set_reservation_def)

interpretation pending_guard: guarded_rows pw_transactionId pw_status "set_pending t" for t
  by unfold_locales (simp_all add: set_pending_def)

interpretation cancel_guard: guarded_rows ow_id ow_status set_order
  by unfold_locales (simp_all add: set_order_def)

interpretation authorize_guard: guarded_rows ow_id ow_status "authorize_order tx" for tx
  by unfold_locales (simp_all add: authorize_order_def)

end
