(* ===== verification/Operations.thy ===== *)
theory Operations
  imports Job_Repositories
begin

text \<open>
  The atomic ledger operations (\<open>packages/persistence/src/operations.ts\<close>): each is one
  transaction that moves a reservation and posts the balancing entries together. The lemmas give the
  effect of a posting on the merchant buckets.
\<close>

section \<open>Accounts\<close>

fun kind_name :: "account_kind \<Rightarrow> string" where
  "kind_name MERCHANT_FUNDS = ''merchant_funds''"
| "kind_name MERCHANT_AVAILABLE = ''merchant_available''"
| "kind_name MERCHANT_RESERVED = ''merchant_reserved''"
| "kind_name MERCHANT_UNDER_REVIEW = ''merchant_under_review''"
| "kind_name TELGA_REVENUE = ''telga_revenue''"
| "kind_name PROVIDER_SETTLEMENT = ''provider_settlement''"
| "kind_name HARDWARE_DEPOSITS = ''hardware_deposits''"
| "kind_name REFUND_RESERVES = ''refund_reserves''"
| "kind_name BANK_CLEARING = ''bank_clearing''"

definition merchantAccountId :: "string \<Rightarrow> account_kind \<Rightarrow> string" where
  "merchantAccountId m k = ''acct_'' @ m @ ''_'' @ kind_name k"

definition PLATFORM_ACCOUNTS :: "(account_kind \<times> string) list" where
  "PLATFORM_ACCOUNTS =
     [(BANK_CLEARING, ''acct_platform_bank_clearing''),
      (PROVIDER_SETTLEMENT, ''acct_platform_provider_settlement''),
      (TELGA_REVENUE, ''acct_platform_telga_revenue''),
      (REFUND_RESERVES, ''acct_platform_refund_reserves''),
      (HARDWARE_DEPOSITS, ''acct_platform_hardware_deposits'')]"

definition platform_account :: "account_kind \<Rightarrow> string" where
  "platform_account k = (case map_of PLATFORM_ACCOUNTS k of Some i \<Rightarrow> i | None \<Rightarrow> '''')"

fun ensure_all :: "timestamp \<Rightarrow> (string \<times> string option \<times> account_kind) list \<Rightarrow> unit prog" where
  "ensure_all t [] = ret ()"
| "ensure_all t ((i, m, k) # as) = seq (ensureAccount i m k t) (ensure_all t as)"

definition ensureAccounts :: "string \<Rightarrow> timestamp \<Rightarrow> unit prog" where
  "ensureAccounts m t =
     seq (ensure_all t (map (\<lambda>k. (merchantAccountId m k, Some m, k))
            [MERCHANT_AVAILABLE, MERCHANT_RESERVED, MERCHANT_UNDER_REVIEW]))
         (ensure_all t (map (\<lambda>(k, i). (i, None, k)) PLATFORM_ACCOUNTS))"

section \<open>The operations\<close>

record op_context =
  oc_merchantId :: string
  oc_transactionId :: string
  oc_amount :: money
  oc_at :: timestamp
  oc_correlationId :: string
  oc_actor :: audit_actor
  oc_postingId :: string
  oc_auditId :: string

definition draft ::
  "string \<Rightarrow> account_kind \<Rightarrow> string option \<Rightarrow> string option \<Rightarrow> direction \<Rightarrow> money \<Rightarrow> entry_reason \<Rightarrow> string option \<Rightarrow> draft_entry" where
  "draft account kind m tx dir amount reason rule =
     \<lparr>de_accountId = account, de_accountKind = kind, de_merchantId = m, de_transactionId = tx,
      de_direction = dir, de_amount = amount, de_reason = reason, de_ruleVersion = rule,
      de_providerReference = None, de_memo = None\<rparr>"

definition bucketTransfer ::
  "string \<Rightarrow> account_kind \<Rightarrow> account_kind \<Rightarrow> money \<Rightarrow> string \<Rightarrow> entry_reason \<Rightarrow> draft_entry list" where
  "bucketTransfer m source target amount tx reason =
     [draft (merchantAccountId m source) source (Some m) (Some tx) DEBIT amount reason None,
      draft (merchantAccountId m target) target (Some m) (Some tx) CREDIT amount reason None]"

definition op_audit :: "op_context \<Rightarrow> audit_action \<Rightarrow> string \<Rightarrow> unit prog" where
  "op_audit c action entityType =
     saveAuditEvent
       \<lparr>ui_event = \<lparr>ae_id = oc_auditId c, ae_at = oc_at c, ae_action = action, ae_actor = oc_actor c,
                    ae_merchantId = oc_merchantId c, ae_transactionId = Some (oc_transactionId c),
                    ae_before = None, ae_after = None, ae_detail = None\<rparr>,
        ui_correlationId = oc_correlationId c, ui_entityType = entityType,
        ui_entityId = Some (oc_transactionId c), ui_metadata = None\<rparr>"

definition simple_posting :: "string \<Rightarrow> string \<Rightarrow> timestamp \<Rightarrow> draft_entry list \<Rightarrow> posting" where
  "simple_posting pid correlationId t es =
     \<lparr>po_postingId = pid, po_correlationId = correlationId, po_at = t, po_mode = TRAINING,
      po_entries = es, po_metadata = None\<rparr>"

text \<open>The argument of the deposit-like operations.\<close>

record move_input =
  vi_merchantId :: string
  vi_amount :: money
  vi_at :: timestamp
  vi_correlationId :: string
  vi_postingId :: string

definition transferProfitToBalance :: "move_input \<Rightarrow> unit prog" where
  "transferProfitToBalance i =
     db_transaction
       (seq (ensureAccounts (vi_merchantId i) (vi_at i))
       (appendEntries (simple_posting (vi_postingId i) (vi_correlationId i) (vi_at i)
          [draft (merchantAccountId (vi_merchantId i) MERCHANT_AVAILABLE) MERCHANT_AVAILABLE
             (Some (vi_merchantId i)) None CREDIT (vi_amount i) ADJUSTMENT None,
           draft (platform_account TELGA_REVENUE) TELGA_REVENUE
             (Some (vi_merchantId i)) None DEBIT (vi_amount i) ADJUSTMENT None])))"

definition fundMerchant :: "move_input \<Rightarrow> unit prog" where
  "fundMerchant i =
     db_transaction
       (seq (ensureAccounts (vi_merchantId i) (vi_at i))
       (appendEntries (simple_posting (vi_postingId i) (vi_correlationId i) (vi_at i)
          [draft (merchantAccountId (vi_merchantId i) MERCHANT_AVAILABLE) MERCHANT_AVAILABLE
             (Some (vi_merchantId i)) None CREDIT (vi_amount i) FUNDING_CREDIT None,
           draft (platform_account BANK_CLEARING) BANK_CLEARING None None DEBIT (vi_amount i) FUNDING_CREDIT None])))"

definition postReversalAdjustment :: "move_input \<Rightarrow> string option \<Rightarrow> unit prog" where
  "postReversalAdjustment i tx =
     db_transaction
       (seq (ensureAccounts (vi_merchantId i) (vi_at i))
       (appendEntries (simple_posting (vi_postingId i) (vi_correlationId i) (vi_at i)
          [draft (merchantAccountId (vi_merchantId i) MERCHANT_AVAILABLE) MERCHANT_AVAILABLE
             (Some (vi_merchantId i)) tx CREDIT (vi_amount i) REVERSAL None,
           draft (platform_account PROVIDER_SETTLEMENT) PROVIDER_SETTLEMENT None tx DEBIT (vi_amount i) REVERSAL None])))"

record shop_transfer_input =
  hs_senderMerchantId :: string
  hs_recipientMerchantId :: string
  hs_amount :: money
  hs_fee :: money
  hs_at :: timestamp
  hs_correlationId :: string
  hs_postingId :: string

definition shop_transfer_entries :: "shop_transfer_input \<Rightarrow> money \<Rightarrow> draft_entry list" where
  "shop_transfer_entries i debit =
     [draft (merchantAccountId (hs_senderMerchantId i) MERCHANT_AVAILABLE) MERCHANT_AVAILABLE
        (Some (hs_senderMerchantId i)) None DEBIT debit ADJUSTMENT None,
      draft (merchantAccountId (hs_recipientMerchantId i) MERCHANT_AVAILABLE) MERCHANT_AVAILABLE
        (Some (hs_recipientMerchantId i)) None CREDIT (hs_amount i) ADJUSTMENT None] @
     (if 0 < minor (hs_fee i)
      then [draft (platform_account TELGA_REVENUE) TELGA_REVENUE None None CREDIT (hs_fee i) ADJUSTMENT None]
      else [])"

definition postShopTransfer :: "shop_transfer_input \<Rightarrow> unit prog" where
  "postShopTransfer i =
     db_transaction
       (seq (ensureAccounts (hs_senderMerchantId i) (hs_at i))
       (seq (ensureAccounts (hs_recipientMerchantId i) (hs_at i))
       (bnd (lift_domain (mk_money (JInt (js_add (minor (hs_amount i)) (minor (hs_fee i)))) ETB)) (\<lambda>debit.
       appendEntries (simple_posting (hs_postingId i) (hs_correlationId i) (hs_at i) (shop_transfer_entries i debit))))))"

definition reserve :: "op_context \<Rightarrow> string option \<Rightarrow> unit prog" where
  "reserve c reservationId =
     db_transaction
       (seq (ensureAccounts (oc_merchantId c) (oc_at c))
       (bnd (get_db (\<lambda>d. balanceFor d (oc_merchantId c))) (\<lambda>b.
       bnd (lift_domain b) (\<lambda>view.
       seq (lift_domain (assertSufficientAvailable view (oc_amount c)))
       (bnd (lift_domain (createReservation (or_else reservationId (''res_'' @ oc_transactionId c))
               (oc_merchantId c) (oc_transactionId c) (oc_amount c) (oc_at c))) (\<lambda>r.
       seq (saveReservation r (oc_correlationId c))
       (seq (appendEntries (simple_posting (oc_postingId c) (oc_correlationId c) (oc_at c)
               (bucketTransfer (oc_merchantId c) MERCHANT_AVAILABLE MERCHANT_RESERVED (oc_amount c) (oc_transactionId c) SALE_DEBIT)))
       (op_audit c BALANCE_RESERVED ''balance_reservation'')))))))) "

definition guardedTransition :: "string \<Rightarrow> reservation_state \<Rightarrow> reservation_state \<Rightarrow> timestamp \<Rightarrow> unit prog" where
  "guardedTransition rowId from target t =
     bnd (if from = HELD then transitionHeldReservation rowId target t
          else transitionUnderReviewReservation rowId target t) (\<lambda>moved.
     require moved (PersistErr MERCHANT_SCOPE_VIOLATION))"

text \<open>The common shape: find the reservation, guard its transition, post, audit.\<close>

definition resolve_reservation ::
  "op_context \<Rightarrow> reservation_state \<Rightarrow> reservation_state \<Rightarrow> draft_entry list \<Rightarrow> audit_action \<Rightarrow> string \<Rightarrow> unit prog" where
  "resolve_reservation c from target entries action entityType =
     db_transaction
       (bnd (get_db (\<lambda>d. findReservation d (oc_transactionId c) (Some (oc_merchantId c)))) (\<lambda>r.
        case r of
          None \<Rightarrow> throw (PersistErr ACCOUNT_NOT_FOUND)
        | Some row \<Rightarrow>
            seq (guardedTransition (rr_id row) from target (oc_at c))
            (seq (appendEntries (simple_posting (oc_postingId c) (oc_correlationId c) (oc_at c) entries))
            (op_audit c action entityType))))"

definition release :: "op_context \<Rightarrow> unit prog" where
  "release c =
     resolve_reservation c HELD RELEASED
       (bucketTransfer (oc_merchantId c) MERCHANT_RESERVED MERCHANT_AVAILABLE (oc_amount c) (oc_transactionId c) REVERSAL)
       BALANCE_RELEASED ''balance_reservation''"

definition finalize_entries :: "op_context \<Rightarrow> int \<Rightarrow> int \<Rightarrow> draft_entry list" where
  "finalize_entries c profit bps =
     [draft (merchantAccountId (oc_merchantId c) MERCHANT_RESERVED) MERCHANT_RESERVED
        (Some (oc_merchantId c)) (Some (oc_transactionId c)) DEBIT (oc_amount c) SALE_DEBIT None,
      draft (platform_account PROVIDER_SETTLEMENT) PROVIDER_SETTLEMENT None (Some (oc_transactionId c)) CREDIT
        \<lparr>currency = currency (oc_amount c), minor = js_add (minor (oc_amount c)) (- profit)\<rparr> SALE_DEBIT None] @
     (if 0 < profit
      then [draft (platform_account TELGA_REVENUE) TELGA_REVENUE (Some (oc_merchantId c)) (Some (oc_transactionId c)) CREDIT
              \<lparr>currency = currency (oc_amount c), minor = profit\<rparr> COMMISSION_CREDIT
              (Some (''commission-share-'' @ dec_int bps @ ''bps''))]
      else [])"

definition finalizeSuccess :: "op_context \<Rightarrow> int option \<Rightarrow> int option \<Rightarrow> unit prog" where
  "finalizeSuccess c profitMinor profitBps =
     (let profit = max 0 (min (or_else profitMinor 0) (minor (oc_amount c)))
      in resolve_reservation c HELD SETTLED (finalize_entries c profit (or_else profitBps 0)) LEDGER_POSTED ''transaction'')"

definition moveToUnderReview :: "op_context \<Rightarrow> unit prog" where
  "moveToUnderReview c =
     resolve_reservation c HELD RES_UNDER_REVIEW
       (bucketTransfer (oc_merchantId c) MERCHANT_RESERVED MERCHANT_UNDER_REVIEW (oc_amount c) (oc_transactionId c) ADJUSTMENT)
       BALANCE_UNDER_REVIEW ''balance_reservation''"

definition releaseFromUnderReview :: "op_context \<Rightarrow> unit prog" where
  "releaseFromUnderReview c =
     resolve_reservation c RES_UNDER_REVIEW RELEASED
       (bucketTransfer (oc_merchantId c) MERCHANT_UNDER_REVIEW MERCHANT_AVAILABLE (oc_amount c) (oc_transactionId c) REVERSAL)
       ADJUSTMENT_POSTED ''balance_reservation''"

datatype fee_outcome = FeeCharged int | FeeArrears int int | FeeAlreadyCharged

definition software_fee_entries :: "charge_input \<Rightarrow> draft_entry list" where
  "software_fee_entries i =
     (let amount = \<lparr>currency = ETB, minor = hi_amountMinor i\<rparr>; rule = Some (''software-fee-'' @ hi_period i)
      in [draft (merchantAccountId (hi_merchantId i) MERCHANT_AVAILABLE) MERCHANT_AVAILABLE
            (Some (hi_merchantId i)) None DEBIT amount FEE_DEBIT rule,
          draft (platform_account TELGA_REVENUE) TELGA_REVENUE None None CREDIT amount FEE_DEBIT rule])"

text \<open>Once no final charge exists: take the fee if the balance covers it, record arrears otherwise.\<close>

definition collect_fee :: "charge_input \<Rightarrow> fee_outcome prog" where
  "collect_fee i =
     bnd (get_db (\<lambda>d. balanceFor d (hi_merchantId i))) (\<lambda>b.
     bnd (lift_domain b) (\<lambda>view.
       if minor (bv_available view) < hi_amountMinor i then
         seq (insertArrears i) (ret (FeeArrears (hi_amountMinor i) (minor (bv_available view))))
       else
         seq (ensureAccounts (hi_merchantId i) (hi_at i))
         (seq (appendEntries (simple_posting (hi_postingId i) (''software-fee-'' @ hi_period i) (hi_at i) (software_fee_entries i)))
         (seq (insertPaidCharge i)
         (ret (FeeCharged (hi_amountMinor i)))))))"

definition chargeSoftwareFee :: "charge_input \<Rightarrow> fee_outcome prog" where
  "chargeSoftwareFee i =
     db_transaction
       (bnd (get_db (\<lambda>d. d)) (\<lambda>d.
        case findCharge d (hi_merchantId i) (hi_period i) of
          Some c \<Rightarrow> if gw_status c \<noteq> ARREARS then ret FeeAlreadyCharged else collect_fee i
        | None \<Rightarrow> collect_fee i))"

end
