(* ===== verification/Ledger_Invariant.thy ===== *)
theory Ledger_Invariant
  imports Operations
begin

text \<open>
  What the ledger operations do to the store: a posting appends rows that mirror its drafts, so its
  effect on a bucket is the sum of the drafts' signed amounts. From this follow the invariants: the
  ledger balances, the reserved and under-review buckets equal the live reservations, and no
  available balance is negative.
\<close>

section \<open>Results of primitive writes\<close>

lemma insert_entry_Inr:
  "insert_entry r w = (Inr u, w') \<longleftrightarrow>
     0 < ew_amountMinor r \<and> ew_mode r = TRAINING \<and>
     (\<forall>x\<in>set (ledger_entries (w_db w)). ew_id x \<noteq> ew_id r) \<and>
     (ew_transactionId r = None \<or> transaction_exists (w_db w) (the (ew_transactionId r))) \<and>
     (ew_merchantId r = None \<or> merchant_exists (w_db w) (the (ew_merchantId r))) \<and>
     w' = w\<lparr>w_db := (w_db w)\<lparr>ledger_entries := ledger_entries (w_db w) @ [r]\<rparr>\<rparr>"
  by (auto simp: insert_entry_def bnd_Inr seq_Inr)

definition mirrors :: "entry_row \<Rightarrow> draft_entry \<Rightarrow> bool" where
  "mirrors r e \<longleftrightarrow>
     ew_accountType r = de_accountKind e \<and> signed_row r = signedMinor e \<and> 0 < ew_amountMinor r \<and>
     ew_amountMinor r = minor (de_amount e) \<and>
     (de_merchantId e \<noteq> None \<longrightarrow> ew_merchantId r = de_merchantId e) \<and>
     ew_transactionId r = de_transactionId e \<and> ew_entryType r = de_reason e \<and>
     ew_direction r = de_direction e \<and> ew_ruleVersion r = de_ruleVersion e"

lemma mirrors_entry_row_of: "0 < minor (de_amount e) \<Longrightarrow> mirrors (entry_row_of p md i e a) e"
  by (auto simp: mirrors_def entry_row_of_def signed_row_def signedMinor_def coalesce_def split: option.splits)

definition fresh_rows :: "entry_row list \<Rightarrow> entry_row list \<Rightarrow> bool" where
  "fresh_rows old rows \<longleftrightarrow> distinct (map ew_id rows) \<and> (\<forall>r\<in>set rows. \<forall>x\<in>set old. ew_id x \<noteq> ew_id r)"

lemma append_loop_effect:
  "append_loop p md i es w = (Inr u, w') \<Longrightarrow>
   \<exists>rows. w' = w\<lparr>w_db := (w_db w)\<lparr>ledger_entries := ledger_entries (w_db w) @ rows\<rparr>\<rparr> \<and>
          list_all2 mirrors rows es \<and> fresh_rows (ledger_entries (w_db w)) rows \<and>
          (\<forall>r\<in>set rows. ew_postingId r = po_postingId p)"
proof (induction p md i es arbitrary: w rule: append_loop.induct)
  case (1 p md i)
  then show ?case by (intro exI [of _ "[]"]) (simp add: fresh_rows_def)
next
  case (2 p md i e es)
  from "2.prems" obtain a w1 where a: "find_account_by_id (w_db w) (de_accountId e) = Some a"
    and ins: "insert_entry (entry_row_of p md i e a) w = (Inr (), w1)"
    and rest: "append_loop p md (Suc i) es w1 = (Inr u, w')"
    by (auto simp: bnd_Inr seq_Inr split: option.splits)
  let ?r = "entry_row_of p md i e a"
  have w1: "w1 = w\<lparr>w_db := (w_db w)\<lparr>ledger_entries := ledger_entries (w_db w) @ [?r]\<rparr>\<rparr>"
    and pos: "0 < minor (de_amount e)" and new: "\<forall>x\<in>set (ledger_entries (w_db w)). ew_id x \<noteq> ew_id ?r"
    using ins by (auto simp: insert_entry_Inr entry_row_of_def)
  obtain rows where rows: "w' = w1\<lparr>w_db := (w_db w1)\<lparr>ledger_entries := ledger_entries (w_db w1) @ rows\<rparr>\<rparr>"
    "list_all2 mirrors rows es" "fresh_rows (ledger_entries (w_db w1)) rows"
    "\<forall>r\<in>set rows. ew_postingId r = po_postingId p"
    using "2.IH" [OF rest] by blast
  have "fresh_rows (ledger_entries (w_db w)) (?r # rows)"
    using rows(3) new by (fastforce simp: fresh_rows_def w1)
  then show ?case
    using rows pos by (intro exI [of _ "?r # rows"]) (simp add: w1 mirrors_entry_row_of, simp add: entry_row_of_def)
qed

lemma appendEntries_effect:
  assumes "appendEntries p w = (Inr u, w')"
  obtains rows where
    "w' = w\<lparr>w_db := (w_db w)\<lparr>ledger_entries := ledger_entries (w_db w) @ rows\<rparr>\<rparr>"
    "list_all2 mirrors rows (po_entries p)" "fresh_rows (ledger_entries (w_db w)) rows"
    "\<forall>r\<in>set rows. ew_postingId r = po_postingId p" "assertBalanced (po_entries p) = Inr ()"
  using assms append_loop_effect by (fastforce simp: appendEntries_def bnd_Inr seq_Inr)

lemma ensureAccount_effect:
  "ensureAccount i m k t w = (Inr u, w') \<Longrightarrow> \<exists>as. w' = w\<lparr>w_db := (w_db w)\<lparr>ledger_accounts := as\<rparr>\<rparr>"
  by (auto simp: ensureAccount_def bnd_Inr seq_Inr put_db_def split: if_splits intro: exI [of _ "ledger_accounts (w_db w)"])

lemma ensure_all_effect:
  "ensure_all t as w = (Inr u, w') \<Longrightarrow> \<exists>acc. w' = w\<lparr>w_db := (w_db w)\<lparr>ledger_accounts := acc\<rparr>\<rparr>"
proof (induction as arbitrary: w)
  case Nil
  then show ?case by (intro exI [of _ "ledger_accounts (w_db w)"]) simp
next
  case (Cons a as)
  obtain i m k where a: "a = (i, m, k)" by (cases a)
  from Cons.prems obtain w1 where "ensureAccount i m k t w = (Inr (), w1)" "ensure_all t as w1 = (Inr u, w')"
    by (auto simp: a seq_Inr)
  then show ?case using ensureAccount_effect [of i m k t w "()" w1] Cons.IH [of w1] by auto
qed

lemma ensureAccounts_effect:
  assumes "ensureAccounts m t w = (Inr u, w')"
  obtains acc where "w' = w\<lparr>w_db := (w_db w)\<lparr>ledger_accounts := acc\<rparr>\<rparr>"
proof -
  from assms obtain w1 where "ensure_all t (map (\<lambda>k. (merchantAccountId m k, Some m, k))
            [MERCHANT_AVAILABLE, MERCHANT_RESERVED, MERCHANT_UNDER_REVIEW]) w = (Inr (), w1)"
    "ensure_all t (map (\<lambda>(k, i). (i, None, k)) PLATFORM_ACCOUNTS) w1 = (Inr u, w')"
    by (auto simp: ensureAccounts_def seq_Inr)
  then obtain a b where "w1 = w\<lparr>w_db := (w_db w)\<lparr>ledger_accounts := a\<rparr>\<rparr>"
    "w' = w1\<lparr>w_db := (w_db w1)\<lparr>ledger_accounts := b\<rparr>\<rparr>"
    using ensure_all_effect by meson
  then show thesis using that [of b] by simp
qed

lemma op_audit_effect:
  assumes "op_audit c a t w = (Inr u, w')"
  obtains r where "w' = w\<lparr>w_db := (w_db w)\<lparr>audit_events := audit_events (w_db w) @ [r]\<rparr>\<rparr>"
  using assms by (auto simp: op_audit_def saveAuditEvent_def bnd_Inr seq_Inr)

section \<open>Buckets\<close>

definition net_rows :: "string \<Rightarrow> account_kind list \<Rightarrow> entry_row list \<Rightarrow> int" where
  "net_rows m ks rows = sum_list (map signed_row (filter (\<lambda>e. ew_merchantId e = Some m \<and> ew_accountType e \<in> set ks) rows))"

lemma netMinor_net_rows: "netMinor d m ks = net_rows m ks (ledger_entries d)"
  by (simp add: netMinor_def net_rows_def)

lemma net_rows_simps [simp]:
  "net_rows m ks [] = 0"
  "net_rows m ks (r # rows) = (if ew_merchantId r = Some m \<and> ew_accountType r \<in> set ks then signed_row r else 0) + net_rows m ks rows"
  "net_rows m ks (rows @ rows') = net_rows m ks rows + net_rows m ks rows'"
  by (simp_all add: net_rows_def)

definition draft_net :: "string \<Rightarrow> account_kind list \<Rightarrow> draft_entry list \<Rightarrow> int" where
  "draft_net m ks es = sum_list (map signedMinor (filter (\<lambda>e. de_merchantId e = Some m \<and> de_accountKind e \<in> set ks) es))"

lemma draft_net_simps [simp]:
  "draft_net m ks [] = 0"
  "draft_net m ks (e # es) = (if de_merchantId e = Some m \<and> de_accountKind e \<in> set ks then signedMinor e else 0) + draft_net m ks es"
  by (simp_all add: draft_net_def)

definition attributed :: "account_kind list \<Rightarrow> draft_entry list \<Rightarrow> bool" where
  "attributed ks es \<longleftrightarrow> (\<forall>e\<in>set es. de_accountKind e \<in> set ks \<longrightarrow> de_merchantId e \<noteq> None)"

lemma net_rows_mirrors:
  assumes "list_all2 mirrors rows es" "attributed ks es"
  shows "net_rows m ks rows = draft_net m ks es"
  using assms
proof (induction rule: list_all2_induct)
  case Nil
  then show ?case by simp
next
  case (Cons r rows e es)
  then have "net_rows m ks rows = draft_net m ks es" by (simp add: attributed_def)
  moreover have "ew_merchantId r = de_merchantId e" if "de_accountKind e \<in> set ks"
    using Cons that by (simp add: attributed_def mirrors_def)
  ultimately show ?case using Cons.hyps(1) by (auto simp: mirrors_def)
qed

lemma residual_mirrors: "list_all2 mirrors rows es \<Longrightarrow> sum_list (map signed_row rows) = exact_residual es"
  by (induction rule: list_all2_induct) (simp_all add: mirrors_def)

text \<open>A posting: the entries grow by rows that mirror the drafts.\<close>

definition posts :: "db \<Rightarrow> db \<Rightarrow> draft_entry list \<Rightarrow> bool" where
  "posts d d' es \<longleftrightarrow>
     (\<exists>rows. ledger_entries d' = ledger_entries d @ rows \<and> list_all2 mirrors rows es \<and> fresh_rows (ledger_entries d) rows)"

lemma posts_net: "posts d d' es \<Longrightarrow> attributed ks es \<Longrightarrow> netMinor d' m ks = netMinor d m ks + draft_net m ks es"
  using net_rows_mirrors by (auto simp: posts_def netMinor_net_rows)

lemma posts_residual: "posts d d' es \<Longrightarrow> ledgerResidualMinor d' = ledgerResidualMinor d + exact_residual es"
  using residual_mirrors by (auto simp: posts_def ledgerResidualMinor_def)

lemma posts_positive: "posts d d' es \<Longrightarrow> e \<in> set es \<Longrightarrow> 0 < minor (de_amount e)"
proof -
  assume "posts d d' es" "e \<in> set es"
  then obtain r where "mirrors r e" by (auto simp: posts_def list_all2_conv_all_nth in_set_conv_nth)
  then show ?thesis by (simp add: mirrors_def)
qed

section \<open>Live reservations\<close>

definition live_sum :: "string \<Rightarrow> reservation_state \<Rightarrow> reservation_row list \<Rightarrow> int" where
  "live_sum m st rs = sum_list (map rr_amountMinor (filter (\<lambda>r. rr_merchantId r = m \<and> rr_status r = st) rs))"

lemma live_sum_simps [simp]:
  "live_sum m st [] = 0"
  "live_sum m st (r # rs) = (if rr_merchantId r = m \<and> rr_status r = st then rr_amountMinor r else 0) + live_sum m st rs"
  "live_sum m st (rs @ rs') = live_sum m st rs + live_sum m st rs'"
  by (simp_all add: live_sum_def)

lemma set_reservation_simps [simp]:
  "rr_id (set_reservation t s r) = rr_id r" "rr_status (set_reservation t s r) = s"
  "rr_merchantId (set_reservation t s r) = rr_merchantId r" "rr_amountMinor (set_reservation t s r) = rr_amountMinor r"
  "rr_transactionId (set_reservation t s r) = rr_transactionId r"
  by (simp_all add: set_reservation_def)

lemma guarded_update_one:
  assumes "distinct (map key rows)" "row \<in> set rows" "P row"
  shows "update_where (\<lambda>r. key r = key row \<and> P r) g rows = map (\<lambda>r. if key r = key row then g r else r) rows"
proof -
  have "P r" if "r \<in> set rows" "key r = key row" for r
    using that assms by (metis distinct_map inj_onD)
  then show ?thesis by (auto simp: update_where_def)
qed

lemma live_sum_move:
  assumes "distinct (map rr_id rs)" "row \<in> set rs" "rr_status row = source"
  shows "live_sum m st (update_where (\<lambda>r. rr_id r = rr_id row \<and> rr_status r = source) (set_reservation t target) rs) =
    live_sum m st rs - (if rr_merchantId row = m \<and> source = st then rr_amountMinor row else 0)
      + (if rr_merchantId row = m \<and> target = st then rr_amountMinor row else 0)"
proof -
  let ?f = "\<lambda>r. if rr_merchantId r = m \<and> rr_status r = st then rr_amountMinor r else 0"
  have sum: "live_sum m st xs = sum_list (map ?f xs)" for xs by (induction xs) simp_all
  have "live_sum m st (update_where (\<lambda>r. rr_id r = rr_id row \<and> rr_status r = source) (set_reservation t target) rs) =
      sum_list (map ?f (map (\<lambda>r. if rr_id r = rr_id row then set_reservation t target r else r) rs))"
    using guarded_update_one [of rr_id rs row "\<lambda>r. rr_status r = source"] assms by (simp only: sum)
  also have "\<dots> = sum_list (map ?f rs) - ?f row + ?f (set_reservation t target row)"
    by (rule sum_list_update_unique) (use assms in auto)
  finally show ?thesis using assms(3) by (simp add: sum)
qed

section \<open>The invariant\<close>

definition reservations_ok :: "reservation_row list \<Rightarrow> bool" where
  "reservations_ok rs \<longleftrightarrow>
     distinct (map rr_id rs) \<and> distinct (map rr_transactionId rs) \<and> (\<forall>r\<in>set rs. 0 < rr_amountMinor r)"

definition entries_ok :: "entry_row list \<Rightarrow> bool" where
  "entries_ok es \<longleftrightarrow> distinct (map ew_id es) \<and> (\<forall>e\<in>set es. 0 < ew_amountMinor e)"

definition ledger_ok :: "db \<Rightarrow> bool" where
  "ledger_ok d \<longleftrightarrow>
     ledgerResidualMinor d = 0 \<and>
     (\<forall>m. netMinor d m [MERCHANT_RESERVED] = live_sum m HELD (balance_reservations d)) \<and>
     (\<forall>m. netMinor d m [MERCHANT_UNDER_REVIEW] = live_sum m RES_UNDER_REVIEW (balance_reservations d)) \<and>
     (\<forall>m. 0 \<le> netMinor d m [MERCHANT_AVAILABLE, MERCHANT_FUNDS]) \<and>
     reservations_ok (balance_reservations d) \<and> entries_ok (ledger_entries d)"

lemma entries_ok_posts:
  assumes "entries_ok (ledger_entries d)" "posts d d' es"
  shows "entries_ok (ledger_entries d')"
proof -
  obtain rows where r: "ledger_entries d' = ledger_entries d @ rows" "list_all2 mirrors rows es"
    "fresh_rows (ledger_entries d) rows"
    using assms(2) by (auto simp: posts_def)
  have "0 < ew_amountMinor x" if "x \<in> set rows" for x
    using that r(2) by (auto simp: list_all2_conv_all_nth in_set_conv_nth mirrors_def)
  moreover have "ew_id ` set (ledger_entries d) \<inter> ew_id ` set rows = {}"
    using r(3) by (fastforce simp: fresh_rows_def)
  ultimately show ?thesis using assms(1) r by (auto simp: entries_ok_def fresh_rows_def)
qed

lemma ledger_okI:
  assumes ok: "ledger_ok d" and posts: "posts d d' es" and res: "exact_residual es = 0"
    and attr: "attributed MERCHANT_ACCOUNT_KINDS es"
    and held: "\<And>m. live_sum m HELD (balance_reservations d') = live_sum m HELD (balance_reservations d) + draft_net m [MERCHANT_RESERVED] es"
    and review: "\<And>m. live_sum m RES_UNDER_REVIEW (balance_reservations d') = live_sum m RES_UNDER_REVIEW (balance_reservations d) + draft_net m [MERCHANT_UNDER_REVIEW] es"
    and avail: "\<And>m. 0 \<le> netMinor d m [MERCHANT_AVAILABLE, MERCHANT_FUNDS] + draft_net m [MERCHANT_AVAILABLE, MERCHANT_FUNDS] es"
    and rok: "reservations_ok (balance_reservations d')"
  shows "ledger_ok d'"
proof -
  have a: "attributed [MERCHANT_RESERVED] es" "attributed [MERCHANT_UNDER_REVIEW] es"
    "attributed [MERCHANT_AVAILABLE, MERCHANT_FUNDS] es"
    using attr by (simp_all add: attributed_def MERCHANT_ACCOUNT_KINDS_def)
  show ?thesis
    using ok posts_residual [OF posts] posts_net [OF posts a(1)] posts_net [OF posts a(2)] posts_net [OF posts a(3)]
      res held review avail rok entries_ok_posts [OF _ posts]
    by (simp add: ledger_ok_def)
qed

lemma ledger_ok_cong:
  "ledger_entries d' = ledger_entries d \<Longrightarrow> balance_reservations d' = balance_reservations d \<Longrightarrow> ledger_ok d' = ledger_ok d"
  by (simp add: ledger_ok_def ledgerResidualMinor_def netMinor_net_rows)

section \<open>The effect of each operation\<close>

text \<open>The tables a ledger operation never touches, and the part of the world it leaves alone.\<close>

definition rest_of :: "db \<Rightarrow> db" where
  "rest_of d = d\<lparr>ledger_accounts := [], ledger_entries := [], balance_reservations := [], audit_events := []\<rparr>"

definition ledger_frame :: "world \<Rightarrow> world \<Rightarrow> bool" where
  "ledger_frame w w' \<longleftrightarrow> w' = w\<lparr>w_db := w_db w'\<rparr> \<and> rest_of (w_db w') = rest_of (w_db w)"

lemma rest_of_fields:
  assumes "rest_of d' = rest_of d"
  shows "transactions d' = transactions d" "merchants d' = merchants d" "devices d' = devices d"
    "idempotency_records d' = idempotency_records d" "pending_resolutions d' = pending_resolutions d"
    "support_cases d' = support_cases d" "recovery_claims d' = recovery_claims d"
    "platform_fee_settings d' = platform_fee_settings d" "commission_entries d' = commission_entries d"
    "software_fee_charges d' = software_fee_charges d" "pending_orders d' = pending_orders d"
    "provider_commission_rates d' = provider_commission_rates d"
  using arg_cong [OF assms, of transactions] arg_cong [OF assms, of merchants] arg_cong [OF assms, of devices]
    arg_cong [OF assms, of idempotency_records] arg_cong [OF assms, of pending_resolutions]
    arg_cong [OF assms, of support_cases] arg_cong [OF assms, of recovery_claims]
    arg_cong [OF assms, of platform_fee_settings] arg_cong [OF assms, of commission_entries]
    arg_cong [OF assms, of software_fee_charges] arg_cong [OF assms, of pending_orders]
    arg_cong [OF assms, of provider_commission_rates]
  by (simp_all add: rest_of_def)

lemma ledger_frame_fields:
  "ledger_frame w w' \<Longrightarrow> w_ticks w' = w_ticks w \<and> w_ids w' = w_ids w \<and> w_calls w' = w_calls w \<and> rest_of (w_db w') = rest_of (w_db w)"
  unfolding ledger_frame_def by (metis world.select_convs(2-4) world.surjective world.update_convs(1))

lemma guardedTransition_effect:
  assumes "guardedTransition i source target t w = (Inr u, w')" "source \<in> {HELD, RES_UNDER_REVIEW}"
  shows "count_where (\<lambda>r. rr_id r = i \<and> rr_status r = source) (balance_reservations (w_db w)) = 1 \<and>
    w' = w\<lparr>w_db := (w_db w)\<lparr>balance_reservations :=
      update_where (\<lambda>r. rr_id r = i \<and> rr_status r = source) (set_reservation t target) (balance_reservations (w_db w))\<rparr>\<rparr>"
  using assms
  by (auto simp: guardedTransition_def transitionHeldReservation_def transitionUnderReviewReservation_def
      move_reservation_def bnd_Inr seq_Inr guarded_move_def)

lemma findReservation_SomeD:
  "findReservation d tx (Some m) = Some row \<Longrightarrow> row \<in> set (balance_reservations d) \<and> rr_transactionId row = tx \<and> rr_merchantId row = m"
  unfolding findReservation_def by (drule find_SomeD) simp

lemma resolve_reservation_effect:
  assumes run: "resolve_reservation c source target es a k w = (Inr u, w')"
    and source: "source \<in> {HELD, RES_UNDER_REVIEW}"
    and ids: "distinct (map rr_id (balance_reservations (w_db w)))"
  obtains row where
    "findReservation (w_db w) (oc_transactionId c) (Some (oc_merchantId c)) = Some row"
    "rr_status row = source" "posts (w_db w) (w_db w') es" "assertBalanced es = Inr ()"
    "balance_reservations (w_db w') =
       update_where (\<lambda>r. rr_id r = rr_id row \<and> rr_status r = source) (set_reservation (oc_at c) target)
         (balance_reservations (w_db w))"
    "ledger_frame w w'"
proof -
  from run obtain row w1 w2 where
    row: "findReservation (w_db w) (oc_transactionId c) (Some (oc_merchantId c)) = Some row"
    and guard: "guardedTransition (rr_id row) source target (oc_at c) w = (Inr (), w1)"
    and append: "appendEntries (simple_posting (oc_postingId c) (oc_correlationId c) (oc_at c) es) w1 = (Inr (), w2)"
    and audit: "op_audit c a k w2 = (Inr u, w')"
    by (auto simp: resolve_reservation_def bnd_Inr seq_Inr split: option.splits)
  let ?rows = "update_where (\<lambda>r. rr_id r = rr_id row \<and> rr_status r = source) (set_reservation (oc_at c) target) (balance_reservations (w_db w))"
  from guardedTransition_effect [OF guard source]
  have count: "count_where (\<lambda>r. rr_id r = rr_id row \<and> rr_status r = source) (balance_reservations (w_db w)) = 1"
    and w1: "w1 = w\<lparr>w_db := (w_db w)\<lparr>balance_reservations := ?rows\<rparr>\<rparr>" by blast+
  obtain rows where rows: "w2 = w1\<lparr>w_db := (w_db w1)\<lparr>ledger_entries := ledger_entries (w_db w1) @ rows\<rparr>\<rparr>"
    "list_all2 mirrors rows es" "fresh_rows (ledger_entries (w_db w1)) rows" "assertBalanced es = Inr ()"
    using append by (rule appendEntries_effect) (simp add: simple_posting_def)
  obtain r where w': "w' = w2\<lparr>w_db := (w_db w2)\<lparr>audit_events := audit_events (w_db w2) @ [r]\<rparr>\<rparr>"
    using audit by (rule op_audit_effect)
  have row_in: "row \<in> set (balance_reservations (w_db w))" using findReservation_SomeD [OF row] by simp
  have "rr_status row = source"
  proof -
    have "0 < count_where (\<lambda>r. rr_id r = rr_id row \<and> rr_status r = source) (balance_reservations (w_db w))" using count by simp
    then obtain r where "r \<in> set (balance_reservations (w_db w))" "rr_id r = rr_id row" "rr_status r = source"
      unfolding count_where_pos by blast
    then show ?thesis using ids row_in by (metis distinct_map inj_onD)
  qed
  moreover have "posts (w_db w) (w_db w') es"
    using rows by (auto simp: posts_def w' w1)
  moreover have "balance_reservations (w_db w') = ?rows" by (simp add: w' rows(1) w1)
  moreover have "ledger_frame w w'" by (simp add: ledger_frame_def rest_of_def w' rows(1) w1)
  ultimately show thesis using that row rows(4) by blast
qed

text \<open>A deposit-like operation: accounts, then one posting.\<close>

lemma simple_operation_effect:
  assumes "db_transaction (seq (ensureAccounts m t) (appendEntries (simple_posting pid cid t es))) w = (Inr u, w')"
  shows "posts (w_db w) (w_db w') es \<and> balance_reservations (w_db w') = balance_reservations (w_db w) \<and>
    ledger_frame w w' \<and> assertBalanced es = Inr ()"
proof -
  from assms obtain w1 where ens: "ensureAccounts m t w = (Inr (), w1)"
    and app: "appendEntries (simple_posting pid cid t es) w1 = (Inr u, w')"
    by (auto simp: seq_Inr)
  obtain acc where w1: "w1 = w\<lparr>w_db := (w_db w)\<lparr>ledger_accounts := acc\<rparr>\<rparr>" using ens by (rule ensureAccounts_effect)
  obtain rows where "w' = w1\<lparr>w_db := (w_db w1)\<lparr>ledger_entries := ledger_entries (w_db w1) @ rows\<rparr>\<rparr>"
    "list_all2 mirrors rows es" "fresh_rows (ledger_entries (w_db w1)) rows" "assertBalanced es = Inr ()"
    using app by (rule appendEntries_effect) (simp add: simple_posting_def)
  then show ?thesis by (auto simp: posts_def ledger_frame_def rest_of_def w1)
qed

lemma reserve_effect:
  assumes "reserve c rid w = (Inr u, w')"
    and new: "findReservationById (w_db w) (or_else rid (''res_'' @ oc_transactionId c)) = None"
  obtains row where
    "minor (oc_amount c) \<le> netMinor (w_db w) (oc_merchantId c) [MERCHANT_AVAILABLE, MERCHANT_FUNDS]"
    "0 < minor (oc_amount c)"
    "posts (w_db w) (w_db w') (bucketTransfer (oc_merchantId c) MERCHANT_AVAILABLE MERCHANT_RESERVED (oc_amount c) (oc_transactionId c) SALE_DEBIT)"
    "balance_reservations (w_db w') = balance_reservations (w_db w) @ [row]"
    "rr_id row = or_else rid (''res_'' @ oc_transactionId c)" "rr_merchantId row = oc_merchantId c"
    "rr_transactionId row = oc_transactionId c" "rr_amountMinor row = minor (oc_amount c)" "rr_status row = HELD"
    "findReservation (w_db w) (oc_transactionId c) None = None"
    "transaction_exists (w_db w) (oc_transactionId c)" "ledger_frame w w'"
proof -
  let ?es = "bucketTransfer (oc_merchantId c) MERCHANT_AVAILABLE MERCHANT_RESERVED (oc_amount c) (oc_transactionId c) SALE_DEBIT"
  let ?i = "or_else rid (''res_'' @ oc_transactionId c)"
  from assms(1) obtain w1 view r w2 w3 where
    ens: "ensureAccounts (oc_merchantId c) (oc_at c) w = (Inr (), w1)"
    and view: "balanceFor (w_db w1) (oc_merchantId c) = Inr view"
    and enough: "assertSufficientAvailable view (oc_amount c) = Inr ()"
    and r: "createReservation ?i (oc_merchantId c) (oc_transactionId c) (oc_amount c) (oc_at c) = Inr r"
    and save: "saveReservation r (oc_correlationId c) w1 = (Inr (), w2)"
    and app: "appendEntries (simple_posting (oc_postingId c) (oc_correlationId c) (oc_at c) ?es) w2 = (Inr (), w3)"
    and audit: "op_audit c BALANCE_RESERVED ''balance_reservation'' w3 = (Inr u, w')"
    by (auto simp: reserve_def bnd_Inr seq_Inr)
  obtain acc where w1: "w1 = w\<lparr>w_db := (w_db w)\<lparr>ledger_accounts := acc\<rparr>\<rparr>" using ens by (rule ensureAccounts_effect)
  have r': "r = \<lparr>rv_id = ?i, rv_merchantId = oc_merchantId c, rv_transactionId = oc_transactionId c, rv_amount = oc_amount c,
      rv_state = HELD, rv_createdAt = oc_at c, rv_updatedAt = oc_at c\<rparr>" and pos: "0 < minor (oc_amount c)"
    using r by (auto simp: createReservation_def rbind_Inr_iff)
  have le: "minor (oc_amount c) \<le> netMinor (w_db w) (oc_merchantId c) [MERCHANT_AVAILABLE, MERCHANT_FUNDS]"
    using view enough
    by (auto simp: balanceFor_def Let_def rbind_Inr_iff mk_money_Inr assertSufficientAvailable_def netMinor_net_rows w1 split: if_splits)
  let ?row = "reservation_row_of r (oc_correlationId c)"
  have none: "findReservation (w_db w) (oc_transactionId c) None = None" and tx: "transaction_exists (w_db w) (oc_transactionId c)"
    and w2: "w2 = w1\<lparr>w_db := (w_db w1)\<lparr>balance_reservations := balance_reservations (w_db w1) @ [?row]\<rparr>\<rparr>"
    using save new
    by (auto simp: saveReservation_def bnd_Inr seq_Inr w1 r' findReservationById_def findReservation_def transaction_exists_def split: if_splits)
  obtain rows where rows: "w3 = w2\<lparr>w_db := (w_db w2)\<lparr>ledger_entries := ledger_entries (w_db w2) @ rows\<rparr>\<rparr>"
    "list_all2 mirrors rows ?es" "fresh_rows (ledger_entries (w_db w2)) rows"
    using app by (rule appendEntries_effect) (simp add: simple_posting_def)
  obtain x where w': "w' = w3\<lparr>w_db := (w_db w3)\<lparr>audit_events := audit_events (w_db w3) @ [x]\<rparr>\<rparr>"
    using audit by (rule op_audit_effect)
  show thesis
  proof (rule that [of ?row])
    show "posts (w_db w) (w_db w') ?es" using rows by (auto simp: posts_def w' w2 w1)
    show "balance_reservations (w_db w') = balance_reservations (w_db w) @ [?row]" by (simp add: w' rows(1) w2 w1)
    show "ledger_frame w w'" by (simp add: ledger_frame_def rest_of_def w' rows(1) w2 w1)
  qed (use le pos none tx in \<open>simp_all add: reservation_row_of_def r'\<close>)
qed

section \<open>Every operation keeps the invariant\<close>

lemma draft_simps [simp]:
  "de_accountKind (draft a k m tx dir n rs rule) = k" "de_merchantId (draft a k m tx dir n rs rule) = m"
  "de_amount (draft a k m tx dir n rs rule) = n"
  "signedMinor (draft a k m tx dir n rs rule) = (if dir = CREDIT then minor n else - minor n)"
  by (simp_all add: draft_def signedMinor_def)

lemmas entry_list_defs = bucketTransfer_def finalize_entries_def shop_transfer_entries_def software_fee_entries_def Let_def

lemma credit_available_ok:
  assumes "ledger_ok d" "posts d d' es" "balance_reservations d' = balance_reservations d"
    and es: "es = [draft a MERCHANT_AVAILABLE (Some m) tx CREDIT n rs rule, draft b k m' tx' DEBIT n rs' rule']"
    and k: "\<not> isMerchantAccountKind k"
  shows "ledger_ok d'"
proof (rule ledger_okI [OF assms(1,2)])
  have "0 < minor n"
    using posts_positive [OF assms(2), of "draft a MERCHANT_AVAILABLE (Some m) tx CREDIT n rs rule"] by (simp add: es)
  moreover have nk: "k \<notin> {MERCHANT_FUNDS, MERCHANT_AVAILABLE, MERCHANT_RESERVED, MERCHANT_UNDER_REVIEW}"
    using k by (simp add: isMerchantAccountKind_def MERCHANT_ACCOUNT_KINDS_def)
  moreover have "0 \<le> netMinor d m [MERCHANT_AVAILABLE, MERCHANT_FUNDS]" for m using assms(1) by (simp add: ledger_ok_def)
  ultimately show "\<And>m. 0 \<le> netMinor d m [MERCHANT_AVAILABLE, MERCHANT_FUNDS] + draft_net m [MERCHANT_AVAILABLE, MERCHANT_FUNDS] es"
    by (simp add: es add_nonneg_nonneg)
  show "exact_residual es = 0" by (simp add: es)
  show "attributed MERCHANT_ACCOUNT_KINDS es" using k by (simp add: es attributed_def isMerchantAccountKind_def)
  show "live_sum m HELD (balance_reservations d') = live_sum m HELD (balance_reservations d) + draft_net m [MERCHANT_RESERVED] es" for m
    using nk by (simp add: es assms(3))
  show "live_sum m RES_UNDER_REVIEW (balance_reservations d') = live_sum m RES_UNDER_REVIEW (balance_reservations d) + draft_net m [MERCHANT_UNDER_REVIEW] es" for m
    using nk by (simp add: es assms(3))
  show "reservations_ok (balance_reservations d')" using assms(1,3) by (simp add: ledger_ok_def)
qed

lemma credit_operation_ok:
  assumes run: "db_transaction (seq (ensureAccounts m t) (appendEntries (simple_posting pid cid t
      [draft a MERCHANT_AVAILABLE (Some m) tx CREDIT n rs rule, draft b k m' tx' DEBIT n rs' rule']))) w = (r, w')"
    and k: "\<not> isMerchantAccountKind k" and ok: "ledger_ok (w_db w)"
  shows "ledger_ok (w_db w')"
proof (cases r)
  case (Inl e)
  then show ?thesis using run ok db_transaction_rollback by metis
next
  case (Inr u)
  from simple_operation_effect [OF run [unfolded Inr]] show ?thesis
    using credit_available_ok [OF ok _ _ refl k] by blast
qed

lemma platform_kinds [simp]:
  "\<not> isMerchantAccountKind BANK_CLEARING" "\<not> isMerchantAccountKind TELGA_REVENUE" "\<not> isMerchantAccountKind PROVIDER_SETTLEMENT"
  by (simp_all add: isMerchantAccountKind_def MERCHANT_ACCOUNT_KINDS_def)

lemma fundMerchant_ok: "fundMerchant i w = (r, w') \<Longrightarrow> ledger_ok (w_db w) \<Longrightarrow> ledger_ok (w_db w')"
  unfolding fundMerchant_def by (erule credit_operation_ok) simp_all

lemma transferProfitToBalance_ok: "transferProfitToBalance i w = (r, w') \<Longrightarrow> ledger_ok (w_db w) \<Longrightarrow> ledger_ok (w_db w')"
  unfolding transferProfitToBalance_def by (erule credit_operation_ok) simp_all

lemma postReversalAdjustment_ok: "postReversalAdjustment i tx w = (r, w') \<Longrightarrow> ledger_ok (w_db w) \<Longrightarrow> ledger_ok (w_db w')"
  unfolding postReversalAdjustment_def by (erule credit_operation_ok) simp_all

text \<open>A reservation that changes state, with the posting that goes with it.\<close>

definition amount_matches :: "db \<Rightarrow> op_context \<Rightarrow> bool" where
  "amount_matches d c \<longleftrightarrow>
     safe_money (oc_amount c) \<and>
     (case findReservation d (oc_transactionId c) (Some (oc_merchantId c)) of
        None \<Rightarrow> True
      | Some row \<Rightarrow> rr_amountMinor row = minor (oc_amount c))"

lemma update_where_reservations_ok:
  "reservations_ok rs \<Longrightarrow> reservations_ok (update_where P (set_reservation t s) rs)"
proof -
  assume ok: "reservations_ok rs"
  have "map rr_id (update_where P (set_reservation t s) rs) = map rr_id rs"
    "map rr_transactionId (update_where P (set_reservation t s) rs) = map rr_transactionId rs"
    by (simp_all add: update_where_def)
  moreover have "0 < rr_amountMinor r" if "r \<in> set (update_where P (set_reservation t s) rs)" for r
    using that ok by (auto simp: reservations_ok_def update_where_def)
  ultimately show ?thesis using ok by (simp add: reservations_ok_def)
qed

lemma resolve_reservation_ok:
  assumes run: "resolve_reservation c source target es a k w = (r, w')"
    and source: "source \<in> {HELD, RES_UNDER_REVIEW}" and ok: "ledger_ok (w_db w)" and amt: "amount_matches (w_db w) c"
    and attr: "attributed MERCHANT_ACCOUNT_KINDS es" and res: "0 < minor (oc_amount c) \<Longrightarrow> exact_residual es = 0"
    and held: "\<And>m. draft_net m [MERCHANT_RESERVED] es =
        (if m = oc_merchantId c then (if target = HELD then minor (oc_amount c) else 0) - (if source = HELD then minor (oc_amount c) else 0) else 0)"
    and review: "\<And>m. draft_net m [MERCHANT_UNDER_REVIEW] es =
        (if m = oc_merchantId c then (if target = RES_UNDER_REVIEW then minor (oc_amount c) else 0) - (if source = RES_UNDER_REVIEW then minor (oc_amount c) else 0) else 0)"
    and avail: "\<And>m. 0 < minor (oc_amount c) \<Longrightarrow> 0 \<le> draft_net m [MERCHANT_AVAILABLE, MERCHANT_FUNDS] es"
  shows "ledger_ok (w_db w')"
proof (cases r)
  case (Inl e)
  then show ?thesis using run ok db_transaction_rollback unfolding resolve_reservation_def by metis
next
  case (Inr u)
  have rok: "reservations_ok (balance_reservations (w_db w))" using ok by (simp add: ledger_ok_def)
  then have ids: "distinct (map rr_id (balance_reservations (w_db w)))" by (simp add: reservations_ok_def)
  obtain row where row: "findReservation (w_db w) (oc_transactionId c) (Some (oc_merchantId c)) = Some row"
    "rr_status row = source" "posts (w_db w) (w_db w') es"
    "balance_reservations (w_db w') =
       update_where (\<lambda>r. rr_id r = rr_id row \<and> rr_status r = source) (set_reservation (oc_at c) target) (balance_reservations (w_db w))"
    using resolve_reservation_effect [OF run [unfolded Inr] source ids] by blast
  have row_in: "row \<in> set (balance_reservations (w_db w))" "rr_merchantId row = oc_merchantId c"
    using findReservation_SomeD [OF row(1)] by simp_all
  have amount: "rr_amountMinor row = minor (oc_amount c)" using amt row(1) by (simp add: amount_matches_def)
  have pos: "0 < minor (oc_amount c)" using rok row_in(1) amount by (auto simp: reservations_ok_def)
  note live = live_sum_move [OF ids row_in(1) row(2), of _ _ "oc_at c" target]
  show ?thesis
  proof (rule ledger_okI [OF ok row(3) res [OF pos] attr])
    show "live_sum m HELD (balance_reservations (w_db w')) = live_sum m HELD (balance_reservations (w_db w)) + draft_net m [MERCHANT_RESERVED] es" for m
      unfolding row(4) live held using row_in(2) amount by auto
    show "live_sum m RES_UNDER_REVIEW (balance_reservations (w_db w')) = live_sum m RES_UNDER_REVIEW (balance_reservations (w_db w)) + draft_net m [MERCHANT_UNDER_REVIEW] es" for m
      unfolding row(4) live review using row_in(2) amount by auto
    show "0 \<le> netMinor (w_db w) m [MERCHANT_AVAILABLE, MERCHANT_FUNDS] + draft_net m [MERCHANT_AVAILABLE, MERCHANT_FUNDS] es" for m
      using ok avail [OF pos, of m] by (simp add: ledger_ok_def)
    show "reservations_ok (balance_reservations (w_db w'))"
      unfolding row(4) by (rule update_where_reservations_ok [OF rok])
  qed
qed

lemma release_ok:
  assumes "release c w = (r, w')" "ledger_ok (w_db w)" "amount_matches (w_db w) c"
  shows "ledger_ok (w_db w')"
  by (rule resolve_reservation_ok [OF assms(1) [unfolded release_def] _ assms(2,3)])
     (simp_all add: entry_list_defs attributed_def)

lemma moveToUnderReview_ok:
  assumes "moveToUnderReview c w = (r, w')" "ledger_ok (w_db w)" "amount_matches (w_db w) c"
  shows "ledger_ok (w_db w')"
  by (rule resolve_reservation_ok [OF assms(1) [unfolded moveToUnderReview_def] _ assms(2,3)])
     (simp_all add: entry_list_defs attributed_def)

lemma releaseFromUnderReview_ok:
  assumes "releaseFromUnderReview c w = (r, w')" "ledger_ok (w_db w)" "amount_matches (w_db w) c"
  shows "ledger_ok (w_db w')"
  by (rule resolve_reservation_ok [OF assms(1) [unfolded releaseFromUnderReview_def] _ assms(2,3)])
     (simp_all add: entry_list_defs attributed_def)

lemma provider_leg_exact:
  assumes "safe_int a" "0 \<le> p" "p \<le> a"
  shows "js_add a (- p) = a - p"
  using assms js_add_exact [of a "- p"] by (simp add: safe_int_def)

lemma finalizeSuccess_ok:
  assumes "finalizeSuccess c p b w = (r, w')" "ledger_ok (w_db w)" "amount_matches (w_db w) c"
  shows "ledger_ok (w_db w')"
proof -
  let ?profit = "max 0 (min (or_else p 0) (minor (oc_amount c)))"
  have safe: "safe_int (minor (oc_amount c))" using assms(3) by (simp add: amount_matches_def safe_money_def)
  have leg: "js_add (minor (oc_amount c)) (- ?profit) = minor (oc_amount c) - ?profit" if "0 < minor (oc_amount c)"
    by (rule provider_leg_exact [OF safe]) (use that in auto)
  show ?thesis
    by (rule resolve_reservation_ok [OF assms(1) [unfolded finalizeSuccess_def Let_def] _ assms(2,3)])
       (auto simp: entry_list_defs attributed_def MERCHANT_ACCOUNT_KINDS_def leg)
qed

lemma find_None_notin: "find (\<lambda>r. f r = k) rs = None \<Longrightarrow> k \<notin> f ` set rs"
  by (auto simp: find_None_iff)

lemma reserve_ok:
  assumes run: "reserve c rid w = (r, w')" and ok: "ledger_ok (w_db w)"
    and new: "findReservationById (w_db w) (or_else rid (''res_'' @ oc_transactionId c)) = None"
  shows "ledger_ok (w_db w')"
proof (cases r)
  case (Inl e)
  then show ?thesis using run ok db_transaction_rollback unfolding reserve_def by metis
next
  case (Inr u)
  let ?es = "bucketTransfer (oc_merchantId c) MERCHANT_AVAILABLE MERCHANT_RESERVED (oc_amount c) (oc_transactionId c) SALE_DEBIT"
  obtain row where row: "minor (oc_amount c) \<le> netMinor (w_db w) (oc_merchantId c) [MERCHANT_AVAILABLE, MERCHANT_FUNDS]"
    "0 < minor (oc_amount c)" "posts (w_db w) (w_db w') ?es"
    "balance_reservations (w_db w') = balance_reservations (w_db w) @ [row]"
    "rr_id row = or_else rid (''res_'' @ oc_transactionId c)" "rr_merchantId row = oc_merchantId c"
    "rr_transactionId row = oc_transactionId c" "rr_amountMinor row = minor (oc_amount c)" "rr_status row = HELD"
    "findReservation (w_db w) (oc_transactionId c) None = None"
    using reserve_effect [OF run [unfolded Inr] new] by metis
  have "rr_id row \<notin> rr_id ` set (balance_reservations (w_db w))"
    unfolding row(5) by (rule find_None_notin) (use new in \<open>simp add: findReservationById_def\<close>)
  moreover have "rr_transactionId row \<notin> rr_transactionId ` set (balance_reservations (w_db w))"
    unfolding row(7) by (rule find_None_notin) (use row(10) in \<open>simp add: findReservation_def\<close>)
  ultimately have rok: "reservations_ok (balance_reservations (w_db w'))"
    using ok row(2,8) by (auto simp: row(4) ledger_ok_def reservations_ok_def)
  have avail: "0 \<le> netMinor (w_db w) m [MERCHANT_AVAILABLE, MERCHANT_FUNDS]" for m using ok by (simp add: ledger_ok_def)
  show ?thesis
    by (rule ledger_okI [OF ok row(3)])
       (use row avail rok in \<open>auto simp: entry_list_defs attributed_def MERCHANT_ACCOUNT_KINDS_def\<close>)
qed

lemma postShopTransfer_effect:
  assumes "postShopTransfer i w = (Inr u, w')"
  obtains debit where "posts (w_db w) (w_db w') (shop_transfer_entries i debit)" "minor debit = minor (hs_amount i) + minor (hs_fee i)"
    "balance_reservations (w_db w') = balance_reservations (w_db w)" "0 < minor (hs_amount i)"
    "shop_transfers (w_db w') = shop_transfers (w_db w)"
proof -
  from assms obtain w1 w2 debit where
    ens: "ensureAccounts (hs_senderMerchantId i) (hs_at i) w = (Inr (), w1)"
      "ensureAccounts (hs_recipientMerchantId i) (hs_at i) w1 = (Inr (), w2)"
    and debit: "mk_money (JInt (js_add (minor (hs_amount i)) (minor (hs_fee i)))) ETB = Inr debit"
    and app: "appendEntries (simple_posting (hs_postingId i) (hs_correlationId i) (hs_at i) (shop_transfer_entries i debit)) w2 = (Inr u, w')"
    by (auto simp: postShopTransfer_def bnd_Inr seq_Inr)
  obtain acc where w1: "w1 = w\<lparr>w_db := (w_db w)\<lparr>ledger_accounts := acc\<rparr>\<rparr>" using ens(1) by (rule ensureAccounts_effect)
  obtain acc' where w2: "w2 = w1\<lparr>w_db := (w_db w1)\<lparr>ledger_accounts := acc'\<rparr>\<rparr>" using ens(2) by (rule ensureAccounts_effect)
  obtain rows where rows: "w' = w2\<lparr>w_db := (w_db w2)\<lparr>ledger_entries := ledger_entries (w_db w2) @ rows\<rparr>\<rparr>"
    "list_all2 mirrors rows (shop_transfer_entries i debit)" "fresh_rows (ledger_entries (w_db w2)) rows"
    using app by (rule appendEntries_effect) (simp add: simple_posting_def)
  have posts: "posts (w_db w) (w_db w') (shop_transfer_entries i debit)" using rows by (auto simp: posts_def w2 w1)
  have d: "minor debit = minor (hs_amount i) + minor (hs_fee i)"
    using debit by (auto simp: mk_money_Inr js_add_def safe_fl53 fl53_exact)
  have "0 < minor (hs_amount i)"
    using posts_positive [OF posts, of "draft (merchantAccountId (hs_recipientMerchantId i) MERCHANT_AVAILABLE) MERCHANT_AVAILABLE
        (Some (hs_recipientMerchantId i)) None CREDIT (hs_amount i) ADJUSTMENT None"]
    by (simp add: shop_transfer_entries_def)
  then show thesis using that [OF posts d] by (simp add: rows(1) w2 w1)
qed

lemma postShopTransfer_ok:
  assumes run: "postShopTransfer i w = (r, w')" and ok: "ledger_ok (w_db w)" and fee: "0 \<le> minor (hs_fee i)"
    and enough: "minor (hs_amount i) + minor (hs_fee i) \<le> netMinor (w_db w) (hs_senderMerchantId i) [MERCHANT_AVAILABLE, MERCHANT_FUNDS]"
  shows "ledger_ok (w_db w')"
proof (cases r)
  case (Inl e)
  then show ?thesis using run ok db_transaction_rollback unfolding postShopTransfer_def by metis
next
  case (Inr u)
  obtain debit where posts: "posts (w_db w) (w_db w') (shop_transfer_entries i debit)" and d: "minor debit = minor (hs_amount i) + minor (hs_fee i)"
    and same: "balance_reservations (w_db w') = balance_reservations (w_db w)" and pos: "0 < minor (hs_amount i)"
    using run [unfolded Inr] by (rule postShopTransfer_effect)
  have "0 \<le> netMinor (w_db w) m [MERCHANT_AVAILABLE, MERCHANT_FUNDS]" for m using ok by (simp add: ledger_ok_def)
  then show ?thesis
    by (intro ledger_okI [OF ok posts])
       (use ok enough fee pos in \<open>auto simp: entry_list_defs attributed_def MERCHANT_ACCOUNT_KINDS_def d same ledger_ok_def\<close>)
qed

lemma insert_charge_frame:
  "insert_charge r w = (x, w') \<Longrightarrow> ledger_entries (w_db w') = ledger_entries (w_db w) \<and> balance_reservations (w_db w') = balance_reservations (w_db w)"
  by (auto simp: insert_charge_def bnd_def seq_def require_run get_db_def put_db_def split: if_splits)

lemma insertPaidCharge_frame:
  "insertPaidCharge i w = (x, w') \<Longrightarrow> ledger_entries (w_db w') = ledger_entries (w_db w) \<and> balance_reservations (w_db w') = balance_reservations (w_db w)"
  by (auto simp: insertPaidCharge_def bnd_def seq_def require_run get_db_def put_db_def
      dest: insert_charge_frame split: if_splits option.splits)

lemma insertArrears_frame:
  "insertArrears i w = (x, w') \<Longrightarrow> ledger_entries (w_db w') = ledger_entries (w_db w) \<and> balance_reservations (w_db w') = balance_reservations (w_db w)"
  by (auto simp: insertArrears_def bnd_def seq_def require_run get_db_def ret_def
      dest: insert_charge_frame split: if_splits option.splits)

lemma collect_fee_ok:
  assumes run: "collect_fee i w = (Inr x, w')" and ok: "ledger_ok (w_db w)"
  shows "ledger_ok (w_db w')"
proof -
  from run obtain view where view: "balanceFor (w_db w) (hi_merchantId i) = Inr view"
    and body: "(if minor (bv_available view) < hi_amountMinor i then
         seq (insertArrears i) (ret (FeeArrears (hi_amountMinor i) (minor (bv_available view))))
       else
         seq (ensureAccounts (hi_merchantId i) (hi_at i))
         (seq (appendEntries (simple_posting (hi_postingId i) (''software-fee-'' @ hi_period i) (hi_at i) (software_fee_entries i)))
         (seq (insertPaidCharge i) (ret (FeeCharged (hi_amountMinor i)))))) w = (Inr x, w')"
    by (auto simp: collect_fee_def bnd_Inr)
  have avail: "minor (bv_available view) = netMinor (w_db w) (hi_merchantId i) [MERCHANT_AVAILABLE, MERCHANT_FUNDS]"
    using view by (auto simp: balanceFor_def Let_def rbind_Inr_iff mk_money_Inr)
  show ?thesis
  proof (cases "minor (bv_available view) < hi_amountMinor i")
    case True
    then have "insertArrears i w = (Inr (), w')" using body by (auto simp: seq_Inr)
    then show ?thesis using insertArrears_frame ledger_ok_cong ok by metis
  next
    case False
    with body obtain w1 w2 where ens: "ensureAccounts (hi_merchantId i) (hi_at i) w = (Inr (), w1)"
      and app: "appendEntries (simple_posting (hi_postingId i) (''software-fee-'' @ hi_period i) (hi_at i) (software_fee_entries i)) w1 = (Inr (), w2)"
      and paid: "insertPaidCharge i w2 = (Inr (), w')"
      by (auto simp: seq_Inr)
    obtain acc where w1: "w1 = w\<lparr>w_db := (w_db w)\<lparr>ledger_accounts := acc\<rparr>\<rparr>" using ens by (rule ensureAccounts_effect)
    obtain rows where rows: "w2 = w1\<lparr>w_db := (w_db w1)\<lparr>ledger_entries := ledger_entries (w_db w1) @ rows\<rparr>\<rparr>"
      "list_all2 mirrors rows (software_fee_entries i)" "fresh_rows (ledger_entries (w_db w1)) rows"
      using app by (rule appendEntries_effect) (simp add: simple_posting_def)
    have posts: "posts (w_db w) (w_db w') (software_fee_entries i)"
      and same: "balance_reservations (w_db w') = balance_reservations (w_db w)"
      using rows insertPaidCharge_frame [OF paid] by (auto simp: posts_def w1)
    show ?thesis
      by (intro ledger_okI [OF ok posts])
         (use ok False avail in \<open>auto simp: entry_list_defs attributed_def MERCHANT_ACCOUNT_KINDS_def same ledger_ok_def\<close>)
  qed
qed

lemma chargeSoftwareFee_ok:
  assumes run: "chargeSoftwareFee i w = (r, w')" and ok: "ledger_ok (w_db w)"
  shows "ledger_ok (w_db w')"
proof (cases r)
  case (Inl e)
  then show ?thesis using run ok db_transaction_rollback unfolding chargeSoftwareFee_def by metis
next
  case (Inr x)
  then show ?thesis using run ok
    by (auto simp: chargeSoftwareFee_def bnd_Inr split: option.splits if_splits dest: collect_fee_ok)
qed

section \<open>Reachable stores\<close>

inductive ledger_step :: "world \<Rightarrow> world \<Rightarrow> bool" where
  step_fund: "fundMerchant i w = (r, w') \<Longrightarrow> ledger_step w w'"
| step_profit: "transferProfitToBalance i w = (r, w') \<Longrightarrow> ledger_step w w'"
| step_reversal: "postReversalAdjustment i tx w = (r, w') \<Longrightarrow> ledger_step w w'"
| step_transfer: "postShopTransfer h w = (r, w') \<Longrightarrow> 0 \<le> minor (hs_fee h) \<Longrightarrow>
    minor (hs_amount h) + minor (hs_fee h) \<le> netMinor (w_db w) (hs_senderMerchantId h) [MERCHANT_AVAILABLE, MERCHANT_FUNDS] \<Longrightarrow>
    ledger_step w w'"
| step_reserve: "reserve c rid w = (r, w') \<Longrightarrow>
    findReservationById (w_db w) (or_else rid (''res_'' @ oc_transactionId c)) = None \<Longrightarrow> ledger_step w w'"
| step_release: "release c w = (r, w') \<Longrightarrow> amount_matches (w_db w) c \<Longrightarrow> ledger_step w w'"
| step_finalize: "finalizeSuccess c p b w = (r, w') \<Longrightarrow> amount_matches (w_db w) c \<Longrightarrow> ledger_step w w'"
| step_review: "moveToUnderReview c w = (r, w') \<Longrightarrow> amount_matches (w_db w) c \<Longrightarrow> ledger_step w w'"
| step_release_review: "releaseFromUnderReview c w = (r, w') \<Longrightarrow> amount_matches (w_db w) c \<Longrightarrow> ledger_step w w'"
| step_fee: "chargeSoftwareFee g w = (fr, w') \<Longrightarrow> ledger_step w w'"
| step_other: "ledger_entries (w_db w') = ledger_entries (w_db w) \<Longrightarrow>
    balance_reservations (w_db w') = balance_reservations (w_db w) \<Longrightarrow> ledger_step w w'"

lemma ledger_step_ok: "ledger_step w w' \<Longrightarrow> ledger_ok (w_db w) \<Longrightarrow> ledger_ok (w_db w')"
proof (induction rule: ledger_step.induct)
  case (step_other w' w)
  then show ?case using ledger_ok_cong by metis
qed (blast intro: fundMerchant_ok transferProfitToBalance_ok postReversalAdjustment_ok postShopTransfer_ok reserve_ok
      release_ok finalizeSuccess_ok moveToUnderReview_ok releaseFromUnderReview_ok chargeSoftwareFee_ok)+

lemma ledger_ok_empty: "ledger_entries d = [] \<Longrightarrow> balance_reservations d = [] \<Longrightarrow> ledger_ok d"
  by (simp add: ledger_ok_def ledgerResidualMinor_def netMinor_net_rows reservations_ok_def entries_ok_def)

lemma reachable_ok: "ledger_step\<^sup>*\<^sup>* w w' \<Longrightarrow> ledger_ok (w_db w) \<Longrightarrow> ledger_ok (w_db w')"
  by (induction rule: rtranclp_induct) (auto intro: ledger_step_ok)

end
