(* ===== verification/Application.thy ===== *)
theory Application
  imports Ledger_Invariant
begin

text \<open>
  What the application services share (\<open>services/api/src/application\<close>): the dependencies a service is given
  (\<open>context.ts\<close>), the results it returns (\<open>results.ts\<close>) and transactions read back from their rows
  (\<open>rehydrate.ts\<close>).

  The clock and the supply of identifiers are functions of the number of times they were asked, so a
  run of a service is a function of the world. The provider's three operations are programs
  on the world: what they return is theirs to choose, and the world they leave need not be the one
  they were given, because other requests are served while the service awaits the answer. The SHA-256 of
  \<open>node:crypto\<close> is the parameter \<open>sd_sha256\<close>.
\<close>

section \<open>Dependencies\<close>

record catalog_product =
  cp_id :: string
  cp_label :: string
  cp_available :: bool

type_synonym product_catalog = "string \<Rightarrow> catalog_product option"

text \<open>\<open>new Map(products.map(...))\<close>: the last product with an id wins.\<close>

definition simulatedCatalog :: "catalog_product list \<Rightarrow> product_catalog" where
  "simulatedCatalog ps i = find (\<lambda>p. cp_id p = i) (rev ps)"

record submission_result =
  sr_outcome :: submission_outcome
  sr_providerReference :: "string option"

datatype status_outcome = ST_SUCCESS | ST_FAILURE | ST_STILL_PENDING | ST_UNKNOWN_REFERENCE

record provider_status =
  ps_outcome :: status_outcome
  ps_providerReference :: "string option"

record provider_context =
  pc_providerId :: string
  pc_deviceId :: string
  pc_mode :: operating_mode
  pc_timeoutMs :: int

record sale_deps =
  sd_health :: "bool prog"
  sd_submit :: "airtime_request \<Rightarrow> provider_context \<Rightarrow> submission_result prog"
  sd_getStatus :: "status_query \<Rightarrow> provider_status prog"
  sd_providerId :: string
  sd_catalog :: product_catalog
  sd_mode :: operating_mode
  sd_recipientSalt :: string
  sd_sha256 :: "string \<Rightarrow> string"
  sd_now :: "nat \<Rightarrow> timestamp"
  sd_newId :: "string \<Rightarrow> nat \<Rightarrow> string"
  sd_pendingMaximumMs :: "int option"
  sd_providerTimeoutMs :: "int option"

definition now :: "sale_deps \<Rightarrow> timestamp prog" where
  "now d w = (Inr (sd_now d (w_ticks w)), w\<lparr>w_ticks := Suc (w_ticks w)\<rparr>)"

definition newId :: "sale_deps \<Rightarrow> string \<Rightarrow> string prog" where
  "newId d kind w = (Inr (sd_newId d kind (w_ids w)), w\<lparr>w_ids := Suc (w_ids w)\<rparr>)"

text \<open>A rejected rate and an impossible date are thrown.\<close>

definition lift_rate :: "rate_error + 'a \<Rightarrow> 'a prog" where
  "lift_rate r = (case r of Inl e \<Rightarrow> throw (RateErr e) | Inr x \<Rightarrow> ret x)"

definition lift_date :: "'a option \<Rightarrow> 'a prog" where
  "lift_date r = (case r of None \<Rightarrow> throw RangeErr | Some x \<Rightarrow> ret x)"

lemma lift_rate_Inr [simp]: "lift_rate r w = (Inr x, w') \<longleftrightarrow> r = Inr x \<and> w' = w"
  by (auto simp: lift_rate_def split: sum.splits)

lemma lift_date_Inr [simp]: "lift_date r w = (Inr x, w') \<longleftrightarrow> r = Some x \<and> w' = w"
  by (auto simp: lift_date_def split: option.splits)

text \<open>The log of calls that leave the process.\<close>

definition log_call :: "provider_call \<Rightarrow> unit prog" where
  "log_call c w = (Inr (), w\<lparr>w_calls := w_calls w @ [c]\<rparr>)"

definition healthCheck :: "sale_deps \<Rightarrow> bool prog" where
  "healthCheck d = seq (log_call Health_call) (sd_health d)"

definition submit :: "sale_deps \<Rightarrow> airtime_request \<Rightarrow> provider_context \<Rightarrow> submission_result prog" where
  "submit d r c = seq (log_call (Submit_call r)) (sd_submit d r c)"

definition getStatus :: "sale_deps \<Rightarrow> status_query \<Rightarrow> provider_status prog" where
  "getStatus d q = seq (log_call (Status_call q)) (sd_getStatus d q)"

definition DEFAULT_PENDING_MAXIMUM_MS :: int where
  "DEFAULT_PENDING_MAXIMUM_MS = 5 * 60 * 1000"

definition DEFAULT_PROVIDER_TIMEOUT_MS :: int where
  "DEFAULT_PROVIDER_TIMEOUT_MS = 5000"

definition providerTimeout :: "sale_deps \<Rightarrow> int" where
  "providerTimeout d = or_else (sd_providerTimeoutMs d) DEFAULT_PROVIDER_TIMEOUT_MS"

definition pendingMaximum :: "sale_deps \<Rightarrow> int" where
  "pendingMaximum d = or_else (sd_pendingMaximumMs d) DEFAULT_PENDING_MAXIMUM_MS"

record sale_request =
  rq_merchantId :: string
  rq_deviceId :: string
  rq_operatorId :: string
  rq_productId :: string
  rq_amount :: money
  rq_recipient :: string
  rq_recipientMasked :: "string option"
  rq_clientRequestId :: string
  rq_correlationId :: "string option"

section \<open>Results\<close>

datatype next_action =
    DISPLAY_RESULT_AND_OFFER_RECEIPT | EXPLAIN_NO_SALE_FUNDS_RELEASED | DO_NOT_RETRY_YET
  | CONTACT_SUPPORT_WITH_REFERENCE | SHOW_PROVIDER_UNAVAILABLE_NO_CHARGE | SHOW_EXISTING_TRANSACTION_STATE
  | SHOW_VALIDATION_ERROR | SHOW_PERMISSION_ERROR | SHOW_SYSTEM_ERROR

datatype error_category =
    NO_ERROR | PROVIDER_CONFIRMED_FAILURE | PROVIDER_REJECTED | PROVIDER_INDETERMINATE
  | PROVIDER_DUPLICATE | PROVIDER_UNREACHABLE

datatype rejection_kind =
    PAYLOAD_MISMATCH | INSUFFICIENT_BALANCE | UNAUTHORIZED | PRODUCT_UNAVAILABLE
  | PROVIDER_UNAVAILABLE | SIMULATED_ONLY | PERSISTENCE_FAILURE | INVALID_REQUEST

text \<open>The fields \<open>ResultBase\<close> gives every outcome; \<open>simulated\<close> is always \<open>true\<close> and left out.\<close>

record outcome =
  so_transactionId :: string
  so_state :: tx_state
  so_correlationId :: string
  so_idempotencyKey :: string
  so_providerReference :: "string option"
  so_messageKey :: string
  so_nextAction :: next_action
  so_providerErrorCategory :: error_category

record duplicate_request =
  du_originalTransactionId :: string
  du_state :: tx_state
  du_correlationId :: string
  du_idempotencyKey :: string
  du_messageKey :: string
  du_nextAction :: next_action

record rejection =
  rj_correlationId :: string
  rj_idempotencyKey :: "string option"
  rj_transactionId :: "string option"
  rj_messageKey :: string
  rj_nextAction :: next_action
  rj_reasonCode :: string

datatype sale_result =
    Successful outcome
  | Failed outcome
  | Pending outcome timestamp
  | UnderReview outcome string
  | ReversalRequired outcome string
  | Reversed outcome string
  | DuplicateRequest duplicate_request
  | Rejected rejection_kind rejection

fun isOutcome :: "sale_result \<Rightarrow> bool" where
  "isOutcome (DuplicateRequest _) = False"
| "isOutcome (Rejected _ _) = False"
| "isOutcome _ = True"

fun rejection_message :: "rejection_kind \<Rightarrow> string" where
  "rejection_message PAYLOAD_MISMATCH = ''error.duplicate.blocked''"
| "rejection_message INSUFFICIENT_BALANCE = ''error.balance.insufficient''"
| "rejection_message UNAUTHORIZED = ''error.permission.denied''"
| "rejection_message PRODUCT_UNAVAILABLE = ''status.provider_unavailable.message''"
| "rejection_message PROVIDER_UNAVAILABLE = ''status.provider_unavailable.message''"
| "rejection_message SIMULATED_ONLY = ''mode.training''"
| "rejection_message PERSISTENCE_FAILURE = ''status.sales_unavailable''"
| "rejection_message INVALID_REQUEST = ''error.validation.recipient''"

definition DUPLICATE_MESSAGE :: string where
  "DUPLICATE_MESSAGE = ''error.duplicate.blocked''"

text \<open>The result a transaction in a given state has; \<open>createSale\<close> builds the first three the same way.\<close>

definition successful_result :: "string \<Rightarrow> string \<Rightarrow> string \<Rightarrow> string option \<Rightarrow> sale_result" where
  "successful_result tx corr key ref =
     Successful \<lparr>so_transactionId = tx, so_state = SUCCESSFUL, so_correlationId = corr, so_idempotencyKey = key,
       so_providerReference = ref, so_messageKey = ''status.successful'',
       so_nextAction = DISPLAY_RESULT_AND_OFFER_RECEIPT, so_providerErrorCategory = NO_ERROR\<rparr>"

definition failed_result :: "string \<Rightarrow> string \<Rightarrow> string \<Rightarrow> string option \<Rightarrow> error_category \<Rightarrow> sale_result" where
  "failed_result tx corr key ref cat =
     Failed \<lparr>so_transactionId = tx, so_state = FAILED, so_correlationId = corr, so_idempotencyKey = key,
       so_providerReference = ref, so_messageKey = ''status.failed.message'',
       so_nextAction = EXPLAIN_NO_SALE_FUNDS_RELEASED, so_providerErrorCategory = cat\<rparr>"

definition pending_result :: "string \<Rightarrow> string \<Rightarrow> string \<Rightarrow> string option \<Rightarrow> error_category \<Rightarrow> timestamp \<Rightarrow> sale_result" where
  "pending_result tx corr key ref cat deadline =
     Pending \<lparr>so_transactionId = tx, so_state = PENDING, so_correlationId = corr, so_idempotencyKey = key,
       so_providerReference = ref, so_messageKey = ''status.pending.message'',
       so_nextAction = DO_NOT_RETRY_YET, so_providerErrorCategory = cat\<rparr> deadline"

definition under_review_result :: "string \<Rightarrow> string \<Rightarrow> string \<Rightarrow> string option \<Rightarrow> string \<Rightarrow> sale_result" where
  "under_review_result tx corr key ref support =
     UnderReview \<lparr>so_transactionId = tx, so_state = UNDER_REVIEW, so_correlationId = corr, so_idempotencyKey = key,
       so_providerReference = ref, so_messageKey = ''status.under_review.message'',
       so_nextAction = CONTACT_SUPPORT_WITH_REFERENCE, so_providerErrorCategory = PROVIDER_INDETERMINATE\<rparr> support"

section \<open>Transactions from their rows\<close>

definition rehydrate :: "transaction_row \<Rightarrow> domain_error + transaction" where
  "rehydrate row =
     rbind (mk_money (JInt (tw_amountMinor row)) ETB) (\<lambda>amount.
       Inr \<lparr>tx_id = tw_id row, tx_merchantId = tw_merchantId row, tx_deviceId = tw_deviceId row,
            tx_operatorId = or_else (tw_operatorId row) ''system'', tx_productId = tw_productType row,
            tx_providerId = tw_providerId row, tx_amount = amount, tx_recipient = tw_recipientMasked row,
            tx_idempotencyKey = tw_idempotencyKey row, tx_providerReference = tw_providerReference row,
            tx_state = tw_state row, tx_mode = tw_mode row, tx_createdAt = tw_createdAt row,
            tx_updatedAt = tw_updatedAt row, tx_history = []\<rparr>)"

definition persistRehydrated :: "transaction \<Rightarrow> transaction_row \<Rightarrow> unit prog" where
  "persistRehydrated t row =
     saveTransaction t \<lparr>tp_productType = tw_productType row, tp_recipientMasked = tw_recipientMasked row,
       tp_recipientHash = tw_recipientHash row, tp_payloadFingerprint = tw_payloadFingerprint row\<rparr>"

text \<open>The audit event a service writes when a transaction changes state, at a given time.\<close>

definition transition_event ::
  "string \<Rightarrow> timestamp \<Rightarrow> audit_action \<Rightarrow> audit_actor \<Rightarrow> string \<Rightarrow> string \<Rightarrow> tx_state option \<Rightarrow> tx_state \<Rightarrow> string \<Rightarrow> audit_input" where
  "transition_event i t action actor merchant tx before after corr =
     \<lparr>ui_event = \<lparr>ae_id = i, ae_at = t, ae_action = action, ae_actor = actor, ae_merchantId = merchant,
        ae_transactionId = Some tx, ae_before = before, ae_after = Some after, ae_detail = None\<rparr>,
      ui_correlationId = corr, ui_entityType = ''transaction'', ui_entityId = Some tx, ui_metadata = None\<rparr>"

end
