(* ===== verification/Sale.thy ===== *)
theory Sale
  imports Application
begin

text \<open>
  Selling (\<open>services/api/src/application/createSale.ts\<close>) and asking again about a pending sale
  (\<open>resolvePending.ts\<close>). \<open>createSale\<close> refuses what it can without writing, reserves the amount in one
  database transaction, marks the sale as submitted in a second, calls the provider outside any transaction,
  and writes the outcome in a third.
\<close>

section \<open>Refusals before anything is written\<close>

definition reject ::
  "rejection_kind \<Rightarrow> string \<Rightarrow> string \<Rightarrow> next_action \<Rightarrow> string option \<Rightarrow> string option \<Rightarrow> sale_result" where
  "reject kind corr reason action key tx =
     Rejected kind \<lparr>rj_correlationId = corr, rj_idempotencyKey = key, rj_transactionId = tx,
       rj_messageKey = rejection_message kind, rj_nextAction = action, rj_reasonCode = reason\<rparr>"

definition persistence_code_name :: "persistence_code \<Rightarrow> string" where
  "persistence_code_name c =
     (case c of MIGRATION_FAILED \<Rightarrow> ''MIGRATION_FAILED''
      | MIGRATION_CHECKSUM_MISMATCH \<Rightarrow> ''MIGRATION_CHECKSUM_MISMATCH''
      | LEDGER_APPEND_ONLY_VIOLATION \<Rightarrow> ''LEDGER_APPEND_ONLY_VIOLATION''
      | DUPLICATE_IDEMPOTENCY_RECORD \<Rightarrow> ''DUPLICATE_IDEMPOTENCY_RECORD''
      | MERCHANT_SCOPE_VIOLATION \<Rightarrow> ''MERCHANT_SCOPE_VIOLATION''
      | ACCOUNT_NOT_FOUND \<Rightarrow> ''ACCOUNT_NOT_FOUND''
      | DRIVER_CLOSED \<Rightarrow> ''DRIVER_CLOSED''
      | UNSUPPORTED_MODE \<Rightarrow> ''UNSUPPORTED_MODE'')"

definition constraint_name :: "constraint \<Rightarrow> string" where
  "constraint_name c =
     (case c of PRIMARYKEY \<Rightarrow> ''PRIMARYKEY'' | UNIQUE \<Rightarrow> ''UNIQUE'' | CHECK \<Rightarrow> ''CHECK''
      | FOREIGNKEY \<Rightarrow> ''FOREIGNKEY'' | TRIGGER \<Rightarrow> ''TRIGGER'')"

definition safeCode :: "err \<Rightarrow> string" where
  "safeCode e =
     (case e of DomainErr x \<Rightarrow> error_code x
      | PersistErr c \<Rightarrow> ''PERSISTENCE_'' @ persistence_code_name c
      | SqliteErr c \<Rightarrow> ''PERSISTENCE_SQLITE_CONSTRAINT_'' @ constraint_name c
      | RateErr _ \<Rightarrow> ''PERSISTENCE_INVALID_PROFIT_RATE''
      | ErrorWith _ code \<Rightarrow> ''PERSISTENCE_'' @ code
      | _ \<Rightarrow> ''UNEXPECTED_PERSISTENCE_ERROR'')"

definition intent_of :: "sale_request \<Rightarrow> sale_intent" where
  "intent_of q =
     \<lparr>si_merchantId = rq_merchantId q, si_deviceId = rq_deviceId q, si_productId = rq_productId q,
      si_amount = rq_amount q, si_recipient = rq_recipient q, si_clientRequestId = rq_clientRequestId q\<rparr>"

text \<open>The guards in order; \<open>None\<close> when the request passes them all and was not seen before.\<close>

definition request_guards :: "sale_deps \<Rightarrow> sale_request \<Rightarrow> string \<Rightarrow> db \<Rightarrow> sale_result option" where
  "request_guards d q corr s =
     (if sd_mode d \<noteq> TRAINING
      then Some (reject SIMULATED_ONLY corr ''LIVE_MODE_REFUSED'' SHOW_SYSTEM_ERROR None None)
      else if \<not> (case findMerchant s (rq_merchantId q) of None \<Rightarrow> False | Some m \<Rightarrow> me_status m = MER_ACTIVE)
      then Some (reject UNAUTHORIZED corr ''MERCHANT_NOT_ACTIVE'' SHOW_PERMISSION_ERROR None None)
      else (case findDevice s (rq_deviceId q) (Some (rq_merchantId q)) of
        None \<Rightarrow> Some (reject UNAUTHORIZED corr ''DEVICE_NOT_OWNED_BY_MERCHANT'' SHOW_PERMISSION_ERROR None None)
      | Some v \<Rightarrow>
        if dv_status v \<noteq> DEV_ACTIVE
        then Some (reject UNAUTHORIZED corr ''DEVICE_NOT_ACTIVE'' SHOW_PERMISSION_ERROR None None)
        else if \<not> (case sd_catalog d (rq_productId q) of None \<Rightarrow> False | Some p \<Rightarrow> cp_available p)
        then Some (reject PRODUCT_UNAVAILABLE corr ''PRODUCT_NOT_AVAILABLE'' SHOW_PROVIDER_UNAVAILABLE_NO_CHARGE None None)
        else if \<not> isPositive (rq_amount q) \<or> currency (rq_amount q) \<noteq> ETB
        then Some (reject INVALID_REQUEST corr ''AMOUNT_INVALID'' SHOW_VALIDATION_ERROR None None)
        else if length (js_trim (rq_recipient q)) < 6
        then Some (reject INVALID_REQUEST corr ''RECIPIENT_INVALID'' SHOW_VALIDATION_ERROR None None)
        else if js_trim (rq_clientRequestId q) = []
        then Some (reject INVALID_REQUEST corr ''CLIENT_REQUEST_ID_MISSING'' SHOW_VALIDATION_ERROR None None)
        else None))"

definition duplicate_guard :: "sale_request \<Rightarrow> string \<Rightarrow> db \<Rightarrow> sale_result option" where
  "duplicate_guard q corr s =
     (let key = deriveIdempotencyKey (intent_of q)
      in case findIdempotencyRecord s (rq_merchantId q) key of
           None \<Rightarrow> None
         | Some r \<Rightarrow>
             if iw_payloadFingerprint r \<noteq> payloadFingerprint (intent_of q)
             then Some (reject PAYLOAD_MISMATCH corr ''IDEMPOTENCY_PAYLOAD_MISMATCH'' SHOW_VALIDATION_ERROR (Some key) None)
             else Some (DuplicateRequest
               \<lparr>du_originalTransactionId = iw_transactionId r,
                du_state = (case findTransaction s (iw_transactionId r) (Some (rq_merchantId q)) of
                              None \<Rightarrow> CREATED | Some t \<Rightarrow> tw_state t),
                du_correlationId = corr, du_idempotencyKey = key, du_messageKey = DUPLICATE_MESSAGE,
                du_nextAction = SHOW_EXISTING_TRANSACTION_STATE\<rparr>))"

section \<open>Writing a sale\<close>

definition persist :: "sale_deps \<Rightarrow> sale_request \<Rightarrow> transaction \<Rightarrow> unit prog" where
  "persist d q t =
     saveTransaction t
       \<lparr>tp_productType = tx_productId t,
        tp_recipientMasked = or_else (rq_recipientMasked q) (maskRecipient (rq_recipient q) 2 2),
        tp_recipientHash = sd_sha256 d (sd_recipientSalt d @ '':'' @ js_trim (or_else (rq_recipientMasked q) (rq_recipient q))),
        tp_payloadFingerprint = payloadFingerprint (intent_of q)\<rparr>"

definition sale_actor :: "string \<Rightarrow> string \<Rightarrow> audit_actor" where
  "sale_actor operator device = \<lparr>ac_userId = operator, ac_role = MERCHANT_OPERATOR, ac_deviceId = Some device\<rparr>"

definition sale_audit :: "sale_deps \<Rightarrow> transaction \<Rightarrow> audit_action \<Rightarrow> string \<Rightarrow> tx_state option \<Rightarrow> unit prog" where
  "sale_audit d t action corr before =
     bnd (newId d ''audit'') (\<lambda>i.
     bnd (now d) (\<lambda>at.
     saveAuditEvent (transition_event i at action (sale_actor (tx_operatorId t) (tx_deviceId t))
       (tx_merchantId t) (tx_id t) before (tx_state t) corr)))"

definition transition_now ::
  "sale_deps \<Rightarrow> transaction \<Rightarrow> tx_state \<Rightarrow> string \<Rightarrow> transaction prog" where
  "transition_now d t target reason =
     bnd (now d) (\<lambda>at. lift_domain (transitionTo t target at (Some reason) None))"

definition money_context ::
  "sale_deps \<Rightarrow> string \<Rightarrow> string \<Rightarrow> money \<Rightarrow> timestamp \<Rightarrow> string \<Rightarrow> audit_actor \<Rightarrow> op_context prog" where
  "money_context d merchant tx amount at corr actor =
     bnd (newId d ''post'') (\<lambda>pid.
     bnd (newId d ''audit'') (\<lambda>aid.
     ret \<lparr>oc_merchantId = merchant, oc_transactionId = tx, oc_amount = amount, oc_at = at,
          oc_correlationId = corr, oc_actor = actor, oc_postingId = pid, oc_auditId = aid\<rparr>))"

definition sale_context :: "sale_deps \<Rightarrow> sale_request \<Rightarrow> string \<Rightarrow> timestamp \<Rightarrow> string \<Rightarrow> op_context prog" where
  "sale_context d q tx at corr =
     money_context d (rq_merchantId q) tx (rq_amount q) at corr (sale_actor (rq_operatorId q) (rq_deviceId q))"

text \<open>The first database transaction: create, validate, reserve, remember the request.\<close>

definition reserve_phase :: "sale_deps \<Rightarrow> sale_request \<Rightarrow> string \<Rightarrow> string \<Rightarrow> timestamp \<Rightarrow> transaction prog" where
  "reserve_phase d q corr tx startedAt = db_transaction (
     let key = deriveIdempotencyKey (intent_of q) in
     bnd (lift_domain (createTransaction
        \<lparr>ti_id = tx, ti_merchantId = rq_merchantId q, ti_deviceId = rq_deviceId q,
         ti_operatorId = rq_operatorId q, ti_productId = rq_productId q, ti_providerId = Some (sd_providerId d),
         ti_amount = rq_amount q, ti_recipient = rq_recipient q, ti_idempotencyKey = key,
         ti_mode = sd_mode d, ti_at = startedAt\<rparr>)) (\<lambda>t0.
     bnd (lift_domain (assertPositive (tx_amount t0))) (\<lambda>_.
     seq (persist d q t0)
     (seq (sale_audit d t0 TRANSACTION_CREATED corr None)
     (bnd (transition_now d t0 VALIDATED ''server validation passed'') (\<lambda>t1.
     seq (persist d q t1)
     (bnd (now d) (\<lambda>at.
     bnd (sale_context d q tx at corr) (\<lambda>c.
     bnd (newId d ''res'') (\<lambda>rid.
     seq (reserve c (Some rid))
     (bnd (transition_now d t1 RESERVED ''balance reserved'') (\<lambda>t2.
     seq (persist d q t2)
     (seq (sale_audit d t2 TRANSACTION_TRANSITIONED corr (Some VALIDATED))
     (bnd (now d) (\<lambda>at'.
     seq (saveIdempotencyRecord
        \<lparr>ii_key = key, ii_merchantId = rq_merchantId q, ii_requestIdentity = canonicalKeySource (intent_of q),
         ii_payloadFingerprint = payloadFingerprint (intent_of q), ii_transactionId = tx, ii_at = at'\<rparr>)
     (ret t2))))))))))))))))"

definition reserve_refusal :: "sale_request \<Rightarrow> string \<Rightarrow> err \<Rightarrow> sale_result" where
  "reserve_refusal q corr e =
     (let key = Some (deriveIdempotencyKey (intent_of q))
      in if e = DomainErr InsufficientAvailableBalance
         then reject INSUFFICIENT_BALANCE corr ''INSUFFICIENT_AVAILABLE_BALANCE'' SHOW_VALIDATION_ERROR key None
         else if e = DomainErr LiveMoneyDisabled
         then reject SIMULATED_ONLY corr ''LIVE_MODE_REFUSED'' SHOW_SYSTEM_ERROR key None
         else reject PERSISTENCE_FAILURE corr (safeCode e) SHOW_SYSTEM_ERROR key None)"

text \<open>The second: about to be submitted.\<close>

definition processing_phase :: "sale_deps \<Rightarrow> sale_request \<Rightarrow> string \<Rightarrow> transaction \<Rightarrow> transaction prog" where
  "processing_phase d q corr reserved = db_transaction (
     bnd (transition_now d reserved PROCESSING ''submitted to provider'') (\<lambda>t.
     seq (persist d q t)
     (seq (sale_audit d t PROVIDER_SUBMITTED corr (Some RESERVED))
     (ret t))))"

definition releaseQuietly :: "sale_deps \<Rightarrow> sale_request \<Rightarrow> string \<Rightarrow> transaction \<Rightarrow> string \<Rightarrow> unit prog" where
  "releaseQuietly d q tx t corr = db_transaction (
     bnd (now d) (\<lambda>at.
     bnd (lift_domain (transitionTo t FAILED at (Some ''refused: live mode'') None)) (\<lambda>failed.
     seq (persist d q failed)
     (bnd (sale_context d q tx at corr) release))))"

definition submission_category :: "submission_outcome \<Rightarrow> error_category" where
  "submission_category o' =
     (if o' = CONFIRMED_FAILURE then PROVIDER_CONFIRMED_FAILURE
      else if o' = SUB_REJECTED then PROVIDER_REJECTED
      else if o' = DUPLICATE then PROVIDER_DUPLICATE
      else if o' = INDETERMINATE then PROVIDER_INDETERMINATE
      else NO_ERROR)"

text \<open>What a submission came to: a refusal to trade at all, or a state, a reference and a category.\<close>

type_synonym submission = "sale_result + tx_state \<times> string option \<times> error_category"

definition submit_phase :: "sale_deps \<Rightarrow> sale_request \<Rightarrow> string \<Rightarrow> string \<Rightarrow> transaction \<Rightarrow> submission prog" where
  "submit_phase d q corr tx processing =
     (let key = deriveIdempotencyKey (intent_of q) in
      try_catch
        (bnd (submit d \<lparr>ar_transactionId = tx, ar_merchantId = rq_merchantId q, ar_productId = rq_productId q,
                        ar_amount = rq_amount q, ar_recipient = rq_recipient q, ar_idempotencyKey = key\<rparr>
                      \<lparr>pc_providerId = sd_providerId d, pc_deviceId = rq_deviceId q, pc_mode = sd_mode d,
                        pc_timeoutMs = providerTimeout d\<rparr>) (\<lambda>s.
         ret (Inr (stateForSubmission (sr_outcome s), sr_providerReference s, submission_category (sr_outcome s)))))
        (\<lambda>e. if e = DomainErr LiveMoneyDisabled
             then seq (releaseQuietly d q tx processing corr)
                    (ret (Inl (reject SIMULATED_ONLY corr ''LIVE_MODE_REFUSED'' SHOW_SYSTEM_ERROR (Some key) (Some tx))))
             else ret (Inr (PENDING, None, PROVIDER_UNREACHABLE))))"

section \<open>The outcome\<close>

definition success_phase ::
  "sale_deps \<Rightarrow> sale_request \<Rightarrow> string \<Rightarrow> string \<Rightarrow> transaction \<Rightarrow> timestamp \<Rightarrow> string option \<Rightarrow> sale_result prog" where
  "success_phase d q corr tx processing at ref =
     (let key = deriveIdempotencyKey (intent_of q) in
      bnd (lift_domain (transitionTo processing SUCCESSFUL at (Some ''provider confirmed delivery'') ref)) (\<lambda>t.
      seq (persist d q t)
      (bnd readPlatformFeeSettings (\<lambda>fees.
      bnd (effectiveCommissionBps (Some (sd_providerId d)) (rq_productId q)) (\<lambda>bps.
      bnd (lift_rate (splitCommission (JInt (minor (rq_amount q))) (JInt bps) (JInt (fs_shopShareBps fees)))) (\<lambda>split.
      bnd (sale_context d q tx at corr) (\<lambda>c.
      seq (finalizeSuccess c (Some (shopShareMinor split)) (Some bps))
      (bnd (newId d ''comm'') (\<lambda>i.
      seq (recordCommission
             \<lparr>mi_id = i, mi_transactionId = tx, mi_merchantId = rq_merchantId q, mi_providerId = Some (sd_providerId d),
              mi_productType = rq_productId q, mi_transactionAmountMinor = minor (rq_amount q),
              mi_providerCommissionBps = providerCommissionBps split, mi_shopShareBps = shopShareBps split,
              mi_providerCommissionMinor = providerCommissionMinor split, mi_shopShareMinor = shopShareMinor split,
              mi_telgaShareMinor = telgaShareMinor split, mi_cardFeeMinor = None, mi_at = at\<rparr>)
      (seq (sale_audit d t TRANSACTION_TRANSITIONED corr (Some PROCESSING))
      (seq (recordIdempotencyResult (rq_merchantId q) key SUCCESSFUL at)
      (ret (successful_result tx corr key ref)))))))))))))"

definition failure_phase ::
  "sale_deps \<Rightarrow> sale_request \<Rightarrow> string \<Rightarrow> string \<Rightarrow> transaction \<Rightarrow> timestamp \<Rightarrow> string option \<Rightarrow> error_category \<Rightarrow> sale_result prog" where
  "failure_phase d q corr tx processing at ref cat =
     (let key = deriveIdempotencyKey (intent_of q) in
      bnd (lift_domain (transitionTo processing FAILED at (Some ''provider confirmed failure'') ref)) (\<lambda>t.
      seq (persist d q t)
      (bnd (sale_context d q tx at corr) (\<lambda>c.
      seq (release c)
      (seq (sale_audit d t TRANSACTION_TRANSITIONED corr (Some PROCESSING))
      (seq (recordIdempotencyResult (rq_merchantId q) key FAILED at)
      (ret (failed_result tx corr key ref cat))))))))"

definition pending_phase ::
  "sale_deps \<Rightarrow> sale_request \<Rightarrow> string \<Rightarrow> string \<Rightarrow> transaction \<Rightarrow> timestamp \<Rightarrow> string option \<Rightarrow> error_category \<Rightarrow> sale_result prog" where
  "pending_phase d q corr tx processing at ref cat =
     (let key = deriveIdempotencyKey (intent_of q) in
      bnd (lift_domain (transitionTo processing PENDING at (Some ''no provider response'') ref)) (\<lambda>t.
      seq (persist d q t)
      (bnd (lift_date (addMs at (pendingMaximum d))) (\<lambda>deadline.
       seq (upsertPendingResolution
             \<lparr>pi_transactionId = tx, pi_merchantId = rq_merchantId q, pi_idempotencyKey = key,
              pi_providerReference = ref, pi_correlationId = corr, pi_firstPendingAt = at, pi_deadlineAt = deadline\<rparr>)
       (seq (sale_audit d t TRANSACTION_TRANSITIONED corr (Some PROCESSING))
       (ret (pending_result tx corr key ref cat deadline)))))))"

definition outcome_phase ::
  "sale_deps \<Rightarrow> sale_request \<Rightarrow> string \<Rightarrow> string \<Rightarrow> transaction \<Rightarrow> tx_state \<times> string option \<times> error_category \<Rightarrow> sale_result prog" where
  "outcome_phase d q corr tx processing r =
     (case r of (state, ref, cat) \<Rightarrow>
      db_transaction (
        bnd (now d) (\<lambda>at.
          if state = SUCCESSFUL then success_phase d q corr tx processing at ref
          else if state = FAILED then failure_phase d q corr tx processing at ref cat
          else pending_phase d q corr tx processing at ref cat)))"

text \<open>From the reservation on; from the identifier on; from the provider's health on; and the whole.\<close>

definition submit_sale :: "sale_deps \<Rightarrow> sale_request \<Rightarrow> string \<Rightarrow> string \<Rightarrow> transaction \<Rightarrow> sale_result prog" where
  "submit_sale d q corr tx reserved =
     bnd (processing_phase d q corr reserved) (\<lambda>processing.
     bnd (submit_phase d q corr tx processing) (\<lambda>r.
     case r of Inl refusal \<Rightarrow> ret refusal
     | Inr outcome \<Rightarrow> outcome_phase d q corr tx processing outcome))"

definition attempt_sale :: "sale_deps \<Rightarrow> sale_request \<Rightarrow> string \<Rightarrow> sale_result prog" where
  "attempt_sale d q corr =
     bnd (newId d ''txn'') (\<lambda>tx.
     bnd (now d) (\<lambda>startedAt.
     bnd (try_catch (bnd (reserve_phase d q corr tx startedAt) (\<lambda>t. ret (Inr t)))
                    (\<lambda>e. ret (Inl (reserve_refusal q corr e)))) (\<lambda>r.
     case r of Inl refusal \<Rightarrow> ret refusal | Inr reserved \<Rightarrow> submit_sale d q corr tx reserved)))"

definition checked_sale :: "sale_deps \<Rightarrow> sale_request \<Rightarrow> string \<Rightarrow> sale_result prog" where
  "checked_sale d q corr =
     bnd (healthCheck d) (\<lambda>healthy.
     if \<not> healthy
     then ret (reject PROVIDER_UNAVAILABLE corr ''PROVIDER_UNHEALTHY'' SHOW_PROVIDER_UNAVAILABLE_NO_CHARGE
                (Some (deriveIdempotencyKey (intent_of q))) None)
     else attempt_sale d q corr)"

definition createSale :: "sale_deps \<Rightarrow> sale_request \<Rightarrow> sale_result prog" where
  "createSale d q =
     bnd (case rq_correlationId q of None \<Rightarrow> newId d ''corr'' | Some c \<Rightarrow> ret c) (\<lambda>corr.
     bnd (get_db (\<lambda>s. s)) (\<lambda>s.
     case request_guards d q corr s of Some r \<Rightarrow> ret r | None \<Rightarrow>
     (case duplicate_guard q corr s of Some r \<Rightarrow> ret r | None \<Rightarrow> checked_sale d q corr)))"

section \<open>Asking about a pending sale\<close>

definition terminalResult :: "tx_state \<Rightarrow> string \<Rightarrow> string \<Rightarrow> string \<Rightarrow> string option \<Rightarrow> string option \<Rightarrow> sale_result" where
  "terminalResult state tx corr key ref support =
     (case state of
        SUCCESSFUL \<Rightarrow> successful_result tx corr key ref
      | FAILED \<Rightarrow> failed_result tx corr key ref PROVIDER_CONFIRMED_FAILURE
      | UNDER_REVIEW \<Rightarrow> under_review_result tx corr key ref (or_else support '''')
      | _ \<Rightarrow> pending_result tx corr key ref PROVIDER_INDETERMINATE '''')"

definition resolution_audit ::
  "sale_deps \<Rightarrow> transaction \<Rightarrow> string \<Rightarrow> string \<Rightarrow> timestamp \<Rightarrow> string \<Rightarrow> tx_state \<Rightarrow> unit prog" where
  "resolution_audit d t merchant tx at corr after =
     bnd (newId d ''audit'') (\<lambda>i.
     saveAuditEvent (transition_event i at TRANSACTION_TRANSITIONED (sale_actor (tx_operatorId t) (tx_deviceId t))
       merchant tx (Some PENDING) after corr))"

text \<open>\<open>toUpperCase\<close> of an identifier, which is ASCII.\<close>

definition to_upper_char :: "char \<Rightarrow> char" where
  "to_upper_char c = (if CHR ''a'' \<le> c \<and> c \<le> CHR ''z'' then char_of (of_char c - (32 :: nat)) else c)"

definition support_reference :: "string \<Rightarrow> string" where
  "support_reference tx = ''TG-'' @ map to_upper_char tx"

text \<open>The row is still pending: close the job, then move the sale and its money. \<open>False\<close> from the close leaves all as it is.\<close>

definition resolved_success ::
  "sale_deps \<Rightarrow> string \<Rightarrow> string \<Rightarrow> string \<Rightarrow> string option \<Rightarrow> timestamp \<Rightarrow> string \<Rightarrow> transaction \<Rightarrow> transaction_row \<Rightarrow> sale_result prog" where
  "resolved_success d tx merchant corr ref at key t current =
     bnd (lift_domain (transitionTo t SUCCESSFUL at (Some ''status lookup confirmed delivery'') ref)) (\<lambda>t'.
     seq (persistRehydrated t' current)
     (bnd (money_context d merchant tx (tx_amount t) at corr (sale_actor (tx_operatorId t) (tx_deviceId t))) (\<lambda>c.
     seq (finalizeSuccess c None None)
     (seq (resolution_audit d t merchant tx at corr SUCCESSFUL)
     (seq (recordIdempotencyResult merchant key SUCCESSFUL at)
     (ret (terminalResult SUCCESSFUL tx corr key ref None)))))))"

definition resolved_failure ::
  "sale_deps \<Rightarrow> string \<Rightarrow> string \<Rightarrow> string \<Rightarrow> string option \<Rightarrow> timestamp \<Rightarrow> string \<Rightarrow> transaction \<Rightarrow> transaction_row \<Rightarrow> sale_result prog" where
  "resolved_failure d tx merchant corr ref at key t current =
     bnd (lift_domain (transitionTo t FAILED at (Some ''status lookup confirmed failure'') ref)) (\<lambda>t'.
     seq (persistRehydrated t' current)
     (bnd (money_context d merchant tx (tx_amount t) at corr (sale_actor (tx_operatorId t) (tx_deviceId t))) (\<lambda>c.
     seq (release c)
     (seq (resolution_audit d t merchant tx at corr FAILED)
     (seq (recordIdempotencyResult merchant key FAILED at)
     (ret (terminalResult FAILED tx corr key ref None)))))))"

definition resolved_escalated ::
  "sale_deps \<Rightarrow> string \<Rightarrow> string \<Rightarrow> string \<Rightarrow> timestamp \<Rightarrow> string \<Rightarrow> transaction \<Rightarrow> transaction_row \<Rightarrow> sale_result prog" where
  "resolved_escalated d tx merchant corr at key t current =
     bnd (lift_domain (transitionTo t UNDER_REVIEW at (Some ''pending exceeded provider maximum'') None)) (\<lambda>t'.
     seq (persistRehydrated t' current)
     (bnd (money_context d merchant tx (tx_amount t) at corr (sale_actor (tx_operatorId t) (tx_deviceId t))) (\<lambda>c.
     seq (moveToUnderReview c)
     (bnd (newId d ''case'') (\<lambda>i.
     seq (createSupportCase
        \<lparr>si_case_id = i, si_case_merchantId = merchant, si_case_transactionId = Some tx,
         si_case_reason = SR_UNDER_REVIEW, si_case_reference = support_reference tx,
         si_case_correlationId = corr, si_case_at = at\<rparr>)
     (seq (resolution_audit d t merchant tx at corr UNDER_REVIEW)
     (ret (terminalResult UNDER_REVIEW tx corr key (tw_providerReference current) (Some (support_reference tx))))))))))"

definition resolve_current ::
  "sale_deps \<Rightarrow> string \<Rightarrow> string \<Rightarrow> string \<Rightarrow> pending_row option \<Rightarrow> provider_status \<Rightarrow> timestamp \<Rightarrow> transaction_row \<Rightarrow> sale_result prog" where
  "resolve_current d tx merchant corr job status at current =
     bnd (lift_domain (rehydrate current)) (\<lambda>t.
     let key = tw_idempotencyKey current;
         ref = ps_providerReference status;
         as_it_is = terminalResult (tw_state current) tx corr key (tw_providerReference current) None;
         deadline = (case job of None \<Rightarrow> at | Some j \<Rightarrow> pw_deadlineAt j)
     in if ps_outcome status = ST_SUCCESS then
          bnd (closePendingResolution tx PR_RESOLVED at) (\<lambda>closed.
          if \<not> closed then ret as_it_is else resolved_success d tx merchant corr ref at key t current)
        else if ps_outcome status = ST_FAILURE then
          bnd (closePendingResolution tx PR_RESOLVED at) (\<lambda>closed.
          if \<not> closed then ret as_it_is else resolved_failure d tx merchant corr ref at key t current)
        else if \<not> isAfter at deadline then
          ret (pending_result tx corr key (tw_providerReference current) PROVIDER_INDETERMINATE deadline)
        else
          bnd (closePendingResolution tx ESCALATED at) (\<lambda>closed.
          if \<not> closed then ret as_it_is else resolved_escalated d tx merchant corr at key t current))"

definition resolve_phase ::
  "sale_deps \<Rightarrow> string \<Rightarrow> string \<Rightarrow> string \<Rightarrow> pending_row option \<Rightarrow> transaction_row \<Rightarrow> provider_status \<Rightarrow> sale_result prog" where
  "resolve_phase d tx merchant corr job row status = db_transaction (
     bnd (now d) (\<lambda>at.
     bnd (get_db (\<lambda>s. findTransaction s tx (Some merchant))) (\<lambda>current.
     case current of
       None \<Rightarrow> ret (terminalResult (tw_state row) tx corr (tw_idempotencyKey row) (tw_providerReference row) None)
     | Some cur \<Rightarrow>
         if tw_state cur \<noteq> PENDING
         then ret (terminalResult (tw_state cur) tx corr (tw_idempotencyKey row) (tw_providerReference row) None)
         else resolve_current d tx merchant corr job status at cur)))"

definition resolvePending :: "sale_deps \<Rightarrow> string \<Rightarrow> string \<Rightarrow> sale_result prog" where
  "resolvePending d tx merchant =
     bnd (get_db (\<lambda>s. s)) (\<lambda>s.
     case findTransaction s tx (Some merchant) of
       None \<Rightarrow>
         bnd (newId d ''corr'') (\<lambda>corr.
         ret (reject UNAUTHORIZED corr ''TRANSACTION_NOT_FOUND_FOR_MERCHANT'' SHOW_PERMISSION_ERROR None None))
     | Some row \<Rightarrow>
         (let job = findPendingResolution s tx in
          bnd (case job of Some j \<Rightarrow> ret (pw_correlationId j) | None \<Rightarrow> newId d ''corr'') (\<lambda>corr.
          if tw_state row \<noteq> PENDING
          then ret (terminalResult (tw_state row) tx corr (tw_idempotencyKey row) (tw_providerReference row)
                     (map_option sw_reference (findSupportCaseByTransaction s tx (Some merchant))))
          else
            bnd (now d) (\<lambda>at.
            seq (recordResolutionAttempt tx at)
            (bnd (getStatus d \<lparr>sq_transactionId = tx, sq_providerReference = tw_providerReference row,
                              sq_idempotencyKey = tw_idempotencyKey row\<rparr>)
              (resolve_phase d tx merchant corr job row))))))"

end
