(* ===== verification/Recovery.thy ===== *)
theory Recovery
  imports Sale "HOL-Library.Sublist"
begin

text \<open>
  The unattended recovery sweep (\<open>services/api/src/application/recovery\<close>): its policy (\<open>config.ts\<close>), how it reads
  a provider's answer (\<open>results.ts\<close>), the sweep itself (\<open>recoverInFlight.ts\<close>) and the gauges and alerts an operator
  sees (\<open>metrics.ts\<close>). \<open>createSale\<close> leaves a sale RESERVED or PROCESSING when the process dies between its units of
  work; the sweep claims such a sale under a lease, asks the provider, and settles, releases, holds or escalates it.
\<close>

section \<open>Policy\<close>

record recovery_policy =
  rp_recoveryAgeMs :: int
  rp_pendingMaximumMs :: int
  rp_maxStatusAttempts :: int
  rp_claimLeaseMs :: int
  rp_statusCheckIntervalMs :: int
  rp_batchLimit :: nat

record policy_override =
  po_recoveryAgeMs :: "int option"
  po_pendingMaximumMs :: "int option"
  po_maxStatusAttempts :: "int option"
  po_claimLeaseMs :: "int option"
  po_statusCheckIntervalMs :: "int option"
  po_batchLimit :: "nat option"

text \<open>\<open>perProvider\<close> as the list of its entries, one for each provider; an absent record is the empty list.\<close>

record recovery_config =
  rc_policy :: recovery_policy
  rc_perProvider :: "(string \<times> policy_override) list"

definition DEVELOPMENT_RECOVERY_POLICY :: recovery_policy where
  "DEVELOPMENT_RECOVERY_POLICY =
     \<lparr>rp_recoveryAgeMs = 60000, rp_pendingMaximumMs = 5 * 60000, rp_maxStatusAttempts = 5,
      rp_claimLeaseMs = 30000, rp_statusCheckIntervalMs = 30000, rp_batchLimit = 100\<rparr>"

definition policyFor :: "recovery_config \<Rightarrow> string option \<Rightarrow> recovery_policy" where
  "policyFor c provider =
     (let base = rc_policy c in
      case (case provider of None \<Rightarrow> None | Some p \<Rightarrow> map_of (rc_perProvider c) p) of
        None \<Rightarrow> base
      | Some ov \<Rightarrow>
          \<lparr>rp_recoveryAgeMs = or_else (po_recoveryAgeMs ov) (rp_recoveryAgeMs base),
           rp_pendingMaximumMs = or_else (po_pendingMaximumMs ov) (rp_pendingMaximumMs base),
           rp_maxStatusAttempts = or_else (po_maxStatusAttempts ov) (rp_maxStatusAttempts base),
           rp_claimLeaseMs = or_else (po_claimLeaseMs ov) (rp_claimLeaseMs base),
           rp_statusCheckIntervalMs = or_else (po_statusCheckIntervalMs ov) (rp_statusCheckIntervalMs base),
           rp_batchLimit = or_else (po_batchLimit ov) (rp_batchLimit base)\<rparr>)"

definition minimumRecoveryAgeMs :: "recovery_config \<Rightarrow> int" where
  "minimumRecoveryAgeMs c =
     (let base = rp_recoveryAgeMs (rc_policy c)
      in foldl (\<lambda>least (_, ov). min least (or_else (po_recoveryAgeMs ov) base)) base (rc_perProvider c))"

section \<open>What a lookup says\<close>

datatype lookup_outcome =
    LO_SUCCESS | LO_FAILURE | LO_PROCESSING | LO_UNKNOWN | LO_UNAVAILABLE | LO_MALFORMED
  | LO_AUTH | LO_NOT_ATTEMPTED

definition lookup_name :: "lookup_outcome \<Rightarrow> string" where
  "lookup_name x =
     (case x of LO_SUCCESS \<Rightarrow> ''CONFIRMED_SUCCESS'' | LO_FAILURE \<Rightarrow> ''CONFIRMED_FAILURE''
      | LO_PROCESSING \<Rightarrow> ''STILL_PROCESSING'' | LO_UNKNOWN \<Rightarrow> ''UNKNOWN''
      | LO_UNAVAILABLE \<Rightarrow> ''PROVIDER_UNAVAILABLE'' | LO_MALFORMED \<Rightarrow> ''MALFORMED_RESPONSE''
      | LO_AUTH \<Rightarrow> ''AUTH_OR_CONFIG_FAILURE'' | LO_NOT_ATTEMPTED \<Rightarrow> ''NOT_ATTEMPTED'')"

definition DETERMINATE_OUTCOMES :: "lookup_outcome list" where
  "DETERMINATE_OUTCOMES = [LO_SUCCESS, LO_FAILURE]"

definition isDeterminate :: "lookup_outcome \<Rightarrow> bool" where
  "isDeterminate x \<longleftrightarrow> x \<in> set DETERMINATE_OUTCOMES"

definition isOperationalFault :: "lookup_outcome \<Rightarrow> bool" where
  "isOperationalFault x \<longleftrightarrow> x = LO_AUTH"

definition classifyStatus :: "provider_status \<Rightarrow> lookup_outcome" where
  "classifyStatus s =
     (case ps_outcome s of ST_SUCCESS \<Rightarrow> LO_SUCCESS | ST_FAILURE \<Rightarrow> LO_FAILURE
      | ST_STILL_PENDING \<Rightarrow> LO_PROCESSING | ST_UNKNOWN_REFERENCE \<Rightarrow> LO_UNKNOWN)"

text \<open>\<open>error.name\<close> and \<open>error.code\<close>, when it is a string.\<close>

fun domain_error_name :: "domain_error \<Rightarrow> string" where
  "domain_error_name (IllegalTransition _ _) = ''IllegalTransitionError''"
| "domain_error_name (TerminalState _ _) = ''TerminalStateError''"
| "domain_error_name InvalidMoney = ''InvalidMoneyError''"
| "domain_error_name CurrencyMismatch = ''CurrencyMismatchError''"
| "domain_error_name NegativeAmount = ''NegativeAmountError''"
| "domain_error_name (IdempotencyPayloadMismatch _) = ''IdempotencyPayloadMismatchError''"
| "domain_error_name (DuplicateInProgress _ _) = ''DuplicateInProgressError''"
| "domain_error_name InsufficientAvailableBalance = ''InsufficientAvailableBalanceError''"
| "domain_error_name (LedgerNotBalanced _) = ''LedgerNotBalancedError''"
| "domain_error_name (LedgerImmutable _) = ''LedgerImmutableError''"
| "domain_error_name (CrossMerchantAccess _ _) = ''CrossMerchantAccessError''"
| "domain_error_name LiveMoneyDisabled = ''LiveMoneyDisabledError''"
| "domain_error_name CommissionRateNotConfigured = ''CommissionRateNotConfiguredError''"
| "domain_error_name (FeeNotChargeable _) = ''FeeNotChargeableError''"
| "domain_error_name ReprintIsNotASale = ''ReprintIsNotASaleError''"
| "domain_error_name (UnknownTransaction _) = ''UnknownTransactionError''"

definition persistence_error_name :: "persistence_code \<Rightarrow> string" where
  "persistence_error_name c =
     (case c of MIGRATION_FAILED \<Rightarrow> ''MigrationFailedError''
      | MIGRATION_CHECKSUM_MISMATCH \<Rightarrow> ''MigrationChecksumMismatchError''
      | LEDGER_APPEND_ONLY_VIOLATION \<Rightarrow> ''LedgerAppendOnlyViolationError''
      | DUPLICATE_IDEMPOTENCY_RECORD \<Rightarrow> ''DuplicateIdempotencyRecordError''
      | MERCHANT_SCOPE_VIOLATION \<Rightarrow> ''MerchantScopeViolationError''
      | ACCOUNT_NOT_FOUND \<Rightarrow> ''AccountNotFoundError''
      | DRIVER_CLOSED \<Rightarrow> ''DriverClosedError''
      | UNSUPPORTED_MODE \<Rightarrow> ''UnsupportedModeError'')"

definition err_name :: "err \<Rightarrow> string" where
  "err_name e =
     (case e of DomainErr x \<Rightarrow> domain_error_name x | PersistErr c \<Rightarrow> persistence_error_name c
      | SqliteErr _ \<Rightarrow> ''SqliteError'' | RateErr _ \<Rightarrow> ''InvalidProfitRateError'' | RangeErr \<Rightarrow> ''RangeError''
      | OtherErr _ \<Rightarrow> ''Error'' | ErrorWith name _ \<Rightarrow> name)"

definition err_code :: "err \<Rightarrow> string option" where
  "err_code e =
     (case e of DomainErr x \<Rightarrow> Some (error_code x) | PersistErr c \<Rightarrow> Some (persistence_code_name c)
      | SqliteErr c \<Rightarrow> Some (''SQLITE_CONSTRAINT_'' @ constraint_name c) | RateErr _ \<Rightarrow> Some ''INVALID_PROFIT_RATE''
      | RangeErr \<Rightarrow> None | OtherErr _ \<Rightarrow> None | ErrorWith _ code \<Rightarrow> Some code)"

text \<open>The alternatives of the three regular expressions are literals, so a match is an occurrence.\<close>

definition mentions :: "string list \<Rightarrow> string \<Rightarrow> bool" where
  "mentions ws text \<longleftrightarrow> list_ex (\<lambda>w. sublist w text) ws"

definition classifyLookupFailure :: "err \<Rightarrow> lookup_outcome" where
  "classifyLookupFailure e =
     (if e = DomainErr LiveMoneyDisabled then LO_AUTH
      else
        let token = map to_upper_char (err_name e @ '':'' @ or_else (err_code e) '''') in
        if mentions [''AUTH'', ''CREDENTIAL'', ''FORBIDDEN'', ''UNAUTHORIZED'', ''CONFIG'', ''EACCES''] token then LO_AUTH
        else if mentions [''MALFORMED'', ''PARSE'', ''SYNTAX'', ''DECODE'', ''JSON''] token then LO_MALFORMED
        else if mentions [''UNAVAILABLE'', ''ECONNREFUSED'', ''ECONNRESET'', ''ETIMEDOUT'', ''TIMEOUT'', ''NETWORK'', ''DNS'', ''ENOTFOUND''] token
        then LO_UNAVAILABLE
        else LO_UNKNOWN)"

section \<open>Results of a sweep\<close>

datatype recovery_kind =
    RECOVERED_SUCCESSFUL | RECOVERED_FAILED | RELEASED_NEVER_SUBMITTED | MOVED_TO_PENDING
  | ESCALATED_UNDER_REVIEW | SKIPPED_TOO_RECENT | SKIPPED_TERMINAL | SKIPPED_CLAIMED_BY_OTHER | RECOVERY_FAILED

record recovery_result =
  re_transactionId :: string
  re_merchantId :: string
  re_kind :: recovery_kind
  re_stateBefore :: tx_state
  re_state :: tx_state
  re_providerOutcome :: lookup_outcome
  re_providerReference :: "string option"
  re_attempts :: int
  re_correlationId :: string
  re_operationalAlert :: bool
  re_supportReference :: "string option"
  re_reasonCode :: "string option"

text \<open>A duration is \<open>None\<close> when JavaScript's would be NaN, which only an unreadable timestamp makes it.\<close>

record sweep_report =
  swp_scanId :: string
  swp_startedAt :: timestamp
  swp_finishedAt :: timestamp
  swp_found :: nat
  swp_claimed :: nat
  swp_duplicateWorkersPrevented :: nat
  swp_recoveredSuccessful :: nat
  swp_recoveredFailed :: nat
  swp_releasedNeverSubmitted :: nat
  swp_movedToPending :: nat
  swp_escalatedUnderReview :: nat
  swp_skipped :: nat
  swp_recoveryFailures :: nat
  swp_operationalAlerts :: nat
  swp_providerLookupMs :: "int option"
  swp_stoppedEarly :: bool
  swp_results :: "recovery_result list"

section \<open>The sweep\<close>

definition PLATFORM_SCOPE :: string where
  "PLATFORM_SCOPE = ''__platform__''"

definition IN_FLIGHT_STATES :: "tx_state list" where
  "IN_FLIGHT_STATES = [PROCESSING, RESERVED, PENDING]"

definition UNRESOLVED_STATES :: "tx_state list" where
  "UNRESOLVED_STATES = [RESERVED, SUBMITTED, PROCESSING, PENDING, UNDER_REVIEW, REVERSAL_REQUIRED]"

record recovery_deps =
  rd_sale :: sale_deps
  rd_workerId :: string
  rd_recovery :: recovery_config

record sweep_options =
  so_merchantId :: "string option"
  so_shouldContinue :: "bool prog option"

definition RECOVERY_ACTOR :: audit_actor where
  "RECOVERY_ACTOR = \<lparr>ac_userId = ''system'', ac_role = SYSTEM, ac_deviceId = None\<rparr>"

definition writeAudit ::
  "recovery_deps \<Rightarrow> audit_action \<Rightarrow> string \<Rightarrow> string \<Rightarrow> string option \<Rightarrow> tx_state option \<Rightarrow> tx_state option \<Rightarrow> string option \<Rightarrow> unit prog" where
  "writeAudit r action merchant corr tx before after detail =
     bnd (newId (rd_sale r) ''audit'') (\<lambda>i.
     bnd (now (rd_sale r)) (\<lambda>at.
     saveAuditEvent
       \<lparr>ui_event = \<lparr>ae_id = i, ae_at = at, ae_action = action, ae_actor = RECOVERY_ACTOR, ae_merchantId = merchant,
          ae_transactionId = tx, ae_before = before, ae_after = after, ae_detail = detail\<rparr>,
        ui_correlationId = corr, ui_entityType = ''transaction'', ui_entityId = tx, ui_metadata = None\<rparr>))"

definition skip :: "transaction_row \<Rightarrow> recovery_kind \<Rightarrow> string \<Rightarrow> recovery_result" where
  "skip row kind corr =
     \<lparr>re_transactionId = tw_id row, re_merchantId = tw_merchantId row, re_kind = kind, re_stateBefore = tw_state row,
      re_state = tw_state row, re_providerOutcome = LO_NOT_ATTEMPTED, re_providerReference = None, re_attempts = 0,
      re_correlationId = corr, re_operationalAlert = False, re_supportReference = None, re_reasonCode = None\<rparr>"

definition outcomeResult ::
  "string \<Rightarrow> string \<Rightarrow> recovery_kind \<Rightarrow> tx_state \<Rightarrow> tx_state \<Rightarrow> lookup_outcome \<Rightarrow> string \<Rightarrow> string option \<Rightarrow> int \<Rightarrow> recovery_result" where
  "outcomeResult tx merchant kind before state out corr ref attempts =
     \<lparr>re_transactionId = tx, re_merchantId = merchant, re_kind = kind, re_stateBefore = before, re_state = state,
      re_providerOutcome = out, re_providerReference = ref, re_attempts = attempts, re_correlationId = corr,
      re_operationalAlert = False, re_supportReference = None, re_reasonCode = None\<rparr>"

definition attemptsOf :: "string \<Rightarrow> db \<Rightarrow> int" where
  "attemptsOf tx s = (case findPendingResolution s tx of None \<Rightarrow> 0 | Some j \<Rightarrow> pw_attempts j)"

definition ensurePending :: "string \<Rightarrow> string \<Rightarrow> transaction_row \<Rightarrow> string \<Rightarrow> recovery_policy \<Rightarrow> unit prog" where
  "ensurePending tx merchant row corr policy =
     bnd (lift_date (addMs (tw_updatedAt row) (rp_pendingMaximumMs policy))) (\<lambda>deadline.
     upsertPendingResolution
       \<lparr>pi_transactionId = tx, pi_merchantId = merchant, pi_idempotencyKey = tw_idempotencyKey row,
        pi_providerReference = tw_providerReference row, pi_correlationId = corr,
        pi_firstPendingAt = tw_updatedAt row, pi_deadlineAt = deadline\<rparr>)"

text \<open>A RESERVED sale without a provider reference was never submitted: give the value back.\<close>

definition release_never_submitted :: "recovery_deps \<Rightarrow> string \<Rightarrow> string \<Rightarrow> transaction_row \<Rightarrow> string \<Rightarrow> unit prog" where
  "release_never_submitted r tx merchant row corr = db_transaction (
     bnd (now (rd_sale r)) (\<lambda>at.
     bnd (lift_domain (rehydrate row)) (\<lambda>t0.
     bnd (lift_domain (transitionTo t0 PROCESSING at (Some ''recovery: reconstructing legal path'') None)) (\<lambda>t1.
     bnd (lift_domain (transitionTo t1 FAILED at (Some ''recovery: provider was never called'') None)) (\<lambda>t2.
     seq (persistRehydrated t2 row)
     (bnd (money_context (rd_sale r) merchant tx (tx_amount t2) at corr RECOVERY_ACTOR) (\<lambda>c.
     seq (release c)
     (seq (recordIdempotencyResult merchant (tw_idempotencyKey row) FAILED at)
     (writeAudit r RECOVERY_RECOVERED_FAILED merchant corr (Some tx) (Some (tw_state row)) (Some FAILED)
        (Some ''never_submitted''))))))))))"

text \<open>A RESERVED sale with a provider reference may have been submitted: track it as pending first.\<close>

definition mark_uncertain :: "recovery_deps \<Rightarrow> string \<Rightarrow> string \<Rightarrow> recovery_policy \<Rightarrow> transaction_row \<Rightarrow> string \<Rightarrow> unit prog" where
  "mark_uncertain r tx merchant policy row corr = db_transaction (
     bnd (now (rd_sale r)) (\<lambda>at.
     bnd (lift_domain (rehydrate row)) (\<lambda>t0.
     bnd (lift_domain (transitionTo t0 PROCESSING at (Some ''recovery: submission uncertain'') None)) (\<lambda>t1.
     bnd (lift_domain (transitionTo t1 PENDING at (Some ''recovery: submission uncertain'') None)) (\<lambda>t2.
     seq (persistRehydrated t2 row)
     (seq (ensurePending tx merchant row corr policy)
     (writeAudit r RECOVERY_MOVED_TO_PENDING merchant corr (Some tx) (Some (tw_state row)) (Some PENDING)
        (Some ''submission_uncertain''))))))))"

text \<open>The status lookup; a thrown error is classified, never passed on.\<close>

definition lookup_status :: "recovery_deps \<Rightarrow> string \<Rightarrow> transaction_row \<Rightarrow> (lookup_outcome \<times> string option) prog" where
  "lookup_status r tx row =
     try_catch
       (bnd (getStatus (rd_sale r) \<lparr>sq_transactionId = tx, sq_providerReference = tw_providerReference row,
                                   sq_idempotencyKey = tw_idempotencyKey row\<rparr>) (\<lambda>s.
        ret (classifyStatus s, coalesce (ps_providerReference s) (tw_providerReference row))))
       (\<lambda>e. ret (classifyLookupFailure e, tw_providerReference row))"

definition apply_success ::
  "recovery_deps \<Rightarrow> string \<Rightarrow> string \<Rightarrow> tx_state \<Rightarrow> string \<Rightarrow> string option \<Rightarrow> timestamp \<Rightarrow> transaction_row \<Rightarrow> transaction \<Rightarrow> recovery_result prog" where
  "apply_success r tx merchant before corr ref at current t =
     bnd (lift_domain (transitionTo t SUCCESSFUL at (Some ''recovery: provider confirmed delivery'') ref)) (\<lambda>t'.
     seq (persistRehydrated t' current)
     (bnd (money_context (rd_sale r) merchant tx (tx_amount t) at corr RECOVERY_ACTOR) (\<lambda>c.
     seq (finalizeSuccess c None None)
     (bnd (closePendingResolution tx PR_RESOLVED at) (\<lambda>_.
     seq (recordIdempotencyResult merchant (tw_idempotencyKey current) SUCCESSFUL at)
     (seq (writeAudit r RECOVERY_RECOVERED_SUCCESSFUL merchant corr (Some tx) (Some (tw_state current)) (Some SUCCESSFUL) None)
     (bnd (get_db (attemptsOf tx)) (\<lambda>n.
     ret (outcomeResult tx merchant RECOVERED_SUCCESSFUL before SUCCESSFUL LO_SUCCESS corr ref n)))))))))"

definition apply_failure ::
  "recovery_deps \<Rightarrow> string \<Rightarrow> string \<Rightarrow> tx_state \<Rightarrow> string \<Rightarrow> string option \<Rightarrow> timestamp \<Rightarrow> transaction_row \<Rightarrow> transaction \<Rightarrow> recovery_result prog" where
  "apply_failure r tx merchant before corr ref at current t =
     bnd (lift_domain (transitionTo t FAILED at (Some ''recovery: provider confirmed failure'') ref)) (\<lambda>t'.
     seq (persistRehydrated t' current)
     (bnd (money_context (rd_sale r) merchant tx (tx_amount t) at corr RECOVERY_ACTOR) (\<lambda>c.
     seq (release c)
     (bnd (closePendingResolution tx PR_RESOLVED at) (\<lambda>_.
     seq (recordIdempotencyResult merchant (tw_idempotencyKey current) FAILED at)
     (seq (writeAudit r RECOVERY_RECOVERED_FAILED merchant corr (Some tx) (Some (tw_state current)) (Some FAILED) None)
     (bnd (get_db (attemptsOf tx)) (\<lambda>n.
     ret (outcomeResult tx merchant RECOVERED_FAILED before FAILED LO_FAILURE corr ref n)))))))))"

text \<open>Nothing is known: hold the value, count the attempt, and escalate when time or attempts have run out.\<close>

definition escalate ::
  "recovery_deps \<Rightarrow> string \<Rightarrow> string \<Rightarrow> tx_state \<Rightarrow> string \<Rightarrow> string option \<Rightarrow> lookup_outcome \<Rightarrow> timestamp \<Rightarrow> transaction_row \<Rightarrow>
   transaction \<Rightarrow> int \<Rightarrow> bool \<Rightarrow> recovery_result prog" where
  "escalate r tx merchant before corr ref out at current working attempts outOfAttempts =
     bnd (lift_domain (transitionTo working UNDER_REVIEW at
            (Some (if outOfAttempts then ''recovery: status attempts exhausted'' else ''recovery: pending maximum exceeded'')) None)) (\<lambda>t'.
     seq (persistRehydrated t' current)
     (bnd (money_context (rd_sale r) merchant tx (tx_amount working) at corr RECOVERY_ACTOR) (\<lambda>c.
     seq (moveToUnderReview c)
     (bnd (closePendingResolution tx ESCALATED at) (\<lambda>_.
     bnd (get_db (\<lambda>s. findSupportCaseByTransaction s tx (Some merchant))) (\<lambda>existing.
     let reference = (case existing of None \<Rightarrow> support_reference tx | Some k \<Rightarrow> sw_reference k) in
     seq (case existing of Some _ \<Rightarrow> ret ()
          | None \<Rightarrow>
              bnd (newId (rd_sale r) ''case'') (\<lambda>i.
              seq (createSupportCase
                \<lparr>si_case_id = i, si_case_merchantId = merchant, si_case_transactionId = Some tx,
                 si_case_reason = SR_UNDER_REVIEW, si_case_reference = reference,
                 si_case_correlationId = corr, si_case_at = at\<rparr>)
              (writeAudit r MANUAL_REVIEW_CREATED merchant corr (Some tx) None None (Some reference))))
     (seq (updatePendingMetadata tx
            \<lparr>pm_at = at, pm_nextCheckAt = None, pm_lastOutcomeCategory = None, pm_currentState = None,
             pm_manualReviewStatus = Some ''OPEN'', pm_deadlineAt = None\<rparr>)
     (seq (writeAudit r RECOVERY_ESCALATED_UNDER_REVIEW merchant corr (Some tx) (Some (tw_state current)) (Some UNDER_REVIEW)
             (Some (lookup_name out)))
     (ret ((outcomeResult tx merchant ESCALATED_UNDER_REVIEW before UNDER_REVIEW out corr ref attempts)
             \<lparr>re_operationalAlert := isOperationalFault out, re_supportReference := Some reference\<rparr>))))))))))"

definition keep_waiting ::
  "recovery_deps \<Rightarrow> string \<Rightarrow> string \<Rightarrow> tx_state \<Rightarrow> string \<Rightarrow> string option \<Rightarrow> lookup_outcome \<Rightarrow> transaction_row \<Rightarrow> int \<Rightarrow> recovery_result prog" where
  "keep_waiting r tx merchant before corr ref out current attempts =
     (if isOperationalFault out then
        seq (writeAudit r RECOVERY_ATTEMPT_FAILED merchant corr (Some tx) None None (Some (lookup_name out)))
        (ret ((outcomeResult tx merchant RECOVERY_FAILED before PENDING out corr ref attempts)
                \<lparr>re_operationalAlert := True, re_reasonCode := Some ''PROVIDER_AUTH_OR_CONFIG_FAILURE''\<rparr>))
      else
        seq (writeAudit r RECOVERY_MOVED_TO_PENDING merchant corr (Some tx) (Some (tw_state current)) (Some PENDING) (Some (lookup_name out)))
        (ret (outcomeResult tx merchant MOVED_TO_PENDING before PENDING out corr ref attempts)))"

definition enter_pending :: "lookup_outcome \<Rightarrow> timestamp \<Rightarrow> transaction_row \<Rightarrow> transaction \<Rightarrow> transaction prog" where
  "enter_pending out at current t =
     (if tw_state current = PROCESSING
      then bnd (lift_domain (transitionTo t PENDING at (Some (''recovery: '' @ lookup_name out)) None)) (\<lambda>t'.
           seq (persistRehydrated t' current) (ret t'))
      else ret t)"

definition count_attempt ::
  "recovery_deps \<Rightarrow> string \<Rightarrow> string \<Rightarrow> recovery_policy \<Rightarrow> tx_state \<Rightarrow> string \<Rightarrow> string option \<Rightarrow> lookup_outcome \<Rightarrow> timestamp \<Rightarrow>
   transaction_row \<Rightarrow> transaction \<Rightarrow> recovery_result prog" where
  "count_attempt r tx merchant policy before corr ref out at current working =
     seq (ensurePending tx merchant current corr policy)
     (seq (recordResolutionAttempt tx at)
     (bnd (get_db (\<lambda>s. findPendingResolution s tx)) (\<lambda>job.
      let attempts = (case job of None \<Rightarrow> 0 | Some j \<Rightarrow> pw_attempts j);
          pastDeadline = (case job of None \<Rightarrow> False | Some j \<Rightarrow> isAfter at (pw_deadlineAt j));
          outOfAttempts = rp_maxStatusAttempts policy \<le> attempts
      in bnd (lift_date (addMs at (rp_statusCheckIntervalMs policy))) (\<lambda>next.
         seq (updatePendingMetadata tx
                \<lparr>pm_at = at, pm_nextCheckAt = Some next, pm_lastOutcomeCategory = Some (lookup_name out),
                 pm_currentState = Some (if pastDeadline \<or> outOfAttempts then ''UNDER_REVIEW'' else ''PENDING''),
                 pm_manualReviewStatus = None, pm_deadlineAt = None\<rparr>)
         (if pastDeadline \<or> outOfAttempts
          then escalate r tx merchant before corr ref out at current working attempts outOfAttempts
          else keep_waiting r tx merchant before corr ref out current attempts)))))"

definition hold_value ::
  "recovery_deps \<Rightarrow> string \<Rightarrow> string \<Rightarrow> recovery_policy \<Rightarrow> tx_state \<Rightarrow> string \<Rightarrow> string option \<Rightarrow> lookup_outcome \<Rightarrow> timestamp \<Rightarrow>
   transaction_row \<Rightarrow> transaction \<Rightarrow> recovery_result prog" where
  "hold_value r tx merchant policy before corr ref out at current t =
     bnd (enter_pending out at current t) (\<lambda>working.
     count_attempt r tx merchant policy before corr ref out at current working)"

definition apply_outcome ::
  "recovery_deps \<Rightarrow> string \<Rightarrow> string \<Rightarrow> recovery_policy \<Rightarrow> tx_state \<Rightarrow> string \<Rightarrow> lookup_outcome \<times> string option \<Rightarrow> recovery_result prog" where
  "apply_outcome r tx merchant policy before corr answer = db_transaction (
     bnd (now (rd_sale r)) (\<lambda>at.
     bnd (get_db (\<lambda>s. findTransaction s tx (Some merchant))) (\<lambda>found.
     case found of
       None \<Rightarrow> throw (OtherErr ''Transaction disappeared during recovery'')
     | Some current \<Rightarrow>
         if tw_state current \<noteq> PROCESSING \<and> tw_state current \<noteq> PENDING then ret (skip current SKIPPED_TERMINAL corr)
         else
           bnd (lift_domain (rehydrate current)) (\<lambda>t.
           case answer of (out, ref) \<Rightarrow>
             if out = LO_SUCCESS then apply_success r tx merchant before corr ref at current t
             else if out = LO_FAILURE then apply_failure r tx merchant before corr ref at current t
             else hold_value r tx merchant policy before corr ref out at current t))))"

definition ask_provider ::
  "recovery_deps \<Rightarrow> string \<Rightarrow> string \<Rightarrow> recovery_policy \<Rightarrow> transaction_row \<Rightarrow> string \<Rightarrow> (recovery_result \<times> int option) prog" where
  "ask_provider r tx merchant policy row corr =
     seq (writeAudit r RECOVERY_STATUS_LOOKUP merchant corr (Some tx) None None None)
     (bnd (now (rd_sale r)) (\<lambda>lookupStart.
      bnd (lookup_status r tx row) (\<lambda>answer.
      bnd (now (rd_sale r)) (\<lambda>lookupEnd.
      seq (writeAudit r RECOVERY_OUTCOME_RECEIVED merchant corr (Some tx) None None (Some (lookup_name (fst answer))))
      (bnd (apply_outcome r tx merchant policy (tw_state row) corr answer) (\<lambda>result.
       ret (result, map_option (max 0) (msBetween lookupStart lookupEnd))))))))"

definition never_submitted_result :: "string \<Rightarrow> string \<Rightarrow> tx_state \<Rightarrow> string \<Rightarrow> recovery_result" where
  "never_submitted_result tx merchant before corr =
     (outcomeResult tx merchant RELEASED_NEVER_SUBMITTED before FAILED LO_NOT_ATTEMPTED corr None 0)
       \<lparr>re_reasonCode := Some ''PROVIDER_NEVER_CALLED''\<rparr>"

definition recoverOne ::
  "recovery_deps \<Rightarrow> string \<Rightarrow> string \<Rightarrow> recovery_policy \<Rightarrow> string \<Rightarrow> (recovery_result \<times> int option) prog" where
  "recoverOne r tx merchant policy scanId =
     bnd (get_db (\<lambda>s. (findTransaction s tx (Some merchant), findPendingResolution s tx))) (\<lambda>(found, job).
     case found of
       None \<Rightarrow> throw (OtherErr ''Transaction disappeared under claim'')
     | Some row \<Rightarrow>
         (let corr = (case job of None \<Rightarrow> scanId | Some j \<Rightarrow> pw_correlationId j) in
          if tw_state row \<notin> set IN_FLIGHT_STATES then ret (skip row SKIPPED_TERMINAL corr, Some 0)
          else if tw_state row = RESERVED \<and> tw_providerReference row = None then
            seq (release_never_submitted r tx merchant row corr)
                (ret (never_submitted_result tx merchant (tw_state row) corr, Some 0))
          else
            seq (if tw_state row = RESERVED then mark_uncertain r tx merchant policy row corr else ret ())
                (ask_provider r tx merchant policy row corr)))"

section \<open>The loop\<close>

record sweep_state =
  ss_results :: "recovery_result list"
  ss_duplicates :: nat
  ss_claimed :: nat
  ss_lookupMs :: "int option"
  ss_stoppedEarly :: bool

definition push :: "recovery_result \<Rightarrow> sweep_state \<Rightarrow> sweep_state" where
  "push x st = st\<lparr>ss_results := ss_results st @ [x]\<rparr>"

text \<open>\<open>error.code\<close> when it is a string, else \<open>error.name\<close>.\<close>

definition recovery_safeCode :: "err \<Rightarrow> string" where
  "recovery_safeCode e = or_else (err_code e) (err_name e)"

text \<open>\<open>try ... finally\<close>: the last block runs however the first ended, and its own error wins.\<close>

definition finally_do :: "'a prog \<Rightarrow> 'b prog \<Rightarrow> 'a prog" where
  "finally_do m f w = (case m w of (x, w1) \<Rightarrow> (case f w1 of (Inl e, w2) \<Rightarrow> (Inl e, w2) | (Inr _, w2) \<Rightarrow> (x, w2)))"

definition recovery_failed :: "recovery_deps \<Rightarrow> transaction_row \<Rightarrow> string \<Rightarrow> sweep_state \<Rightarrow> err \<Rightarrow> sweep_state prog" where
  "recovery_failed r row scanId st e =
     (let tx = tw_id row; merchant = tw_merchantId row in
      seq (writeAudit r RECOVERY_ATTEMPT_FAILED merchant scanId (Some tx) None None (Some (recovery_safeCode e)))
      (bnd (get_db (\<lambda>s. (or_else (findTransaction s tx (Some merchant)) row, attemptsOf tx s))) (\<lambda>(current, n).
       ret (push ((outcomeResult tx merchant RECOVERY_FAILED (tw_state row) (tw_state current) LO_UNKNOWN scanId None n)
                    \<lparr>re_operationalAlert := True, re_reasonCode := Some (recovery_safeCode e)\<rparr>) st))))"

definition recover_claimed :: "recovery_deps \<Rightarrow> recovery_policy \<Rightarrow> transaction_row \<Rightarrow> string \<Rightarrow> sweep_state \<Rightarrow> sweep_state prog" where
  "recover_claimed r policy row scanId st =
     finally_do
       (try_catch
          (bnd (recoverOne r (tw_id row) (tw_merchantId row) policy scanId) (\<lambda>(result, ms).
           ret (push result (st\<lparr>ss_lookupMs :=
             (case (ss_lookupMs st, ms) of (Some a, Some b) \<Rightarrow> Some (js_add a b) | _ \<Rightarrow> None)\<rparr>))))
          (recovery_failed r row scanId st))
       (bnd (now (rd_sale r)) (\<lambda>at. releaseClaim (tw_id row) (rd_workerId r) at))"

definition claim_and_recover :: "recovery_deps \<Rightarrow> recovery_policy \<Rightarrow> transaction_row \<Rightarrow> string \<Rightarrow> sweep_state \<Rightarrow> sweep_state prog" where
  "claim_and_recover r policy row scanId st =
     bnd (now (rd_sale r)) (\<lambda>t1.
     bnd (now (rd_sale r)) (\<lambda>t2.
     bnd (lift_date (addMs t2 (rp_claimLeaseMs policy))) (\<lambda>expires.
     bnd (claimTransaction
            \<lparr>ci_transactionId = tw_id row, ci_workerId = rd_workerId r, ci_scanId = scanId, ci_now = t1,
             ci_expiresAt = expires\<rparr>) (\<lambda>claim.
     if \<not> co_claimed claim then
       seq (writeAudit r RECOVERY_DUPLICATE_WORKER_PREVENTED (tw_merchantId row) scanId (Some (tw_id row)) None None
              (Some (''held_by='' @ or_else (co_heldBy claim) ''unknown'')))
       (ret (push (skip row SKIPPED_CLAIMED_BY_OTHER scanId) (st\<lparr>ss_duplicates := ss_duplicates st + 1\<rparr>)))
     else
       seq (writeAudit r RECOVERY_CLAIMED (tw_merchantId row) scanId (Some (tw_id row)) None None
              (Some (''worker='' @ rd_workerId r)))
       (recover_claimed r policy row scanId (st\<lparr>ss_claimed := ss_claimed st + 1\<rparr>))))))"

definition sweep_one :: "recovery_deps \<Rightarrow> string \<Rightarrow> transaction_row \<Rightarrow> sweep_state \<Rightarrow> sweep_state prog" where
  "sweep_one r scanId candidate st =
     bnd (get_db (\<lambda>s. findTransaction s (tw_id candidate) (Some (tw_merchantId candidate)))) (\<lambda>found.
     case found of
       None \<Rightarrow> ret st
     | Some row \<Rightarrow>
         (let policy = policyFor (rd_recovery r) (tw_providerId row) in
          bnd (now (rd_sale r)) (\<lambda>t.
          if (case msBetween (tw_updatedAt row) t of None \<Rightarrow> False | Some age \<Rightarrow> age < rp_recoveryAgeMs policy)
          then ret (push (skip row SKIPPED_TOO_RECENT scanId) st)
          else claim_and_recover r policy row scanId st)))"

fun sweep_all :: "recovery_deps \<Rightarrow> sweep_options \<Rightarrow> string \<Rightarrow> transaction_row list \<Rightarrow> sweep_state \<Rightarrow> sweep_state prog" where
  "sweep_all r o' scanId [] st = ret st"
| "sweep_all r o' scanId (c # cs) st =
     bnd (case so_shouldContinue o' of None \<Rightarrow> ret True | Some go \<Rightarrow> go) (\<lambda>go.
     if \<not> go then ret (st\<lparr>ss_stoppedEarly := True\<rparr>)
     else bnd (sweep_one r scanId c st) (sweep_all r o' scanId cs))"

definition count_kind :: "recovery_kind \<Rightarrow> recovery_result list \<Rightarrow> nat" where
  "count_kind k rs = length (filter (\<lambda>x. re_kind x = k) rs)"

definition recoverInFlight :: "recovery_deps \<Rightarrow> sweep_options \<Rightarrow> sweep_report prog" where
  "recoverInFlight r o' =
     bnd (newId (rd_sale r) ''scan'') (\<lambda>scanId.
     bnd (now (rd_sale r)) (\<lambda>startedAt.
     seq (writeAudit r RECOVERY_SCAN_STARTED (or_else (so_merchantId o') PLATFORM_SCOPE) scanId None None None
            (Some (''worker='' @ rd_workerId r)))
     (bnd (lift_date (addMs startedAt (- minimumRecoveryAgeMs (rd_recovery r)))) (\<lambda>cutoff.
      bnd (get_db (\<lambda>s. findInFlightOlderThan s IN_FLIGHT_STATES cutoff (rp_batchLimit (rc_policy (rd_recovery r))) (so_merchantId o'))) (\<lambda>candidates.
      bnd (sweep_all r o' scanId candidates
             \<lparr>ss_results = [], ss_duplicates = 0, ss_claimed = 0, ss_lookupMs = Some 0, ss_stoppedEarly = False\<rparr>) (\<lambda>st.
      bnd (now (rd_sale r)) (\<lambda>finishedAt.
      let rs = ss_results st in
      ret \<lparr>swp_scanId = scanId, swp_startedAt = startedAt, swp_finishedAt = finishedAt, swp_found = length candidates,
           swp_claimed = ss_claimed st, swp_duplicateWorkersPrevented = ss_duplicates st,
           swp_recoveredSuccessful = count_kind RECOVERED_SUCCESSFUL rs, swp_recoveredFailed = count_kind RECOVERED_FAILED rs,
           swp_releasedNeverSubmitted = count_kind RELEASED_NEVER_SUBMITTED rs,
           swp_movedToPending = count_kind MOVED_TO_PENDING rs, swp_escalatedUnderReview = count_kind ESCALATED_UNDER_REVIEW rs,
           swp_skipped = count_kind SKIPPED_TOO_RECENT rs + count_kind SKIPPED_TERMINAL rs + count_kind SKIPPED_CLAIMED_BY_OTHER rs,
           swp_recoveryFailures = count_kind RECOVERY_FAILED rs,
           swp_operationalAlerts = length (filter re_operationalAlert rs),
           swp_providerLookupMs = ss_lookupMs st, swp_stoppedEarly = ss_stoppedEarly st, swp_results = rs\<rparr>)))))))"

end
