(* ===== verification/Guarantees.thy ===== *)
theory Guarantees
  imports Sale
begin

text \<open>
  What a program guarantees about the worlds it moves between, whatever it returns. A guarantee is a reflexive,
  transitive relation (\<open>progress\<close>) that a rolled-back database cannot violate; such a relation passes through every combinator
  of the program monad, so that a program keeps it when the operations it is built from do. The same relation,
  assumed of the provider, is what a service relies on while it waits: other requests may
  have moved the world, within it.
\<close>

definition keeps :: "(world \<Rightarrow> world \<Rightarrow> bool) \<Rightarrow> 'a prog \<Rightarrow> bool" where
  "keeps R m \<longleftrightarrow> (\<forall>w. R w (snd (m w)))"

lemma keepsI: "(\<And>w x w'. m w = (x, w') \<Longrightarrow> R w w') \<Longrightarrow> keeps R m"
  unfolding keeps_def by (metis prod.collapse)

lemma keepsD: "keeps R m \<Longrightarrow> m w = (x, w') \<Longrightarrow> R w w'"
  unfolding keeps_def by (metis snd_conv)

lemma keeps_mono: "keeps R m \<Longrightarrow> (\<And>w w'. R w w' \<Longrightarrow> S w w') \<Longrightarrow> keeps S m"
  by (simp add: keeps_def)

locale progress =
  fixes R :: "world \<Rightarrow> world \<Rightarrow> bool"
  assumes refl: "R w w"
    and trans: "R u v \<Longrightarrow> R v w \<Longrightarrow> R u w"
begin

lemma keeps_unchanged: "(\<And>w. snd (m w) = w) \<Longrightarrow> keeps R m"
  by (simp add: keeps_def refl)

lemma keeps_ret: "keeps R (ret x)"
  by (simp add: keeps_def ret_def refl)

lemma keeps_throw: "keeps R (throw e)"
  by (simp add: keeps_def throw_def refl)

lemma keeps_get_db: "keeps R (get_db f)"
  by (simp add: keeps_def get_db_def refl)

lemma keeps_require: "keeps R (require b e)"
  by (simp add: keeps_def require_def ret_def throw_def refl)

lemma keeps_lift_domain: "keeps R (lift_domain r)"
  by (simp add: keeps_def lift_domain_def ret_def throw_def refl split: sum.split)

lemma keeps_lift_rate: "keeps R (lift_rate r)"
  by (simp add: keeps_def lift_rate_def ret_def throw_def refl split: sum.split)

lemma keeps_lift_date: "keeps R (lift_date r)"
  by (simp add: keeps_def lift_date_def ret_def throw_def refl split: option.split)

lemma keeps_bnd:
  assumes "keeps R m" and "\<And>x. keeps R (f x)"
  shows "keeps R (bnd m f)"
proof (rule keepsI)
  fix w x w'
  assume run: "bnd m f w = (x, w')"
  obtain y w1 where m: "m w = (y, w1)" by (cases "m w")
  then have first: "R w w1" using assms(1) by (rule keepsD [rotated])
  show "R w w'"
  proof (cases y)
    case (Inl e)
    then show ?thesis using run m first by (simp add: bnd_def)
  next
    case (Inr v)
    then have "f v w1 = (x, w')" using run m by (simp add: bnd_def)
    then show ?thesis using first assms(2) trans keepsD by blast
  qed
qed

lemma keeps_seq: "keeps R m \<Longrightarrow> keeps R n \<Longrightarrow> keeps R (seq m n)"
  unfolding seq_def by (intro keeps_bnd)

lemma keeps_try_catch:
  assumes "keeps R m" and "\<And>e. keeps R (h e)"
  shows "keeps R (try_catch m h)"
proof (rule keepsI)
  fix w x w'
  assume run: "try_catch m h w = (x, w')"
  obtain y w1 where m: "m w = (y, w1)" by (cases "m w")
  then have first: "R w w1" using assms(1) by (rule keepsD [rotated])
  show "R w w'"
  proof (cases y)
    case (Inl e)
    then have "h e w1 = (x, w')" using run m by (simp add: try_catch_def)
    then show ?thesis using first assms(2) trans keepsD by blast
  next
    case (Inr v)
    then show ?thesis using run m first by (simp add: try_catch_def)
  qed
qed

lemma keeps_if: "(b \<Longrightarrow> keeps R m) \<Longrightarrow> (\<not> b \<Longrightarrow> keeps R n) \<Longrightarrow> keeps R (if b then m else n)"
  by simp

lemma keeps_option: "keeps R m \<Longrightarrow> (\<And>x. keeps R (f x)) \<Longrightarrow> keeps R (case o' of None \<Rightarrow> m | Some x \<Rightarrow> f x)"
  by (cases o') simp_all

lemma keeps_sum: "(\<And>e. keeps R (g e)) \<Longrightarrow> (\<And>x. keeps R (f x)) \<Longrightarrow> keeps R (case s of Inl e \<Rightarrow> g e | Inr x \<Rightarrow> f x)"
  by (cases s) simp_all

lemma keeps_prod: "(\<And>x y. keeps R (f x y)) \<Longrightarrow> keeps R (case p of (x, y) \<Rightarrow> f x y)"
  by (cases p) simp_all

lemma keeps_let: "(\<And>x. keeps R (f x)) \<Longrightarrow> keeps R (let x = t in f x)"
  by simp

lemmas progress_rules = keeps_ret keeps_throw keeps_get_db keeps_require keeps_lift_domain keeps_lift_rate keeps_lift_date keeps_bnd keeps_seq
  keeps_try_catch keeps_if keeps_option keeps_sum keeps_prod keeps_let

text \<open>Where a step depends on what the world holds, it is followed from the world it starts in.\<close>

lemma bnd_at:
  assumes "R w (snd (m w))" and "\<And>x v. m w = (Inr x, v) \<Longrightarrow> R v (snd (f x v))"
  shows "R w (snd (bnd m f w))"
proof -
  obtain r v where run: "m w = (r, v)" by (cases "m w")
  show ?thesis
  proof (cases r)
    case (Inl e)
    then show ?thesis using assms(1) by (simp add: bnd_def run)
  next
    case (Inr x)
    then show ?thesis using assms(1) assms(2) [of x v] trans by (simp add: bnd_def run)
  qed
qed

lemma seq_at: "R w (snd (m w)) \<Longrightarrow> (\<And>v. R v (snd (n v))) \<Longrightarrow> R w (snd (seq m n w))"
  unfolding seq_def by (rule bnd_at)

lemma keeps_at: "keeps R m \<Longrightarrow> R w (snd (m w))"
  by (simp add: keeps_def)

end

locale guarantee = progress +
  assumes rollback: "R w w' \<Longrightarrow> R w (w'\<lparr>w_db := w_db w\<rparr>)"
begin

lemma keeps_db_transaction:
  assumes "keeps R m"
  shows "keeps R (db_transaction m)"
proof (rule keepsI)
  fix w x w'
  assume run: "db_transaction m w = (x, w')"
  obtain y w1 where m: "m w = (y, w1)" by (cases "m w")
  then have first: "R w w1" using assms by (rule keepsD [rotated])
  show "R w w'"
    using run m first by (cases y) (auto simp: db_transaction_def intro: rollback)
qed

lemma db_transaction_at: "R w (snd (m w)) \<Longrightarrow> R w (snd (db_transaction m w))"
  by (cases "m w"; cases "fst (m w)") (auto simp: db_transaction_def intro: rollback)

lemmas keeps_rules = progress_rules keeps_db_transaction

end

section \<open>Relations between worlds\<close>

text \<open>The database as a function of the tables a relation looks at.\<close>

definition same_on :: "(db \<Rightarrow> 'a) \<Rightarrow> world \<Rightarrow> world \<Rightarrow> bool" where
  "same_on f w w' \<longleftrightarrow> f (w_db w') = f (w_db w)"

definition ids_grow :: "world \<Rightarrow> world \<Rightarrow> bool" where
  "ids_grow w w' \<longleftrightarrow> w_ids w \<le> w_ids w'"

definition same_calls :: "world \<Rightarrow> world \<Rightarrow> bool" where
  "same_calls w w' \<longleftrightarrow> w_calls w' = w_calls w"

interpretation same: guarantee "same_on f" for f
  by unfold_locales (simp_all add: same_on_def)

interpretation grow: guarantee ids_grow
  by unfold_locales (simp_all add: ids_grow_def)

interpretation calls: guarantee same_calls
  by unfold_locales (simp_all add: same_calls_def)

text \<open>Writes outside the tables that carry money and sales.\<close>

definition money_tables :: "db \<Rightarrow> transaction_row list \<times> entry_row list \<times> reservation_row list" where
  "money_tables d = (transactions d, ledger_entries d, balance_reservations d)"

definition quiet :: "world \<Rightarrow> world \<Rightarrow> bool" where
  "quiet w w' \<longleftrightarrow> same_on money_tables w w' \<and> same_on idempotency_records w w' \<and> ids_grow w w' \<and> same_calls w w'"

interpretation quiet: guarantee quiet
  by unfold_locales (auto simp: quiet_def same_on_def ids_grow_def same_calls_def)

lemma quiet_put_db:
  "(\<And>d. money_tables (f d) = money_tables d) \<Longrightarrow> (\<And>d. idempotency_records (f d) = idempotency_records d) \<Longrightarrow>
   keeps quiet (put_db f)"
  by (simp add: keeps_def put_db_def quiet_def same_on_def ids_grow_def same_calls_def)

lemma quiet_now: "keeps quiet (now d)"
  by (simp add: keeps_def now_def quiet_def same_on_def ids_grow_def same_calls_def)

lemma quiet_newId: "keeps quiet (newId d k)"
  by (simp add: keeps_def newId_def quiet_def same_on_def ids_grow_def same_calls_def)

lemma quiet_lift_result: "keeps quiet (lift_result r)"
  by (simp add: keeps_def lift_result_def ret_def throw_def quiet.refl split: sum.split)

lemma quiet_saveAuditEvent: "keeps quiet (saveAuditEvent i)"
  unfolding saveAuditEvent_def
  by (intro quiet.keeps_rules quiet_lift_result quiet_put_db) (simp_all add: money_tables_def)

lemma quiet_readPlatformFeeSettings: "keeps quiet readPlatformFeeSettings"
  unfolding readPlatformFeeSettings_def by (intro quiet.keeps_rules)

lemma quiet_effectiveCommissionBps: "keeps quiet (effectiveCommissionBps p t)"
  unfolding effectiveCommissionBps_def by (intro quiet.keeps_rules quiet_readPlatformFeeSettings)

lemma quiet_recordCommission: "keeps quiet (recordCommission i)"
  unfolding recordCommission_def by (intro quiet.keeps_rules quiet_put_db) (simp_all add: money_tables_def)

lemma quiet_upsertPendingResolution: "keeps quiet (upsertPendingResolution i)"
  unfolding upsertPendingResolution_def by (intro quiet.keeps_rules quiet_put_db) (simp_all add: money_tables_def)

lemma quiet_recordResolutionAttempt: "keeps quiet (recordResolutionAttempt tx t)"
  unfolding recordResolutionAttempt_def by (intro quiet_put_db) (simp_all add: money_tables_def)

lemma quiet_closePendingResolution: "keeps quiet (closePendingResolution tx s t)"
  unfolding closePendingResolution_def by (intro quiet.keeps_rules quiet_put_db) (simp_all add: money_tables_def)

lemma quiet_createSupportCase: "keeps quiet (createSupportCase i)"
  unfolding createSupportCase_def by (intro quiet.keeps_rules quiet_put_db) (simp_all add: money_tables_def)

lemmas quiet_rules = quiet.keeps_rules quiet_now quiet_newId quiet_saveAuditEvent quiet_readPlatformFeeSettings
  quiet_effectiveCommissionBps quiet_recordCommission quiet_upsertPendingResolution quiet_recordResolutionAttempt
  quiet_closePendingResolution quiet_createSupportCase

section \<open>What the money operations leave alone\<close>

definition other_tables where
  "other_tables s =
     (merchants s, devices s, idempotency_records s, pending_resolutions s, support_cases s, recovery_claims s,
      commission_entries s, software_fee_charges s, platform_fee_settings s, provider_commission_rates s)"

definition leaves_rest :: "world \<Rightarrow> world \<Rightarrow> bool" where
  "leaves_rest w w' \<longleftrightarrow> other_tables (w_db w') = other_tables (w_db w) \<and> w_ids w' = w_ids w \<and> w_calls w' = w_calls w"

interpretation rest: guarantee leaves_rest
  by unfold_locales (simp_all add: leaves_rest_def)

lemma rest_put_db: "(\<And>s. other_tables (f s) = other_tables s) \<Longrightarrow> keeps leaves_rest (put_db f)"
  by (simp add: keeps_def put_db_def leaves_rest_def)

lemma rest_lift_result: "keeps leaves_rest (lift_result r)"
  by (simp add: keeps_def lift_result_def ret_def throw_def rest.refl split: sum.split)

lemma rest_saveTransaction: "keeps leaves_rest (saveTransaction t x)"
  unfolding saveTransaction_def
  by (intro rest.keeps_rules rest_put_db) (simp_all add: other_tables_def rewrite_transaction_def)

lemma rest_ensureAccount: "keeps leaves_rest (ensureAccount i m k t)"
  unfolding ensureAccount_def by (intro rest.keeps_rules rest_put_db) (simp_all add: other_tables_def)

lemma rest_ensure_all: "keeps leaves_rest (ensure_all t as)"
  by (induction as) (auto intro!: rest.keeps_rules rest_ensureAccount)

lemma rest_ensureAccounts: "keeps leaves_rest (ensureAccounts m t)"
  unfolding ensureAccounts_def by (intro rest.keeps_rules rest_ensure_all)

lemma rest_insert_entry: "keeps leaves_rest (insert_entry r)"
  unfolding insert_entry_def by (intro rest.keeps_rules rest_put_db) (simp_all add: other_tables_def)

lemma rest_append_loop: "keeps leaves_rest (append_loop p m i es)"
  by (induction es arbitrary: i) (auto intro!: rest.keeps_rules rest_insert_entry)

lemma rest_appendEntries: "keeps leaves_rest (appendEntries p)"
  unfolding appendEntries_def by (intro rest.keeps_rules rest_append_loop rest_lift_result)

lemma rest_saveReservation: "keeps leaves_rest (saveReservation r c)"
  unfolding saveReservation_def by (intro rest.keeps_rules rest_put_db) (simp_all add: other_tables_def)

lemma rest_move_reservation: "keeps leaves_rest (move_reservation source i target t)"
  unfolding move_reservation_def by (intro rest.keeps_rules rest_put_db) (simp_all add: other_tables_def)

lemma rest_op_audit: "keeps leaves_rest (op_audit c a k)"
  unfolding op_audit_def saveAuditEvent_def
  by (intro rest.keeps_rules rest_put_db rest_lift_result) (simp_all add: other_tables_def)

lemma rest_reserve: "keeps leaves_rest (reserve c i)"
  unfolding reserve_def
  by (intro rest.keeps_rules rest_ensureAccounts rest_saveReservation rest_appendEntries rest_op_audit)

lemma rest_guardedTransition: "keeps leaves_rest (guardedTransition i source target t)"
  unfolding guardedTransition_def transitionHeldReservation_def transitionUnderReviewReservation_def
  by (intro rest.keeps_rules rest_move_reservation)

lemma rest_resolve_reservation: "keeps leaves_rest (resolve_reservation c source target es a k)"
  unfolding resolve_reservation_def
  by (intro rest.keeps_rules rest_guardedTransition rest_ensureAccounts rest_appendEntries rest_op_audit)

lemma rest_resolutions:
  "keeps leaves_rest (release c)" "keeps leaves_rest (finalizeSuccess c p b)" "keeps leaves_rest (moveToUnderReview c)"
  "keeps leaves_rest (releaseFromUnderReview c)"
  unfolding release_def finalizeSuccess_def Let_def moveToUnderReview_def releaseFromUnderReview_def
  by (rule rest_resolve_reservation)+

text \<open>
  So a guarantee that allows quiet writes, and looks at nothing the money operations write, passes through all that
  \<open>createSale\<close> and \<open>resolvePending\<close> do themselves.
\<close>

locale service_guarantee = guarantee +
  assumes of_quiet: "quiet w w' \<Longrightarrow> R w w'"
    and of_rest: "leaves_rest w w' \<Longrightarrow> R w w'"
    and of_record: "keeps R (saveIdempotencyRecord i)"
    and of_result: "keeps R (recordIdempotencyResult m k s t)"
begin

lemma keeps_quiet: "keeps quiet m \<Longrightarrow> keeps R m"
  by (erule keeps_mono) (rule of_quiet)

lemma keeps_rest: "keeps leaves_rest m \<Longrightarrow> keeps R m"
  by (erule keeps_mono) (rule of_rest)

lemmas keeps_writes = of_record of_result keeps_rest [OF rest_saveTransaction] keeps_rest [OF rest_reserve] keeps_rest [OF rest_resolutions(1)]
  keeps_rest [OF rest_resolutions(2)] keeps_rest [OF rest_resolutions(3)] keeps_quiet [OF quiet_now]
  keeps_quiet [OF quiet_newId] keeps_quiet [OF quiet_saveAuditEvent] keeps_quiet [OF quiet_readPlatformFeeSettings]
  keeps_quiet [OF quiet_effectiveCommissionBps] keeps_quiet [OF quiet_recordCommission]
  keeps_quiet [OF quiet_upsertPendingResolution] keeps_quiet [OF quiet_recordResolutionAttempt]
  keeps_quiet [OF quiet_closePendingResolution] keeps_quiet [OF quiet_createSupportCase]

end

text \<open>Requests are remembered: a record, once there, keeps its fingerprint and its transaction.\<close>

definition remembers :: "world \<Rightarrow> world \<Rightarrow> bool" where
  "remembers w w' \<longleftrightarrow> (\<forall>m k r. findIdempotencyRecord (w_db w) m k = Some r \<longrightarrow>
     (\<exists>r'. findIdempotencyRecord (w_db w') m k = Some r' \<and>
        iw_payloadFingerprint r' = iw_payloadFingerprint r \<and> iw_transactionId r' = iw_transactionId r))"

lemma remembers_same: "idempotency_records (w_db w') = idempotency_records (w_db w) \<Longrightarrow> remembers w w'"
  by (simp add: remembers_def findIdempotencyRecord_def)

lemma remembers_save: "keeps remembers (saveIdempotencyRecord i)"
proof (rule keepsI)
  fix w x w'
  assume run: "saveIdempotencyRecord i w = (x, w')"
  have "idempotency_records (w_db w') = idempotency_records (w_db w) \<or>
      (\<exists>r. idempotency_records (w_db w') = idempotency_records (w_db w) @ [r])"
    using run by (auto simp: saveIdempotencyRecord_def bnd_def seq_def require_run get_db_def put_db_def split: if_splits)
  then show "remembers w w'" by (auto simp: remembers_def findIdempotencyRecord_def find_append)
qed

lemma find_update_where_keys:
  assumes "\<And>r. P (g r) = P r" and "find P rs = Some r"
  shows "find P (update_where Q g rs) = Some (if Q r then g r else r)"
  using assms(2) by (induction rs) (auto simp: update_where_def assms(1) split: if_splits)

lemma remembers_result: "keeps remembers (recordIdempotencyResult m k s t)"
proof (rule keepsI)
  fix w x w'
  assume run: "recordIdempotencyResult m k s t w = (x, w')"
  show "remembers w w'"
    unfolding remembers_def
  proof (intro allI impI)
    fix m' k' r
    assume "findIdempotencyRecord (w_db w) m' k' = Some r"
    then have found: "find (\<lambda>r. iw_merchantId r = m' \<and> iw_key r = k') (idempotency_records (w_db w)) = Some r"
      by (simp add: findIdempotencyRecord_def)
    show "\<exists>r'. findIdempotencyRecord (w_db w') m' k' = Some r' \<and>
        iw_payloadFingerprint r' = iw_payloadFingerprint r \<and> iw_transactionId r' = iw_transactionId r"
      using run find_update_where_keys [OF _ found, of "\<lambda>r. r\<lparr>iw_resultState := Some s, iw_updatedAt := t\<rparr>"
          "\<lambda>r. iw_merchantId r = m \<and> iw_key r = k"]
      by (auto simp: recordIdempotencyResult_def findIdempotencyRecord_def)
  qed
qed

text \<open>Nothing is said to the provider, and no request is forgotten.\<close>

definition steady :: "world \<Rightarrow> world \<Rightarrow> bool" where
  "steady w w' \<longleftrightarrow> w_calls w' = w_calls w \<and> remembers w w'"

lemma rest_saveIdempotencyRecord: "keeps same_calls (saveIdempotencyRecord i)" "keeps ids_grow (saveIdempotencyRecord i)"
  unfolding saveIdempotencyRecord_def
  by (intro calls.keeps_rules grow.keeps_rules; simp add: keeps_def put_db_def same_calls_def ids_grow_def)+

lemma rest_recordIdempotencyResult: "keeps same_calls (recordIdempotencyResult m k s t)" "keeps ids_grow (recordIdempotencyResult m k s t)"
  by (simp_all add: recordIdempotencyResult_def keeps_def put_db_def same_calls_def ids_grow_def)

interpretation grow_service: service_guarantee ids_grow
  by unfold_locales (auto simp: ids_grow_def quiet_def leaves_rest_def rest_saveIdempotencyRecord rest_recordIdempotencyResult)

interpretation steady_service: service_guarantee steady
proof
  show "steady w w" for w by (simp add: steady_def remembers_same)
  show "steady u w" if "steady u v" "steady v w" for u v w
    using that unfolding steady_def remembers_def by metis
  show "steady w (w'\<lparr>w_db := w_db w\<rparr>)" if "steady w w'" for w w'
    using that by (simp add: steady_def remembers_same)
  show "steady w w'" if "quiet w w'" for w w'
    using that by (simp add: quiet_def steady_def same_calls_def same_on_def remembers_same)
  show "steady w w'" if "leaves_rest w w'" for w w'
    using that by (simp add: leaves_rest_def steady_def other_tables_def remembers_same)
  show "keeps steady (saveIdempotencyRecord i)" for i
    using remembers_save rest_saveIdempotencyRecord(1) by (simp add: keeps_def steady_def same_calls_def)
  show "keeps steady (recordIdempotencyResult m k s t)" for m k s t
    using remembers_result rest_recordIdempotencyResult(1) by (simp add: keeps_def steady_def same_calls_def)
qed

section \<open>The services keep what their parts keep\<close>

context service_guarantee
begin

lemma keeps_persist: "keeps R (persist d q t)"
  unfolding persist_def by (intro keeps_writes)

lemma keeps_sale_audit: "keeps R (sale_audit d t a corr before)"
  unfolding sale_audit_def by (intro keeps_rules keeps_writes)

lemma keeps_transition_now: "keeps R (transition_now d t s reason)"
  unfolding transition_now_def by (intro keeps_rules keeps_writes)

lemma keeps_money_context: "keeps R (money_context d m tx a at corr actor)"
  unfolding money_context_def by (intro keeps_rules keeps_writes)

lemma keeps_sale_context: "keeps R (sale_context d q tx at corr)"
  unfolding sale_context_def by (rule keeps_money_context)

lemmas keeps_parts = keeps_persist keeps_sale_audit keeps_transition_now keeps_money_context keeps_sale_context

lemma keeps_reserve_phase: "keeps R (reserve_phase d q corr tx at)"
  unfolding reserve_phase_def by (intro keeps_rules keeps_writes keeps_parts)

lemma keeps_processing_phase: "keeps R (processing_phase d q corr t)"
  unfolding processing_phase_def by (intro keeps_rules keeps_writes keeps_parts)

lemma keeps_releaseQuietly: "keeps R (releaseQuietly d q tx t corr)"
  unfolding releaseQuietly_def by (intro keeps_rules keeps_writes keeps_parts)

lemma keeps_success_phase: "keeps R (success_phase d q corr tx t at ref)"
  unfolding success_phase_def by (intro keeps_rules keeps_writes keeps_parts)

lemma keeps_failure_phase: "keeps R (failure_phase d q corr tx t at ref cat)"
  unfolding failure_phase_def by (intro keeps_rules keeps_writes keeps_parts)

lemma keeps_pending_phase: "keeps R (pending_phase d q corr tx t at ref cat)"
  unfolding pending_phase_def by (intro keeps_rules keeps_writes keeps_parts)

lemma keeps_outcome_phase: "keeps R (outcome_phase d q corr tx t r)"
  unfolding outcome_phase_def
  by (intro keeps_rules keeps_writes keeps_success_phase keeps_failure_phase keeps_pending_phase)

lemma keeps_resolution_audit: "keeps R (resolution_audit d t m tx at corr s)"
  unfolding resolution_audit_def by (intro keeps_rules keeps_writes)

lemma keeps_persistRehydrated: "keeps R (persistRehydrated t row)"
  unfolding persistRehydrated_def by (intro keeps_writes)

lemmas keeps_resolutions = keeps_resolution_audit keeps_persistRehydrated keeps_money_context

lemma keeps_resolve_current: "keeps R (resolve_current d tx m corr job status at row)"
  unfolding resolve_current_def resolved_success_def resolved_failure_def resolved_escalated_def
  by (intro keeps_rules keeps_writes keeps_resolutions)

lemma keeps_resolve_phase: "keeps R (resolve_phase d tx m corr job row status)"
  unfolding resolve_phase_def by (intro keeps_rules keeps_writes keeps_resolve_current)

lemma keeps_resolvePending:
  assumes "\<And>q. keeps R (getStatus d q)"
  shows "keeps R (resolvePending d tx m)"
  unfolding resolvePending_def by (intro keeps_rules keeps_writes keeps_resolve_phase assms)

lemma keeps_submit_phase:
  assumes "\<And>r c. keeps R (submit d r c)"
  shows "keeps R (submit_phase d q corr tx t)"
  unfolding submit_phase_def by (intro keeps_rules keeps_releaseQuietly assms)

lemma keeps_createSale:
  assumes "keeps R (healthCheck d)" and "\<And>r c. keeps R (submit d r c)"
  shows "keeps R (createSale d q)"
  unfolding createSale_def checked_sale_def attempt_sale_def submit_sale_def
  by (intro keeps_rules keeps_writes keeps_reserve_phase keeps_processing_phase keeps_submit_phase keeps_outcome_phase assms)

end

text \<open>A request is answered by its guards, or goes on to the provider.\<close>

lemma createSale_cases:
  assumes run: "createSale d q w = (r, w')"
  obtains (answered) corr w1 x where "quiet w w1" "w_db w1 = w_db w" "r = Inr x" "w' = w1"
      "request_guards d q corr (w_db w) = Some x \<or>
       request_guards d q corr (w_db w) = None \<and> duplicate_guard q corr (w_db w) = Some x"
  | (checked) corr w1 where "quiet w w1" "w_db w1 = w_db w" "request_guards d q corr (w_db w) = None"
      "duplicate_guard q corr (w_db w) = None" "checked_sale d q corr w1 = (r, w')"
proof -
  obtain corr w1 where c: "(case rq_correlationId q of None \<Rightarrow> newId d ''corr'' | Some c \<Rightarrow> ret c) w = (Inr corr, w1)"
    by (cases "rq_correlationId q") (auto simp: newId_def ret_def)
  have "keeps quiet (case rq_correlationId q of None \<Rightarrow> newId d ''corr'' | Some c \<Rightarrow> ret c)"
    by (intro quiet_rules)
  then have q: "quiet w w1" using c keepsD by blast
  have db: "w_db w1 = w_db w" using c by (auto simp: newId_def split: option.splits)
  have run': "(case request_guards d q corr (w_db w) of Some r \<Rightarrow> ret r | None \<Rightarrow>
     (case duplicate_guard q corr (w_db w) of Some r \<Rightarrow> ret r | None \<Rightarrow> checked_sale d q corr)) w1 = (r, w')"
    using run c unfolding createSale_def db [symmetric] by (simp add: bnd_def get_db_def)
  show thesis
  proof (cases "request_guards d q corr (w_db w)")
    case (Some x)
    then show thesis using run' by (intro answered [OF q db, of x corr]) simp_all
  next
    case guards: None
    show thesis
    proof (cases "duplicate_guard q corr (w_db w)")
      case (Some x)
      then show thesis using run' guards by (intro answered [OF q db, of x corr]) simp_all
    next
      case None
      then show thesis using run' guards by (intro checked [OF q db, of corr]) simp_all
    qed
  qed
qed

end
