(* ===== verification/Sale_Invariant.thy ===== *)
theory Sale_Invariant
  imports Sale Guarantees
begin

text \<open>
  What every sale keeps, whatever other requests do while it waits for the provider. \<open>sale_ok\<close> extends
  \<open>ledger_ok\<close> with the links between the tables (each reservation belongs to a
  sale of the same shop and amount) and with the origin of the identifiers; \<open>evolves\<close> is the guarantee of
  \<open>createSale\<close> and \<open>resolvePending\<close> and at once the only thing they ask of the provider.
\<close>

section \<open>Reservations keep their identity\<close>

definition identity_of :: "reservation_row \<Rightarrow> string \<times> string \<times> string \<times> int" where
  "identity_of r = (rr_id r, rr_merchantId r, rr_transactionId r, rr_amountMinor r)"

lemma identity_set_reservation [simp]: "identity_of (set_reservation t s r) = identity_of r"
  by (simp add: identity_of_def set_reservation_def)

lemma identities_update_where [simp]:
  "map identity_of (update_where P (set_reservation t s) rs) = map identity_of rs"
  by (simp add: update_where_def)

section \<open>The invariant\<close>

definition known_id :: "sale_deps \<Rightarrow> string \<Rightarrow> string \<Rightarrow> world \<Rightarrow> bool" where
  "known_id d kind i w \<longleftrightarrow> (\<exists>n<w_ids w. i = sd_newId d kind n)"

definition belongs :: "transaction_row list \<Rightarrow> reservation_row \<Rightarrow> bool" where
  "belongs ts r \<longleftrightarrow> (\<exists>t\<in>set ts. tw_id t = rr_transactionId r \<and> tw_merchantId t = rr_merchantId r \<and> tw_amountMinor t = rr_amountMinor r)"

definition sale_ok :: "sale_deps \<Rightarrow> world \<Rightarrow> bool" where
  "sale_ok d w \<longleftrightarrow>
     ledger_ok (w_db w) \<and> distinct (map tw_id (transactions (w_db w))) \<and>
     (\<forall>t\<in>set (transactions (w_db w)). known_id d ''txn'' (tw_id t) w) \<and>
     (\<forall>r\<in>set (balance_reservations (w_db w)). known_id d ''res'' (rr_id r) w \<and> belongs (transactions (w_db w)) r)"

text \<open>Where a world may go from a good one.\<close>

definition evolves :: "sale_deps \<Rightarrow> world \<Rightarrow> world \<Rightarrow> bool" where
  "evolves d w w' \<longleftrightarrow>
     (sale_ok d w \<longrightarrow> ids_grow w w' \<and> sale_ok d w' \<and> ledger_step\<^sup>*\<^sup>* w w' \<and>
        identity_of ` set (balance_reservations (w_db w)) \<subseteq> identity_of ` set (balance_reservations (w_db w')))"

lemma known_id_mono: "known_id d k i w \<Longrightarrow> ids_grow w w' \<Longrightarrow> known_id d k i w'"
  unfolding known_id_def ids_grow_def by (blast intro: order_less_le_trans)

lemma sale_ok_same_money:
  assumes "sale_ok d w" "same_on money_tables w w'" "ids_grow w w'"
  shows "sale_ok d w'"
proof -
  have same: "transactions (w_db w') = transactions (w_db w)" "ledger_entries (w_db w') = ledger_entries (w_db w)"
    "balance_reservations (w_db w') = balance_reservations (w_db w)"
    using assms(2) by (simp_all add: same_on_def money_tables_def)
  then have "ledger_ok (w_db w')" using ledger_ok_cong assms(1) unfolding sale_ok_def by metis
  then show ?thesis using assms(1) known_id_mono [OF _ assms(3)] by (simp add: sale_ok_def same)
qed

lemma evolves_same_money: "same_on money_tables w w' \<Longrightarrow> ids_grow w w' \<Longrightarrow> evolves d w w'"
  unfolding evolves_def using sale_ok_same_money
  by (auto simp: same_on_def money_tables_def intro!: r_into_rtranclp step_other)

lemma evolves_quiet: "quiet w w' \<Longrightarrow> evolves d w w'"
  by (simp add: quiet_def evolves_same_money)

interpretation evolve: guarantee "evolves d" for d
proof
  show "evolves d w w" for w by (simp add: evolves_def ids_grow_def)
  show "evolves d u w" if "evolves d u v" "evolves d v w" for u v w
    using that unfolding evolves_def ids_grow_def by (meson le_trans rtranclp_trans subset_trans)
  show "evolves d w (w'\<lparr>w_db := w_db w\<rparr>)" if "evolves d w w'" for w w'
  proof -
    have "evolves d w (w'\<lparr>w_db := w_db w\<rparr>)" if ids: "ids_grow w w'"
      by (rule evolves_same_money) (use ids in \<open>simp_all add: same_on_def ids_grow_def\<close>)
    then show ?thesis using that by (auto simp: evolves_def)
  qed
qed

lemma keeps_evolves: "keeps quiet m \<Longrightarrow> keeps (evolves d) m"
  by (erule keeps_mono) (rule evolves_quiet)

lemma sale_okD:
  assumes "sale_ok d w" "r \<in> set (balance_reservations (w_db w))"
  obtains t where "t \<in> set (transactions (w_db w))" "tw_id t = rr_transactionId r"
    "tw_merchantId t = rr_merchantId r" "tw_amountMinor t = rr_amountMinor r"
  using assms unfolding sale_ok_def belongs_def by blast

section \<open>Writes to the transactions table\<close>

definition identity_tx :: "transaction_row \<Rightarrow> string \<times> string \<times> int" where
  "identity_tx t = (tw_id t, tw_merchantId t, tw_amountMinor t)"

lemma belongs_identity: "belongs ts r \<longleftrightarrow> (rr_transactionId r, rr_merchantId r, rr_amountMinor r) \<in> identity_tx ` set ts"
  by (force simp: belongs_def identity_tx_def)

lemma rewrite_identities:
  "map identity_tx (transactions (rewrite_transaction t s)) = map identity_tx (transactions s)"
  by (simp add: rewrite_transaction_def update_where_def identity_tx_def)

lemma ids_of_identities: "map identity_tx ts = map identity_tx us \<Longrightarrow> map tw_id ts = map tw_id us"
  by (drule arg_cong [of _ _ "map fst"]) (simp add: identity_tx_def comp_def)

lemma saveTransaction_cases:
  assumes "saveTransaction t x w = (Inr u, w')"
  obtains (rewritten) "tx_id t \<in> tw_id ` set (transactions (w_db w))" "w' = w\<lparr>w_db := rewrite_transaction t (w_db w)\<rparr>"
  | (inserted) "tx_id t \<notin> tw_id ` set (transactions (w_db w))"
      "w' = w\<lparr>w_db := (w_db w)\<lparr>transactions := transactions (w_db w) @ [transaction_row_of t x]\<rparr>\<rparr>"
proof (cases "tx_id t \<in> tw_id ` set (transactions (w_db w))")
  case True
  then have "w' = w\<lparr>w_db := rewrite_transaction t (w_db w)\<rparr>"
    using assms by (auto simp: saveTransaction_def bnd_Inr seq_Inr split: if_splits)
  then show thesis using True by (rule rewritten [rotated])
next
  case False
  then have none: "\<not> (\<exists>r\<in>set (transactions (w_db w)). tw_id r = tx_id t)" by force
  have "w' = w\<lparr>w_db := (w_db w)\<lparr>transactions := transactions (w_db w) @ [transaction_row_of t x]\<rparr>\<rparr>"
    using assms unfolding saveTransaction_def by (simp add: bnd_Inr seq_Inr none)
  then show thesis using False by (rule inserted [rotated])
qed

lemma saveTransaction_evolves:
  assumes run: "saveTransaction t x w = (Inr u, w')" and known: "known_id d ''txn'' (tx_id t) w"
  shows "evolves d w w'"
  using run
proof (cases rule: saveTransaction_cases)
  case rewritten
  have same: "balance_reservations (w_db w') = balance_reservations (w_db w)" "ledger_entries (w_db w') = ledger_entries (w_db w)"
    "w_ids w' = w_ids w"
    by (simp_all add: rewritten(2) rewrite_transaction_def)
  have ids: "map identity_tx (transactions (w_db w')) = map identity_tx (transactions (w_db w))"
    by (simp add: rewritten(2) rewrite_identities)
  have tx_ids: "map tw_id (transactions (w_db w')) = map tw_id (transactions (w_db w))"
    using ids by (rule ids_of_identities)
  have known_iff: "known_id d k i w' = known_id d k i w" for k i by (simp add: known_id_def same)
  have all_known: "(\<forall>t\<in>set (transactions (w_db v)). known_id d ''txn'' (tw_id t) w) =
      (\<forall>i\<in>set (map tw_id (transactions (w_db v))). known_id d ''txn'' i w)" for v by simp
  have set_ids: "identity_tx ` set (transactions (w_db w')) = identity_tx ` set (transactions (w_db w))"
    using arg_cong [OF ids, of set] by simp
  have "sale_ok d w'" if "sale_ok d w"
    using that unfolding sale_ok_def known_iff all_known tx_ids belongs_identity set_ids same
    by (metis ledger_ok_cong same(1,2))
  then show ?thesis
    by (auto simp: evolves_def ids_grow_def same intro!: r_into_rtranclp step_other)
next
  case inserted
  have same: "balance_reservations (w_db w') = balance_reservations (w_db w)" "ledger_entries (w_db w') = ledger_entries (w_db w)"
    "w_ids w' = w_ids w"
    by (simp_all add: inserted(2))
  have txs: "transactions (w_db w') = transactions (w_db w) @ [transaction_row_of t x]" by (simp add: inserted(2))
  have row: "tw_id (transaction_row_of t x) = tx_id t" by (simp add: transaction_row_of_def)
  have known_iff: "known_id d k i w' = known_id d k i w" for k i by (simp add: known_id_def same)
  have "ledger_ok (w_db w')" if "ledger_ok (w_db w)" using that ledger_ok_cong same by metis
  then have "sale_ok d w'" if "sale_ok d w"
    using that known inserted(1) unfolding sale_ok_def known_iff same txs
    by (auto simp: row belongs_def)
  then show ?thesis
    by (auto simp: evolves_def ids_grow_def same intro!: r_into_rtranclp step_other)
qed

lemma saveTransaction_row:
  assumes "saveTransaction t x w = (Inr u, w')"
  shows "\<exists>r\<in>set (transactions (w_db w')). tw_id r = tx_id t \<and> tw_state r = tx_state t"
  using assms
proof (cases rule: saveTransaction_cases)
  case rewritten
  then obtain r where r: "r \<in> set (transactions (w_db w))" "tw_id r = tx_id t" by auto
  show ?thesis
    by (rule bexI [of _ "r\<lparr>tw_state := tx_state t, tw_providerReference := tx_providerReference t, tw_updatedAt := tx_updatedAt t\<rparr>"])
       (use r in \<open>force simp: rewritten(2) rewrite_transaction_def update_where_def\<close>)+
next
  case inserted
  then show ?thesis by (auto simp: transaction_row_of_def)
qed

lemma saveTransaction_other_tables:
  "saveTransaction t x w = (Inr u, w') \<Longrightarrow>
   balance_reservations (w_db w') = balance_reservations (w_db w) \<and> ledger_entries (w_db w') = ledger_entries (w_db w) \<and>
   idempotency_records (w_db w') = idempotency_records (w_db w) \<and> w_ids w' = w_ids w \<and> w_calls w' = w_calls w"
  by (erule saveTransaction_cases) (auto simp: rewrite_transaction_def)


section \<open>The money operations inside a sale\<close>

lemma sale_ok_identities:
  assumes ok: "sale_ok d w" and ledger: "ledger_ok (w_db w')" and tables: "transactions (w_db w') = transactions (w_db w)"
    and ids: "w_ids w' = w_ids w"
    and same: "map identity_of (balance_reservations (w_db w')) = map identity_of (balance_reservations (w_db w))"
  shows "sale_ok d w'"
proof -
  let ?Q = "\<lambda>(i, m, tx, a). known_id d ''res'' i w \<and> (tx, m, a) \<in> identity_tx ` set (transactions (w_db w))"
  have all: "(\<forall>r\<in>set rs. known_id d ''res'' (rr_id r) w \<and> belongs (transactions (w_db w)) r) \<longleftrightarrow>
      list_all ?Q (map identity_of rs)" for rs
    by (auto simp: list_all_iff belongs_identity identity_of_def)
  have known: "known_id d k i w' = known_id d k i w" for k i by (simp add: known_id_def ids)
  show ?thesis using ok ledger unfolding sale_ok_def tables known all same by blast
qed

lemma amount_matches_identity:
  assumes ok: "ledger_ok (w_db w)"
    and held: "(i, oc_merchantId c, oc_transactionId c, minor (oc_amount c)) \<in> identity_of ` set (balance_reservations (w_db w))"
    and safe: "safe_money (oc_amount c)"
  shows "amount_matches (w_db w) c"
proof -
  obtain r where r: "r \<in> set (balance_reservations (w_db w))" "rr_transactionId r = oc_transactionId c"
    "rr_amountMinor r = minor (oc_amount c)"
    using held by (auto simp: identity_of_def)
  have inj: "inj_on rr_transactionId (set (balance_reservations (w_db w)))"
    using ok by (simp add: ledger_ok_def reservations_ok_def distinct_map)
  have "row = r" if "findReservation (w_db w) (oc_transactionId c) (Some (oc_merchantId c)) = Some row" for row
    using findReservation_SomeD [OF that] r inj by (metis inj_onD)
  then show ?thesis using safe r by (auto simp: amount_matches_def split: option.split)
qed

lemma amount_matches_row:
  assumes ok: "sale_ok d w" and t: "t \<in> set (transactions (w_db w))" "tw_id t = oc_transactionId c"
    "tw_amountMinor t = minor (oc_amount c)" and safe: "safe_money (oc_amount c)"
  shows "amount_matches (w_db w) c"
proof -
  have inj: "inj_on tw_id (set (transactions (w_db w)))" using ok by (simp add: sale_ok_def distinct_map)
  have "rr_amountMinor row = minor (oc_amount c)"
    if "findReservation (w_db w) (oc_transactionId c) (Some (oc_merchantId c)) = Some row" for row
  proof -
    have row: "row \<in> set (balance_reservations (w_db w))" "rr_transactionId row = oc_transactionId c"
      using findReservation_SomeD [OF that] by auto
    obtain u where "u \<in> set (transactions (w_db w))" "tw_id u = rr_transactionId row" "tw_amountMinor u = rr_amountMinor row"
      using sale_okD [OF ok row(1)] by blast
    then show ?thesis using inj t row by (metis inj_onD)
  qed
  then show ?thesis using safe by (auto simp: amount_matches_def split: option.split)
qed

lemma resolve_evolves:
  assumes run: "resolve_reservation c source target es a k w = (Inr u, w')" and source: "source \<in> {HELD, RES_UNDER_REVIEW}"
    and step: "amount_matches (w_db w) c \<Longrightarrow> ledger_step w w'" and amount: "amount_matches (w_db w) c"
  shows "evolves d w w'"
  unfolding evolves_def
proof
  assume ok: "sale_ok d w"
  have ids: "distinct (map rr_id (balance_reservations (w_db w)))"
    using ok by (simp add: sale_ok_def ledger_ok_def reservations_ok_def)
  obtain row :: reservation_row where rs: "balance_reservations (w_db w') =
       update_where (\<lambda>r. rr_id r = rr_id row \<and> rr_status r = source) (set_reservation (oc_at c) target) (balance_reservations (w_db w))"
    and frame: "ledger_frame w w'"
    by (rule resolve_reservation_effect [OF run source ids])
  have same: "map identity_of (balance_reservations (w_db w')) = map identity_of (balance_reservations (w_db w))"
    by (simp add: rs)
  have img: "identity_of ` set (balance_reservations (w_db w')) = identity_of ` set (balance_reservations (w_db w))"
    using arg_cong [OF same, of set] by simp
  have frames: "transactions (w_db w') = transactions (w_db w)" "w_ids w' = w_ids w"
    using ledger_frame_fields [OF frame] rest_of_fields(1) by blast+
  have "ledger_ok (w_db w')" using ledger_step_ok step amount ok by (auto simp: sale_ok_def)
  then have "sale_ok d w'" using sale_ok_identities [OF ok _ frames same] by blast
  then show "ids_grow w w' \<and> sale_ok d w' \<and> ledger_step\<^sup>*\<^sup>* w w' \<and>
      identity_of ` set (balance_reservations (w_db w)) \<subseteq> identity_of ` set (balance_reservations (w_db w'))"
    using step amount frames(2) by (simp add: ids_grow_def img r_into_rtranclp)
qed

lemma release_evolves: "release c w = (Inr u, w') \<Longrightarrow> amount_matches (w_db w) c \<Longrightarrow> evolves d w w'"
  using resolve_evolves [OF _ _ step_release] unfolding release_def by (metis insertI1)

lemma finalizeSuccess_evolves: "finalizeSuccess c p b w = (Inr u, w') \<Longrightarrow> amount_matches (w_db w) c \<Longrightarrow> evolves d w w'"
  using resolve_evolves [OF _ _ step_finalize] unfolding finalizeSuccess_def Let_def by (metis insertI1)

lemma moveToUnderReview_evolves: "moveToUnderReview c w = (Inr u, w') \<Longrightarrow> amount_matches (w_db w) c \<Longrightarrow> evolves d w w'"
  using resolve_evolves [OF _ _ step_review] unfolding moveToUnderReview_def by (metis insertI1)

lemma reserve_evolves:
  assumes run: "reserve c (Some i) w = (Inr u, w')" and known: "known_id d ''res'' i w"
    and fresh: "i \<notin> rr_id ` set (balance_reservations (w_db w))"
    and t: "t \<in> set (transactions (w_db w))" "tw_id t = oc_transactionId c" "tw_merchantId t = oc_merchantId c"
      "tw_amountMinor t = minor (oc_amount c)"
  shows "evolves d w w' \<and>
    (i, oc_merchantId c, oc_transactionId c, minor (oc_amount c)) \<in> identity_of ` set (balance_reservations (w_db w')) \<and>
    same_on transactions w w' \<and> same_on idempotency_records w w'"
proof -
  have new: "findReservationById (w_db w) (or_else (Some i) (''res_'' @ oc_transactionId c)) = None"
    using fresh by (auto simp: findReservationById_def or_else_def find_None_iff)
  obtain row :: reservation_row where rs: "balance_reservations (w_db w') = balance_reservations (w_db w) @ [row]"
    and row: "rr_id row = i" "rr_merchantId row = oc_merchantId c" "rr_transactionId row = oc_transactionId c"
      "rr_amountMinor row = minor (oc_amount c)"
    and frame: "ledger_frame w w'"
    by (rule reserve_effect [OF run new]) (simp add: or_else_def)
  have frames: "transactions (w_db w') = transactions (w_db w)" "idempotency_records (w_db w') = idempotency_records (w_db w)"
    "w_ids w' = w_ids w"
    using ledger_frame_fields [OF frame] rest_of_fields(1,4) by blast+
  have step: "ledger_step w w'" by (rule step_reserve [OF run new])
  have belongs: "belongs (transactions (w_db w)) row" using t by (auto simp: belongs_def row)
  have known_iff: "known_id d k j w' = known_id d k j w" for k j by (simp add: known_id_def frames(3))
  have "sale_ok d w'" if ok: "sale_ok d w"
    using ledger_step_ok [OF step] ok known belongs unfolding sale_ok_def known_iff frames rs
    by (auto simp: row(1))
  then show ?thesis
    using step frames by (auto simp: evolves_def ids_grow_def rs identity_of_def row same_on_def)
qed

end
