(* ===== verification/Sale_Evolution.thy ===== *)
theory Sale_Evolution
  imports Sale_Invariant
begin

text \<open>
  \<open>createSale\<close> and \<open>resolvePending\<close> keep \<open>evolves\<close>, phase by phase, for every provider that does.
\<close>

section \<open>Hypotheses on the parameters\<close>

text \<open>\<open>newId\<close> never gives the same identifier twice; while the provider is awaited the world only evolves.\<close>

definition fresh_ids :: "sale_deps \<Rightarrow> bool" where
  "fresh_ids d \<longleftrightarrow> inj (sd_newId d ''txn'') \<and> inj (sd_newId d ''res'')"

definition provider_evolves :: "sale_deps \<Rightarrow> bool" where
  "provider_evolves d \<longleftrightarrow> keeps (evolves d) (sd_health d) \<and> (\<forall>r c. keeps (evolves d) (sd_submit d r c)) \<and>
     (\<forall>s. keeps (evolves d) (sd_getStatus d s))"

lemma quiet_sale_audit: "keeps quiet (sale_audit d t a corr before)"
  unfolding sale_audit_def by (intro quiet_rules)

lemma quiet_transition_now: "keeps quiet (transition_now d t target reason)"
  unfolding transition_now_def by (intro quiet_rules)

lemma quiet_money_context: "keeps quiet (money_context d m tx a at corr actor)"
  unfolding money_context_def by (intro quiet_rules)

lemma quiet_sale_context: "keeps quiet (sale_context d q tx at corr)"
  unfolding sale_context_def by (rule quiet_money_context)

lemma quiet_resolution_audit: "keeps quiet (resolution_audit d t m tx at corr after)"
  unfolding resolution_audit_def by (intro quiet_rules)

lemmas quiet_steps = quiet_sale_audit [THEN keepsD] quiet_transition_now [THEN keepsD] quiet_sale_context [THEN keepsD]
  quiet_money_context [THEN keepsD] quiet_resolution_audit [THEN keepsD] quiet_now [THEN keepsD] quiet_newId [THEN keepsD]
  quiet_recordCommission [THEN keepsD] quiet_readPlatformFeeSettings [THEN keepsD] quiet_effectiveCommissionBps [THEN keepsD]
  quiet_upsertPendingResolution [THEN keepsD] quiet_closePendingResolution [THEN keepsD] quiet_createSupportCase [THEN keepsD]
  quiet_recordResolutionAttempt [THEN keepsD]

lemma evolves_recordIdempotencyResult: "recordIdempotencyResult m k s t w = (Inr u, w') \<Longrightarrow> evolves d w w'"
  by (rule evolves_same_money) (auto simp: recordIdempotencyResult_def same_on_def money_tables_def ids_grow_def)

lemma saveIdempotencyRecord_evolves: "saveIdempotencyRecord i w = (Inr u, w') \<Longrightarrow> evolves d w w'"
  by (rule evolves_same_money)
     (auto simp: saveIdempotencyRecord_def bnd_Inr seq_Inr same_on_def money_tables_def ids_grow_def)

lemma saveIdempotencyRecord_present:
  "saveIdempotencyRecord i w = (Inr u, w') \<Longrightarrow>
   \<exists>r. findIdempotencyRecord (w_db w') (ii_merchantId i) (ii_key i) = Some r \<and>
       iw_payloadFingerprint r = ii_payloadFingerprint i \<and> iw_transactionId r = ii_transactionId i"
  by (auto simp: saveIdempotencyRecord_def bnd_Inr seq_Inr findIdempotencyRecord_def find_append)

lemma transition_now_Inr:
  "transition_now d t s reason w = (Inr t', w') \<Longrightarrow> tx_id t' = tx_id t \<and> tx_state t' = s \<and>
     tx_merchantId t' = tx_merchantId t \<and> tx_amount t' = tx_amount t"
  by (auto simp: transition_now_def bnd_Inr transitionTo_def rbind_Inr_iff)

lemma transitionTo_Inr:
  "transitionTo t s at reason ref = Inr t' \<Longrightarrow> tx_id t' = tx_id t \<and> tx_state t' = s \<and>
     tx_merchantId t' = tx_merchantId t \<and> tx_amount t' = tx_amount t"
  by (auto simp: transitionTo_def rbind_Inr_iff)

lemma sale_context_Inr:
  "sale_context d q tx at corr w = (Inr c, w') \<Longrightarrow>
   oc_merchantId c = rq_merchantId q \<and> oc_transactionId c = tx \<and> oc_amount c = rq_amount q"
  by (auto simp: sale_context_def money_context_def bnd_Inr)

lemma money_context_Inr:
  "money_context d m tx a at corr actor w = (Inr c, w') \<Longrightarrow> oc_merchantId c = m \<and> oc_transactionId c = tx \<and> oc_amount c = a"
  by (auto simp: money_context_def bnd_Inr)

section \<open>Identities of transactions only grow\<close>

definition sales_grow :: "world \<Rightarrow> world \<Rightarrow> bool" where
  "sales_grow w w' \<longleftrightarrow> identity_tx ` set (transactions (w_db w)) \<subseteq> identity_tx ` set (transactions (w_db w'))"

lemma sales_grow_trans [trans]: "sales_grow u v \<Longrightarrow> sales_grow v w \<Longrightarrow> sales_grow u w"
  by (auto simp: sales_grow_def)

lemma quiet_sales_grow: "quiet w w' \<Longrightarrow> sales_grow w w'"
  by (simp add: quiet_def same_on_def money_tables_def sales_grow_def)

lemma persist_sales_grow: "persist d q t w = (Inr u, w') \<Longrightarrow> sales_grow w w'"
  unfolding persist_def
proof (erule saveTransaction_cases)
  assume w': "w' = w\<lparr>w_db := rewrite_transaction t (w_db w)\<rparr>"
  show ?thesis using arg_cong [OF rewrite_identities [of t "w_db w"], of set] by (simp add: sales_grow_def w')
qed (auto simp: sales_grow_def)

lemma persist_evolves: "persist d q t w = (Inr u, w') \<Longrightarrow> known_id d ''txn'' (tx_id t) w \<Longrightarrow> evolves d w w'"
  unfolding persist_def by (rule saveTransaction_evolves)

section \<open>Reserving\<close>

lemma fresh_reserve:
  assumes inj: "inj (sd_newId d ''res'')" and ok: "sale_ok d w"
    and new: "newId d ''res'' w = (Inr i, w1)" and run: "reserve c (Some i) w1 = (Inr u, w')"
    and tx: "(oc_transactionId c, oc_merchantId c, minor (oc_amount c)) \<in> identity_tx ` set (transactions (w_db w))"
  shows "evolves d w w' \<and> same_on transactions w w' \<and> same_on idempotency_records w w' \<and>
    (i, oc_merchantId c, oc_transactionId c, minor (oc_amount c)) \<in> identity_of ` set (balance_reservations (w_db w'))"
proof -
  have w1: "w1 = w\<lparr>w_ids := Suc (w_ids w)\<rparr>" and i: "i = sd_newId d ''res'' (w_ids w)" using new by (auto simp: newId_def)
  have known: "known_id d ''res'' i w1" by (auto simp: known_id_def w1 i)
  have fresh: "i \<notin> rr_id ` set (balance_reservations (w_db w1))"
  proof
    assume "i \<in> rr_id ` set (balance_reservations (w_db w1))"
    then have "known_id d ''res'' i w" using ok by (auto simp: w1 sale_ok_def)
    then show False using inj by (auto simp: known_id_def i dest: injD)
  qed
  obtain t where t: "t \<in> set (transactions (w_db w1))" "tw_id t = oc_transactionId c" "tw_merchantId t = oc_merchantId c"
    "tw_amountMinor t = minor (oc_amount c)" using tx by (auto simp: identity_tx_def w1)
  have first: "evolves d w w1" using quiet_steps(7) [OF new] by (rule evolves_quiet)
  note second = reserve_evolves [OF run known fresh t]
  show ?thesis using evolve.trans [OF first] second by (auto simp: same_on_def w1)
qed

definition holds_for :: "string \<Rightarrow> string \<Rightarrow> int \<Rightarrow> world \<Rightarrow> bool" where
  "holds_for m tx a w \<longleftrightarrow> (\<exists>i. (i, m, tx, a) \<in> identity_of ` set (balance_reservations (w_db w)))"

lemma holds_for_evolves: "holds_for m tx a w \<Longrightarrow> sale_ok d w \<Longrightarrow> evolves d w w' \<Longrightarrow> holds_for m tx a w'"
  unfolding holds_for_def evolves_def by blast

lemma holds_for_amount_matches:
  assumes "sale_ok d w" "holds_for (oc_merchantId c) (oc_transactionId c) (minor (oc_amount c)) w" "safe_money (oc_amount c)"
  shows "amount_matches (w_db w) c"
  using amount_matches_identity assms unfolding holds_for_def sale_ok_def by blast

lemma reserve_phase_parts:
  assumes run: "reserve_phase d q corr tx at w = (Inr t, w')"
  obtains t0 t1 wa wb wc we wf wg wh wi wj wk wl wm c rid at1 at2 where
    "persist d q t0 w = (Inr (), wa)" "sale_audit d t0 TRANSACTION_CREATED corr None wa = (Inr (), wb)"
    "transition_now d t0 VALIDATED ''server validation passed'' wb = (Inr t1, wc)"
    "persist d q t1 wc = (Inr (), we)" "now d we = (Inr at1, wf)"
    "sale_context d q tx at1 corr wf = (Inr c, wg)"
    "newId d ''res'' wg = (Inr rid, wh)" "reserve c (Some rid) wh = (Inr (), wi)"
    "transition_now d t1 RESERVED ''balance reserved'' wi = (Inr t, wj)"
    "persist d q t wj = (Inr (), wk)"
    "sale_audit d t TRANSACTION_TRANSITIONED corr (Some VALIDATED) wk = (Inr (), wl)"
    "now d wl = (Inr at2, wm)"
    "saveIdempotencyRecord
        \<lparr>ii_key = deriveIdempotencyKey (intent_of q), ii_merchantId = rq_merchantId q, ii_requestIdentity = canonicalKeySource (intent_of q),
         ii_payloadFingerprint = payloadFingerprint (intent_of q), ii_transactionId = tx, ii_at = at2\<rparr> wm = (Inr (), w')"
    "tx_id t0 = tx" "tx_merchantId t0 = rq_merchantId q" "tx_amount t0 = rq_amount q"
  using run unfolding reserve_phase_def Let_def db_transaction_Inr
  by (clarsimp simp: bnd_Inr seq_Inr createTransaction_def rbind_Inr_iff)

lemma reserve_phase_effect:
  assumes run: "reserve_phase d q corr tx at w = (Inr t, w')" and ok: "sale_ok d w" and inj: "inj (sd_newId d ''res'')"
    and known: "known_id d ''txn'' tx w" and fresh: "tx \<notin> tw_id ` set (transactions (w_db w))"
  shows "evolves d w w' \<and> holds_for (rq_merchantId q) tx (minor (rq_amount q)) w' \<and> tx_id t = tx \<and>
    (\<exists>r. findIdempotencyRecord (w_db w') (rq_merchantId q) (deriveIdempotencyKey (intent_of q)) = Some r \<and>
         iw_payloadFingerprint r = payloadFingerprint (intent_of q) \<and> iw_transactionId r = tx)"
proof -
  obtain t0 t1 wa wb wc we wf wg wh wi wj wk wl wm c rid at1 at2 where
    s1: "persist d q t0 w = (Inr (), wa)" and s2: "sale_audit d t0 TRANSACTION_CREATED corr None wa = (Inr (), wb)"
    and s3: "transition_now d t0 VALIDATED ''server validation passed'' wb = (Inr t1, wc)"
    and s4: "persist d q t1 wc = (Inr (), we)" and s5: "now d we = (Inr at1, wf)"
    and s6: "sale_context d q tx at1 corr wf = (Inr c, wg)"
    and s7: "newId d ''res'' wg = (Inr rid, wh)" and s8: "reserve c (Some rid) wh = (Inr (), wi)"
    and s9: "transition_now d t1 RESERVED ''balance reserved'' wi = (Inr t, wj)"
    and s10: "persist d q t wj = (Inr (), wk)"
    and s11: "sale_audit d t TRANSACTION_TRANSITIONED corr (Some VALIDATED) wk = (Inr (), wl)"
    and s12: "now d wl = (Inr at2, wm)"
    and s13: "saveIdempotencyRecord
        \<lparr>ii_key = deriveIdempotencyKey (intent_of q), ii_merchantId = rq_merchantId q, ii_requestIdentity = canonicalKeySource (intent_of q),
         ii_payloadFingerprint = payloadFingerprint (intent_of q), ii_transactionId = tx, ii_at = at2\<rparr> wm = (Inr (), w')"
    and t0: "tx_id t0 = tx" "tx_merchantId t0 = rq_merchantId q" "tx_amount t0 = rq_amount q"
    by (rule reserve_phase_parts [OF run]) (rule that)
  have t1: "tx_id t1 = tx" and t: "tx_id t = tx" using transition_now_Inr [OF s3] transition_now_Inr [OF s9] t0(1) by simp_all
  note c = sale_context_Inr [OF s6]
  have row: "(tx, rq_merchantId q, minor (rq_amount q)) \<in> identity_tx ` set (transactions (w_db wa))"
    using s1 [unfolded persist_def] fresh t0
    by (cases rule: saveTransaction_cases) (auto simp: identity_tx_def transaction_row_of_def)
  have ea: "evolves d w wa" using persist_evolves [OF s1] known t0(1) by simp
  note ab = evolve.trans [OF ea evolves_quiet [OF quiet_steps(1) [OF s2]]]
  note ac = evolve.trans [OF ab evolves_quiet [OF quiet_steps(2) [OF s3]]]
  have "known_id d ''txn'' tx wc" using known ac ok known_id_mono unfolding evolves_def by blast
  then have ce: "evolves d wc we" using persist_evolves [OF s4] t1 by simp
  note ae = evolve.trans [OF ac ce]
  note af = evolve.trans [OF ae evolves_quiet [OF quiet_steps(6) [OF s5]]]
  note ag = evolve.trans [OF af evolves_quiet [OF quiet_steps(3) [OF s6]]]
  have okg: "sale_ok d wg" using ag ok by (simp add: evolves_def)
  have "sales_grow wa wc" using sales_grow_trans quiet_sales_grow quiet_steps(1) [OF s2] quiet_steps(2) [OF s3] by blast
  also have "sales_grow wc wf" using sales_grow_trans persist_sales_grow [OF s4] quiet_sales_grow quiet_steps(6) [OF s5] by blast
  also have "sales_grow wf wg" using quiet_sales_grow quiet_steps(3) [OF s6] by blast
  finally have "sales_grow wa wg" .
  then have rowg: "(oc_transactionId c, oc_merchantId c, minor (oc_amount c)) \<in> identity_tx ` set (transactions (w_db wg))"
    using row c by (auto simp: sales_grow_def)
  note res = fresh_reserve [OF inj okg s7 s8 rowg]
  note ai = evolve.trans [OF ag conjunct1 [OF res]]
  have oki: "sale_ok d wi" using ai ok by (simp add: evolves_def)
  have holdi: "holds_for (rq_merchantId q) tx (minor (rq_amount q)) wi" using res c by (auto simp: holds_for_def)
  note ij = evolves_quiet [OF quiet_steps(2) [OF s9]]
  note aj = evolve.trans [OF ai ij]
  have "known_id d ''txn'' tx wj" using known aj ok known_id_mono unfolding evolves_def by blast
  then have jk: "evolves d wj wk" using persist_evolves [OF s10] t by simp
  note ik = evolve.trans [OF ij jk]
  note il = evolve.trans [OF ik evolves_quiet [OF quiet_steps(1) [OF s11]]]
  note im = evolve.trans [OF il evolves_quiet [OF quiet_steps(6) [OF s12]]]
  note iw = evolve.trans [OF im saveIdempotencyRecord_evolves [OF s13]]
  show ?thesis
    using evolve.trans [OF ai iw] holds_for_evolves [OF holdi oki iw] t saveIdempotencyRecord_present [OF s13] by simp
qed

section \<open>Submitting\<close>

lemma processing_phase_effect:
  assumes run: "processing_phase d q corr t w = (Inr t', w')" and known: "known_id d ''txn'' (tx_id t) w" and ok: "sale_ok d w"
  shows "evolves d w w' \<and> tx_id t' = tx_id t \<and> tx_state t' = PROCESSING"
proof -
  from run obtain wa wb where s1: "transition_now d t PROCESSING ''submitted to provider'' w = (Inr t', wa)"
    and s2: "persist d q t' wa = (Inr (), wb)" and s3: "sale_audit d t' PROVIDER_SUBMITTED corr (Some RESERVED) wb = (Inr (), w')"
    unfolding processing_phase_def db_transaction_Inr by (auto simp: bnd_Inr seq_Inr)
  have a: "evolves d w wa" by (rule evolves_quiet [OF quiet_steps(2) [OF s1]])
  have "known_id d ''txn'' (tx_id t') wa"
    using known a ok known_id_mono transition_now_Inr [OF s1] by (auto simp: evolves_def)
  then show ?thesis
    using evolve.trans [OF evolve.trans [OF a persist_evolves [OF s2]] evolves_quiet [OF quiet_steps(1) [OF s3]]]
      transition_now_Inr [OF s1] by simp
qed

lemma rolled_back_evolves: "db_transaction m w = (Inl e, w') \<Longrightarrow> ids_grow w w' \<Longrightarrow> evolves d w w'"
  by (rule evolves_same_money) (simp_all add: same_on_def db_transaction_rollback)

text \<open>A money operation on the amount the sale holds, after its row has been written.\<close>

lemma settle_evolves:
  assumes s1: "persist d q t w = (Inr (), wa)" and s2: "sale_context d q (tx_id t) at corr wa' = (Inr c, wb)"
    and aa: "evolves d wa wa'" and s3: "op wb = (Inr (), w')"
    and op: "\<And>v u v'. op v = (Inr u, v') \<Longrightarrow> amount_matches (w_db v) c \<Longrightarrow> evolves d v v'"
    and known: "known_id d ''txn'' (tx_id t) w" and ok: "sale_ok d w" and safe: "safe_money (rq_amount q)"
    and holds: "holds_for (rq_merchantId q) (tx_id t) (minor (rq_amount q)) w"
  shows "evolves d w w'"
proof -
  have b: "evolves d w wb"
    using evolve.trans [OF evolve.trans [OF persist_evolves [OF s1 known] aa] evolves_quiet [OF quiet_steps(3) [OF s2]]] .
  have okb: "sale_ok d wb" using b ok by (simp add: evolves_def)
  have "amount_matches (w_db wb) c"
    by (rule holds_for_amount_matches [OF okb])
       (use holds_for_evolves [OF holds ok b] sale_context_Inr [OF s2] safe in simp_all)
  then show ?thesis using evolve.trans [OF b op [OF s3]] by simp
qed

lemma success_phase_parts:
  assumes "success_phase d q corr tx p at ref w = (Inr r, w')"
  obtains t share bps c i wa wb wc wd we wf wg where
    "transitionTo p SUCCESSFUL at (Some ''provider confirmed delivery'') ref = Inr t"
    "persist d q t w = (Inr (), wa)" "quiet wa wb"
    "sale_context d q tx at corr wb = (Inr c, wc)" "finalizeSuccess c (Some share) (Some bps) wc = (Inr (), wd)"
    "quiet wd we" "recordIdempotencyResult (rq_merchantId q) (deriveIdempotencyKey (intent_of q)) SUCCESSFUL at we = (Inr (), w')"
    "r = successful_result tx corr (deriveIdempotencyKey (intent_of q)) ref"
proof -
  from assms obtain t w1 x w2 bps w3 share c w4 w5 i w6 ci w7 w8 where
    run: "transitionTo p SUCCESSFUL at (Some ''provider confirmed delivery'') ref = Inr t" "persist d q t w = (Inr (), w1)"
    and q: "readPlatformFeeSettings w1 = (Inr x, w2)"
      "effectiveCommissionBps (Some (sd_providerId d)) (rq_productId q) w2 = (Inr bps, w3)"
    and c: "sale_context d q tx at corr w3 = (Inr c, w4)" "finalizeSuccess c (Some share) (Some bps) w4 = (Inr (), w5)"
    and q': "newId d ''comm'' w5 = (Inr i, w6)" "recordCommission ci w6 = (Inr (), w7)"
      "sale_audit d t TRANSACTION_TRANSITIONED corr (Some PROCESSING) w7 = (Inr (), w8)"
    and fin: "recordIdempotencyResult (rq_merchantId q) (deriveIdempotencyKey (intent_of q)) SUCCESSFUL at w8 = (Inr (), w')"
      "r = successful_result tx corr (deriveIdempotencyKey (intent_of q)) ref"
    by (clarsimp simp: success_phase_def Let_def bnd_Inr seq_Inr)
  have "quiet w1 w3" "quiet w5 w8"
    using quiet.trans quiet_steps(9) [OF q(1)] quiet_steps(10) [OF q(2)]
      quiet_steps(7) [OF q'(1)] quiet_steps(8) [OF q'(2)] quiet_steps(1) [OF q'(3)] by blast+
  then show thesis using that run c fin by blast
qed

lemma failure_phase_parts:
  assumes "failure_phase d q corr tx p at ref cat w = (Inr r, w')"
  obtains t c wa wc wd we where
    "transitionTo p FAILED at (Some ''provider confirmed failure'') ref = Inr t"
    "persist d q t w = (Inr (), wa)"
    "sale_context d q tx at corr wa = (Inr c, wc)" "release c wc = (Inr (), wd)"
    "quiet wd we" "recordIdempotencyResult (rq_merchantId q) (deriveIdempotencyKey (intent_of q)) FAILED at we = (Inr (), w')"
    "r = failed_result tx corr (deriveIdempotencyKey (intent_of q)) ref cat"
proof -
  from assms obtain t w1 c w2 w3 w4 where
    run: "transitionTo p FAILED at (Some ''provider confirmed failure'') ref = Inr t" "persist d q t w = (Inr (), w1)"
      "sale_context d q tx at corr w1 = (Inr c, w2)" "release c w2 = (Inr (), w3)"
    and a: "sale_audit d t TRANSACTION_TRANSITIONED corr (Some PROCESSING) w3 = (Inr (), w4)"
    and fin: "recordIdempotencyResult (rq_merchantId q) (deriveIdempotencyKey (intent_of q)) FAILED at w4 = (Inr (), w')"
      "r = failed_result tx corr (deriveIdempotencyKey (intent_of q)) ref cat"
    by (clarsimp simp: failure_phase_def Let_def bnd_Inr seq_Inr)
  show thesis using that run quiet_steps(1) [OF a] fin by blast
qed

lemma pending_phase_parts:
  assumes "pending_phase d q corr tx p at ref cat w = (Inr r, w')"
  obtains t deadline wa where
    "transitionTo p PENDING at (Some ''no provider response'') ref = Inr t"
    "persist d q t w = (Inr (), wa)" "quiet wa w'"
    "r = pending_result tx corr (deriveIdempotencyKey (intent_of q)) ref cat deadline"
proof -
  from assms obtain t w1 dl w2 p1 where
    run: "transitionTo p PENDING at (Some ''no provider response'') ref = Inr t" "persist d q t w = (Inr (), w1)"
    and a: "upsertPendingResolution p1 w1 = (Inr (), w2)"
      "sale_audit d t TRANSACTION_TRANSITIONED corr (Some PROCESSING) w2 = (Inr (), w')"
    and fin: "r = pending_result tx corr (deriveIdempotencyKey (intent_of q)) ref cat dl"
    by (clarsimp simp: pending_phase_def Let_def bnd_Inr seq_Inr)
  have "quiet w1 w'" using quiet.trans quiet_steps(11) [OF a(1)] quiet_steps(1) [OF a(2)] by blast
  then show thesis using that run fin by blast
qed

section \<open>The outcome\<close>

lemma outcome_phase_Inr:
  assumes "outcome_phase d q corr tx p (state, ref, cat) w = (Inr r, w')"
  obtains at w1 where "quiet w w1"
    "(if state = SUCCESSFUL then success_phase d q corr tx p at ref
      else if state = FAILED then failure_phase d q corr tx p at ref cat
      else pending_phase d q corr tx p at ref cat) w1 = (Inr r, w')"
proof -
  from assms obtain at w1 where "now d w = (Inr at, w1)"
    "(if state = SUCCESSFUL then success_phase d q corr tx p at ref
      else if state = FAILED then failure_phase d q corr tx p at ref cat
      else pending_phase d q corr tx p at ref cat) w1 = (Inr r, w')"
    unfolding outcome_phase_def prod.case db_transaction_Inr by (auto simp only: bnd_Inr)
  then show thesis using that quiet_steps(6) by blast
qed

lemma success_phase_evolves:
  assumes run: "success_phase d q corr (tx_id p) p at ref w = (Inr r, w')"
    and known: "known_id d ''txn'' (tx_id p) w" and ok: "sale_ok d w" and safe: "safe_money (rq_amount q)"
    and holds: "holds_for (rq_merchantId q) (tx_id p) (minor (rq_amount q)) w"
  shows "evolves d w w'"
proof (rule success_phase_parts [OF run])
  fix t share bps c wa wb wc wd we
  assume t: "transitionTo p SUCCESSFUL at (Some ''provider confirmed delivery'') ref = Inr t"
    and s: "persist d q t w = (Inr (), wa)" "quiet wa wb" "sale_context d q (tx_id p) at corr wb = (Inr c, wc)"
      "finalizeSuccess c (Some share) (Some bps) wc = (Inr (), wd)" "quiet wd we"
      "recordIdempotencyResult (rq_merchantId q) (deriveIdempotencyKey (intent_of q)) SUCCESSFUL at we = (Inr (), w')"
  note id = transitionTo_Inr [OF t, THEN conjunct1]
  have "evolves d w wd"
    by (rule settle_evolves [where op = "finalizeSuccess c (Some share) (Some bps)", OF s(1) _ evolves_quiet [OF s(2)] s(4) finalizeSuccess_evolves])
       (use id s(3) known ok safe holds in simp_all)
  then show ?thesis
    using evolve.trans [OF evolve.trans [OF _ evolves_quiet [OF s(5)]] evolves_recordIdempotencyResult [OF s(6)]] by blast
qed

lemma failure_phase_evolves:
  assumes run: "failure_phase d q corr (tx_id p) p at ref cat w = (Inr r, w')"
    and known: "known_id d ''txn'' (tx_id p) w" and ok: "sale_ok d w" and safe: "safe_money (rq_amount q)"
    and holds: "holds_for (rq_merchantId q) (tx_id p) (minor (rq_amount q)) w"
  shows "evolves d w w'"
proof (rule failure_phase_parts [OF run])
  fix t c wa wc wd we
  assume t: "transitionTo p FAILED at (Some ''provider confirmed failure'') ref = Inr t"
    and s: "persist d q t w = (Inr (), wa)" "sale_context d q (tx_id p) at corr wa = (Inr c, wc)"
      "release c wc = (Inr (), wd)" "quiet wd we"
      "recordIdempotencyResult (rq_merchantId q) (deriveIdempotencyKey (intent_of q)) FAILED at we = (Inr (), w')"
  note id = transitionTo_Inr [OF t, THEN conjunct1]
  have "evolves d w wd"
    by (rule settle_evolves [where op = "release c", OF s(1) _ evolve.refl s(3) release_evolves])
       (use id s(2) known ok safe holds in simp_all)
  then show ?thesis
    using evolve.trans [OF evolve.trans [OF _ evolves_quiet [OF s(4)]] evolves_recordIdempotencyResult [OF s(5)]] by blast
qed

lemma outcome_phase_evolves:
  assumes run: "outcome_phase d q corr tx p (state, ref, cat) w = (r, w')"
    and tx: "tx_id p = tx" and known: "known_id d ''txn'' tx w" and ok: "sale_ok d w" and safe: "safe_money (rq_amount q)"
    and holds: "holds_for (rq_merchantId q) tx (minor (rq_amount q)) w" and ids: "ids_grow w w'"
  shows "evolves d w w'"
proof (cases r)
  case (Inl e)
  then show ?thesis using run ids rolled_back_evolves unfolding outcome_phase_def prod.case by blast
next
  case (Inr x)
  show ?thesis
  proof (rule outcome_phase_Inr [OF run [unfolded Inr]])
    fix at w1
    assume q: "quiet w w1" and body: "(if state = SUCCESSFUL then success_phase d q corr tx p at ref
      else if state = FAILED then failure_phase d q corr tx p at ref cat
      else pending_phase d q corr tx p at ref cat) w1 = (Inr x, w')"
    have ew: "evolves d w w1" using q by (rule evolves_quiet)
    have ok1: "sale_ok d w1" and known1: "known_id d ''txn'' (tx_id p) w1"
      and holds1: "holds_for (rq_merchantId q) (tx_id p) (minor (rq_amount q)) w1"
      using ew ok known known_id_mono holds_for_evolves [OF holds ok ew] by (auto simp: evolves_def tx)
    have "evolves d w1 w'"
    proof (cases "state = SUCCESSFUL")
      case True
      then show ?thesis using success_phase_evolves [OF _ known1 ok1 safe holds1] body by (simp add: tx)
    next
      case not_success: False
      show ?thesis
      proof (cases "state = FAILED")
        case True
        then show ?thesis using failure_phase_evolves [OF _ known1 ok1 safe holds1] body by (simp add: tx)
      next
        case False
        then have pending: "pending_phase d q corr tx p at ref cat w1 = (Inr x, w')" using body not_success by simp
        show ?thesis
        proof (rule pending_phase_parts [OF pending])
          fix t wa
          assume t: "transitionTo p PENDING at (Some ''no provider response'') ref = Inr t"
            and s: "persist d q t w1 = (Inr (), wa)" "quiet wa w'"
          have "evolves d w1 wa" using persist_evolves [OF s(1)] known1 transitionTo_Inr [OF t] by simp
          then show ?thesis using evolve.trans evolves_quiet [OF s(2)] by blast
        qed
      qed
    qed
    then show ?thesis using evolve.trans ew by blast
  qed
qed

section \<open>The whole sale\<close>

lemma bnd_evolves:
  assumes run: "bnd m f w = (x, w')" and first: "\<And>y w1. m w = (y, w1) \<Longrightarrow> evolves d w w1"
    and rest: "\<And>y w1. m w = (Inr y, w1) \<Longrightarrow> f y w1 = (x, w') \<Longrightarrow> evolves d w1 w'"
  shows "evolves d w w'"
proof -
  obtain y w1 where m: "m w = (y, w1)" by (cases "m w")
  show ?thesis
  proof (cases y)
    case (Inl e)
    then show ?thesis using run m first by (simp add: bnd_def)
  next
    case (Inr v)
    then have "f v w1 = (x, w')" using run m by (simp add: bnd_def)
    then show ?thesis using evolve.trans [OF first [OF m] rest] m Inr by blast
  qed
qed

lemma log_call_evolves: "keeps (evolves d) (log_call c)"
  by (rule keepsI, rule evolves_same_money) (auto simp: log_call_def same_on_def ids_grow_def)

lemma provider_calls_evolve:
  assumes "provider_evolves d"
  shows "keeps (evolves d) (healthCheck d)" "keeps (evolves d) (submit d r c)" "keeps (evolves d) (getStatus d s)"
  using assms unfolding provider_evolves_def healthCheck_def submit_def getStatus_def
  by (auto intro!: evolve.keeps_seq log_call_evolves)

lemma releaseQuietly_evolves:
  assumes run: "releaseQuietly d q (tx_id t) t corr w = (r, w')"
    and known: "known_id d ''txn'' (tx_id t) w" and ok: "sale_ok d w" and safe: "safe_money (rq_amount q)"
    and holds: "holds_for (rq_merchantId q) (tx_id t) (minor (rq_amount q)) w"
  shows "evolves d w w'"
proof (cases r)
  case (Inl e)
  have "ids_grow w w'" using run grow_service.keeps_releaseQuietly keepsD by blast
  then show ?thesis using run Inl rolled_back_evolves unfolding releaseQuietly_def by blast
next
  case (Inr u)
  from run [unfolded Inr releaseQuietly_def db_transaction_Inr] obtain at w1 t' w2 c w3 where
    s: "now d w = (Inr at, w1)" "transitionTo t FAILED at (Some ''refused: live mode'') None = Inr t'"
      "persist d q t' w1 = (Inr (), w2)" "sale_context d q (tx_id t) at corr w2 = (Inr c, w3)" "release c w3 = (Inr u, w')"
    by (auto simp: bnd_Inr seq_Inr)
  have e1: "evolves d w w1" by (rule evolves_quiet [OF quiet_steps(6) [OF s(1)]])
  have "evolves d w1 w'"
    by (rule settle_evolves [where op = "release c", OF s(3) _ evolve.refl _ release_evolves])
       (use e1 ok known holds safe s known_id_mono holds_for_evolves [OF holds ok e1] transitionTo_Inr [OF s(2)]
        in \<open>simp_all add: evolves_def\<close>)
  then show ?thesis using evolve.trans e1 by blast
qed

text \<open>What a sale needs to know about the world at each point.\<close>

definition sale_running :: "sale_deps \<Rightarrow> sale_request \<Rightarrow> string \<Rightarrow> world \<Rightarrow> bool" where
  "sale_running d q tx w \<longleftrightarrow> sale_ok d w \<and> known_id d ''txn'' tx w \<and> holds_for (rq_merchantId q) tx (minor (rq_amount q)) w"

lemma sale_running_evolves: "sale_running d q tx w \<Longrightarrow> evolves d w w' \<Longrightarrow> sale_running d q tx w'"
  using holds_for_evolves [of "rq_merchantId q" tx "minor (rq_amount q)" w d w'] known_id_mono [of d "''txn''" tx w w']
  by (auto simp: sale_running_def evolves_def)

lemma submit_phase_evolves:
  assumes run: "submit_phase d q corr (tx_id p) p w = (y, w')" and provider: "provider_evolves d"
    and running: "sale_running d q (tx_id p) w" and safe: "safe_money (rq_amount q)"
  shows "evolves d w w'"
proof -
  let ?r = "\<lparr>ar_transactionId = tx_id p, ar_merchantId = rq_merchantId q, ar_productId = rq_productId q,
      ar_amount = rq_amount q, ar_recipient = rq_recipient q, ar_idempotencyKey = deriveIdempotencyKey (intent_of q)\<rparr>"
  let ?c = "\<lparr>pc_providerId = sd_providerId d, pc_deviceId = rq_deviceId q, pc_mode = sd_mode d, pc_timeoutMs = providerTimeout d\<rparr>"
  obtain z v where m: "submit d ?r ?c w = (z, v)" by (cases "submit d ?r ?c w")
  have e: "evolves d w v" using m provider_calls_evolve(2) [OF provider] keepsD by blast
  show ?thesis
  proof (cases "z = Inl (DomainErr LiveMoneyDisabled)")
    case True
    then obtain u where "releaseQuietly d q (tx_id p) p corr v = (u, w')"
      using run m by (auto simp: submit_phase_def Let_def try_catch_def bnd_def seq_def ret_def split: prod.splits sum.splits)
    then have "evolves d v w'"
      using releaseQuietly_evolves sale_running_evolves [OF running e] safe by (auto simp: sale_running_def)
    then show ?thesis using e evolve.trans by blast
  next
    case False
    then have "w' = v"
      using run m by (auto simp: submit_phase_def Let_def try_catch_def bnd_def ret_def split: sum.splits if_splits)
    then show ?thesis using e by simp
  qed
qed

lemma submit_sale_evolves:
  assumes run: "submit_sale d q corr (tx_id t) t w = (r, w')" and provider: "provider_evolves d"
    and running: "sale_running d q (tx_id t) w" and safe: "safe_money (rq_amount q)"
  shows "evolves d w w'"
  using run unfolding submit_sale_def
proof (rule bnd_evolves)
  have ok: "sale_ok d w" and known: "known_id d ''txn'' (tx_id t) w" using running by (auto simp: sale_running_def)
  {
    fix y w1
    assume p: "processing_phase d q corr t w = (y, w1)"
    have ids: "ids_grow w w1" using p grow_service.keeps_processing_phase keepsD by blast
    show "evolves d w w1"
    proof (cases y)
      case (Inl e)
      then show ?thesis using p ids rolled_back_evolves unfolding processing_phase_def by blast
    next
      case (Inr x)
      then show ?thesis using processing_phase_effect [OF p [unfolded Inr] known ok] by blast
    qed
  }
  fix p w1
  assume pp: "processing_phase d q corr t w = (Inr p, w1)"
    and rest: "bnd (submit_phase d q corr (tx_id t) p)
       (case_sum ret (outcome_phase d q corr (tx_id t) p)) w1 = (r, w')"
  have e1: "evolves d w w1" and id: "tx_id p = tx_id t" using processing_phase_effect [OF pp known ok] by auto
  note running1 = sale_running_evolves [OF running e1]
  show "evolves d w1 w'"
    using rest
  proof (rule bnd_evolves)
    fix y w2
    assume s: "submit_phase d q corr (tx_id t) p w1 = (y, w2)"
    show e2: "evolves d w1 w2" using submit_phase_evolves [OF _ provider _ safe] s running1 id by metis
  next
    fix y w2
    assume s: "submit_phase d q corr (tx_id t) p w1 = (Inr y, w2)"
      and o': "(case y of Inl x \<Rightarrow> ret x | Inr x \<Rightarrow> outcome_phase d q corr (tx_id t) p x) w2 = (r, w')"
    have "evolves d w1 w2" using submit_phase_evolves [OF _ provider _ safe] s running1 id by metis
    then have running2: "sale_running d q (tx_id t) w2" using sale_running_evolves running1 by blast
    show "evolves d w2 w'"
    proof (cases y)
      case (Inl x)
      then show ?thesis using o' by (simp add: evolve.refl)
    next
      case (Inr x)
      obtain state ref cat where x: "x = (state, ref, cat)" by (cases x) auto
      have out: "outcome_phase d q corr (tx_id t) p (state, ref, cat) w2 = (r, w')" using o' by (simp add: Inr x)
      have "ids_grow w2 w'" using out grow_service.keeps_outcome_phase keepsD by blast
      then show ?thesis
        using outcome_phase_evolves [OF out id] running2 safe by (auto simp: sale_running_def)
    qed
  qed
qed

lemma attempt_sale_evolves:
  assumes run: "attempt_sale d q corr w = (r, w')" and provider: "provider_evolves d" and ids: "fresh_ids d"
    and ok: "sale_ok d w" and safe: "safe_money (rq_amount q)"
  shows "evolves d w w'"
  using run unfolding attempt_sale_def
proof (rule bnd_evolves)
  show "evolves d w w1" if "newId d ''txn'' w = (y, w1)" for y w1
    using that quiet_newId keepsD evolves_quiet by blast
next
  fix tx w1
  assume new: "newId d ''txn'' w = (Inr tx, w1)"
    and rest: "bnd (now d) (\<lambda>startedAt.
       bnd (try_catch (bnd (reserve_phase d q corr tx startedAt) (\<lambda>t. ret (Inr t)))
             (\<lambda>e. ret (Inl (reserve_refusal q corr e))))
        (case_sum ret (submit_sale d q corr tx))) w1 = (r, w')"
  have w1: "w1 = w\<lparr>w_ids := Suc (w_ids w)\<rparr>" and tx: "tx = sd_newId d ''txn'' (w_ids w)" using new by (auto simp: newId_def)
  have e1: "evolves d w w1" using new quiet_newId keepsD evolves_quiet by blast
  have fresh: "tx \<notin> tw_id ` set (transactions (w_db w1))"
  proof
    assume "tx \<in> tw_id ` set (transactions (w_db w1))"
    then have "known_id d ''txn'' tx w" using ok by (auto simp: w1 sale_ok_def)
    then show False using ids by (auto simp: fresh_ids_def known_id_def tx dest: injD)
  qed
  have known: "known_id d ''txn'' tx w1" by (auto simp: known_id_def w1 tx)
  have ok1: "sale_ok d w1" using e1 ok by (simp add: evolves_def)
  show "evolves d w1 w'"
    using rest
  proof (rule bnd_evolves)
    show "evolves d w1 w2" if "now d w1 = (y, w2)" for y w2
      using that quiet_now keepsD evolves_quiet by blast
  next
    fix at w2
    assume n: "now d w1 = (Inr at, w2)"
      and rest: "bnd (try_catch (bnd (reserve_phase d q corr tx at) (\<lambda>t. ret (Inr t)))
             (\<lambda>e. ret (Inl (reserve_refusal q corr e))))
        (case_sum ret (submit_sale d q corr tx)) w2 = (r, w')"
    have e2: "evolves d w1 w2" using n quiet_now keepsD evolves_quiet by blast
    have ok2: "sale_ok d w2" and known2: "known_id d ''txn'' tx w2" and fresh2: "tx \<notin> tw_id ` set (transactions (w_db w2))"
      using n ok1 known fresh e2 by (auto simp: now_def evolves_def known_id_def)
    have reserve_evolves: "evolves d w2 w3" if "reserve_phase d q corr tx at w2 = (z, w3)" for z w3
    proof (cases z)
      case (Inl e)
      have "ids_grow w2 w3" using that grow_service.keeps_reserve_phase keepsD by blast
      then show ?thesis using that Inl rolled_back_evolves unfolding reserve_phase_def by blast
    next
      case (Inr t)
      then show ?thesis
        using reserve_phase_effect [OF _ ok2 _ known2 fresh2] that ids unfolding fresh_ids_def by blast
    qed
    have caught: "\<exists>z. reserve_phase d q corr tx at w2 = (z, w3) \<and> (\<forall>t. y = Inr (Inr t) \<longrightarrow> z = Inr t)"
      if "try_catch (bnd (reserve_phase d q corr tx at) (\<lambda>t. ret (Inr t)))
             (\<lambda>e. ret (Inl (reserve_refusal q corr e))) w2 = (y, w3)" for y w3
      using that by (auto simp: try_catch_def bnd_def ret_def split: prod.splits sum.splits)
    show "evolves d w2 w'"
      using rest
    proof (rule bnd_evolves)
      fix y w3
      assume "try_catch (bnd (reserve_phase d q corr tx at) (\<lambda>t. ret (Inr t)))
             (\<lambda>e. ret (Inl (reserve_refusal q corr e))) w2 = (y, w3)"
      then show "evolves d w2 w3" using caught reserve_evolves by blast
    next
      fix y w3
      assume c: "try_catch (bnd (reserve_phase d q corr tx at) (\<lambda>t. ret (Inr t)))
             (\<lambda>e. ret (Inl (reserve_refusal q corr e))) w2 = (Inr y, w3)"
        and body: "(case y of Inl x \<Rightarrow> ret x | Inr x \<Rightarrow> submit_sale d q corr tx x) w3 = (r, w')"
      show "evolves d w3 w'"
      proof (cases y)
        case (Inl x)
        then show ?thesis using body by (simp add: evolve.refl)
      next
        case (Inr t)
        have res: "reserve_phase d q corr tx at w2 = (Inr t, w3)" using caught [OF c] Inr by auto
        note eff = reserve_phase_effect [OF res ok2 _ known2 fresh2]
        have e3: "evolves d w2 w3" and id: "tx_id t = tx" and holds: "holds_for (rq_merchantId q) tx (minor (rq_amount q)) w3"
          using eff ids by (auto simp: fresh_ids_def)
        have "sale_running d q tx w3"
          using e3 ok2 known2 known_id_mono holds by (auto simp: sale_running_def evolves_def)
        then show ?thesis using submit_sale_evolves [OF _ provider _ safe] body id by (auto simp: Inr)
      qed
    qed
  qed
qed

lemma checked_sale_evolves:
  assumes run: "checked_sale d q corr w = (r, w')" and provider: "provider_evolves d" and ids: "fresh_ids d"
    and ok: "sale_ok d w" and safe: "safe_money (rq_amount q)"
  shows "evolves d w w'"
  using run unfolding checked_sale_def
proof (rule bnd_evolves)
  show "evolves d w w1" if "healthCheck d w = (y, w1)" for y w1
    using that provider_calls_evolve(1) [OF provider] keepsD by blast
next
  fix h w1
  assume "healthCheck d w = (Inr h, w1)" and body: "(if \<not> h then ret (reject PROVIDER_UNAVAILABLE corr
       ''PROVIDER_UNHEALTHY'' SHOW_PROVIDER_UNAVAILABLE_NO_CHARGE (Some (deriveIdempotencyKey (intent_of q))) None)
     else attempt_sale d q corr) w1 = (r, w')"
  then have "evolves d w w1" using provider_calls_evolve(1) [OF provider] keepsD by blast
  then have "sale_ok d w1" using ok by (simp add: evolves_def)
  then show "evolves d w1 w'"
    using body attempt_sale_evolves [OF _ provider ids _ safe] by (auto simp: evolve.refl split: if_splits)
qed

lemma createSale_evolves:
  assumes run: "createSale d q w = (r, w')" and provider: "provider_evolves d" and ids: "fresh_ids d"
    and ok: "sale_ok d w" and safe: "safe_money (rq_amount q)"
  shows "evolves d w w'"
  using run
proof (cases rule: createSale_cases)
  case (answered corr w1 x)
  then show ?thesis using evolves_quiet by simp
next
  case (checked corr w1)
  have e: "evolves d w w1" using checked(1) by (rule evolves_quiet)
  then have "sale_ok d w1" using ok by (simp add: evolves_def)
  then show ?thesis using evolve.trans [OF e] checked_sale_evolves [OF checked(5) provider ids _ safe] by blast
qed

section \<open>Asking again\<close>

lemma persistRehydrated_evolves:
  "persistRehydrated t row w = (Inr u, w') \<Longrightarrow> known_id d ''txn'' (tx_id t) w \<Longrightarrow> evolves d w w'"
  unfolding persistRehydrated_def by (rule saveTransaction_evolves)

lemma persistRehydrated_sales_grow: "persistRehydrated t row w = (Inr u, w') \<Longrightarrow> sales_grow w w'"
  unfolding persistRehydrated_def
proof (erule saveTransaction_cases)
  assume w': "w' = w\<lparr>w_db := rewrite_transaction t (w_db w)\<rparr>"
  show ?thesis using arg_cong [OF rewrite_identities [of t "w_db w"], of set] by (simp add: sales_grow_def w')
qed (auto simp: sales_grow_def)

lemma findTransaction_SomeD:
  "findTransaction s i (Some m) = Some row \<Longrightarrow> row \<in> set (transactions s) \<and> tw_id row = i \<and> tw_merchantId row = m"
  unfolding findTransaction_def by (drule find_SomeD) simp

lemma rehydrate_Inr:
  "rehydrate row = Inr t \<Longrightarrow> tx_id t = tw_id row \<and> tx_state t = tw_state row \<and> minor (tx_amount t) = tw_amountMinor row \<and>
     safe_money (tx_amount t)"
  by (auto simp: rehydrate_def rbind_Inr_iff mk_money_Inr safe_money_def)

text \<open>A row written back, then one resolution of its reservation.\<close>

lemma settle_row_evolves:
  assumes s1: "persistRehydrated t' row w = (Inr (), wa)" and s2: "money_context d m tx amount at corr actor wa = (Inr c, wb)"
    and s3: "op wb = (Inr (), w')"
    and op: "\<And>v u v'. op v = (Inr u, v') \<Longrightarrow> amount_matches (w_db v) c \<Longrightarrow> evolves d v v'"
    and id: "tx_id t' = tx" and ok: "sale_ok d w" and safe: "safe_money amount"
    and row: "(tx, m, minor amount) \<in> identity_tx ` set (transactions (w_db w))"
  shows "evolves d w w'"
proof -
  have "known_id d ''txn'' tx w" using row ok by (auto simp: identity_tx_def sale_ok_def)
  then have e1: "evolves d w wa" using persistRehydrated_evolves [OF s1] id by simp
  note b = evolve.trans [OF e1 evolves_quiet [OF quiet_steps(4) [OF s2]]]
  have okb: "sale_ok d wb" using b ok by (simp add: evolves_def)
  have "sales_grow w wb"
    using sales_grow_trans persistRehydrated_sales_grow [OF s1] quiet_sales_grow [OF quiet_steps(4) [OF s2]] by blast
  then obtain r where r: "r \<in> set (transactions (w_db wb))" "tw_id r = tx" "tw_amountMinor r = minor amount"
    using row by (auto simp: sales_grow_def identity_tx_def)
  have "amount_matches (w_db wb) c"
    by (rule amount_matches_row [OF okb r(1)]) (use r money_context_Inr [OF s2] safe in simp_all)
  then show ?thesis using evolve.trans [OF b op [OF s3]] by simp
qed

lemma resolve_current_evolves:
  assumes run: "resolve_current d tx m corr job status at row w = (Inr r, w')" and ok: "sale_ok d w"
    and row: "row \<in> set (transactions (w_db w))" "tw_id row = tx" "tw_merchantId row = m"
  shows "evolves d w w'"
proof -
  obtain t where t: "rehydrate row = Inr t"
    using run by (auto simp: resolve_current_def bnd_Inr)
  note facts = rehydrate_Inr [OF t]
  have member: "(tx, m, minor (tx_amount t)) \<in> identity_tx ` set (transactions (w_db w))"
    using row facts by (force simp: identity_tx_def)
  have closed: "evolves d w v" "(tx, m, minor (tx_amount t)) \<in> identity_tx ` set (transactions (w_db v))" "sale_ok d v"
    if "closePendingResolution tx s at w = (x, v)" for x v s
  proof -
    have q: "quiet w v" using quiet_steps(12) that by blast
    show e: "evolves d w v" using q by (rule evolves_quiet)
    show "(tx, m, minor (tx_amount t)) \<in> identity_tx ` set (transactions (w_db v))"
      using quiet_sales_grow [OF q] member by (auto simp: sales_grow_def)
    show "sale_ok d v" using e ok by (simp add: evolves_def)
  qed
  have success: "evolves d w w'" if run: "resolved_success d tx m corr ref at key t row v = (Inr r, w')" and
      close: "closePendingResolution tx s at w = (x, v)" for ref key v s x
  proof -
    from run obtain t' wa c wb wc wd where
      s: "transitionTo t SUCCESSFUL at (Some ''status lookup confirmed delivery'') ref = Inr t'"
        "persistRehydrated t' row v = (Inr (), wa)"
        "money_context d m tx (tx_amount t) at corr (sale_actor (tx_operatorId t) (tx_deviceId t)) wa = (Inr c, wb)"
        "finalizeSuccess c None None wb = (Inr (), wc)" "resolution_audit d t m tx at corr SUCCESSFUL wc = (Inr (), wd)"
        "recordIdempotencyResult m key SUCCESSFUL at wd = (Inr (), w')"
      by (auto simp: resolved_success_def bnd_Inr seq_Inr)
    have "evolves d v wc"
      by (rule settle_row_evolves [where op = "finalizeSuccess c None None", OF s(2,3,4) finalizeSuccess_evolves])
         (use closed [OF close] facts row transitionTo_Inr [OF s(1)] in simp_all)
    from evolve.trans [OF closed(1) [OF close] this] show ?thesis
      using evolve.trans evolves_quiet [OF quiet_steps(5) [OF s(5)]] evolves_recordIdempotencyResult [OF s(6)] by blast
  qed
  have failure: "evolves d w w'" if run: "resolved_failure d tx m corr ref at key t row v = (Inr r, w')" and
      close: "closePendingResolution tx s at w = (x, v)" for ref key v s x
  proof -
    from run obtain t' wa c wb wc wd where
      s: "transitionTo t FAILED at (Some ''status lookup confirmed failure'') ref = Inr t'"
        "persistRehydrated t' row v = (Inr (), wa)"
        "money_context d m tx (tx_amount t) at corr (sale_actor (tx_operatorId t) (tx_deviceId t)) wa = (Inr c, wb)"
        "release c wb = (Inr (), wc)" "resolution_audit d t m tx at corr FAILED wc = (Inr (), wd)"
        "recordIdempotencyResult m key FAILED at wd = (Inr (), w')"
      by (auto simp: resolved_failure_def bnd_Inr seq_Inr)
    have "evolves d v wc"
      by (rule settle_row_evolves [where op = "release c", OF s(2,3,4) release_evolves])
         (use closed [OF close] facts row transitionTo_Inr [OF s(1)] in simp_all)
    from evolve.trans [OF closed(1) [OF close] this] show ?thesis
      using evolve.trans evolves_quiet [OF quiet_steps(5) [OF s(5)]] evolves_recordIdempotencyResult [OF s(6)] by blast
  qed
  have escalated: "evolves d w w'" if run: "resolved_escalated d tx m corr at key t row v = (Inr r, w')" and
      close: "closePendingResolution tx s at w = (x, v)" for key v s x
  proof -
    from run obtain t' wa c wb wc i wd ci we where
      s: "transitionTo t UNDER_REVIEW at (Some ''pending exceeded provider maximum'') None = Inr t'"
        "persistRehydrated t' row v = (Inr (), wa)"
        "money_context d m tx (tx_amount t) at corr (sale_actor (tx_operatorId t) (tx_deviceId t)) wa = (Inr c, wb)"
        "moveToUnderReview c wb = (Inr (), wc)" "newId d ''case'' wc = (Inr i, wd)" "createSupportCase ci wd = (Inr (), we)"
        "resolution_audit d t m tx at corr UNDER_REVIEW we = (Inr (), w')"
      by (auto simp: resolved_escalated_def bnd_Inr seq_Inr)
    have "evolves d v wc"
      by (rule settle_row_evolves [where op = "moveToUnderReview c", OF s(2,3,4) moveToUnderReview_evolves])
         (use closed [OF close] facts row transitionTo_Inr [OF s(1)] in simp_all)
    from evolve.trans [OF closed(1) [OF close] this] show ?thesis
      using evolve.trans evolves_quiet [OF quiet_steps(7) [OF s(5)]] evolves_quiet [OF quiet_steps(13) [OF s(6)]]
        evolves_quiet [OF quiet_steps(5) [OF s(7)]] by blast
  qed
  show ?thesis
    using run t
    by (auto simp: resolve_current_def Let_def bnd_Inr split: if_splits
        intro: evolve.refl dest: closed(1) success failure escalated)
qed

lemma resolve_phase_evolves:
  assumes run: "resolve_phase d tx m corr job row status w = (r, w')" and ok: "sale_ok d w"
  shows "evolves d w w'"
proof (cases r)
  case (Inl e)
  have "ids_grow w w'" using run grow_service.keeps_resolve_phase keepsD by blast
  then show ?thesis using run Inl rolled_back_evolves unfolding resolve_phase_def by blast
next
  case (Inr x)
  from run [unfolded Inr resolve_phase_def db_transaction_Inr] obtain at w1 where
    n: "now d w = (Inr at, w1)" and body: "(case findTransaction (w_db w1) tx (Some m) of
       None \<Rightarrow> ret (terminalResult (tw_state row) tx corr (tw_idempotencyKey row) (tw_providerReference row) None)
     | Some cur \<Rightarrow>
         if tw_state cur \<noteq> PENDING
         then ret (terminalResult (tw_state cur) tx corr (tw_idempotencyKey row) (tw_providerReference row) None)
         else resolve_current d tx m corr job status at cur) w1 = (Inr x, w')"
    by (auto simp: bnd_Inr)
  have e1: "evolves d w w1" by (rule evolves_quiet [OF quiet_steps(6) [OF n]])
  have ok1: "sale_ok d w1" using e1 ok by (simp add: evolves_def)
  have "evolves d w1 w'"
  proof (cases "findTransaction (w_db w1) tx (Some m)")
    case None
    then show ?thesis using body by (simp add: evolve.refl)
  next
    case (Some cur)
    then show ?thesis
      using body resolve_current_evolves [OF _ ok1] findTransaction_SomeD [OF Some] by (auto simp: evolve.refl split: if_splits)
  qed
  then show ?thesis using e1 evolve.trans by blast
qed

lemma evolves_if_ok: "(sale_ok d w \<Longrightarrow> evolves d w w') \<Longrightarrow> evolves d w w'"
  by (auto simp: evolves_def)

lemma resolvePending_evolves:
  assumes provider: "provider_evolves d"
  shows "keeps (evolves d) (resolvePending d tx m)"
proof -
  have phase: "keeps (evolves d) (resolve_phase d tx m corr job row status)" for corr job row status
    by (rule keepsI) (blast intro: evolves_if_ok resolve_phase_evolves)
  show ?thesis
    unfolding resolvePending_def
    by (intro evolve.keeps_rules phase provider_calls_evolve(3) [OF provider] keeps_evolves
        quiet_now quiet_newId quiet_recordResolutionAttempt)
qed

lemma createSale_keeps_evolves:
  assumes "provider_evolves d" "fresh_ids d" "safe_money (rq_amount q)"
  shows "keeps (evolves d) (createSale d q)"
  by (rule keepsI) (use assms in \<open>blast intro: evolves_if_ok createSale_evolves\<close>)

end
