(* ===== verification/Recovery_Evolution.thy ===== *)
theory Recovery_Evolution
  imports Recovery Sale_Evolution
begin

text \<open>
  The recovery sweep keeps the invariant of selling. Inside a transaction the sweep works on the row of one sale, so
  its steps are followed with a guarantee about that row: while it stands, the world evolves and the row stays.
\<close>

definition row_kept :: "sale_deps \<Rightarrow> string \<times> string \<times> int \<Rightarrow> world \<Rightarrow> world \<Rightarrow> bool" where
  "row_kept d i w w' \<longleftrightarrow>
     (i \<in> identity_tx ` set (transactions (w_db w)) \<longrightarrow>
        evolves d w w' \<and> i \<in> identity_tx ` set (transactions (w_db w')))"

interpretation row: guarantee "row_kept d i" for d i
proof unfold_locales
  fix u v w
  assume "row_kept d i u v" "row_kept d i v w"
  then show "row_kept d i u w" unfolding row_kept_def using evolve.trans by blast
qed (auto simp: row_kept_def evolve.refl intro: evolve.rollback)

lemma quiet_row: "quiet w w' \<Longrightarrow> row_kept d i w w'"
  using evolves_quiet quiet_sales_grow unfolding row_kept_def sales_grow_def by blast

lemma keeps_row_quiet: "keeps quiet m \<Longrightarrow> keeps (row_kept d i) m"
  by (erule keeps_mono) (rule quiet_row)

lemma row_result: "keeps (row_kept d i) (recordIdempotencyResult m k s t)"
proof (rule keepsI)
  fix w x w'
  assume run: "recordIdempotencyResult m k s t w = (x, w')"
  then have "evolves d w w'" by (intro evolves_same_money) (auto simp: recordIdempotencyResult_def same_on_def money_tables_def ids_grow_def)
  moreover have "transactions (w_db w') = transactions (w_db w)" using run by (auto simp: recordIdempotencyResult_def)
  ultimately show "row_kept d i w w'" by (simp add: row_kept_def)
qed

lemma row_lift:
  "(\<And>x. r = Inr x \<Longrightarrow> keeps (row_kept d i) (f x)) \<Longrightarrow> keeps (row_kept d i) (bnd (lift_domain r) f)"
  by (cases r) (simp_all add: keeps_def bnd_def lift_domain_def ret_def throw_def row.refl)

lemma saveTransaction_error: "saveTransaction t x w = (Inl e, w') \<Longrightarrow> w_db w' = w_db w \<and> w_ids w' = w_ids w"
  by (auto simp: saveTransaction_def bnd_def seq_def require_run get_db_def put_db_def split: if_splits)

lemma row_persist:
  assumes "tx_id t = tx"
  shows "keeps (row_kept d (tx, m, a)) (persistRehydrated t row)"
proof (rule keepsI)
  fix w x w'
  assume run: "persistRehydrated t row w = (x, w')"
  show "row_kept d (tx, m, a) w w'"
  proof (cases x)
    case (Inl e)
    then have "w_db w' = w_db w \<and> w_ids w' = w_ids w" using run saveTransaction_error unfolding persistRehydrated_def by blast
    then show ?thesis using evolves_same_money [of w w' d] by (auto simp: row_kept_def same_on_def ids_grow_def)
  next
    case (Inr u)
    note run' = run [unfolded Inr]
    have "evolves d w w'" if "(tx, m, a) \<in> identity_tx ` set (transactions (w_db w))"
    proof (rule evolves_if_ok)
      assume "sale_ok d w"
      then have "known_id d ''txn'' (tx_id t) w" using that assms by (auto simp: identity_tx_def sale_ok_def)
      then show "evolves d w w'" by (rule persistRehydrated_evolves [OF run'])
    qed
    then show ?thesis using persistRehydrated_sales_grow [OF run'] by (auto simp: row_kept_def sales_grow_def)
  qed
qed

text \<open>A context for the money of the row, and the three ways to resolve its reservation.\<close>

lemma row_context:
  assumes "\<And>c. oc_transactionId c = tx \<Longrightarrow> oc_merchantId c = m \<Longrightarrow> oc_amount c = amount \<Longrightarrow> keeps (row_kept d i) (f c)"
  shows "keeps (row_kept d i) (bnd (money_context d' m tx amount at corr actor) f)"
proof (rule keepsI)
  fix w x w'
  assume run: "bnd (money_context d' m tx amount at corr actor) f w = (x, w')"
  obtain c v where c: "money_context d' m tx amount at corr actor w = (Inr c, v)"
    by (simp add: money_context_def bnd_def newId_def ret_def)
  have "f c v = (x, w')" using run c by (simp add: bnd_def)
  moreover have "keeps (row_kept d i) (f c)" using money_context_Inr [OF c] by (intro assms) simp_all
  ultimately have "row_kept d i v w'" by (rule keepsD [rotated])
  then show "row_kept d i w w'"
    using keepsD [OF keeps_row_quiet [OF quiet_money_context] c] row.trans by blast
qed

lemma row_resolution:
  assumes op: "\<And>v u v'. op v = (Inr u, v') \<Longrightarrow> amount_matches (w_db v) c \<Longrightarrow> evolves d v v'"
    and rest: "keeps leaves_rest op" and kept: "\<And>v u v'. op v = (Inr u, v') \<Longrightarrow> transactions (w_db v') = transactions (w_db v)"
    and rolled: "\<And>v e v'. op v = (Inl e, v') \<Longrightarrow> w_db v' = w_db v"
    and c: "oc_transactionId c = tx" "oc_amount c = amount" "safe_money amount" "minor amount = a"
  shows "keeps (row_kept d (tx, m, a)) op"
proof (rule keepsI)
  fix w x w'
  assume run: "op w = (x, w')"
  show "row_kept d (tx, m, a) w w'"
  proof (cases x)
    case (Inl e)
    then have "w_db w' = w_db w" "w_ids w' = w_ids w" using run rolled keepsD [OF rest] by (auto simp: leaves_rest_def)
    then show ?thesis using evolves_same_money [of w w' d] by (auto simp: row_kept_def same_on_def ids_grow_def)
  next
    case (Inr u)
    note run' = run [unfolded Inr]
    have "evolves d w w'" if member: "(tx, m, a) \<in> identity_tx ` set (transactions (w_db w))"
    proof (rule evolves_if_ok)
      assume ok: "sale_ok d w"
      obtain r :: transaction_row where "r \<in> set (transactions (w_db w))" "tw_id r = tx" "tw_amountMinor r = a"
        using member by (force simp: identity_tx_def)
      then have "amount_matches (w_db w) c" using amount_matches_row [OF ok] c by simp
      then show "evolves d w w'" by (rule op [OF run'])
    qed
    then show ?thesis using kept [OF run'] by (simp add: row_kept_def)
  qed
qed

lemma resolve_keeps_transactions:
  assumes "resolve_reservation c source target es a k w = (Inr u, w')" and "source \<in> {HELD, RES_UNDER_REVIEW}"
  shows "transactions (w_db w') = transactions (w_db w)"
proof -
  from assms(1) obtain row :: reservation_row and w1 w2 where guard: "guardedTransition (rr_id row) source target (oc_at c) w = (Inr (), w1)"
    and app: "appendEntries (simple_posting (oc_postingId c) (oc_correlationId c) (oc_at c) es) w1 = (Inr (), w2)"
    and audit: "op_audit c a k w2 = (Inr u, w')"
    by (auto simp: resolve_reservation_def bnd_Inr seq_Inr split: option.splits)
  obtain rows where "w2 = w1\<lparr>w_db := (w_db w1)\<lparr>ledger_entries := ledger_entries (w_db w1) @ rows\<rparr>\<rparr>"
    using app by (rule appendEntries_effect)
  moreover obtain e where "w' = w2\<lparr>w_db := (w_db w2)\<lparr>audit_events := audit_events (w_db w2) @ [e]\<rparr>\<rparr>"
    using audit by (rule op_audit_effect)
  ultimately show ?thesis using guardedTransition_effect [OF guard assms(2)] by simp
qed

lemma resolve_rolled_back: "resolve_reservation c source target es a k w = (Inl e, w') \<Longrightarrow> w_db w' = w_db w"
  unfolding resolve_reservation_def by (rule db_transaction_rollback)

lemma row_release:
  assumes "oc_transactionId c = tx" "oc_amount c = amount" "safe_money amount" "minor amount = a"
  shows "keeps (row_kept d (tx, m, a)) (release c)"
  by (rule row_resolution [OF release_evolves rest_resolutions(1) _ _ assms])
     (auto simp: release_def intro: resolve_keeps_transactions resolve_rolled_back)

lemma row_finalize:
  assumes "oc_transactionId c = tx" "oc_amount c = amount" "safe_money amount" "minor amount = a"
  shows "keeps (row_kept d (tx, m, a)) (finalizeSuccess c p b)"
  by (rule row_resolution [OF finalizeSuccess_evolves rest_resolutions(2) _ _ assms])
     (auto simp: finalizeSuccess_def Let_def intro: resolve_keeps_transactions resolve_rolled_back)

lemma row_review:
  assumes "oc_transactionId c = tx" "oc_amount c = amount" "safe_money amount" "minor amount = a"
  shows "keeps (row_kept d (tx, m, a)) (moveToUnderReview c)"
  by (rule row_resolution [OF moveToUnderReview_evolves rest_resolutions(3) _ _ assms])
     (auto simp: moveToUnderReview_def intro: resolve_keeps_transactions resolve_rolled_back)

section \<open>The pieces of a sweep\<close>

lemma quiet_updatePendingMetadata: "keeps quiet (updatePendingMetadata tx i)"
  unfolding updatePendingMetadata_def by (rule quiet_put_db) (simp_all add: money_tables_def)

lemma quiet_writeAudit: "keeps quiet (writeAudit r a m corr tx before after detail)"
  unfolding writeAudit_def by (intro quiet_rules)

lemma quiet_ensurePending: "keeps quiet (ensurePending tx m row corr policy)"
  unfolding ensurePending_def by (intro quiet.keeps_rules quiet_upsertPendingResolution)

lemma quiet_claimTransaction: "keeps quiet (claimTransaction i)"
  unfolding claimTransaction_def by (intro quiet.keeps_rules quiet_put_db) (simp_all add: money_tables_def)

lemma quiet_releaseClaim: "keeps quiet (releaseClaim tx worker t)"
  unfolding releaseClaim_def by (intro quiet.keeps_rules quiet_put_db) (simp_all add: money_tables_def)

lemmas recovery_quiet = quiet_now quiet_newId quiet_writeAudit quiet_ensurePending quiet_updatePendingMetadata
  quiet_recordResolutionAttempt quiet_closePendingResolution quiet_createSupportCase

lemmas row_quiet = recovery_quiet [THEN keeps_row_quiet]

lemmas row_rules = row_lift row_context row.keeps_rules row_result row_quiet

lemma row_release_never_submitted:
  "keeps (row_kept d (tx, m, tw_amountMinor row)) (release_never_submitted r tx m row corr)" if "tw_id row = tx"
  unfolding release_never_submitted_def
  using that
  by (intro row_rules row_persist row_release)
     (auto dest!: transitionTo_Inr rehydrate_Inr)

lemma row_ok_rehydrate:
  assumes "rehydrate row = Inr t"
  shows "tx_id t = tw_id row" "safe_money (tx_amount t)" "minor (tx_amount t) = tw_amountMinor row"
  using rehydrate_Inr [OF assms] by simp_all

lemma row_mark_uncertain:
  assumes "tw_id row = tx"
  shows "keeps (row_kept d (tx, m, a)) (mark_uncertain r tx m policy row corr)"
  unfolding mark_uncertain_def using assms
  by (intro row_rules row_persist) (auto dest!: transitionTo_Inr rehydrate_Inr)

lemma row_apply_success:
  assumes "tx_id t = tx" "safe_money (tx_amount t)" "minor (tx_amount t) = a"
  shows "keeps (row_kept d (tx, m, a)) (apply_success r tx m before corr ref at current t)"
  unfolding apply_success_def using assms
  by (intro row_rules row_persist row_finalize) (auto dest!: transitionTo_Inr)

lemma row_apply_failure:
  assumes "tx_id t = tx" "safe_money (tx_amount t)" "minor (tx_amount t) = a"
  shows "keeps (row_kept d (tx, m, a)) (apply_failure r tx m before corr ref at current t)"
  unfolding apply_failure_def using assms
  by (intro row_rules row_persist row_release) (auto dest!: transitionTo_Inr)

lemma row_escalate:
  assumes "tx_id t = tx" "safe_money (tx_amount t)" "minor (tx_amount t) = a"
  shows "keeps (row_kept d (tx, m, a)) (escalate r tx m before corr ref out at current t n x)"
  unfolding escalate_def using assms
  by (intro row_rules row_persist row_review) (auto dest!: transitionTo_Inr)

lemma row_keep_waiting: "keeps (row_kept d i) (keep_waiting r tx m before corr ref out current n)"
  unfolding keep_waiting_def by (intro row_rules)

context progress
begin

lemma keeps_bnd_facts:
  assumes "keeps R m" and "\<And>w x v. m w = (Inr x, v) \<Longrightarrow> keeps R (f x)"
  shows "keeps R (bnd m f)"
  unfolding keeps_def
proof
  fix w
  show "R w (snd (bnd m f w))"
    by (rule bnd_at) (use assms in \<open>auto simp: keeps_def\<close>)
qed

end

lemma enter_pending_Inr: "enter_pending out at current t w = (Inr t', v) \<Longrightarrow> tx_id t' = tx_id t \<and> tx_amount t' = tx_amount t"
  by (auto simp: enter_pending_def bnd_Inr seq_Inr split: if_splits dest!: transitionTo_Inr)

lemma row_hold_value:
  assumes t: "tx_id t = tx" "safe_money (tx_amount t)" "minor (tx_amount t) = a"
  shows "keeps (row_kept d (tx, m, a)) (hold_value r tx m policy before corr ref out at current t)"
  unfolding hold_value_def
proof (rule row.keeps_bnd_facts)
  show "keeps (row_kept d (tx, m, a)) (enter_pending out at current t)"
    unfolding enter_pending_def using t by (intro row_rules row_persist) (auto dest!: transitionTo_Inr)
  fix w v working
  assume "enter_pending out at current t w = (Inr working, v)"
  then show "keeps (row_kept d (tx, m, a)) (count_attempt r tx m policy before corr ref out at current working)"
    unfolding count_attempt_def using enter_pending_Inr [of out at current t w working v] t
    by (intro row_rules row_escalate row_keep_waiting) simp_all
qed

section \<open>The sweep\<close>

text \<open>A transaction on a row that was just read.\<close>

lemma evolves_of_row:
  assumes "findTransaction (w_db w) tx (Some m) = Some row" and "row_kept d (tx, m, tw_amountMinor row) w w'"
  shows "evolves d w w'"
  using findTransaction_SomeD [OF assms(1)] assms(2) by (force simp: row_kept_def identity_tx_def)

lemma apply_outcome_evolves: "keeps (evolves d) (apply_outcome r tx m policy before corr answer)"
  unfolding apply_outcome_def
proof (rule evolve.keeps_db_transaction, rule evolve.keeps_bnd)
  show "keeps (evolves d) (now (rd_sale r))" by (rule keeps_evolves [OF quiet_now])
  fix at
  show "keeps (evolves d) (bnd (get_db (\<lambda>s. findTransaction s tx (Some m))) (\<lambda>found.
     case found of
       None \<Rightarrow> throw (OtherErr ''Transaction disappeared during recovery'')
     | Some current \<Rightarrow>
         if tw_state current \<noteq> PROCESSING \<and> tw_state current \<noteq> PENDING then ret (skip current SKIPPED_TERMINAL corr)
         else
           bnd (lift_domain (rehydrate current)) (\<lambda>t.
           case answer of (out, ref) \<Rightarrow>
             if out = LO_SUCCESS then apply_success r tx m before corr ref at current t
             else if out = LO_FAILURE then apply_failure r tx m before corr ref at current t
             else hold_value r tx m policy before corr ref out at current t)))"
    (is "keeps _ (bnd _ ?f)")
  proof (rule keepsI)
    fix w x w'
    assume run: "bnd (get_db (\<lambda>s. findTransaction s tx (Some m))) ?f w = (x, w')"
    show "evolves d w w'"
    proof (cases "findTransaction (w_db w) tx (Some m)")
      case None
      then show ?thesis using run evolve.refl by (simp add: bnd_def get_db_def)
    next
      case (Some current)
      have "keeps (row_kept d (tx, m, tw_amountMinor current)) (?f (Some current))"
        using findTransaction_SomeD [OF Some]
        by (simp only: option.case)
           (intro row_rules row_apply_success row_apply_failure row_hold_value; auto dest!: rehydrate_Inr)
      moreover have "?f (Some current) w = (x, w')" using run Some by (simp add: bnd_def get_db_def)
      ultimately show ?thesis using evolves_of_row [OF Some] keepsD by blast
    qed
  qed
qed

lemma lookup_status_evolves: "provider_evolves (rd_sale r) \<Longrightarrow> keeps (evolves (rd_sale r)) (lookup_status r tx row)"
  unfolding lookup_status_def by (intro evolve.keeps_rules provider_calls_evolve(3))

lemmas evolves_quiet_rules = recovery_quiet [THEN keeps_evolves] quiet_claimTransaction [THEN keeps_evolves]
  quiet_releaseClaim [THEN keeps_evolves]

lemma ask_provider_evolves:
  "provider_evolves (rd_sale r) \<Longrightarrow> keeps (evolves (rd_sale r)) (ask_provider r tx m policy row corr)"
  unfolding ask_provider_def by (intro evolve.keeps_rules evolves_quiet_rules lookup_status_evolves apply_outcome_evolves)

lemma recoverOne_evolves:
  assumes provider: "provider_evolves (rd_sale r)"
  shows "keeps (evolves (rd_sale r)) (recoverOne r tx m policy scanId)"
proof (rule keepsI)
  let ?d = "rd_sale r"
  fix w x w'
  assume run: "recoverOne r tx m policy scanId w = (x, w')"
  show "evolves ?d w w'"
  proof (cases "findTransaction (w_db w) tx (Some m)")
    case None
    then show ?thesis using run evolve.refl by (simp add: recoverOne_def bnd_def get_db_def)
  next
    case (Some row)
    note id = conjunct1 [OF conjunct2 [OF findTransaction_SomeD [OF Some]]]
    define corr where "corr = (case findPendingResolution (w_db w) tx of None \<Rightarrow> scanId | Some j \<Rightarrow> pw_correlationId j)"
    have body: "(if tw_state row \<notin> set IN_FLIGHT_STATES then ret (skip row SKIPPED_TERMINAL corr, Some 0)
          else if tw_state row = RESERVED \<and> tw_providerReference row = None then
            seq (release_never_submitted r tx m row corr) (ret (never_submitted_result tx m (tw_state row) corr, Some 0))
          else seq (if tw_state row = RESERVED then mark_uncertain r tx m policy row corr else ret ())
                (ask_provider r tx m policy row corr)) w = (x, w')"
      using run unfolding recoverOne_def bnd_def get_db_def prod.case sum.case Some option.case Let_def corr_def .
    consider (skipped) "w' = w"
      | (never) "seq (release_never_submitted r tx m row corr) (ret (never_submitted_result tx m (tw_state row) corr, Some 0)) w = (x, w')"
      | (ask) "seq (if tw_state row = RESERVED then mark_uncertain r tx m policy row corr else ret ())
                (ask_provider r tx m policy row corr) w = (x, w')"
      using body by (auto split: if_splits)
    then show ?thesis
    proof cases
      case skipped
      then show ?thesis by (simp add: evolve.refl)
    next
      case never
      have "keeps (row_kept ?d (tx, m, tw_amountMinor row)) (seq (release_never_submitted r tx m row corr)
          (ret (never_submitted_result tx m (tw_state row) corr, Some 0)))"
        by (intro row.keeps_rules row_release_never_submitted id)
      then show ?thesis using never evolves_of_row [OF Some] keepsD by blast
    next
      case ask
      let ?m = "if tw_state row = RESERVED then mark_uncertain r tx m policy row corr else ret ()"
      have "keeps (row_kept ?d (tx, m, tw_amountMinor row)) ?m" by (intro row.keeps_rules row_mark_uncertain id)
      then have "evolves ?d w (snd (?m w))" using evolves_of_row [OF Some] unfolding keeps_def by blast
      then have "evolves ?d w (snd (seq ?m (ask_provider r tx m policy row corr) w))"
        unfolding seq_def using ask_provider_evolves [OF provider] by (intro evolve.bnd_at) (auto simp: keeps_def)
      then show ?thesis using ask by simp
    qed
  qed
qed

context progress
begin

lemma keeps_finally:
  assumes "keeps R m" and "keeps R f"
  shows "keeps R (finally_do m f)"
proof (rule keepsI)
  fix w x w'
  assume run: "finally_do m f w = (x, w')"
  obtain y v where m: "m w = (y, v)" by (cases "m w")
  obtain z u where f: "f v = (z, u)" by (cases "f v")
  have "w' = u" using run m f by (cases z) (simp_all add: finally_do_def)
  then show "R w w'" using keepsD [OF assms(1) m] keepsD [OF assms(2) f] trans by blast
qed

lemma keeps_sweep_all:
  assumes "\<And>go. so_shouldContinue o' = Some go \<Longrightarrow> keeps R go" and "\<And>c st. keeps R (sweep_one r scanId c st)"
  shows "keeps R (sweep_all r o' scanId cs st)"
proof (induction cs arbitrary: st)
  case Nil
  then show ?case by (simp add: keeps_ret)
next
  case (Cons c cs)
  have "keeps R (case so_shouldContinue o' of None \<Rightarrow> ret True | Some go \<Rightarrow> go)"
    using assms(1) by (auto intro: keeps_ret split: option.split)
  then show ?case using assms(2) Cons by (auto intro!: keeps_bnd keeps_if keeps_ret)
qed

text \<open>A sweep keeps what quiet writes and the recovery of one sale keep.\<close>

lemma keeps_recoverInFlight:
  assumes quiet: "\<And>w w'. quiet w w' \<Longrightarrow> R w w'"
    and one: "\<And>tx m policy scanId. keeps R (recoverOne r tx m policy scanId)"
    and go: "\<And>go. so_shouldContinue o' = Some go \<Longrightarrow> keeps R go"
  shows "keeps R (recoverInFlight r o')"
proof -
  have one: "keeps R (sweep_one r scanId c st)" for scanId c st
    unfolding sweep_one_def claim_and_recover_def recover_claimed_def recovery_failed_def Let_def
    by (intro progress_rules keeps_finally one quiet_now [THEN keeps_mono] quiet_writeAudit [THEN keeps_mono]
        quiet_claimTransaction [THEN keeps_mono] quiet_releaseClaim [THEN keeps_mono] quiet)
  show ?thesis
    unfolding recoverInFlight_def
    by (intro progress_rules keeps_sweep_all one go quiet_now [THEN keeps_mono] quiet_newId [THEN keeps_mono]
        quiet_writeAudit [THEN keeps_mono] quiet)
qed

end

theorem recoverInFlight_evolves:
  assumes "provider_evolves (rd_sale r)" and "\<And>go. so_shouldContinue o' = Some go \<Longrightarrow> keeps (evolves (rd_sale r)) go"
  shows "keeps (evolves (rd_sale r)) (recoverInFlight r o')"
  by (rule evolve.keeps_recoverInFlight) (use assms in \<open>auto intro: evolves_quiet recoverOne_evolves\<close>)

section \<open>What a sweep says and remembers\<close>

context service_guarantee
begin

lemmas keeps_recovery_quiet = recovery_quiet [THEN keeps_quiet]

lemma keeps_apply_outcome: "keeps R (apply_outcome r tx m policy before corr answer)"
  unfolding apply_outcome_def apply_success_def apply_failure_def hold_value_def enter_pending_def count_attempt_def
    escalate_def keep_waiting_def
  by (intro keeps_rules keeps_writes keeps_resolutions keeps_recovery_quiet)

lemma keeps_recovery_release: "keeps R (release_never_submitted r tx m row corr)" "keeps R (mark_uncertain r tx m policy row corr)"
  unfolding release_never_submitted_def mark_uncertain_def
  by (intro keeps_rules keeps_writes keeps_resolutions keeps_recovery_quiet)+

end

end
