(* ===== verification/Running.thy ===== *)
theory Running
  imports Ledger_Invariant Job_Repositories
begin

text \<open>
  Running programs inside the simplifier. The congruence rules keep the continuation of a step
  untouched until the step before it has returned, so a run is evaluated from left to right on concrete worlds.
\<close>

lemma bnd_run: "bnd m f w = (case m w of (r, w') \<Rightarrow> (case r of Inl e \<Rightarrow> (Inl e, w') | Inr x \<Rightarrow> f x w'))"
  by (simp add: bnd_def split: prod.split sum.split)

lemma seq_run: "seq m n w = (case m w of (r, w') \<Rightarrow> (case r of Inl e \<Rightarrow> (Inl e, w') | Inr x \<Rightarrow> n w'))"
  by (simp add: seq_def bnd_run)

lemma bnd_lazy: "bnd m f = bnd m f" ..

lemma seq_lazy: "seq m n = seq m n" ..

lemma try_catch_lazy: "try_catch m h = try_catch m h" ..

lemma db_transaction_lazy: "db_transaction m = db_transaction m" ..

lemma rbind_lazy: "r = s \<Longrightarrow> rbind r f = rbind s f"
  by simp

lemmas run_congs = bnd_lazy seq_lazy try_catch_lazy db_transaction_lazy rbind_lazy Let_lazy

lemma two_steps: "r x y \<Longrightarrow> r y z \<Longrightarrow> r\<^sup>*\<^sup>* x z"
  by (rule rtranclp.rtrancl_into_rtrancl [where r = r, OF r_into_rtranclp]) simp_all

lemma transaction_states_known:
  "isTransactionState ''CREATED''" "isTransactionState ''VALIDATED''" "isTransactionState ''RESERVED''"
  "isTransactionState ''PROCESSING''" "isTransactionState ''SUCCESSFUL''" "isTransactionState ''FAILED''"
  "isTransactionState ''PENDING''" "isTransactionState ''UNDER_REVIEW''"
  by (simp_all add: isTransactionState_def TRANSACTION_STATES_def)

lemma small_indices: "dec_nat 0 = ''0''" "dec_nat (Suc 0) = ''1''" "dec_nat (Suc (Suc 0)) = ''2''"
  by (simp_all add: dec_nat_def show_radix.simps digit_char_code)

lemma replicate_numeral: "replicate (numeral k) x = x # replicate (pred_numeral k) x"
  by (simp add: numeral_eq_Suc)

lemmas run_basics = replicate_numeral bnd_run seq_run get_db_def put_db_def ret_def throw_def require_def lift_domain_def lift_result_def
  db_transaction_def
  try_catch_def or_else_def coalesce_def Let_def transaction_states_known small_indices update_where_def count_where_def guarded_move_def

lemmas run_domain = createTransaction_def assertSimulated_def assertPositive_def isPositive_def transitionTo_def
  assertTransition_def canTransition_def INITIAL_STATE_def mk_money_def safe_int_iff js_add_exact assertSufficientAvailable_def
  createReservation_def assertBalanced_def residualMinor_def signedMinor_def entry_id_def

lemmas run_repositories = saveTransaction_def transaction_row_of_def merchant_exists_def transaction_exists_def
  rewrite_transaction_def findMerchant_def findDevice_def findTransaction_def findIdempotencyRecord_def
  saveIdempotencyRecord_def recordIdempotencyResult_def saveAuditEvent_def audit_row_of_def serializeMetadata_def
  ensureAccount_def find_account_by_id_def netMinor_def signed_row_def balanceFor_def saveReservation_def
  findReservationById_def findReservation_def reservation_row_of_def released_time_def set_reservation_def
  move_reservation_def transitionHeldReservation_def transitionUnderReviewReservation_def appendEntries_def
  insert_entry_def entry_row_of_def readPlatformFeeSettings_def effectiveCommissionBps_def recordCommission_def
  commission_checks_def bps_ok_def commission_row_of_def findPendingResolution_def upsertPendingResolution_def pending_row_of_def
  recordResolutionAttempt_def closePendingResolution_def set_pending_def createSupportCase_def

lemmas run_operations = ensureAccounts_def merchantAccountId_def PLATFORM_ACCOUNTS_def platform_account_def
  simple_posting_def bucketTransfer_def draft_def op_audit_def fundMerchant_def reserve_def guardedTransition_def
  resolve_reservation_def release_def finalizeSuccess_def finalize_entries_def moveToUnderReview_def

lemmas run_store = run_basics run_domain run_repositories run_operations

end
