(* ===== verification/Evaluation.thy ===== *)
theory Evaluation
  imports Sale Ledger_Properties
begin

text \<open>Running the services, and the shop the worked examples are about.\<close>

lemmas run_effects = lift_rate_def lift_date_def now_def newId_def log_call_def healthCheck_def submit_def getStatus_def

lemmas run_sale = createSale_def request_guards_def duplicate_guard_def checked_sale_def attempt_sale_def submit_sale_def
  persist_def sale_actor_def sale_audit_def transition_event_def transition_now_def money_context_def sale_context_def
  reserve_phase_def processing_phase_def submit_phase_def releaseQuietly_def submission_category_def success_phase_def
  failure_phase_def pending_phase_def outcome_phase_def pendingMaximum_def DEFAULT_PENDING_MAXIMUM_MS_def

lemmas run_all = run_store run_effects run_sale

section \<open>A shop to try things on\<close>

definition shop_world :: world where
  "shop_world = \<lparr>w_db = sample_db\<lparr>transactions := [],
      platform_fee_settings := Some \<lparr>fs_defaultCommissionBps = 500, fs_shopShareBps = 4000, fs_cardFeeBps = 0,
        fs_softwareFeeMinor = 125000, fs_softwareFeeEnabled = True, fs_softwareFeeFirstPeriod = None,
        fs_updatedByAdminId = None, fs_updatedAt = t0\<rparr>\<rparr>,
     w_ticks = 0, w_ids = 0, w_calls = []\<rparr>"

text \<open>A provider that answers at once, and leaves the database to others.\<close>

definition shop_deps :: "submission_outcome \<Rightarrow> status_outcome \<Rightarrow> sale_deps" where
  "shop_deps out st =
     \<lparr>sd_health = ret True, sd_submit = (\<lambda>r c. ret \<lparr>sr_outcome = out, sr_providerReference = Some ''ref1''\<rparr>),
      sd_getStatus = (\<lambda>q. ret \<lparr>ps_outcome = st, ps_providerReference = None\<rparr>), sd_providerId = ''mock'',
      sd_catalog = simulatedCatalog [\<lparr>cp_id = ''p1'', cp_label = ''p'', cp_available = True\<rparr>],
      sd_mode = TRAINING, sd_recipientSalt = ''salt'', sd_sha256 = (\<lambda>s. ''hash''), sd_now = (\<lambda>n. t0),
      sd_newId = (\<lambda>k n. k @ ''_'' @ replicate n (CHR ''i'')), sd_pendingMaximumMs = None, sd_providerTimeoutMs = None\<rparr>"

definition shop_request :: sale_request where
  "shop_request =
     \<lparr>rq_merchantId = ''m1'', rq_deviceId = ''d1'', rq_operatorId = ''o1'', rq_productId = ''p1'',
      rq_amount = \<lparr>currency = ETB, minor = 400\<rparr>, rq_recipient = ''0911223344'', rq_recipientMasked = None,
      rq_clientRequestId = ''r1'', rq_correlationId = Some ''c1''\<rparr>"

definition shop_funded :: world where
  "shop_funded = snd (fundMerchant sample_fund shop_world)"

text \<open>The states of the sales and of the reservations, and the available balance of the shop.\<close>

definition state_of_sales :: "world \<Rightarrow> (string \<times> tx_state) list \<times> (string \<times> reservation_state) list \<times> int" where
  "state_of_sales w = (map (\<lambda>t. (tw_id t, tw_state t)) (transactions (w_db w)),
     map (\<lambda>r. (rr_transactionId r, rr_status r)) (balance_reservations (w_db w)),
     netMinor (w_db w) ''m1'' [MERCHANT_AVAILABLE, MERCHANT_FUNDS])"

lemma shop_identity:
  "deriveIdempotencyKey (intent_of shop_request) = ''idem_004f0fcf''"
  "payloadFingerprint (intent_of shop_request) = ''92c837cc''"
  "canonicalKeySource (intent_of shop_request) = ''m1|d1|r1''"
  "maskRecipient ''0911223344'' 2 2 = ''09******44''"
  "length (js_trim ''0911223344'') = 10" "js_trim ''r1'' = ''r1''"
proof -
  have "deriveIdempotencyKey (intent_of shop_request) = ''idem_004f0fcf'' \<and>
    payloadFingerprint (intent_of shop_request) = ''92c837cc'' \<and>
    canonicalKeySource (intent_of shop_request) = ''m1|d1|r1'' \<and>
    maskRecipient ''0911223344'' 2 2 = ''09******44'' \<and>
    length (js_trim ''0911223344'') = 10 \<and> js_trim ''r1'' = ''r1''"
    by code_simp
  then show "deriveIdempotencyKey (intent_of shop_request) = ''idem_004f0fcf''" "payloadFingerprint (intent_of shop_request) = ''92c837cc''"
    "canonicalKeySource (intent_of shop_request) = ''m1|d1|r1''" "maskRecipient ''0911223344'' 2 2 = ''09******44''"
    "length (js_trim ''0911223344'') = 10" "js_trim ''r1'' = ''r1''" by blast+
qed

lemma moments_of_shop:
  "addMs t0 300000 = Some ''2026-09-14T08:05:00.000Z''" "addMs t0 30000 = Some ''2026-09-14T08:00:30.000Z''"
  "isAfter t0 ''2026-09-14T08:05:00.000Z'' \<longleftrightarrow> False"
proof -
  have later: "iso_of_ms 1789373100000 = ''2026-09-14T08:05:00.000Z''" "iso_of_ms 1789372830000 = ''2026-09-14T08:00:30.000Z''"
    "iso_range 1789373100000" by (simp_all add: run_iso cong: Let_lazy)
  show "addMs t0 300000 = Some ''2026-09-14T08:05:00.000Z''" "addMs t0 30000 = Some ''2026-09-14T08:00:30.000Z''"
    using addMs_iso [OF t0_range, of 300000] addMs_iso [OF t0_range, of 30000] by (simp_all add: t0_moment later)
  show "isAfter t0 ''2026-09-14T08:05:00.000Z'' \<longleftrightarrow> False"
    using isAfter_iso [OF t0_range later(3)] by (simp add: t0_moment later)
qed

lemma shop_request_fields:
  "rq_merchantId shop_request = ''m1''" "rq_deviceId shop_request = ''d1''" "rq_operatorId shop_request = ''o1''"
  "rq_productId shop_request = ''p1''" "rq_amount shop_request = \<lparr>currency = ETB, minor = 400\<rparr>"
  "rq_recipient shop_request = ''0911223344''" "rq_recipientMasked shop_request = None"
  "rq_clientRequestId shop_request = ''r1''" "rq_correlationId shop_request = Some ''c1''"
  by (simp_all add: shop_request_def)

lemma shop_deps_fields:
  "sd_health (shop_deps out st) = ret True"
  "sd_submit (shop_deps out st) r pc = ret \<lparr>sr_outcome = out, sr_providerReference = Some ''ref1''\<rparr>"
  "sd_getStatus (shop_deps out st) s = ret \<lparr>ps_outcome = st, ps_providerReference = None\<rparr>"
  "sd_providerId (shop_deps out st) = ''mock''" "sd_mode (shop_deps out st) = TRAINING"
  "sd_recipientSalt (shop_deps out st) = ''salt''" "sd_sha256 (shop_deps out st) t = ''hash''"
  "sd_now (shop_deps out st) n = t0" "sd_newId (shop_deps out st) k n = k @ ''_'' @ replicate n (CHR ''i'')"
  "sd_pendingMaximumMs (shop_deps out st) = None"
  "sd_catalog (shop_deps out st) ''p1'' = Some \<lparr>cp_id = ''p1'', cp_label = ''p'', cp_available = True\<rparr>"
  by (simp_all add: shop_deps_def simulatedCatalog_def)

lemma shop_split: "splitCommission (JInt 400) (JInt 500) (JInt 4000) =
    Inr \<lparr>providerCommissionMinor = 20, shopShareMinor = 8, telgaShareMinor = 12, providerCommissionBps = 500, shopShareBps = 4000\<rparr>"
  by code_simp

lemmas run_start = shop_identity moments_of_shop shop_request_fields shop_deps_fields shop_split shop_world_def sample_db_def empty_db_def
  sample_fund_def state_of_sales_def

section \<open>Three worlds of that shop\<close>

text \<open>
  The shop after its first deposit, after a sale and after a sale that is still pending, written out as tables, so that what
  starts from them is not run from the beginning each time. A world stays folded until one of its tables is read.
\<close>

definition shop_entry where
  "shop_entry i p tx account m k dir n reason corr rule =
     \<lparr>ew_id = i, ew_postingId = p, ew_transactionId = tx, ew_accountId = account, ew_merchantId = m, ew_accountType = k,
      ew_direction = dir, ew_amountMinor = n, ew_currency = ETB, ew_entryType = reason, ew_correlationId = corr, ew_ruleVersion = rule,
      ew_providerReference = None, ew_metadata = None, ew_mode = TRAINING, ew_createdAt = t0\<rparr>"

definition shop_audit where
  "shop_audit i event entity =
     \<lparr>uw_id = i, uw_actorType = MERCHANT_OPERATOR, uw_actorId = ''o1'', uw_eventType = event, uw_entityType = entity,
      uw_entityId = Some ''txn_'', uw_merchantId = ''m1'', uw_correlationId = ''c1'', uw_metadata = None, uw_createdAt = t0\<rparr>"

definition shop_account where
  "shop_account i m k = \<lparr>aw_id = i, aw_merchantId = m, aw_accountType = k, aw_createdAt = t0\<rparr>"

definition shop_sale where
  "shop_sale s =
     \<lparr>tw_id = ''txn_'', tw_merchantId = ''m1'', tw_deviceId = ''d1'', tw_operatorId = Some ''o1'', tw_productType = ''p1'',
      tw_providerId = Some ''mock'', tw_amountMinor = 400, tw_currency = ETB, tw_recipientMasked = ''09******44'',
      tw_recipientHash = ''hash'', tw_state = s, tw_idempotencyKey = ''idem_004f0fcf'', tw_payloadFingerprint = ''92c837cc'',
      tw_providerReference = Some ''ref1'', tw_mode = TRAINING, tw_createdAt = t0, tw_updatedAt = t0\<rparr>"

definition shop_hold where
  "shop_hold s released =
     \<lparr>rr_id = ''res_iiii'', rr_merchantId = ''m1'', rr_transactionId = ''txn_'', rr_amountMinor = 400, rr_currency = ETB,
      rr_status = s, rr_correlationId = ''c1'', rr_createdAt = t0, rr_updatedAt = t0, rr_releasedAt = released\<rparr>"

definition shop_key where
  "shop_key result =
     \<lparr>iw_key = ''idem_004f0fcf'', iw_merchantId = ''m1'', iw_requestIdentity = ''m1|d1|r1'', iw_payloadFingerprint = ''92c837cc'',
      iw_transactionId = ''txn_'', iw_resultState = result, iw_createdAt = t0, iw_updatedAt = t0\<rparr>"

definition shop_job where
  "shop_job =
     \<lparr>pw_transactionId = ''txn_'', pw_merchantId = ''m1'', pw_idempotencyKey = ''idem_004f0fcf'', pw_providerReference = Some ''ref1'',
      pw_correlationId = ''c1'', pw_attempts = 0, pw_status = AWAITING, pw_firstPendingAt = t0, pw_lastAttemptAt = None,
      pw_deadlineAt = ''2026-09-14T08:05:00.000Z'', pw_createdAt = t0, pw_updatedAt = t0, pw_nextCheckAt = None,
      pw_lastOutcomeCategory = None, pw_currentState = None, pw_manualReviewStatus = ''NONE''\<rparr>"

definition shop_commission where
  "shop_commission =
     \<lparr>kw_id = ''comm_iiiiiiiii'', kw_transactionId = ''txn_'', kw_merchantId = ''m1'', kw_providerId = Some ''mock'',
      kw_productType = ''p1'', kw_transactionAmountMinor = 400, kw_providerCommissionBps = 500, kw_shopShareBps = 4000,
      kw_providerCommissionMinor = 20, kw_shopShareMinor = 8, kw_telgaShareMinor = 12, kw_cardFeeMinor = 0,
      kw_settlementStatus = UNSETTLED, kw_reversed = False, kw_reversedAt = None, kw_reversalTransactionId = None, kw_createdAt = t0\<rparr>"

definition funded_accounts where
  "funded_accounts =
     [shop_account ''acct_m1_merchant_available'' (Some ''m1'') MERCHANT_AVAILABLE,
      shop_account ''acct_m1_merchant_reserved'' (Some ''m1'') MERCHANT_RESERVED,
      shop_account ''acct_m1_merchant_under_review'' (Some ''m1'') MERCHANT_UNDER_REVIEW,
      shop_account ''acct_platform_bank_clearing'' None BANK_CLEARING,
      shop_account ''acct_platform_provider_settlement'' None PROVIDER_SETTLEMENT,
      shop_account ''acct_platform_telga_revenue'' None TELGA_REVENUE,
      shop_account ''acct_platform_refund_reserves'' None REFUND_RESERVES,
      shop_account ''acct_platform_hardware_deposits'' None HARDWARE_DEPOSITS]"

definition funded_entries where
  "funded_entries =
     [shop_entry ''fund1_0'' ''fund1'' None ''acct_m1_merchant_available'' (Some ''m1'') MERCHANT_AVAILABLE CREDIT 1000 FUNDING_CREDIT ''c0'' None,
      shop_entry ''fund1_1'' ''fund1'' None ''acct_platform_bank_clearing'' None BANK_CLEARING DEBIT 1000 FUNDING_CREDIT ''c0'' None]"

definition held_entries where
  "held_entries = funded_entries @
     [shop_entry ''post_ii_0'' ''post_ii'' (Some ''txn_'') ''acct_m1_merchant_available'' (Some ''m1'') MERCHANT_AVAILABLE DEBIT 400 SALE_DEBIT ''c1'' None,
      shop_entry ''post_ii_1'' ''post_ii'' (Some ''txn_'') ''acct_m1_merchant_reserved'' (Some ''m1'') MERCHANT_RESERVED CREDIT 400 SALE_DEBIT ''c1'' None]"

definition sold_entries where
  "sold_entries = held_entries @
     [shop_entry ''post_iiiiiii_0'' ''post_iiiiiii'' (Some ''txn_'') ''acct_m1_merchant_reserved'' (Some ''m1'') MERCHANT_RESERVED DEBIT 400 SALE_DEBIT ''c1'' None,
      shop_entry ''post_iiiiiii_1'' ''post_iiiiiii'' (Some ''txn_'') ''acct_platform_provider_settlement'' None PROVIDER_SETTLEMENT CREDIT 392 SALE_DEBIT ''c1'' None,
      shop_entry ''post_iiiiiii_2'' ''post_iiiiiii'' (Some ''txn_'') ''acct_platform_telga_revenue'' (Some ''m1'') TELGA_REVENUE CREDIT 8 COMMISSION_CREDIT ''c1''
        (Some (''commission-share-'' @ dec_int 500 @ ''bps''))]"

definition submitted_audit where
  "submitted_audit =
     [shop_audit ''audit_i'' TRANSACTION_CREATED ''transaction'', shop_audit ''audit_iii'' BALANCE_RESERVED ''balance_reservation'',
      shop_audit ''audit_iiiii'' TRANSACTION_TRANSITIONED ''transaction'', shop_audit ''audit_iiiiii'' PROVIDER_SUBMITTED ''transaction'']"

definition pending_audit where
  "pending_audit = submitted_audit @ [shop_audit ''audit_iiiiiii'' TRANSACTION_TRANSITIONED ''transaction'']"

definition sold_audit where
  "sold_audit = submitted_audit @
     [shop_audit ''audit_iiiiiiii'' LEDGER_POSTED ''transaction'', shop_audit ''audit_iiiiiiiiii'' TRANSACTION_TRANSITIONED ''transaction'']"

definition sale_calls where
  "sale_calls = [Health_call, Submit_call \<lparr>ar_transactionId = ''txn_'', ar_merchantId = ''m1'', ar_productId = ''p1'',
     ar_amount = \<lparr>currency = ETB, minor = 400\<rparr>, ar_recipient = ''0911223344'', ar_idempotencyKey = ''idem_004f0fcf''\<rparr>]"

definition world_sold :: world where
  "world_sold = shop_funded\<lparr>w_ticks := 11, w_ids := 11, w_calls := sale_calls,
     w_db := (w_db shop_funded)\<lparr>transactions := [shop_sale SUCCESSFUL], idempotency_records := [shop_key (Some SUCCESSFUL)],
       ledger_entries := sold_entries, balance_reservations := [shop_hold SETTLED (Some t0)], audit_events := sold_audit,
       commission_entries := [shop_commission]\<rparr>\<rparr>"

definition world_pending :: world where
  "world_pending = shop_funded\<lparr>w_ticks := 11, w_ids := 8, w_calls := sale_calls,
     w_db := (w_db shop_funded)\<lparr>transactions := [shop_sale PENDING], idempotency_records := [shop_key None],
       ledger_entries := held_entries, balance_reservations := [shop_hold HELD None], audit_events := pending_audit,
       pending_resolutions := [shop_job]\<rparr>\<rparr>"

lemmas shop_rows = shop_entry_def shop_audit_def shop_account_def shop_sale_def shop_hold_def shop_key_def shop_job_def shop_commission_def
  funded_accounts_def funded_entries_def held_entries_def sold_entries_def submitted_audit_def pending_audit_def sold_audit_def sale_calls_def

lemma shop_funded_eq:
  "shop_funded = shop_world\<lparr>w_db := (w_db shop_world)\<lparr>ledger_accounts := funded_accounts, ledger_entries := funded_entries\<rparr>\<rparr>"
  unfolding shop_funded_def by (simp add: run_all run_start shop_rows cong: run_congs)

lemma shop_funded_fields:
  "merchants (w_db shop_funded) = [\<lparr>me_id = ''m1'', me_status = MER_ACTIVE, me_createdAt = t0, me_updatedAt = t0\<rparr>]"
  "devices (w_db shop_funded) = [\<lparr>dv_id = ''d1'', dv_merchantId = ''m1'', dv_status = DEV_ACTIVE, dv_deviceType = ''WEB_POS'',
     dv_createdAt = t0, dv_updatedAt = t0\<rparr>]"
  "platform_fee_settings (w_db shop_funded) = Some \<lparr>fs_defaultCommissionBps = 500, fs_shopShareBps = 4000, fs_cardFeeBps = 0,
     fs_softwareFeeMinor = 125000, fs_softwareFeeEnabled = True, fs_softwareFeeFirstPeriod = None, fs_updatedByAdminId = None, fs_updatedAt = t0\<rparr>"
  "ledger_accounts (w_db shop_funded) = funded_accounts" "ledger_entries (w_db shop_funded) = funded_entries"
  "transactions (w_db shop_funded) = []" "idempotency_records (w_db shop_funded) = []" "balance_reservations (w_db shop_funded) = []"
  "audit_events (w_db shop_funded) = []" "pending_resolutions (w_db shop_funded) = []" "support_cases (w_db shop_funded) = []"
  "recovery_claims (w_db shop_funded) = []" "provider_commission_rates (w_db shop_funded) = []" "commission_entries (w_db shop_funded) = []"
  "software_fee_charges (w_db shop_funded) = []" "pending_orders (w_db shop_funded) = []" "reversal_requests (w_db shop_funded) = []"
  "complaint_reviews (w_db shop_funded) = []" "shop_transfers (w_db shop_funded) = []" "topup_orders (w_db shop_funded) = []"
  "funding_submissions (w_db shop_funded) = []" "w_ticks shop_funded = 0" "w_ids shop_funded = 0" "w_calls shop_funded = []"
  by (simp_all add: shop_funded_eq shop_world_def sample_db_def empty_db_def)

lemma world_sold_fields:
  "merchants (w_db world_sold) = merchants (w_db shop_funded)" "devices (w_db world_sold) = devices (w_db shop_funded)"
  "transactions (w_db world_sold) = [shop_sale SUCCESSFUL]" "idempotency_records (w_db world_sold) = [shop_key (Some SUCCESSFUL)]"
  "ledger_accounts (w_db world_sold) = ledger_accounts (w_db shop_funded)" "ledger_entries (w_db world_sold) = sold_entries"
  "balance_reservations (w_db world_sold) = [shop_hold SETTLED (Some t0)]" "audit_events (w_db world_sold) = sold_audit"
  "pending_resolutions (w_db world_sold) = pending_resolutions (w_db shop_funded)"
  "support_cases (w_db world_sold) = support_cases (w_db shop_funded)"
  "recovery_claims (w_db world_sold) = recovery_claims (w_db shop_funded)"
  "platform_fee_settings (w_db world_sold) = platform_fee_settings (w_db shop_funded)"
  "provider_commission_rates (w_db world_sold) = provider_commission_rates (w_db shop_funded)"
  "commission_entries (w_db world_sold) = [shop_commission]"
  "software_fee_charges (w_db world_sold) = software_fee_charges (w_db shop_funded)"
  "pending_orders (w_db world_sold) = pending_orders (w_db shop_funded)"
  "reversal_requests (w_db world_sold) = reversal_requests (w_db shop_funded)"
  "complaint_reviews (w_db world_sold) = complaint_reviews (w_db shop_funded)"
  "shop_transfers (w_db world_sold) = shop_transfers (w_db shop_funded)"
  "topup_orders (w_db world_sold) = topup_orders (w_db shop_funded)"
  "funding_submissions (w_db world_sold) = funding_submissions (w_db shop_funded)" "w_ticks world_sold = 11" "w_ids world_sold = 11"
  "w_calls world_sold = sale_calls"
  by (simp_all add: world_sold_def)

lemma world_pending_fields:
  "merchants (w_db world_pending) = merchants (w_db shop_funded)" "devices (w_db world_pending) = devices (w_db shop_funded)"
  "transactions (w_db world_pending) = [shop_sale PENDING]" "idempotency_records (w_db world_pending) = [shop_key None]"
  "ledger_accounts (w_db world_pending) = ledger_accounts (w_db shop_funded)" "ledger_entries (w_db world_pending) = held_entries"
  "balance_reservations (w_db world_pending) = [shop_hold HELD None]" "audit_events (w_db world_pending) = pending_audit"
  "pending_resolutions (w_db world_pending) = [shop_job]" "support_cases (w_db world_pending) = support_cases (w_db shop_funded)"
  "recovery_claims (w_db world_pending) = recovery_claims (w_db shop_funded)"
  "platform_fee_settings (w_db world_pending) = platform_fee_settings (w_db shop_funded)"
  "provider_commission_rates (w_db world_pending) = provider_commission_rates (w_db shop_funded)"
  "commission_entries (w_db world_pending) = commission_entries (w_db shop_funded)"
  "software_fee_charges (w_db world_pending) = software_fee_charges (w_db shop_funded)"
  "pending_orders (w_db world_pending) = pending_orders (w_db shop_funded)"
  "reversal_requests (w_db world_pending) = reversal_requests (w_db shop_funded)"
  "complaint_reviews (w_db world_pending) = complaint_reviews (w_db shop_funded)"
  "shop_transfers (w_db world_pending) = shop_transfers (w_db shop_funded)"
  "topup_orders (w_db world_pending) = topup_orders (w_db shop_funded)"
  "funding_submissions (w_db world_pending) = funding_submissions (w_db shop_funded)" "w_ticks world_pending = 11"
  "w_ids world_pending = 8" "w_calls world_pending = sale_calls"
  by (simp_all add: world_pending_def)

lemmas run_shop = shop_identity moments_of_shop shop_request_fields shop_deps_fields shop_split shop_funded_fields world_sold_fields world_pending_fields
  shop_rows state_of_sales_def

lemma shop_sells:
  "createSale (shop_deps CONFIRMED_SUCCESS ST_STILL_PENDING) shop_request shop_funded =
     (Inr (successful_result ''txn_'' ''c1'' ''idem_004f0fcf'' (Some ''ref1'')), world_sold)"
  by (simp add: run_all run_shop world_sold_def cong: run_congs)

lemma shop_leaves_pending:
  "createSale (shop_deps INDETERMINATE st) shop_request shop_funded =
     (Inr (pending_result ''txn_'' ''c1'' ''idem_004f0fcf'' (Some ''ref1'') PROVIDER_INDETERMINATE ''2026-09-14T08:05:00.000Z''), world_pending)"
  by (simp add: run_all run_shop world_pending_def cong: run_congs)

lemma sales_of_shop:
  "state_of_sales world_sold = ([(''txn_'', SUCCESSFUL)], [(''txn_'', SETTLED)], 600)"
  "state_of_sales world_pending = ([(''txn_'', PENDING)], [(''txn_'', HELD)], 600)"
  by (simp_all add: run_shop netMinor_def signed_row_def)

end
