(* ===== verification/Sale_Properties.thy ===== *)
theory Sale_Properties
  imports Recovery_Evolution Evaluation
begin

text \<open>
  What selling guarantees: the money stays right through any number of sales, questions and deposits,
  whatever happens while the provider is awaited; a refusal costs nothing; one request is submitted at most once.
\<close>

section \<open>Sequences of requests\<close>

inductive service_step :: "sale_deps \<Rightarrow> world \<Rightarrow> world \<Rightarrow> bool" for d where
  sell: "createSale d q w = (r, w') \<Longrightarrow> safe_money (rq_amount q) \<Longrightarrow> service_step d w w'"
| ask: "resolvePending d tx m w = (r, w') \<Longrightarrow> service_step d w w'"
| recover: "recoverInFlight v o' w = (p, w') \<Longrightarrow> rd_sale v = d \<Longrightarrow>
    (\<And>go. so_shouldContinue o' = Some go \<Longrightarrow> keeps (evolves d) go) \<Longrightarrow> service_step d w w'"
| deposit: "fundMerchant i w = (r, w') \<Longrightarrow> service_step d w w'"
| move_profit: "transferProfitToBalance i w = (r, w') \<Longrightarrow> service_step d w w'"

lemma credit_operation_evolves:
  assumes run: "db_transaction (seq (ensureAccounts m t) (appendEntries (simple_posting pid cid t es))) w = (x, w')"
    and step: "ledger_step w w'"
  shows "evolves d w w'"
proof -
  have "keeps leaves_rest (db_transaction (seq (ensureAccounts m t) (appendEntries (simple_posting pid cid t es))))"
    by (intro rest.keeps_rules rest_ensureAccounts rest_appendEntries)
  then have ids: "w_ids w' = w_ids w" using run keepsD unfolding leaves_rest_def by blast
  have same: "balance_reservations (w_db w') = balance_reservations (w_db w)"
    using run by (rule credit_operation_reservations)
  have txs: "transactions (w_db w') = transactions (w_db w)"
  proof (cases x)
    case (Inl e)
    then show ?thesis using run db_transaction_rollback by metis
  next
    case (Inr u)
    then show ?thesis using simple_operation_effect [OF run [unfolded Inr]] ledger_frame_fields rest_of_fields(1) by blast
  qed
  have "sale_ok d w'" if ok: "sale_ok d w"
    using sale_ok_identities [OF ok _ txs ids] ledger_step_ok [OF step] ok same by (simp add: sale_ok_def)
  then show ?thesis using step by (auto simp: evolves_def ids_grow_def ids same)
qed

lemma service_step_evolves:
  assumes provider: "provider_evolves d" and ids: "fresh_ids d"
  shows "service_step d w w' \<Longrightarrow> evolves d w w'"
proof (induction rule: service_step.induct)
  case (sell q w r w')
  then show ?case using createSale_keeps_evolves [OF provider ids] keepsD by blast
next
  case (ask tx m w r w')
  then show ?case using resolvePending_evolves [OF provider] keepsD by blast
next
  case (recover v o' w p w')
  then show ?case using recoverInFlight_evolves [of v o'] provider keepsD by blast
next
  case (deposit i w r w')
  then show ?case using credit_operation_evolves step_fund [OF deposit] unfolding fundMerchant_def by blast
next
  case (move_profit i w r w')
  then show ?case using credit_operation_evolves step_profit [OF move_profit] unfolding transferProfitToBalance_def by blast
qed

lemma services_evolve:
  assumes "provider_evolves d" "fresh_ids d"
  shows "(service_step d)\<^sup>*\<^sup>* w w' \<Longrightarrow> evolves d w w'"
  by (induction rule: rtranclp_induct) (blast intro: evolve.refl evolve.trans service_step_evolves [OF assms])+

lemma sale_ok_empty:
  "transactions (w_db w) = [] \<Longrightarrow> ledger_entries (w_db w) = [] \<Longrightarrow> balance_reservations (w_db w) = [] \<Longrightarrow> sale_ok d w"
  using ledger_ok_empty by (simp add: sale_ok_def)

lemma shop_provider_evolves: "provider_evolves (shop_deps out st)"
  unfolding provider_evolves_def by (simp add: shop_deps_fields evolve.keeps_ret)

lemma shop_fresh_ids: "fresh_ids (shop_deps out st)"
  by (auto simp: fresh_ids_def shop_deps_fields inj_on_def replicate_eq_replicate)

lemma shop_start: "sale_ok d shop_world"
  by (rule sale_ok_empty) (simp_all add: shop_world_def sample_db_def empty_db_def)

lemma shop_deposit: "service_step d shop_world shop_funded"
  unfolding shop_funded_def by (rule deposit) (rule prod.collapse [symmetric])

text \<open>
  From an empty shop, after any sequence of sales, questions about pending sales, recovery sweeps, deposits and profit
  transfers, with any provider during whose calls the world only evolves, the whole ledger sums to zero, no shop's available balance
  is negative, what a shop has reserved or under review is what its live reservations say, and
  every reservation belongs to a sale of the same shop and amount.
\<close>

theorem sales_keep_the_books:
  assumes "provider_evolves d" and "fresh_ids d" and "(service_step d)\<^sup>*\<^sup>* w w'"
    and "transactions (w_db w) = []" and "ledger_entries (w_db w) = []" and "balance_reservations (w_db w) = []"
  shows "ledgerResidualMinor (w_db w') = 0 \<and>
    0 \<le> netMinor (w_db w') m [MERCHANT_AVAILABLE, MERCHANT_FUNDS] \<and>
    netMinor (w_db w') m [MERCHANT_RESERVED] = live_sum m HELD (balance_reservations (w_db w')) \<and>
    netMinor (w_db w') m [MERCHANT_UNDER_REVIEW] = live_sum m RES_UNDER_REVIEW (balance_reservations (w_db w')) \<and>
    (\<forall>r\<in>set (balance_reservations (w_db w')). belongs (transactions (w_db w')) r)"
proof -
  have "sale_ok d w'" using services_evolve [OF assms(1-3)] sale_ok_empty [OF assms(4-6)] by (simp add: evolves_def)
  then show ?thesis by (simp add: sale_ok_def ledger_ok_def)
qed

lemma safe_request: "safe_money (rq_amount shop_request)"
  by (simp add: shop_request_fields safe_money_def safe_int_iff)

theorem sales_keep_the_books_witness:
  "state_of_sales world_sold = ([(''txn_'', SUCCESSFUL)], [(''txn_'', SETTLED)], 600) \<and> ledgerResidualMinor (w_db world_sold) = 0"
proof -
  let ?d = "shop_deps CONFIRMED_SUCCESS ST_STILL_PENDING"
  have "service_step ?d shop_funded world_sold"
    by (rule sell [OF shop_sells safe_request])
  then have "(service_step ?d)\<^sup>*\<^sup>* shop_world world_sold"
    by (rule two_steps [where r = "service_step ?d", OF shop_deposit])
  then have "ledgerResidualMinor (w_db world_sold) = 0"
    using sales_keep_the_books [OF shop_provider_evolves shop_fresh_ids]
    by (simp add: shop_world_def sample_db_def empty_db_def)
  then show ?thesis using sales_of_shop by simp
qed

end
