(* ===== verification/Sale_Results.thy ===== *)
theory Sale_Results
  imports Sale_Properties
begin

text \<open>
  What each result of \<open>createSale\<close> says about the store: a refusal has written nothing, a final result
  has moved the money accordingly, a pending one is holding it and is scheduled to be asked about again.
\<close>

section \<open>Refusals\<close>

definition refusal :: "sale_result \<Rightarrow> bool" where
  "refusal x \<longleftrightarrow> (case x of Rejected k j \<Rightarrow> rj_transactionId j = None | DuplicateRequest u \<Rightarrow> True | _ \<Rightarrow> False)"

lemma guards_refuse:
  "request_guards d q corr s = Some x \<Longrightarrow> refusal x" "duplicate_guard q corr s = Some x \<Longrightarrow> refusal x"
  by (auto simp: request_guards_def duplicate_guard_def reject_def refusal_def Let_def split: option.splits if_splits)

lemma outcome_phase_outcome:
  assumes "outcome_phase d q corr tx p r w = (Inr x, w')"
  shows "isOutcome x"
proof -
  obtain state ref cat where r: "r = (state, ref, cat)" by (cases r) auto
  show ?thesis
  proof (rule outcome_phase_Inr [OF assms [unfolded r]])
    fix at w1
    assume "(if state = SUCCESSFUL then success_phase d q corr tx p at ref
      else if state = FAILED then failure_phase d q corr tx p at ref cat
      else pending_phase d q corr tx p at ref cat) w1 = (Inr x, w')"
    then show "isOutcome x"
      by (auto simp: successful_result_def failed_result_def pending_result_def split: if_splits
          elim: success_phase_parts failure_phase_parts pending_phase_parts)
  qed
qed

lemma submit_phase_refusal:
  assumes "submit_phase d q corr tx p w = (Inr (Inl x), w')"
  shows "\<not> refusal x"
  using assms
  by (auto simp: submit_phase_def Let_def try_catch_def bnd_def seq_def ret_def reject_def refusal_def
      split: prod.splits sum.splits if_splits)

lemma submit_sale_no_refusal:
  assumes "submit_sale d q corr tx t w = (Inr x, w')"
  shows "\<not> refusal x"
proof -
  from assms obtain p w1 y w2 where "submit_phase d q corr tx p w1 = (Inr y, w2)"
    "(case y of Inl z \<Rightarrow> ret z | Inr o' \<Rightarrow> outcome_phase d q corr tx p o') w2 = (Inr x, w')"
    by (auto simp: submit_sale_def bnd_Inr)
  then show ?thesis
    using submit_phase_refusal outcome_phase_outcome
    by (cases y; cases x) (fastforce simp: refusal_def)+
qed

text \<open>The steps up to the reservation, when the sale goes no further and when it does.\<close>

lemma reserve_refusal_refuses: "refusal (reserve_refusal q corr e)"
  by (simp add: reserve_refusal_def reject_def refusal_def Let_def)

lemma attempt_sale_cases:
  assumes run: "attempt_sale d q corr w = (Inr x, w')"
  obtains (refused) "refusal x" "w_db w' = w_db w" "w_calls w' = w_calls w"
  | (reserved) tx at w1 w2 t w3 where "newId d ''txn'' w = (Inr tx, w1)" "now d w1 = (Inr at, w2)"
      "reserve_phase d q corr tx at w2 = (Inr t, w3)" "submit_sale d q corr tx t w3 = (Inr x, w')"
proof -
  from run obtain tx w1 at w2 y w3 where s: "newId d ''txn'' w = (Inr tx, w1)" "now d w1 = (Inr at, w2)"
    and c: "try_catch (bnd (reserve_phase d q corr tx at) (\<lambda>t. ret (Inr t)))
                    (\<lambda>e. ret (Inl (reserve_refusal q corr e))) w2 = (Inr y, w3)"
    and b: "(case y of Inl z \<Rightarrow> ret z | Inr t \<Rightarrow> submit_sale d q corr tx t) w3 = (Inr x, w')"
    by (auto simp: attempt_sale_def bnd_Inr)
  have db: "w_db w2 = w_db w" "w_calls w2 = w_calls w" using s by (auto simp: newId_def now_def)
  obtain z where z: "reserve_phase d q corr tx at w2 = (z, w3)" "\<forall>t. y = Inr t \<longrightarrow> z = Inr t"
    "\<forall>v. y = Inl v \<longrightarrow> (\<exists>e. z = Inl e) \<and> refusal v"
    using c by (auto simp: try_catch_def bnd_def ret_def reserve_refusal_refuses split: prod.splits sum.splits)
  show thesis
  proof (cases y)
    case (Inl v)
    then obtain e where "reserve_phase d q corr tx at w2 = (Inl e, w3)" "refusal v" using z by auto
    then have "w_db w3 = w_db w2" "w_calls w3 = w_calls w2" "refusal v"
      using db_transaction_rollback keepsD [OF steady_service.keeps_reserve_phase]
      unfolding reserve_phase_def steady_def by blast+
    then show thesis using refused b Inl db by simp
  next
    case (Inr t)
    then show thesis using reserved [OF s] z b by auto
  qed
qed

text \<open>The world in which a request is refused: the one it came to, or the one the provider's health check left.\<close>

definition checked_from :: "sale_deps \<Rightarrow> world \<Rightarrow> world \<Rightarrow> bool" where
  "checked_from d w v \<longleftrightarrow>
     w_db v = w_db w \<and> w_calls v = w_calls w \<or>
     (\<exists>u h. w_db u = w_db w \<and> w_calls u = w_calls w \<and> healthCheck d u = (Inr h, v))"

text \<open>A request is refused there, or comes to be submitted with its reservation made.\<close>

lemma createSale_course:
  assumes run: "createSale d q w = (Inr x, w')" and provider: "provider_evolves d" and ids: "fresh_ids d" and ok: "sale_ok d w"
  obtains (refused) v where "refusal x" "checked_from d w v" "w_db w' = w_db v" "w_calls w' = w_calls v"
  | (submitted) corr t v where "submit_sale d q corr (tx_id t) t v = (Inr x, w')" "sale_running d q (tx_id t) v"
  using run
proof (cases rule: createSale_cases)
  case (answered corr w1 y)
  have "refusal y" using answered guards_refuse by blast
  then show thesis using refused [of w] answered by (auto simp: checked_from_def quiet_def same_calls_def)
next
  case (checked corr w1)
  from checked(5) obtain h w2 where h: "healthCheck d w1 = (Inr h, w2)"
    and body: "(if \<not> h then ret (reject PROVIDER_UNAVAILABLE corr ''PROVIDER_UNHEALTHY'' SHOW_PROVIDER_UNAVAILABLE_NO_CHARGE
                (Some (deriveIdempotencyKey (intent_of q))) None)
     else attempt_sale d q corr) w2 = (Inr x, w')"
    by (auto simp: checked_sale_def bnd_Inr)
  have "w_db w1 = w_db w" "w_calls w1 = w_calls w" using checked(1,2) by (auto simp: quiet_def same_calls_def)
  then have from_w: "checked_from d w w2" using h by (auto simp: checked_from_def)
  show thesis
  proof (cases h)
    case False
    then show thesis using refused [OF _ from_w] body by (simp add: refusal_def reject_def)
  next
    case True
    have "evolves d w w2"
      using evolve.trans [OF evolves_quiet [OF checked(1)]] h provider_calls_evolve(1) [OF provider] keepsD by blast
    then have ok2: "sale_ok d w2" using ok by (simp add: evolves_def)
    have "attempt_sale d q corr w2 = (Inr x, w')" using body True by simp
    then show thesis
    proof (cases rule: attempt_sale_cases)
      case refused
      then show thesis using that(1) [OF _ from_w] by blast
    next
      case (reserved tx at w3 w4 t w5)
      note n = reserved(1,2)
      have known: "known_id d ''txn'' tx w4" using n by (auto simp: newId_def now_def known_id_def)
      have fresh: "tx \<notin> tw_id ` set (transactions (w_db w4))"
      proof
        assume "tx \<in> tw_id ` set (transactions (w_db w4))"
        then have "known_id d ''txn'' tx w2" using ok2 n by (auto simp: newId_def now_def sale_ok_def)
        then show False using ids n by (auto simp: fresh_ids_def newId_def known_id_def dest: injD)
      qed
      have e4: "evolves d w2 w4" using n quiet_newId quiet_now keepsD evolves_quiet evolve.trans by meson
      then have ok4: "sale_ok d w4" using ok2 by (simp add: evolves_def)
      note eff = reserve_phase_effect [OF reserved(3) ok4 _ known fresh]
      have "tx_id t = tx" "sale_running d q tx w5"
        using eff ids ok4 known known_id_mono by (auto simp: fresh_ids_def sale_running_def evolves_def)
      then show thesis using submitted reserved(4) by blast
    qed
  qed
qed

section \<open>Outcomes\<close>

lemma submit_sale_outcome:
  assumes run: "submit_sale d q corr (tx_id t) t w = (Inr x, w')" and out: "isOutcome x" and provider: "provider_evolves d"
    and running: "sale_running d q (tx_id t) w" and safe: "safe_money (rq_amount q)"
  obtains p r w2 where "outcome_phase d q corr (tx_id t) p r w2 = (Inr x, w')" "tx_id p = tx_id t" "sale_running d q (tx_id t) w2"
proof -
  from run obtain p w1 y w2 where p: "processing_phase d q corr t w = (Inr p, w1)"
    and s: "submit_phase d q corr (tx_id t) p w1 = (Inr y, w2)"
    and b: "(case y of Inl z \<Rightarrow> ret z | Inr o' \<Rightarrow> outcome_phase d q corr (tx_id t) p o') w2 = (Inr x, w')"
    by (auto simp: submit_sale_def bnd_Inr)
  have id: "tx_id p = tx_id t" and e1: "evolves d w w1"
    using processing_phase_effect [OF p] running by (auto simp: sale_running_def)
  note running1 = sale_running_evolves [OF running e1]
  have running2: "sale_running d q (tx_id t) w2"
    using submit_phase_evolves [OF _ provider _ safe] s running1 id sale_running_evolves by metis
  show thesis
  proof (cases y)
    case (Inl z)
    have "\<not> isOutcome z" using s Inl
      by (auto simp: submit_phase_def Let_def try_catch_def bnd_def seq_def ret_def reject_def split: prod.splits sum.splits if_splits)
    then show thesis using b Inl out by simp
  next
    case (Inr r)
    then show thesis using that b id running2 by auto
  qed
qed

lemma refusal_no_outcome: "refusal x \<Longrightarrow> \<not> isOutcome x"
  by (cases x) (simp_all add: refusal_def)

lemma createSale_outcome:
  assumes run: "createSale d q w = (Inr x, w')" and out: "isOutcome x" and provider: "provider_evolves d" and ids: "fresh_ids d"
    and ok: "sale_ok d w" and safe: "safe_money (rq_amount q)"
  obtains corr tx p r w2 where "outcome_phase d q corr tx p r w2 = (Inr x, w')" "tx_id p = tx" "sale_running d q tx w2"
  using run provider ids ok
proof (cases rule: createSale_course)
  case (refused v)
  then show thesis using out refusal_no_outcome by blast
next
  case (submitted corr t v)
  show thesis by (rule submit_sale_outcome [OF submitted(1) out provider submitted(2) safe]) (use that in auto)
qed

text \<open>A sale in a state, its reservation in another.\<close>

definition sale_stands :: "string \<Rightarrow> tx_state \<Rightarrow> reservation_state \<Rightarrow> world \<Rightarrow> bool" where
  "sale_stands tx s rs w \<longleftrightarrow>
     (\<exists>t\<in>set (transactions (w_db w)). tw_id t = tx \<and> tw_state t = s) \<and>
     (\<exists>r\<in>set (balance_reservations (w_db w)). rr_transactionId r = tx \<and> rr_status r = rs)"

lemma sale_stands_same: "same_on money_tables w w' \<Longrightarrow> sale_stands tx s rs w \<Longrightarrow> sale_stands tx s rs w'"
  by (simp add: sale_stands_def same_on_def money_tables_def)

lemma result_same_money: "recordIdempotencyResult m k s t w = (Inr u, w') \<Longrightarrow> same_on money_tables w w'"
  by (auto simp: recordIdempotencyResult_def same_on_def money_tables_def)

lemma resolve_stands:
  assumes run: "resolve_reservation c source target es a k w = (Inr u, w')" and source: "source \<in> {HELD, RES_UNDER_REVIEW}"
    and ok: "sale_ok d w" and t: "t \<in> set (transactions (w_db w))" "tw_id t = oc_transactionId c" "tw_state t = s"
  shows "sale_stands (oc_transactionId c) s target w'"
proof -
  have ids: "distinct (map rr_id (balance_reservations (w_db w)))"
    using ok by (simp add: sale_ok_def ledger_ok_def reservations_ok_def)
  obtain row :: reservation_row where
    found: "findReservation (w_db w) (oc_transactionId c) (Some (oc_merchantId c)) = Some row" "rr_status row = source"
    and rs: "balance_reservations (w_db w') =
       update_where (\<lambda>r. rr_id r = rr_id row \<and> rr_status r = source) (set_reservation (oc_at c) target) (balance_reservations (w_db w))"
    and frame: "ledger_frame w w'"
    by (rule resolve_reservation_effect [OF run source ids])
  have row: "row \<in> set (balance_reservations (w_db w))" "rr_transactionId row = oc_transactionId c"
    using findReservation_SomeD [OF found(1)] by auto
  have "set_reservation (oc_at c) target row \<in> set (balance_reservations (w_db w'))"
    unfolding rs using row(1) found(2) by (force simp: update_where_def)
  then have "\<exists>r\<in>set (balance_reservations (w_db w')). rr_transactionId r = oc_transactionId c \<and> rr_status r = target"
    by (rule bexI [rotated]) (use row in \<open>simp add: set_reservation_def\<close>)
  moreover have "transactions (w_db w') = transactions (w_db w)"
    using ledger_frame_fields [OF frame] rest_of_fields(1) by blast
  ultimately show ?thesis using t by (auto simp: sale_stands_def)
qed

lemma success_phase_stands:
  assumes run: "success_phase d q corr tx p at ref w = (Inr x, w')" and id: "tx_id p = tx"
    and running: "sale_running d q tx w"
  shows "sale_stands tx SUCCESSFUL SETTLED w'"
proof (rule success_phase_parts [OF run])
  fix t share bps c wa wb wc wd we
  assume t: "transitionTo p SUCCESSFUL at (Some ''provider confirmed delivery'') ref = Inr t"
    and s: "persist d q t w = (Inr (), wa)" "quiet wa wb" "sale_context d q tx at corr wb = (Inr c, wc)"
      "finalizeSuccess c (Some share) (Some bps) wc = (Inr (), wd)" "quiet wd we"
      "recordIdempotencyResult (rq_merchantId q) (deriveIdempotencyKey (intent_of q)) SUCCESSFUL at we = (Inr (), w')"
  note t' = transitionTo_Inr [OF t]
  have ea: "evolves d w wa" using persist_evolves [OF s(1)] running t' id by (simp add: sale_running_def)
  have q: "quiet wa wc" using quiet.trans [OF s(2) quiet_steps(3) [OF s(3)]] .
  have okc: "sale_ok d wc" using evolve.trans [OF ea evolves_quiet [OF q]] running by (simp add: evolves_def sale_running_def)
  obtain row where "row \<in> set (transactions (w_db wa))" "tw_id row = tx" "tw_state row = SUCCESSFUL"
    using saveTransaction_row [OF s(1) [unfolded persist_def]] t' id by auto
  then have row: "row \<in> set (transactions (w_db wc))" "tw_id row = oc_transactionId c" "tw_state row = SUCCESSFUL"
    using q sale_context_Inr [OF s(3)] by (auto simp: quiet_def same_on_def money_tables_def)
  have "sale_stands (oc_transactionId c) SUCCESSFUL SETTLED wd"
    by (rule resolve_stands [OF s(4) [unfolded finalizeSuccess_def Let_def] _ okc row]) simp
  then show ?thesis
    using sale_stands_same s(5) result_same_money [OF s(6)] sale_context_Inr [OF s(3)] by (auto simp: quiet_def)
qed

lemma failure_phase_stands:
  assumes run: "failure_phase d q corr tx p at ref cat w = (Inr x, w')" and id: "tx_id p = tx"
    and running: "sale_running d q tx w"
  shows "sale_stands tx FAILED RELEASED w'"
proof (rule failure_phase_parts [OF run])
  fix t c wa wc wd we
  assume t: "transitionTo p FAILED at (Some ''provider confirmed failure'') ref = Inr t"
    and s: "persist d q t w = (Inr (), wa)" "sale_context d q tx at corr wa = (Inr c, wc)"
      "release c wc = (Inr (), wd)" "quiet wd we"
      "recordIdempotencyResult (rq_merchantId q) (deriveIdempotencyKey (intent_of q)) FAILED at we = (Inr (), w')"
  note t' = transitionTo_Inr [OF t]
  have ea: "evolves d w wa" using persist_evolves [OF s(1)] running t' id by (simp add: sale_running_def)
  note q = quiet_steps(3) [OF s(2)]
  have okc: "sale_ok d wc" using evolve.trans [OF ea evolves_quiet [OF q]] running by (simp add: evolves_def sale_running_def)
  obtain row where "row \<in> set (transactions (w_db wa))" "tw_id row = tx" "tw_state row = FAILED"
    using saveTransaction_row [OF s(1) [unfolded persist_def]] t' id by auto
  then have row: "row \<in> set (transactions (w_db wc))" "tw_id row = oc_transactionId c" "tw_state row = FAILED"
    using q sale_context_Inr [OF s(2)] by (auto simp: quiet_def same_on_def money_tables_def)
  have "sale_stands (oc_transactionId c) FAILED RELEASED wd"
    by (rule resolve_stands [OF s(3) [unfolded release_def] _ okc row]) simp
  then show ?thesis
    using sale_stands_same s(4) result_same_money [OF s(5)] sale_context_Inr [OF s(2)] by (auto simp: quiet_def)
qed

lemma releaseQuietly_stands:
  assumes run: "releaseQuietly d q tx p corr w = (Inr u, w')" and id: "tx_id p = tx" and running: "sale_running d q tx w"
  shows "sale_stands tx FAILED RELEASED w'"
proof -
  from run [unfolded releaseQuietly_def db_transaction_Inr] obtain at w1 t w2 c w3 where n: "now d w = (Inr at, w1)"
    and t: "transitionTo p FAILED at (Some ''refused: live mode'') None = Inr t" and s: "persist d q t w1 = (Inr (), w2)"
      "sale_context d q tx at corr w2 = (Inr c, w3)" "release c w3 = (Inr u, w')"
    by (auto simp: bnd_Inr seq_Inr)
  note t' = transitionTo_Inr [OF t]
  have running1: "sale_running d q tx w1" by (rule sale_running_evolves [OF running evolves_quiet [OF keepsD [OF quiet_now n]]])
  have e2: "evolves d w1 w2" using persist_evolves [OF s(1)] running1 t' id by (simp add: sale_running_def)
  note q = quiet_steps(3) [OF s(2)]
  have ok3: "sale_ok d w3" using evolve.trans [OF e2 evolves_quiet [OF q]] running1 by (simp add: evolves_def sale_running_def)
  obtain row where "row \<in> set (transactions (w_db w2))" "tw_id row = tx" "tw_state row = FAILED"
    using saveTransaction_row [OF s(1) [unfolded persist_def]] t' id by auto
  then have row: "row \<in> set (transactions (w_db w3))" "tw_id row = oc_transactionId c" "tw_state row = FAILED"
    using q sale_context_Inr [OF s(2)] by (auto simp: quiet_def same_on_def money_tables_def)
  have "sale_stands (oc_transactionId c) FAILED RELEASED w'"
    by (rule resolve_stands [OF s(3) [unfolded release_def] _ ok3 row]) simp
  then show ?thesis using sale_context_Inr [OF s(2)] by simp
qed

text \<open>A rejection after the reservation: the provider refused to trade at all, and the value has gone back.\<close>

lemma submit_sale_rejected:
  assumes run: "submit_sale d q corr (tx_id t) t w = (Inr x, w')" and out: "\<not> isOutcome x" and provider: "provider_evolves d"
    and running: "sale_running d q (tx_id t) w"
  shows "(\<exists>j. x = Rejected SIMULATED_ONLY j \<and> rj_transactionId j = Some (tx_id t)) \<and> sale_stands (tx_id t) FAILED RELEASED w'"
proof -
  from run obtain p w1 y w2 where p: "processing_phase d q corr t w = (Inr p, w1)"
    and s: "submit_phase d q corr (tx_id t) p w1 = (Inr y, w2)"
    and b: "(case y of Inl z \<Rightarrow> ret z | Inr o' \<Rightarrow> outcome_phase d q corr (tx_id t) p o') w2 = (Inr x, w')"
    by (auto simp: submit_sale_def bnd_Inr)
  have id: "tx_id p = tx_id t" and e1: "evolves d w w1"
    using processing_phase_effect [OF p] running by (auto simp: sale_running_def)
  note running1 = sale_running_evolves [OF running e1]
  from b obtain z where y: "y = Inl z" "x = z" "w2 = w'" using out outcome_phase_outcome by (cases y) auto
  let ?r = "\<lparr>ar_transactionId = tx_id t, ar_merchantId = rq_merchantId q, ar_productId = rq_productId q,
      ar_amount = rq_amount q, ar_recipient = rq_recipient q, ar_idempotencyKey = deriveIdempotencyKey (intent_of q)\<rparr>"
  let ?c = "\<lparr>pc_providerId = sd_providerId d, pc_deviceId = rq_deviceId q, pc_mode = sd_mode d, pc_timeoutMs = providerTimeout d\<rparr>"
  obtain a v where m: "submit d ?r ?c w1 = (a, v)" by (cases "submit d ?r ?c w1")
  have "evolves d w1 v" using m provider_calls_evolve(2) [OF provider] keepsD by blast
  note running2 = sale_running_evolves [OF running1 this]
  have "\<exists>u. releaseQuietly d q (tx_id t) p corr v = (Inr u, w')" "\<exists>j. z = Rejected SIMULATED_ONLY j \<and> rj_transactionId j = Some (tx_id t)"
    using s m y by (auto simp: submit_phase_def Let_def try_catch_def bnd_def seq_def ret_def reject_def split: prod.splits sum.splits if_splits)
  then show ?thesis using releaseQuietly_stands [OF _ id running2] y by blast
qed

text \<open>
  C17. A refusal costs nothing. A request that is rejected without a sale, or recognised as a repetition, leaves the database as it found
  it, or as the provider's health check left it if it came to that, whatever other requests did during the check, and submits nothing to
  the provider. A request rejected with a sale, which happens only when the provider refuses live money during the submission, leaves
  that sale failed and its reservation released. There is no other rejection.
\<close>

theorem refusal_costs_nothing:
  assumes "createSale d q w = (Inr x, w')" and "\<not> isOutcome x"
    and "provider_evolves d" and "fresh_ids d" and "sale_ok d w"
  shows "if refusal x then \<exists>v. checked_from d w v \<and> w_db w' = w_db v \<and> w_calls w' = w_calls v
    else \<exists>j tx. x = Rejected SIMULATED_ONLY j \<and> rj_transactionId j = Some tx \<and> sale_stands tx FAILED RELEASED w'"
  using assms(1,3-5)
proof (cases rule: createSale_course)
  case (refused v)
  then show ?thesis by auto
next
  case (submitted corr t v)
  from submit_sale_rejected [OF submitted(1) assms(2,3) submitted(2)] submit_sale_no_refusal [OF submitted(1)]
  show ?thesis by auto
qed

lemma shop_poor: "case createSale (shop_deps CONFIRMED_SUCCESS ST_STILL_PENDING) shop_request shop_world of (r, w) \<Rightarrow>
    r = Inr (reject INSUFFICIENT_BALANCE ''c1'' ''INSUFFICIENT_AVAILABLE_BALANCE'' SHOW_VALIDATION_ERROR (Some ''idem_004f0fcf'') None)"
  by (simp add: run_all run_start reserve_refusal_def cong: run_congs)

theorem refusal_costs_nothing_witness:
  "w_db (snd (createSale (shop_deps CONFIRMED_SUCCESS ST_STILL_PENDING) shop_request shop_world)) = w_db shop_world"
proof -
  let ?d = "shop_deps CONFIRMED_SUCCESS ST_STILL_PENDING"
  let ?x = "reject INSUFFICIENT_BALANCE ''c1'' ''INSUFFICIENT_AVAILABLE_BALANCE'' SHOW_VALIDATION_ERROR (Some ''idem_004f0fcf'') None"
  obtain w where run: "createSale ?d shop_request shop_world = (Inr ?x, w)" using shop_poor by (auto split: prod.splits)
  have "checked_from ?d shop_world v \<Longrightarrow> w_db v = w_db shop_world" for v
    by (auto simp: checked_from_def healthCheck_def seq_def bnd_def log_call_def shop_deps_fields ret_def)
  then show ?thesis
    using refusal_costs_nothing [OF run _ shop_provider_evolves shop_fresh_ids shop_start] by (auto simp: run reject_def refusal_def)
qed

text \<open>What the store must show for a result.\<close>

definition result_stands :: "sale_result \<Rightarrow> world \<Rightarrow> bool" where
  "result_stands x w =
     (case x of
        Successful o' \<Rightarrow> sale_stands (so_transactionId o') SUCCESSFUL SETTLED w
      | Failed o' \<Rightarrow> sale_stands (so_transactionId o') FAILED RELEASED w
      | Pending o' deadline \<Rightarrow> (\<exists>t\<in>set (transactions (w_db w)). tw_id t = so_transactionId o' \<and> tw_state t = PENDING)
      | _ \<Rightarrow> False)"

text \<open>
  C18. A result means what it says: when \<open>createSale\<close> returns an outcome, a successful one has its sale SUCCESSFUL and
  its reservation settled, a failed one its sale FAILED and its reservation released, a pending one
  its sale PENDING; and no other outcome is ever returned. Whatever other requests did while the provider was awaited.
\<close>

theorem createSale_result_stands:
  assumes "createSale d q w = (Inr x, w')" and "isOutcome x"
    and "provider_evolves d" and "fresh_ids d" and "sale_ok d w" and "safe_money (rq_amount q)"
  shows "result_stands x w'"
proof (rule createSale_outcome [OF assms])
  fix corr tx p r w2
  assume run: "outcome_phase d q corr tx p r w2 = (Inr x, w')" and id: "tx_id p = tx" and running: "sale_running d q tx w2"
  obtain state ref cat where r: "r = (state, ref, cat)" by (cases r) auto
  show ?thesis
  proof (rule outcome_phase_Inr [OF run [unfolded r]])
    fix at w1
    assume q: "quiet w2 w1" and body: "(if state = SUCCESSFUL then success_phase d q corr tx p at ref
      else if state = FAILED then failure_phase d q corr tx p at ref cat
      else pending_phase d q corr tx p at ref cat) w1 = (Inr x, w')"
    note running1 = sale_running_evolves [OF running evolves_quiet [OF q]]
    consider (success) "success_phase d q corr tx p at ref w1 = (Inr x, w')"
      | (failure) "failure_phase d q corr tx p at ref cat w1 = (Inr x, w')"
      | (pending) "pending_phase d q corr tx p at ref cat w1 = (Inr x, w')"
      using body by (auto split: if_splits)
    then show ?thesis
    proof cases
      case success
      have "x = successful_result tx corr (deriveIdempotencyKey (intent_of q)) ref"
        by (rule success_phase_parts [OF success])
      then show ?thesis using success_phase_stands [OF success id running1] by (simp add: result_stands_def successful_result_def)
    next
      case failure
      have "x = failed_result tx corr (deriveIdempotencyKey (intent_of q)) ref cat"
        by (rule failure_phase_parts [OF failure])
      then show ?thesis using failure_phase_stands [OF failure id running1] by (simp add: result_stands_def failed_result_def)
    next
      case pending
      show ?thesis
      proof (rule pending_phase_parts [OF pending])
        fix t deadline wa
        assume t: "transitionTo p PENDING at (Some ''no provider response'') ref = Inr t"
          and s: "persist d q t w1 = (Inr (), wa)" "quiet wa w'"
          and x: "x = pending_result tx corr (deriveIdempotencyKey (intent_of q)) ref cat deadline"
        have "\<exists>u\<in>set (transactions (w_db wa)). tw_id u = tx \<and> tw_state u = PENDING"
          using saveTransaction_row [OF s(1) [unfolded persist_def]] transitionTo_Inr [OF t] id by simp
        then show ?thesis using s(2) by (simp add: x result_stands_def pending_result_def quiet_def same_on_def money_tables_def)
      qed
    qed
  qed
qed

theorem createSale_result_stands_witness:
  "sale_stands ''txn_'' SUCCESSFUL SETTLED world_sold"
proof -
  let ?d = "shop_deps CONFIRMED_SUCCESS ST_STILL_PENDING"
  let ?x = "successful_result ''txn_'' ''c1'' ''idem_004f0fcf'' (Some ''ref1'')"
  have run: "createSale ?d shop_request shop_funded = (Inr ?x, world_sold)"
    by (rule shop_sells)
  have "sale_ok ?d shop_funded"
    using service_step_evolves [OF shop_provider_evolves shop_fresh_ids shop_deposit] shop_start by (simp add: evolves_def)
  then show ?thesis
    using createSale_result_stands [OF run _ shop_provider_evolves shop_fresh_ids _ safe_request]
    by (simp add: result_stands_def successful_result_def)
qed

end
