(* ===== verification/Software_Fee.thy ===== *)
theory Software_Fee
  imports Guarantees Evaluation
begin

text \<open>
  The month-end software fee run (\<open>services/worker/src/softwareFeeRun.ts\<close>): every active shop is charged for the
  month that ended, then the months owed from before are retried, oldest first. The dependencies are the clock and
  the identifiers of \<open>sale_deps\<close>.
\<close>

section \<open>Periods\<close>

fun split_on :: "char \<Rightarrow> string \<Rightarrow> string list" where
  "split_on c [] = [[]]"
| "split_on c (x # xs) =
     (if x = c then [] # split_on c xs
      else case split_on c xs of [] \<Rightarrow> [[x]] | y # ys \<Rightarrow> (x # y) # ys)"

text \<open>\<open>String(n)\<close> of a number that is an integer or NaN.\<close>

definition js_show :: "jsnum \<Rightarrow> string" where
  "js_show n = (case n of JInt x \<Rightarrow> dec_int x | JNotInt \<Rightarrow> ''NaN'')"

definition js_minus_one :: "jsnum \<Rightarrow> jsnum" where
  "js_minus_one n = (case n of JInt x \<Rightarrow> JInt (js_add x (- 1)) | JNotInt \<Rightarrow> JNotInt)"

text \<open>A missing part reads as \<open>undefined\<close>, which arithmetic turns into NaN.\<close>

definition previousPeriod :: "timestamp \<Rightarrow> string" where
  "previousPeriod at =
     (let parts = map js_number (split_on (CHR ''-'') (periodOf at));
          year = (if parts = [] then JNotInt else hd parts);
          month = (case parts of _ # m # _ \<Rightarrow> m | _ \<Rightarrow> JNotInt);
          (y, m) = (if month = JInt 1 then (js_minus_one year, JInt 12) else (year, js_minus_one month))
      in js_show y @ ''-'' @ pad_start 2 (CHR ''0'') (js_show m))"

section \<open>The run\<close>

record fee_run =
  fr_period :: string
  fr_charged :: int
  fr_chargedMinor :: int
  fr_arrears :: int
  fr_arrearsMinor :: int
  fr_alreadyCharged :: int
  fr_recovered :: int
  fr_recoveredMinor :: int

definition emptyResult :: "string \<Rightarrow> fee_run" where
  "emptyResult period =
     \<lparr>fr_period = period, fr_charged = 0, fr_chargedMinor = 0, fr_arrears = 0, fr_arrearsMinor = 0,
      fr_alreadyCharged = 0, fr_recovered = 0, fr_recoveredMinor = 0\<rparr>"

definition count_charge :: "fee_outcome \<Rightarrow> fee_run \<Rightarrow> fee_run" where
  "count_charge x r =
     (case x of
        FeeCharged a \<Rightarrow> r\<lparr>fr_charged := js_add (fr_charged r) 1, fr_chargedMinor := js_add (fr_chargedMinor r) a\<rparr>
      | FeeArrears a _ \<Rightarrow> r\<lparr>fr_arrears := js_add (fr_arrears r) 1, fr_arrearsMinor := js_add (fr_arrearsMinor r) a\<rparr>
      | FeeAlreadyCharged \<Rightarrow> r\<lparr>fr_alreadyCharged := js_add (fr_alreadyCharged r) 1\<rparr>)"

definition count_recovery :: "fee_outcome \<Rightarrow> fee_run \<Rightarrow> fee_run" where
  "count_recovery x r =
     (case x of
        FeeCharged a \<Rightarrow> r\<lparr>fr_recovered := js_add (fr_recovered r) 1, fr_recoveredMinor := js_add (fr_recoveredMinor r) a\<rparr>
      | _ \<Rightarrow> r)"

text \<open>The loop over the shops, then the loop over what is owed.\<close>

fun charge_shops :: "sale_deps \<Rightarrow> string \<Rightarrow> int \<Rightarrow> timestamp \<Rightarrow> string list \<Rightarrow> fee_run \<Rightarrow> fee_run prog" where
  "charge_shops d period amount at [] r = ret r"
| "charge_shops d period amount at (m # ms) r =
     bnd (newId d ''sfee'') (\<lambda>i.
     bnd (newId d ''post'') (\<lambda>p.
     bnd (chargeSoftwareFee \<lparr>hi_id = i, hi_merchantId = m, hi_period = period, hi_amountMinor = amount,
                            hi_postingId = p, hi_at = at\<rparr>) (\<lambda>x.
     charge_shops d period amount at ms (count_charge x r))))"

fun retry_owed :: "sale_deps \<Rightarrow> string \<Rightarrow> timestamp \<Rightarrow> charge_row list \<Rightarrow> fee_run \<Rightarrow> fee_run prog" where
  "retry_owed d period at [] r = ret r"
| "retry_owed d period at (c # cs) r =
     (if gw_period c = period then retry_owed d period at cs r
      else
        bnd (newId d ''post'') (\<lambda>p.
        bnd (chargeSoftwareFee \<lparr>hi_id = gw_id c, hi_merchantId = gw_merchantId c, hi_period = gw_period c,
                               hi_amountMinor = gw_amountMinor c, hi_postingId = p, hi_at = at\<rparr>) (\<lambda>x.
        retry_owed d period at cs (count_recovery x r))))"

definition runSoftwareFeeCharges :: "sale_deps \<Rightarrow> string option \<Rightarrow> fee_run prog" where
  "runSoftwareFeeCharges d period =
     bnd (now d) (\<lambda>at.
     let forPeriod = or_else period (periodOf at) in
     bnd readPlatformFeeSettings (\<lambda>fees.
     if \<not> fs_softwareFeeEnabled fees then ret (emptyResult forPeriod)
     else if fs_softwareFeeMinor fees \<le> 0 then ret (emptyResult forPeriod)
     else
       bnd (get_db activeMerchantIds) (\<lambda>shops.
       bnd (charge_shops d forPeriod (fs_softwareFeeMinor fees) at shops (emptyResult forPeriod)) (\<lambda>r.
       bnd (get_db (\<lambda>s. outstandingCharges s None)) (\<lambda>owed.
       retry_owed d forPeriod at owed r)))))"

definition runDueSoftwareFees :: "sale_deps \<Rightarrow> fee_run prog" where
  "runDueSoftwareFees d =
     bnd (now d) (\<lambda>at.
     let due = previousPeriod at in
     bnd readPlatformFeeSettings (\<lambda>fees.
     case fs_softwareFeeFirstPeriod fees of
       None \<Rightarrow>
         seq (writePlatformFeeSettings
                \<lparr>fu_defaultCommissionBps = None, fu_shopShareBps = None, fu_cardFeeBps = None, fu_softwareFeeMinor = None,
                 fu_softwareFeeEnabled = None, fu_softwareFeeFirstPeriod = Some (periodOf at), fu_adminId = ''system'', fu_at = at\<rparr>)
             (ret (emptyResult due))
     | Some first \<Rightarrow>
         if due < first then ret (emptyResult due) else runSoftwareFeeCharges d (Some due)))"

section \<open>What a shop has paid\<close>

text \<open>The debits of the fee of one month in the ledger.\<close>

definition fee_debit :: "string \<Rightarrow> string \<Rightarrow> entry_row \<Rightarrow> bool" where
  "fee_debit m period e \<longleftrightarrow>
     ew_merchantId e = Some m \<and> ew_entryType e = FEE_DEBIT \<and> ew_direction e = DEBIT \<and>
     ew_ruleVersion e = Some (''software-fee-'' @ period)"

definition fee_debits :: "db \<Rightarrow> string \<Rightarrow> string \<Rightarrow> nat" where
  "fee_debits s m period = count_where (fee_debit m period) (ledger_entries s)"

definition is_paid :: "db \<Rightarrow> string \<Rightarrow> string \<Rightarrow> bool" where
  "is_paid s m period \<longleftrightarrow> (\<exists>c\<in>set (software_fee_charges s). gw_merchantId c = m \<and> gw_period c = period \<and> gw_status c = PAID)"

definition charge_key :: "charge_row \<Rightarrow> string \<times> string" where
  "charge_key c = (gw_merchantId c, gw_period c)"

definition fees_ok :: "db \<Rightarrow> bool" where
  "fees_ok s \<longleftrightarrow>
     distinct (map charge_key (software_fee_charges s)) \<and>
     (\<forall>m period. fee_debits s m period = (if is_paid s m period then 1 else 0))"


lemma fee_debits_posts:
  assumes "posts s s' es" and "\<forall>e\<in>set es. de_direction e = DEBIT \<longrightarrow> de_merchantId e \<noteq> None"
  shows "fee_debits s' m period = fee_debits s m period +
    length (filter (\<lambda>e. de_merchantId e = Some m \<and> de_reason e = FEE_DEBIT \<and> de_direction e = DEBIT \<and>
      de_ruleVersion e = Some (''software-fee-'' @ period)) es)"
proof -
  obtain rows where s': "ledger_entries s' = ledger_entries s @ rows" and all: "list_all2 mirrors rows es"
    using assms(1) by (auto simp: posts_def)
  have "length (filter (fee_debit m period) rows) =
    length (filter (\<lambda>e. de_merchantId e = Some m \<and> de_reason e = FEE_DEBIT \<and> de_direction e = DEBIT \<and>
      de_ruleVersion e = Some (''software-fee-'' @ period)) es)"
    using all assms(2) by (induction rule: list_all2_induct) (auto simp: mirrors_def fee_debit_def)
  then show ?thesis by (simp add: fee_debits_def count_where_def s')
qed

lemma fee_debits_charge:
  assumes "posts s s' (software_fee_entries i)"
  shows "fee_debits s' m period =
    fee_debits s m period + (if m = hi_merchantId i \<and> period = hi_period i then 1 else 0)"
  using fee_debits_posts [OF assms, of m period] by (auto simp: software_fee_entries_def draft_def Let_def)

lemma findCharge_SomeD:
  "findCharge s m period = Some c \<Longrightarrow> c \<in> set (software_fee_charges s) \<and> gw_merchantId c = m \<and> gw_period c = period"
  unfolding findCharge_def using find_SomeD by fastforce

lemma findCharge_None: "findCharge s m period = None \<Longrightarrow> (m, period) \<notin> charge_key ` set (software_fee_charges s)"
  by (auto simp: findCharge_def find_None_iff charge_key_def)

lemma charge_key_inj:
  "fees_ok s \<Longrightarrow> c \<in> set (software_fee_charges s) \<Longrightarrow> c' \<in> set (software_fee_charges s) \<Longrightarrow> charge_key c = charge_key c' \<Longrightarrow> c = c'"
  unfolding fees_ok_def distinct_map by (blast dest: inj_onD)

text \<open>The three ways a charge ends without an error.\<close>

lemma insert_charge_Inr:
  "insert_charge r w = (Inr u, w') \<Longrightarrow>
   w' = w\<lparr>w_db := (w_db w)\<lparr>software_fee_charges := software_fee_charges (w_db w) @ [r]\<rparr>\<rparr>"
  by (auto simp: insert_charge_def bnd_Inr seq_Inr)

lemma insertArrears_Inr:
  assumes "insertArrears i w = (Inr u, w')"
  obtains "w' = w" | "findCharge (w_db w) (hi_merchantId i) (hi_period i) = None"
    "w' = w\<lparr>w_db := (w_db w)\<lparr>software_fee_charges := software_fee_charges (w_db w) @ [charge_row_of i ARREARS None None]\<rparr>\<rparr>"
proof (cases "findCharge (w_db w) (hi_merchantId i) (hi_period i)")
  case None
  then have "insert_charge (charge_row_of i ARREARS None None) w = (Inr u, w')"
    using assms by (simp add: insertArrears_def bnd_Inr seq_Inr)
  then show ?thesis using None insert_charge_Inr that(2) by blast
next
  case (Some c)
  then show ?thesis using assms that(1) by (simp add: insertArrears_def bnd_Inr seq_Inr)
qed

definition pay_charge :: "charge_input \<Rightarrow> charge_row \<Rightarrow> charge_row" where
  "pay_charge i c = c\<lparr>gw_status := PAID, gw_postingId := Some (hi_postingId i), gw_chargedAt := Some (hi_at i)\<rparr>"

lemma insertPaidCharge_Inr:
  assumes "insertPaidCharge i w = (Inr u, w')"
  obtains
    "findCharge (w_db w) (hi_merchantId i) (hi_period i) = None"
    "w' = w\<lparr>w_db := (w_db w)\<lparr>software_fee_charges := software_fee_charges (w_db w) @
       [charge_row_of i PAID (Some (hi_postingId i)) (Some (hi_at i))]\<rparr>\<rparr>"
  | c where "findCharge (w_db w) (hi_merchantId i) (hi_period i) = Some c"
    "w' = w\<lparr>w_db := (w_db w)\<lparr>software_fee_charges :=
       update_where (\<lambda>c. gw_merchantId c = hi_merchantId i \<and> gw_period c = hi_period i \<and> gw_status c = ARREARS)
         (pay_charge i) (software_fee_charges (w_db w))\<rparr>\<rparr>"
proof (cases "findCharge (w_db w) (hi_merchantId i) (hi_period i)")
  case None
  then have "insert_charge (charge_row_of i PAID (Some (hi_postingId i)) (Some (hi_at i))) w = (Inr u, w')"
    using assms by (simp add: insertPaidCharge_def bnd_Inr seq_Inr)
  then show ?thesis using None insert_charge_Inr that(1) by blast
next
  case (Some c)
  then show ?thesis using assms that(2) by (simp add: insertPaidCharge_def bnd_Inr seq_Inr pay_charge_def [abs_def])
qed

lemma chargeSoftwareFee_cases:
  assumes run: "chargeSoftwareFee i w = (Inr x, w')"
  obtains
    (closed) c where "findCharge (w_db w) (hi_merchantId i) (hi_period i) = Some c" "gw_status c \<noteq> ARREARS"
      "x = FeeAlreadyCharged" "w' = w"
  | (owed) a where "insertArrears i w = (Inr (), w')" "x = FeeArrears (hi_amountMinor i) a"
  | (taken) w2 where "posts (w_db w) (w_db w2) (software_fee_entries i)"
      "software_fee_charges (w_db w2) = software_fee_charges (w_db w)"
      "\<And>c. findCharge (w_db w) (hi_merchantId i) (hi_period i) = Some c \<Longrightarrow> gw_status c = ARREARS"
      "insertPaidCharge i w2 = (Inr (), w')" "x = FeeCharged (hi_amountMinor i)"
proof -
  from run consider (finished) c where "findCharge (w_db w) (hi_merchantId i) (hi_period i) = Some c" "gw_status c \<noteq> ARREARS"
      "x = FeeAlreadyCharged" "w' = w"
    | (collect) "collect_fee i w = (Inr x, w')"
      "\<And>c. findCharge (w_db w) (hi_merchantId i) (hi_period i) = Some c \<Longrightarrow> gw_status c = ARREARS"
    by (auto simp: chargeSoftwareFee_def bnd_Inr split: option.splits if_splits)
  then show thesis
  proof cases
    case finished
    then show ?thesis using closed by blast
  next
    case collect
    from collect(1) obtain view where "balanceFor (w_db w) (hi_merchantId i) = Inr view" and
      body: "(if minor (bv_available view) < hi_amountMinor i then
           seq (insertArrears i) (ret (FeeArrears (hi_amountMinor i) (minor (bv_available view))))
         else
           seq (ensureAccounts (hi_merchantId i) (hi_at i))
           (seq (appendEntries (simple_posting (hi_postingId i) (''software-fee-'' @ hi_period i) (hi_at i) (software_fee_entries i)))
           (seq (insertPaidCharge i) (ret (FeeCharged (hi_amountMinor i)))))) w = (Inr x, w')"
      by (auto simp: collect_fee_def bnd_Inr)
    show ?thesis
    proof (cases "minor (bv_available view) < hi_amountMinor i")
      case True
      then show ?thesis using body owed by (auto simp: seq_Inr)
    next
      case False
      with body obtain w1 w2 where ens: "ensureAccounts (hi_merchantId i) (hi_at i) w = (Inr (), w1)"
        and app: "appendEntries (simple_posting (hi_postingId i) (''software-fee-'' @ hi_period i) (hi_at i) (software_fee_entries i)) w1 = (Inr (), w2)"
        and paid: "insertPaidCharge i w2 = (Inr (), w')" and x: "x = FeeCharged (hi_amountMinor i)"
        by (auto simp: seq_Inr)
      obtain acc where w1: "w1 = w\<lparr>w_db := (w_db w)\<lparr>ledger_accounts := acc\<rparr>\<rparr>" using ens by (rule ensureAccounts_effect)
      obtain rows where rows: "w2 = w1\<lparr>w_db := (w_db w1)\<lparr>ledger_entries := ledger_entries (w_db w1) @ rows\<rparr>\<rparr>"
        "list_all2 mirrors rows (software_fee_entries i)" "fresh_rows (ledger_entries (w_db w1)) rows"
        using app by (rule appendEntries_effect) (simp add: simple_posting_def)
      show ?thesis
        by (rule taken [of w2]) (use rows paid x collect(2) in \<open>auto simp: posts_def w1\<close>)
    qed
  qed
qed

text \<open>Every month is paid by one debit or by none, whatever is run and however often.\<close>

lemma fees_ok_add:
  assumes ok: "fees_ok s" and new: "charge_key c \<notin> charge_key ` set (software_fee_charges s)"
    and charges: "software_fee_charges s' = software_fee_charges s @ [c]"
    and debits: "\<And>m period. fee_debits s' m period =
      fee_debits s m period + (if charge_key c = (m, period) \<and> gw_status c = PAID then 1 else 0)"
  shows "fees_ok s'"
proof -
  have "fee_debits s' m period = (if is_paid s' m period then 1 else 0)" for m period
  proof (cases "charge_key c = (m, period) \<and> gw_status c = PAID")
    case True
    then have "\<not> is_paid s m period" using new by (auto simp: is_paid_def charge_key_def image_iff)
    moreover have "is_paid s' m period" using True charges by (auto simp: is_paid_def charge_key_def)
    ultimately show ?thesis using ok debits [of m period] True by (simp add: fees_ok_def)
  next
    case False
    then have "is_paid s' m period \<longleftrightarrow> is_paid s m period" using charges by (auto simp: is_paid_def charge_key_def)
    moreover have "fee_debits s' m period = fee_debits s m period" using debits [of m period] by (simp only: False if_False add_0_right)
    ultimately show ?thesis using ok by (simp add: fees_ok_def)
  qed
  then show ?thesis using ok new by (simp add: fees_ok_def charges)
qed

text \<open>Changing the status of one shop's month.\<close>

lemma fees_ok_update:
  assumes ok: "fees_ok s"
    and charges: "software_fee_charges s' =
      update_where (\<lambda>c. gw_merchantId c = m \<and> gw_period c = period \<and> gw_status c = ARREARS) f (software_fee_charges s)"
    and key: "\<And>c. charge_key (f c) = charge_key c"
    and status: "\<And>c. gw_status (f c) = target" and open': "target \<noteq> ARREARS"
    and debits: "\<And>m' p'. fee_debits s' m' p' =
      fee_debits s m' p' + (if (\<exists>c\<in>set (software_fee_charges s). charge_key c = (m, period) \<and> gw_status c = ARREARS) \<and>
        target = PAID \<and> (m', p') = (m, period) then 1 else 0)"
  shows "fees_ok s'"
proof -
  let ?hit = "\<lambda>c. gw_merchantId c = m \<and> gw_period c = period \<and> gw_status c = ARREARS"
  have keys: "map charge_key (software_fee_charges s') = map charge_key (software_fee_charges s)"
    by (simp add: charges update_where_def key)
  have "fee_debits s' m' p' = (if is_paid s' m' p' then 1 else 0)" for m' p'
  proof (cases "(m', p') = (m, period) \<and> (\<exists>c\<in>set (software_fee_charges s). ?hit c)")
    case True
    then obtain c where c: "c \<in> set (software_fee_charges s)" "?hit c" and at: "m' = m" "p' = period" by auto
    have only: "c' = c" if "c' \<in> set (software_fee_charges s)" "gw_merchantId c' = m" "gw_period c' = period" for c'
      using charge_key_inj [OF ok that(1) c(1)] that c(2) by (simp add: charge_key_def)
    have "\<not> is_paid s m' p'" unfolding is_paid_def at using only c(2) charge_status.distinct by metis
    moreover have "is_paid s' m' p' \<longleftrightarrow> target = PAID"
    proof
      assume "is_paid s' m' p'"
      then obtain e where e: "e \<in> set (software_fee_charges s)"
        "gw_merchantId (if ?hit e then f e else e) = m" "gw_period (if ?hit e then f e else e) = period"
        "gw_status (if ?hit e then f e else e) = PAID"
        by (auto simp: is_paid_def charges update_where_def at)
      then have "e = c" using only key [of e] by (auto simp: charge_key_def split: if_splits)
      then show "target = PAID" using e(4) c(2) status by simp
    next
      assume "target = PAID"
      then show "is_paid s' m' p'"
        unfolding is_paid_def charges at using c key [of c] status [of c]
        by (intro bexI [of _ "f c"]) (auto simp: charge_key_def update_where_def)
    qed
    ultimately show ?thesis using ok debits [of m' p'] c at by (auto simp: fees_ok_def charge_key_def)
  next
    case False
    have "is_paid s' m' p' \<longleftrightarrow> is_paid s m' p'"
      using False key status by (auto simp: is_paid_def charges update_where_def charge_key_def split: if_splits)
    moreover have "fee_debits s' m' p' = fee_debits s m' p'" using debits [of m' p'] False by (auto simp: charge_key_def)
    ultimately show ?thesis using ok by (simp add: fees_ok_def)
  qed
  then show ?thesis using ok keys by (simp add: fees_ok_def)
qed

lemma fees_ok_cong:
  "fees_ok s \<Longrightarrow> software_fee_charges s' = software_fee_charges s \<Longrightarrow> ledger_entries s' = ledger_entries s \<Longrightarrow> fees_ok s'"
  by (simp add: fees_ok_def fee_debits_def is_paid_def)

lemma chargeSoftwareFee_fees_ok:
  assumes run: "chargeSoftwareFee i w = (r, w')" and ok: "fees_ok (w_db w)"
  shows "fees_ok (w_db w')"
proof (cases r)
  case (Inl e)
  then show ?thesis using run ok db_transaction_rollback unfolding chargeSoftwareFee_def by metis
next
  case (Inr x)
  let ?m = "hi_merchantId i" and ?p = "hi_period i"
  show ?thesis
    using run [unfolded Inr]
  proof (cases rule: chargeSoftwareFee_cases)
    case (closed c)
    then show ?thesis using ok by simp
  next
    case (owed a)
    from owed(1) show ?thesis
    proof (cases rule: insertArrears_Inr)
      case 1
      then show ?thesis using ok by simp
    next
      case 2
      then show ?thesis
        using findCharge_None [OF 2(1)]
        by (intro fees_ok_add [OF ok, of "charge_row_of i ARREARS None None"])
           (simp_all add: charge_row_of_def charge_key_def fee_debits_def)
    qed
  next
    case (taken w2)
    note d = fee_debits_charge [OF taken(1)]
    from taken(4) show ?thesis
    proof (cases rule: insertPaidCharge_Inr)
      case 1
      have "findCharge (w_db w) ?m ?p = None" using 1(1) taken(2) by (simp add: findCharge_def)
      note new = findCharge_None [OF this]
      show ?thesis
        using new d
        by (intro fees_ok_add [OF ok, of "charge_row_of i PAID (Some (hi_postingId i)) (Some (hi_at i))"])
           (auto simp: charge_row_of_def charge_key_def fee_debits_def 1(2) taken(2))
    next
      case (2 c)
      have c: "findCharge (w_db w) ?m ?p = Some c" using 2(1) taken(2) by (simp add: findCharge_def)
      then have owes: "\<exists>c\<in>set (software_fee_charges (w_db w)). charge_key c = (?m, ?p) \<and> gw_status c = ARREARS"
        using findCharge_SomeD [OF c] taken(3) by (auto simp: charge_key_def)
      show ?thesis
        by (rule fees_ok_update [OF ok, of _ ?m ?p "pay_charge i" PAID])
           (use owes d in \<open>auto simp: 2(2) taken(2) pay_charge_def charge_key_def fee_debits_def\<close>)
    qed
  qed
qed

lemma waiveCharge_fees_ok:
  assumes run: "waiveCharge m period reason admin w = (r, w')" and ok: "fees_ok (w_db w)"
  shows "fees_ok (w_db w')"
proof (cases "js_trim reason = []")
  case True
  then show ?thesis using run ok by (simp add: waiveCharge_def)
next
  case False
  let ?f = "\<lambda>c. c\<lparr>gw_status := WAIVED, gw_waivedReason := Some reason, gw_waivedByAdminId := Some admin\<rparr>"
  have w': "w' = w\<lparr>w_db := (w_db w)\<lparr>software_fee_charges :=
      update_where (\<lambda>c. gw_merchantId c = m \<and> gw_period c = period \<and> gw_status c = ARREARS) ?f (software_fee_charges (w_db w))\<rparr>\<rparr>"
    using run False by (auto simp: waiveCharge_def bnd_def seq_def get_db_def put_db_def)
  show ?thesis
    by (rule fees_ok_update [OF ok, of _ m period ?f WAIVED]) (simp_all add: w' charge_key_def fee_debits_def)
qed

section \<open>What a run keeps\<close>

definition fees_kept :: "world \<Rightarrow> world \<Rightarrow> bool" where
  "fees_kept w w' \<longleftrightarrow> (fees_ok (w_db w) \<longrightarrow> fees_ok (w_db w'))"

interpretation fees: guarantee fees_kept
  by unfold_locales (simp_all add: fees_kept_def)

text \<open>The months a shop was charged for are never forgotten, and a settled month is never touched again.\<close>

definition charges_grow :: "world \<Rightarrow> world \<Rightarrow> bool" where
  "charges_grow w w' \<longleftrightarrow>
     charge_key ` set (software_fee_charges (w_db w)) \<subseteq> charge_key ` set (software_fee_charges (w_db w')) \<and>
     (\<forall>c\<in>set (software_fee_charges (w_db w)). gw_status c \<noteq> ARREARS \<longrightarrow> c \<in> set (software_fee_charges (w_db w')))"

interpretation charges: guarantee charges_grow
proof unfold_locales
  fix u v w
  assume "charges_grow u v" "charges_grow v w"
  then show "charges_grow u w" unfolding charges_grow_def by (meson subset_trans)
qed (simp_all add: charges_grow_def)

lemma charges_grow_same: "software_fee_charges (w_db w') = software_fee_charges (w_db w) \<Longrightarrow> charges_grow w w'"
  by (simp add: charges_grow_def)

lemma charges_grow_add: "software_fee_charges (w_db w') = software_fee_charges (w_db w) @ [c] \<Longrightarrow> charges_grow w w'"
  by (auto simp: charges_grow_def)

lemma charges_grow_update:
  assumes "software_fee_charges (w_db w') =
      update_where (\<lambda>c. gw_merchantId c = m \<and> gw_period c = period \<and> gw_status c = ARREARS) f (software_fee_charges (w_db w))"
    and "\<And>c. charge_key (f c) = charge_key c"
  shows "charges_grow w w'"
proof -
  have "charge_key ` set (software_fee_charges (w_db w')) = charge_key ` set (software_fee_charges (w_db w))"
    unfolding assms(1) update_where_def set_map image_image by (rule image_cong) (simp_all add: assms(2))
  then show ?thesis unfolding charges_grow_def by (auto simp: assms(1) update_where_def image_iff)
qed

lemma chargeSoftwareFee_grows: "chargeSoftwareFee i w = (r, w') \<Longrightarrow> charges_grow w w'"
proof (cases r)
  case (Inl e)
  assume "chargeSoftwareFee i w = (r, w')"
  then show ?thesis using Inl db_transaction_rollback charges_grow_same unfolding chargeSoftwareFee_def by metis
next
  case (Inr x)
  assume run: "chargeSoftwareFee i w = (r, w')"
  show ?thesis
    using run [unfolded Inr]
  proof (cases rule: chargeSoftwareFee_cases)
    case (closed c)
    then show ?thesis by (simp add: charges_grow_same)
  next
    case (owed a)
    from owed(1) show ?thesis by (cases rule: insertArrears_Inr) (auto intro: charges_grow_same charges_grow_add)
  next
    case (taken w2)
    from taken(4) show ?thesis
    proof (cases rule: insertPaidCharge_Inr)
      case 1
      then show ?thesis by (intro charges_grow_add) (simp add: taken(2))
    next
      case (2 c)
      then show ?thesis
        by (intro charges_grow_update [where m = "hi_merchantId i" and period = "hi_period i" and f = "pay_charge i"])
           (simp_all add: taken(2) pay_charge_def charge_key_def)
    qed
  qed
qed

lemma chargeSoftwareFee_recorded:
  assumes run: "chargeSoftwareFee i w = (Inr x, w')"
  shows "(hi_merchantId i, hi_period i) \<in> charge_key ` set (software_fee_charges (w_db w'))"
proof -
  let ?k = "(hi_merchantId i, hi_period i)"
  have old: ?thesis if found: "findCharge (w_db w) (hi_merchantId i) (hi_period i) \<noteq> None"
  proof -
    obtain c where "c \<in> set (software_fee_charges (w_db w))" "charge_key c = ?k"
      using found by (auto simp: charge_key_def dest!: findCharge_SomeD)
    then show ?thesis using chargeSoftwareFee_grows [OF run] unfolding charges_grow_def by (metis imageI subsetD)
  qed
  from run show ?thesis
  proof (cases rule: chargeSoftwareFee_cases)
    case (closed c)
    then show ?thesis using old by simp
  next
    case (owed a)
    show ?thesis
    proof (cases "findCharge (w_db w) (hi_merchantId i) (hi_period i)")
      case None
      then show ?thesis
        using owed(1) by (auto simp: insertArrears_def bnd_Inr seq_Inr charge_row_of_def charge_key_def dest!: insert_charge_Inr)
    qed (simp add: old)
  next
    case (taken w2)
    show ?thesis
    proof (cases "findCharge (w_db w) (hi_merchantId i) (hi_period i)")
      case None
      then have "findCharge (w_db w2) (hi_merchantId i) (hi_period i) = None" by (simp add: findCharge_def taken(2))
      with taken(4) show ?thesis
        by (cases rule: insertPaidCharge_Inr) (auto simp: charge_row_of_def charge_key_def)
    qed (simp add: old)
  qed
qed

text \<open>Both relations pass through the loops, as does any guarantee that charging a shop keeps.\<close>

locale charge_guarantee = guarantee +
  fixes allowed :: "string \<Rightarrow> bool"
  assumes of_db: "w_db w' = w_db w \<Longrightarrow> ids_grow w w' \<Longrightarrow> R w w'"
    and of_charge: "allowed (hi_period i) \<Longrightarrow> keeps R (chargeSoftwareFee i)"
begin

lemma keeps_now: "keeps R (now d)"
  by (rule keepsI, rule of_db) (auto simp: now_def ids_grow_def)

lemma keeps_newId: "keeps R (newId d k)"
  by (rule keepsI, rule of_db) (auto simp: newId_def ids_grow_def)

lemma keeps_settings: "keeps R readPlatformFeeSettings"
  unfolding readPlatformFeeSettings_def by (intro keeps_rules)

lemma keeps_charge_shops: "allowed period \<Longrightarrow> keeps R (charge_shops d period amount at ms r)"
  by (induction ms arbitrary: r) (auto intro!: keeps_rules keeps_newId of_charge)

lemma keeps_retry_owed: "\<forall>c\<in>set cs. allowed (gw_period c) \<Longrightarrow> keeps R (retry_owed d period at cs r)"
  by (induction cs arbitrary: r) (auto intro!: keeps_rules keeps_newId of_charge)

end

locale fee_guarantee = charge_guarantee R "\<lambda>_. True" for R +
  assumes of_settings: "keeps R (writePlatformFeeSettings u)"
begin

lemma keeps_run: "keeps R (runSoftwareFeeCharges d period)"
  unfolding runSoftwareFeeCharges_def
  by (intro keeps_rules keeps_now keeps_settings keeps_charge_shops keeps_retry_owed) simp_all

lemma keeps_due: "keeps R (runDueSoftwareFees d)"
  unfolding runDueSoftwareFees_def by (intro keeps_rules keeps_now keeps_settings of_settings keeps_run)

end

lemma writePlatformFeeSettings_frame:
  "writePlatformFeeSettings u w = (r, w') \<Longrightarrow>
   software_fee_charges (w_db w') = software_fee_charges (w_db w) \<and> ledger_entries (w_db w') = ledger_entries (w_db w)"
  by (auto simp: writePlatformFeeSettings_def readPlatformFeeSettings_def bnd_def seq_def get_db_def put_db_def Let_def
      require_run ret_def throw_def split: option.splits if_splits)

interpretation fees_run: fee_guarantee fees_kept
proof unfold_locales
  fix i u
  show "keeps fees_kept (chargeSoftwareFee i)"
    by (rule keepsI) (auto simp: fees_kept_def intro: chargeSoftwareFee_fees_ok)
  show "keeps fees_kept (writePlatformFeeSettings u)"
    by (rule keepsI) (auto simp: fees_kept_def dest: writePlatformFeeSettings_frame intro: fees_ok_cong)
qed (simp add: fees_kept_def)

interpretation charges_run: fee_guarantee charges_grow
proof unfold_locales
  fix i u
  show "keeps charges_grow (chargeSoftwareFee i)" by (rule keepsI) (rule chargeSoftwareFee_grows)
  show "keeps charges_grow (writePlatformFeeSettings u)"
    by (rule keepsI) (auto dest: writePlatformFeeSettings_frame intro: charges_grow_same)
qed (simp add: charges_grow_def)

end
