(* ===== verification/Software_Fee_Properties.thy ===== *)
theory Software_Fee_Properties
  imports Software_Fee
begin

text \<open>
  What the monthly fee promises: a month is taken from a shop at most once, no active shop is passed over, and no month
  before the fee was switched on is ever charged.
\<close>

section \<open>Any number of runs\<close>

text \<open>Everything that can happen to the fee, and everything else, which leaves charges and the fee's entries alone.\<close>

inductive fee_step :: "sale_deps \<Rightarrow> world \<Rightarrow> world \<Rightarrow> bool" for d where
  run: "runSoftwareFeeCharges d period w = (r, w') \<Longrightarrow> fee_step d w w'"
| due: "runDueSoftwareFees d w = (r, w') \<Longrightarrow> fee_step d w w'"
| charge: "chargeSoftwareFee i w = (x, w') \<Longrightarrow> fee_step d w w'"
| waive: "waiveCharge m period reason admin w = (b, w') \<Longrightarrow> fee_step d w w'"
| elsewhere: "software_fee_charges (w_db w') = software_fee_charges (w_db w) \<Longrightarrow>
    filter (\<lambda>e. ew_entryType e = FEE_DEBIT) (ledger_entries (w_db w')) =
    filter (\<lambda>e. ew_entryType e = FEE_DEBIT) (ledger_entries (w_db w)) \<Longrightarrow> fee_step d w w'"

lemma fee_debits_filter: "fee_debits s m p = count_where (fee_debit m p) (filter (\<lambda>e. ew_entryType e = FEE_DEBIT) (ledger_entries s))"
  unfolding fee_debits_def count_where_def filter_filter by (rule arg_cong [where f = length], rule filter_cong) (auto simp: fee_debit_def)

lemma fee_step_ok: "fee_step d w w' \<Longrightarrow> fees_ok (w_db w) \<Longrightarrow> fees_ok (w_db w')"
proof (induction rule: fee_step.induct)
  case (run period w r w')
  then show ?case using fees_run.keeps_run keepsD unfolding fees_kept_def by blast
next
  case (due w r w')
  then show ?case using fees_run.keeps_due keepsD unfolding fees_kept_def by blast
next
  case (elsewhere w' w)
  then show ?case by (simp add: fees_ok_def fee_debits_filter is_paid_def)
qed (auto intro: chargeSoftwareFee_fees_ok waiveCharge_fees_ok)

lemma fee_steps_ok: "(fee_step d)\<^sup>*\<^sup>* w w' \<Longrightarrow> fees_ok (w_db w) \<Longrightarrow> fees_ok (w_db w')"
  by (induction rule: rtranclp_induct) (auto intro: fee_step_ok)

lemma findCharge_there:
  assumes "fees_ok s" and "c \<in> set (software_fee_charges s)"
  shows "findCharge s (gw_merchantId c) (gw_period c) = Some c"
proof (cases "findCharge s (gw_merchantId c) (gw_period c)")
  case None
  then show ?thesis using findCharge_None [OF None] assms(2) by (auto simp: charge_key_def image_iff)
next
  case (Some c')
  then show ?thesis using findCharge_SomeD [OF Some] charge_key_inj [OF assms(1) _ assms(2)] by (auto simp: charge_key_def)
qed

lemma fees_ok_start:
  "software_fee_charges s = [] \<Longrightarrow> \<forall>e\<in>set (ledger_entries s). ew_entryType e \<noteq> FEE_DEBIT \<Longrightarrow> fees_ok s"
  by (auto simp: fees_ok_def fee_debits_def fee_debit_def is_paid_def count_where_zero)

text \<open>
  C31. The monthly fee is taken once: however often the run fires, for whichever months, and whatever else moves money,
  the ledger holds exactly one debit of a month's fee from a shop when the charge is recorded as paid and none otherwise,
  and charging a paid or waived month again moves nothing and says so.
\<close>

theorem fee_taken_once:
  assumes "(fee_step d)\<^sup>*\<^sup>* w w'" and "software_fee_charges (w_db w) = []"
    and "\<forall>e\<in>set (ledger_entries (w_db w)). ew_entryType e \<noteq> FEE_DEBIT"
  shows "fee_debits (w_db w') m period = (if is_paid (w_db w') m period then 1 else 0) \<and>
    (\<forall>c\<in>set (software_fee_charges (w_db w')). \<forall>i. gw_status c \<noteq> ARREARS \<longrightarrow>
      hi_merchantId i = gw_merchantId c \<longrightarrow> hi_period i = gw_period c \<longrightarrow>
      chargeSoftwareFee i w' = (Inr FeeAlreadyCharged, w'))"
proof -
  have ok: "fees_ok (w_db w')" using fee_steps_ok [OF assms(1)] fees_ok_start assms(2,3) by blast
  then have "chargeSoftwareFee i w' = (Inr FeeAlreadyCharged, w')"
    if "c \<in> set (software_fee_charges (w_db w'))" "gw_status c \<noteq> ARREARS" "hi_merchantId i = gw_merchantId c" "hi_period i = gw_period c"
    for c i
    using findCharge_there [OF ok that(1)] that(2-)
    by (simp add: chargeSoftwareFee_def db_transaction_def bnd_def get_db_def ret_def)
  then show ?thesis using ok by (simp add: fees_ok_def)
qed

section \<open>Every shop is accounted for\<close>

lemma count_charge_total:
  assumes "fr_charged r + fr_arrears r + fr_alreadyCharged r = n" "0 \<le> fr_charged r" "0 \<le> fr_arrears r"
    "0 \<le> fr_alreadyCharged r" "n + 1 < 2 ^ 53"
  shows "fr_charged (count_charge x r) + fr_arrears (count_charge x r) + fr_alreadyCharged (count_charge x r) = n + 1"
    "0 \<le> fr_charged (count_charge x r)" "0 \<le> fr_arrears (count_charge x r)" "0 \<le> fr_alreadyCharged (count_charge x r)"
  using assms by (auto simp: count_charge_def js_add_exact safe_int_iff split: fee_outcome.split)

lemma charge_shops_accounts:
  "charge_shops d period amount at ms r w = (Inr r', w') \<Longrightarrow>
   fr_charged r + fr_arrears r + fr_alreadyCharged r = n \<Longrightarrow> 0 \<le> fr_charged r \<Longrightarrow> 0 \<le> fr_arrears r \<Longrightarrow>
   0 \<le> fr_alreadyCharged r \<Longrightarrow> n + int (length ms) < 2 ^ 53 \<Longrightarrow>
   fr_charged r' + fr_arrears r' + fr_alreadyCharged r' = n + int (length ms) \<and>
   (\<forall>m\<in>set ms. (m, period) \<in> charge_key ` set (software_fee_charges (w_db w')))"
proof (induction ms arbitrary: r w n)
  case Nil
  then show ?case by simp
next
  case (Cons m ms)
  from Cons.prems(1) obtain i w1 p w2 x w3 where
    x: "chargeSoftwareFee \<lparr>hi_id = i, hi_merchantId = m, hi_period = period, hi_amountMinor = amount,
                            hi_postingId = p, hi_at = at\<rparr> w2 = (Inr x, w3)"
    and rest: "charge_shops d period amount at ms (count_charge x r) w3 = (Inr r', w')"
    by (auto simp: bnd_Inr)
  note t = count_charge_total [OF Cons.prems(2-5), of x]
  have now: "(m, period) \<in> charge_key ` set (software_fee_charges (w_db w3))" using chargeSoftwareFee_recorded [OF x] by simp
  have "charges_grow w3 w'" using rest charges_run.keeps_charge_shops keepsD by blast
  then have later: "(m, period) \<in> charge_key ` set (software_fee_charges (w_db w'))" using now by (auto simp: charges_grow_def)
  show ?case using Cons.IH [OF rest, of "n + 1"] t Cons.prems(6) later by simp
qed

lemma count_recovery_keeps:
  "fr_charged (count_recovery x r) = fr_charged r" "fr_arrears (count_recovery x r) = fr_arrears r"
  "fr_alreadyCharged (count_recovery x r) = fr_alreadyCharged r"
  by (simp_all add: count_recovery_def split: fee_outcome.split)

lemma retry_owed_keeps:
  "retry_owed d period at cs r w = (Inr r', w') \<Longrightarrow>
   fr_charged r' = fr_charged r \<and> fr_arrears r' = fr_arrears r \<and> fr_alreadyCharged r' = fr_alreadyCharged r"
  by (induction cs arbitrary: r w) (auto simp: bnd_Inr count_recovery_keeps split: if_splits)

text \<open>
  C32. No active shop is passed over: when the fee is switched on and positive and a run returns, each shop that was active has a charge
  for the period, paid, owed or waived, and the run's three counters add up to the number of active shops. With the fee off or
  not positive, a run counts nothing and records nothing.
\<close>

theorem run_accounts_for_every_shop:
  assumes "runSoftwareFeeCharges d (Some period) w = (Inr r, w')" and "platform_fee_settings (w_db w) = Some fees"
    and "length (activeMerchantIds (w_db w)) < 2 ^ 53"
  shows "if fs_softwareFeeEnabled fees \<and> 0 < fs_softwareFeeMinor fees
    then fr_charged r + fr_arrears r + fr_alreadyCharged r = int (length (activeMerchantIds (w_db w))) \<and>
      (\<forall>m\<in>set (activeMerchantIds (w_db w)). findCharge (w_db w') m period \<noteq> None)
    else fr_charged r = 0 \<and> fr_arrears r = 0 \<and> fr_alreadyCharged r = 0 \<and> fr_recovered r = 0 \<and> w_db w' = w_db w"
proof (cases "fs_softwareFeeEnabled fees \<and> 0 < fs_softwareFeeMinor fees")
  case True
  let ?shops = "activeMerchantIds (w_db w)"
  obtain at r1 w1 w2 where shops: "charge_shops d period (fs_softwareFeeMinor fees) at ?shops (emptyResult period) w1 = (Inr r1, w2)"
    and owed: "retry_owed d period at (outstandingCharges (w_db w2) None) r1 w2 = (Inr r, w')"
    using assms(1,2) True
    by (auto simp: runSoftwareFeeCharges_def bnd_Inr Let_def or_else_def now_def readPlatformFeeSettings_def)
  have a: "fr_charged r1 + fr_arrears r1 + fr_alreadyCharged r1 = int (length ?shops)"
    "\<forall>m\<in>set ?shops. (m, period) \<in> charge_key ` set (software_fee_charges (w_db w2))"
    using charge_shops_accounts [OF shops, of 0] assms(3) by (simp_all add: emptyResult_def)
  have "charges_grow w2 w'" using owed charges_run.keeps_retry_owed keepsD by blast
  then have "\<forall>m\<in>set ?shops. (m, period) \<in> charge_key ` set (software_fee_charges (w_db w'))"
    using a(2) by (auto simp: charges_grow_def)
  then have "\<forall>m\<in>set ?shops. findCharge (w_db w') m period \<noteq> None" using findCharge_None by blast
  then show ?thesis using a(1) True retry_owed_keeps [OF owed] by simp
next
  case False
  then have "r = emptyResult period" "w_db w' = w_db w"
    using assms(1,2) by (auto simp: runSoftwareFeeCharges_def bnd_Inr Let_def or_else_def now_def readPlatformFeeSettings_def split: if_splits)
  then show ?thesis using False by (simp only: if_False) (simp add: emptyResult_def)
qed

section \<open>No month before the fee began\<close>






















section \<open>A shop that can pay\<close>

definition fee_world :: world where
  "fee_world = shop_funded\<lparr>w_db := (w_db shop_funded)\<lparr>platform_fee_settings :=
     Some \<lparr>fs_defaultCommissionBps = 500, fs_shopShareBps = 4000, fs_cardFeeBps = 0, fs_softwareFeeMinor = 300,
       fs_softwareFeeEnabled = True, fs_softwareFeeFirstPeriod = Some ''2026-08'', fs_updatedByAdminId = None, fs_updatedAt = t0\<rparr>\<rparr>\<rparr>"

definition fee_deps :: sale_deps where
  "fee_deps = shop_deps CONFIRMED_SUCCESS ST_STILL_PENDING"

definition fee_charged :: world where
  "fee_charged = snd (runDueSoftwareFees fee_deps fee_world)"

lemma fee_periods: "previousPeriod t0 = ''2026-08''" "periodOf t0 = ''2026-09''"
  by code_simp+

lemmas run_fee = runDueSoftwareFees_def runSoftwareFeeCharges_def emptyResult_def count_charge_def count_recovery_def
  chargeSoftwareFee_def collect_fee_def findCharge_def insertPaidCharge_def insertArrears_def insert_charge_def
  charge_checks_def charge_row_of_def software_fee_entries_def outstandingCharges_def activeMerchantIds_def order_by_def

lemma fee_run:
  "case runDueSoftwareFees fee_deps fee_world of (r, w) \<Rightarrow>
     r = Inr ((emptyResult ''2026-08'')\<lparr>fr_charged := 1, fr_chargedMinor := 300\<rparr>) \<and>
     netMinor (w_db w) ''m1'' [MERCHANT_AVAILABLE, MERCHANT_FUNDS] = 700 \<and>
     map (\<lambda>c. (gw_merchantId c, gw_period c, gw_status c)) (software_fee_charges (w_db w)) = [(''m1'', ''2026-08'', PAID)]"
  by (simp add: run_all run_shop run_fee fee_deps_def fee_world_def fee_periods cong: run_congs)

lemma fee_world_start:
  "software_fee_charges (w_db fee_world) = []" "\<forall>e\<in>set (ledger_entries (w_db fee_world)). ew_entryType e \<noteq> FEE_DEBIT"
  "activeMerchantIds (w_db fee_world) = [''m1'']"
  "\<exists>f. platform_fee_settings (w_db fee_world) = Some f \<and> fs_softwareFeeEnabled f \<and> 0 < fs_softwareFeeMinor f"
  by (simp_all add: run_all run_shop run_fee fee_world_def cong: run_congs)

text \<open>
  The first period is recorded by the first sweep, whether the fee is on or not. The fee is off when September begins, a sweep charges
  nothing, an administrator switches it on, and the next sweep charges August, a month in which it was off.
\<close>

definition fee_off_world :: world where
  "fee_off_world = shop_funded\<lparr>w_db := (w_db shop_funded)\<lparr>platform_fee_settings :=
     Some \<lparr>fs_defaultCommissionBps = 500, fs_shopShareBps = 4000, fs_cardFeeBps = 0, fs_softwareFeeMinor = 300,
       fs_softwareFeeEnabled = False, fs_softwareFeeFirstPeriod = Some ''2026-08'', fs_updatedByAdminId = None, fs_updatedAt = t0\<rparr>\<rparr>\<rparr>"

definition switch_on :: fee_update where
  "switch_on = \<lparr>fu_defaultCommissionBps = None, fu_shopShareBps = None, fu_cardFeeBps = None, fu_softwareFeeMinor = None,
     fu_softwareFeeEnabled = Some True, fu_softwareFeeFirstPeriod = None, fu_adminId = ''a1'', fu_at = t0\<rparr>"

lemma switched_off_month_is_charged:
  "case runDueSoftwareFees fee_deps fee_off_world of (_, w1) \<Rightarrow>
   case writePlatformFeeSettings switch_on w1 of (_, w2) \<Rightarrow>
   case runDueSoftwareFees fee_deps w2 of (_, w3) \<Rightarrow>
     software_fee_charges (w_db w1) = [] \<and>
     map (\<lambda>c. (gw_merchantId c, gw_period c, gw_status c)) (software_fee_charges (w_db w3)) = [(''m1'', ''2026-08'', PAID)]"
  by (simp add: run_all run_shop run_fee fee_deps_def fee_off_world_def switch_on_def writePlatformFeeSettings_def coalesce_def fee_periods cong: run_congs)

lemma fee_charged_run: "\<exists>r. runDueSoftwareFees fee_deps fee_world = (r, fee_charged)"
  by (simp add: fee_charged_def prod_eq_iff)

lemma fee_charged_rows:
  "map (\<lambda>c. (gw_merchantId c, gw_period c, gw_status c)) (software_fee_charges (w_db fee_charged)) = [(''m1'', ''2026-08'', PAID)]"
  using fee_run by (simp add: fee_charged_def split: prod.splits)

theorem fee_taken_once_witness: "fee_debits (w_db fee_charged) ''m1'' ''2026-08'' = 1"
proof -
  have "(fee_step fee_deps)\<^sup>*\<^sup>* fee_world fee_charged" using fee_charged_run fee_step.due by blast
  moreover have "is_paid (w_db fee_charged) ''m1'' ''2026-08''"
    using fee_charged_rows by (auto simp: is_paid_def map_eq_Cons_conv)
  ultimately show ?thesis
    using fee_taken_once [OF _ fee_world_start(1,2), of fee_deps fee_charged "''m1''" "''2026-08''"] by simp
qed

theorem run_accounts_for_every_shop_witness:
  "case runSoftwareFeeCharges fee_deps (Some ''2026-08'') fee_world of (r, w) \<Rightarrow>
     findCharge (w_db w) ''m1'' ''2026-08'' \<noteq> None"
proof -
  obtain r w where run: "runSoftwareFeeCharges fee_deps (Some ''2026-08'') fee_world = (Inr r, w)"
    by (simp add: run_all run_shop run_fee fee_deps_def fee_world_def cong: run_congs)
  obtain f where f: "platform_fee_settings (w_db fee_world) = Some f" "fs_softwareFeeEnabled f" "0 < fs_softwareFeeMinor f"
    using fee_world_start(4) by blast
  then show ?thesis using run_accounts_for_every_shop [OF run f(1)] fee_world_start(3) by (simp add: run)
qed


end
