(* ===== verification/Submission.thy ===== *)
theory Submission
  imports Sale_Results
begin

text \<open>
  A request reaches the provider at most once. The idempotency record is written in the transaction that
  reserves the amount, before the provider is called, and records are never removed; so a repetition finds it and is
  answered from it, also when it arrives while the first is still waiting for the provider.
\<close>

definition is_submission :: "string \<Rightarrow> string \<Rightarrow> provider_call \<Rightarrow> bool" where
  "is_submission m k c \<longleftrightarrow> (case c of Submit_call r \<Rightarrow> ar_merchantId r = m \<and> ar_idempotencyKey r = k | _ \<Rightarrow> False)"

definition submissions :: "string \<Rightarrow> string \<Rightarrow> world \<Rightarrow> nat" where
  "submissions m k w = count_where (is_submission m k) (w_calls w)"

definition recorded :: "string \<Rightarrow> string \<Rightarrow> world \<Rightarrow> bool" where
  "recorded m k w \<longleftrightarrow> findIdempotencyRecord (w_db w) m k \<noteq> None"

definition submitted_once :: "world \<Rightarrow> bool" where
  "submitted_once w \<longleftrightarrow>
     (\<forall>m k. submissions m k w \<le> 1 \<and> (0 < submissions m k w \<longrightarrow> recorded m k w))"

text \<open>What other requests may do meanwhile: forget nothing, and submit no request twice.\<close>

definition submits_once :: "world \<Rightarrow> world \<Rightarrow> bool" where
  "submits_once w w' \<longleftrightarrow> (submitted_once w \<longrightarrow> submitted_once w' \<and> remembers w w')"

lemma remembers_recorded: "remembers w w' \<Longrightarrow> recorded m k w \<Longrightarrow> recorded m k w'"
  unfolding remembers_def recorded_def by (metis not_None_eq)

lemma remembers_trans: "remembers u v \<Longrightarrow> remembers v w \<Longrightarrow> remembers u w"
  unfolding remembers_def by metis

interpretation once: progress submits_once
  by unfold_locales (auto simp: submits_once_def remembers_same intro: remembers_trans)

lemma steady_submits_once: "steady w w' \<Longrightarrow> submits_once w w'"
  by (auto simp: steady_def submits_once_def submitted_once_def submissions_def dest: remembers_recorded)

lemma keeps_steady_once: "keeps steady m \<Longrightarrow> keeps submits_once m"
  by (erule keeps_mono) (rule steady_submits_once)

lemma log_other_once: "(\<And>m k. \<not> is_submission m k c) \<Longrightarrow> keeps submits_once (log_call c)"
  by (simp add: keeps_def log_call_def submits_once_def remembers_same submitted_once_def submissions_def count_where_def recorded_def)

definition provider_once :: "sale_deps \<Rightarrow> bool" where
  "provider_once d \<longleftrightarrow> keeps submits_once (sd_health d) \<and> (\<forall>r c. keeps submits_once (sd_submit d r c)) \<and>
     (\<forall>s. keeps submits_once (sd_getStatus d s))"

lemma provider_once_calls:
  assumes "provider_once d"
  shows "keeps submits_once (healthCheck d)" "keeps submits_once (getStatus d s)"
  using assms unfolding provider_once_def healthCheck_def getStatus_def
  by (auto intro!: once.keeps_seq log_other_once simp: is_submission_def)

lemma steady_writes: "keeps steady (now d)" "keeps steady (newId d k)"
  using steady_service.keeps_writes by blast+

section \<open>One sale\<close>

text \<open>The submission itself: the request is on record and was not submitted before.\<close>

lemma submit_once:
  assumes provider: "provider_once d" and rec: "recorded (ar_merchantId r) (ar_idempotencyKey r) w"
    and new: "submissions (ar_merchantId r) (ar_idempotencyKey r) w = 0"
  shows "submits_once w (snd (submit d r c w))"
proof -
  let ?w = "w\<lparr>w_calls := w_calls w @ [Submit_call r]\<rparr>"
  have count: "submissions m k ?w = submissions m k w + (if ar_merchantId r = m \<and> ar_idempotencyKey r = k then 1 else 0)" for m k
    by (simp add: submissions_def count_where_def is_submission_def)
  have "submitted_once ?w" if ok: "submitted_once w"
    unfolding submitted_once_def
  proof (intro allI)
    fix m k
    show "submissions m k ?w \<le> 1 \<and> (0 < submissions m k ?w \<longrightarrow> recorded m k ?w)"
      using ok rec new count [of m k] by (auto simp: submitted_once_def recorded_def split: if_splits)
  qed
  then have "submits_once w ?w" by (simp add: submits_once_def remembers_same)
  moreover have "submits_once ?w (snd (sd_submit d r c ?w))" using provider by (simp add: provider_once_def keeps_def)
  ultimately show ?thesis using once.trans by (simp add: submit_def seq_def bnd_def log_call_def)
qed

lemma submit_phase_once:
  assumes provider: "provider_once d"
    and rec: "recorded (rq_merchantId q) (deriveIdempotencyKey (intent_of q)) w"
    and new: "submissions (rq_merchantId q) (deriveIdempotencyKey (intent_of q)) w = 0"
  shows "submits_once w (snd (submit_phase d q corr tx p w))"
proof -
  let ?r = "\<lparr>ar_transactionId = tx, ar_merchantId = rq_merchantId q, ar_productId = rq_productId q,
      ar_amount = rq_amount q, ar_recipient = rq_recipient q, ar_idempotencyKey = deriveIdempotencyKey (intent_of q)\<rparr>"
  let ?c = "\<lparr>pc_providerId = sd_providerId d, pc_deviceId = rq_deviceId q, pc_mode = sd_mode d, pc_timeoutMs = providerTimeout d\<rparr>"
  have sub: "submits_once w (snd (submit d ?r ?c w))" using submit_once [OF provider, of ?r] rec new by simp
  have handler: "submits_once v (snd ((if e = DomainErr LiveMoneyDisabled
      then seq (releaseQuietly d q tx p corr)
        (ret (Inl (reject SIMULATED_ONLY corr ''LIVE_MODE_REFUSED'' SHOW_SYSTEM_ERROR (Some (deriveIdempotencyKey (intent_of q))) (Some tx))))
      else ret (Inr (PENDING, None, PROVIDER_UNREACHABLE))) v))" for e v
  proof -
    have "keeps submits_once (if e = DomainErr LiveMoneyDisabled
      then seq (releaseQuietly d q tx p corr)
        (ret (Inl (reject SIMULATED_ONLY corr ''LIVE_MODE_REFUSED'' SHOW_SYSTEM_ERROR (Some (deriveIdempotencyKey (intent_of q))) (Some tx))))
      else ret (Inr (PENDING, None, PROVIDER_UNREACHABLE)))"
      by (intro once.progress_rules keeps_steady_once steady_service.keeps_releaseQuietly)
    then show ?thesis unfolding keeps_def by blast
  qed
  obtain x v where m: "submit d ?r ?c w = (x, v)" by (cases "submit d ?r ?c w")
  then have "submits_once w v" using sub by simp
  show ?thesis
  proof (cases x)
    case (Inl e)
    from m Inl show ?thesis
      unfolding submit_phase_def Let_def try_catch_def bnd_def
      by (simp only: prod.case sum.case) (rule once.trans [OF \<open>submits_once w v\<close> handler])
  next
    case (Inr s)
    then show ?thesis using m \<open>submits_once w v\<close> by (simp add: submit_phase_def Let_def try_catch_def bnd_def ret_def)
  qed
qed

lemma submit_sale_once:
  assumes provider: "provider_once d"
    and rec: "recorded (rq_merchantId q) (deriveIdempotencyKey (intent_of q)) w"
    and new: "submissions (rq_merchantId q) (deriveIdempotencyKey (intent_of q)) w = 0"
  shows "submits_once w (snd (submit_sale d q corr tx t w))"
  unfolding submit_sale_def
proof (rule once.bnd_at)
  have "keeps steady (processing_phase d q corr t)" by (rule steady_service.keeps_processing_phase)
  then have s: "steady w (snd (processing_phase d q corr t w))" by (simp add: keeps_def)
  then show "submits_once w (snd (processing_phase d q corr t w))" by (rule steady_submits_once)
  fix p v
  assume "processing_phase d q corr t w = (Inr p, v)"
  then have "steady w v" using s by simp
  then have rec': "recorded (rq_merchantId q) (deriveIdempotencyKey (intent_of q)) v"
    and new': "submissions (rq_merchantId q) (deriveIdempotencyKey (intent_of q)) v = 0"
    using rec new remembers_recorded by (auto simp: steady_def submissions_def)
  show "submits_once v (snd (bnd (submit_phase d q corr tx p)
    (\<lambda>r. case r of Inl z \<Rightarrow> ret z | Inr o' \<Rightarrow> outcome_phase d q corr tx p o') v))"
  proof (rule once.bnd_at)
    show "submits_once v (snd (submit_phase d q corr tx p v))" by (rule submit_phase_once [OF provider rec' new'])
    fix r u
    have "keeps submits_once (case r of Inl z \<Rightarrow> ret z | Inr o' \<Rightarrow> outcome_phase d q corr tx p o')"
      by (intro once.progress_rules keeps_steady_once steady_service.keeps_outcome_phase)
    then show "submits_once u (snd ((case r of Inl z \<Rightarrow> ret z | Inr o' \<Rightarrow> outcome_phase d q corr tx p o') u))"
      unfolding keeps_def by blast
  qed
qed

text \<open>The reservation puts the request on record, and fails when it is on record already.\<close>

lemma steady_trans [trans]: "steady u v \<Longrightarrow> steady v w \<Longrightarrow> steady u w"
  by (rule steady_service.trans)

lemma saveIdempotencyRecord_new:
  "saveIdempotencyRecord i w = (Inr u, w') \<Longrightarrow> \<not> recorded (ii_merchantId i) (ii_key i) w"
  by (auto simp: saveIdempotencyRecord_def bnd_Inr seq_Inr recorded_def findIdempotencyRecord_def find_Some_iff in_set_conv_nth)

lemma reserve_phase_records:
  assumes run: "reserve_phase d q corr tx at w = (Inr t, w')"
  shows "recorded (rq_merchantId q) (deriveIdempotencyKey (intent_of q)) w' \<and>
    \<not> recorded (rq_merchantId q) (deriveIdempotencyKey (intent_of q)) w \<and> steady w w'"
proof (rule reserve_phase_parts [OF run])
  fix t0 t1 wa wb wc we wf wg wh wi wj wk wl wm c rid at1 at2
  let ?i = "\<lparr>ii_key = deriveIdempotencyKey (intent_of q), ii_merchantId = rq_merchantId q, ii_requestIdentity = canonicalKeySource (intent_of q),
         ii_payloadFingerprint = payloadFingerprint (intent_of q), ii_transactionId = tx, ii_at = at2\<rparr>"
  note parts = steady_service.keeps_parts [THEN keepsD] steady_writes [THEN keepsD] steady_service.keeps_rest [OF rest_reserve, THEN keepsD]
  assume "persist d q t0 w = (Inr (), wa)" then have "steady w wa" by (rule parts)
  also assume "sale_audit d t0 TRANSACTION_CREATED corr None wa = (Inr (), wb)" then have "steady wa wb" by (rule parts)
  also assume "transition_now d t0 VALIDATED ''server validation passed'' wb = (Inr t1, wc)" then have "steady wb wc" by (rule parts)
  also assume "persist d q t1 wc = (Inr (), we)" then have "steady wc we" by (rule parts)
  also assume "now d we = (Inr at1, wf)" then have "steady we wf" by (rule parts)
  also assume "sale_context d q tx at1 corr wf = (Inr c, wg)" then have "steady wf wg" by (rule parts)
  also assume "newId d ''res'' wg = (Inr rid, wh)" then have "steady wg wh" by (rule parts)
  also assume "reserve c (Some rid) wh = (Inr (), wi)" then have "steady wh wi" by (rule parts)
  also assume "transition_now d t1 RESERVED ''balance reserved'' wi = (Inr t, wj)" then have "steady wi wj" by (rule parts)
  also assume "persist d q t wj = (Inr (), wk)" then have "steady wj wk" by (rule parts)
  also assume "sale_audit d t TRANSACTION_TRANSITIONED corr (Some VALIDATED) wk = (Inr (), wl)" then have "steady wk wl" by (rule parts)
  also assume "now d wl = (Inr at2, wm)" then have "steady wl wm" by (rule parts)
  finally have before: "steady w wm" .
  assume save: "saveIdempotencyRecord ?i wm = (Inr (), w')"
  have "steady wm w'" using keepsD [OF steady_service.of_record save] .
  with before have "steady w w'" by (rule steady_trans)
  moreover have "\<not> recorded (rq_merchantId q) (deriveIdempotencyKey (intent_of q)) w"
    using saveIdempotencyRecord_new [OF save] before remembers_recorded by (auto simp: steady_def)
  moreover have "recorded (rq_merchantId q) (deriveIdempotencyKey (intent_of q)) w'"
    using saveIdempotencyRecord_present [OF save] by (auto simp: recorded_def)
  ultimately show ?thesis by simp
qed

lemma attempt_sale_once:
  assumes provider: "provider_once d"
  shows "submits_once w (snd (attempt_sale d q corr w))"
  unfolding attempt_sale_def
proof (rule once.bnd_at)
  show "submits_once w (snd (newId d ''txn'' w))" using keeps_steady_once [OF steady_writes(2)] by (simp add: keeps_def)
  fix tx w1
  show "submits_once w1 (snd (bnd (now d) (\<lambda>at. bnd (try_catch (bnd (reserve_phase d q corr tx at) (\<lambda>t. ret (Inr t)))
      (\<lambda>e. ret (Inl (reserve_refusal q corr e)))) (\<lambda>r. case r of Inl z \<Rightarrow> ret z | Inr t \<Rightarrow> submit_sale d q corr tx t)) w1))"
  proof (rule once.bnd_at)
    show "submits_once w1 (snd (now d w1))" using keeps_steady_once [OF steady_writes(1)] by (simp add: keeps_def)
    fix at w2
    let ?m = "try_catch (bnd (reserve_phase d q corr tx at) (\<lambda>t. ret (Inr t))) (\<lambda>e. ret (Inl (reserve_refusal q corr e)))"
    obtain y w3 where res: "reserve_phase d q corr tx at w2 = (y, w3)" by (cases "reserve_phase d q corr tx at w2")
    have m: "?m w2 = (Inr (case y of Inl e \<Rightarrow> Inl (reserve_refusal q corr e) | Inr t \<Rightarrow> Inr t), w3)"
      using res by (cases y) (simp_all add: try_catch_def bnd_def ret_def)
    have steady: "steady w2 w3" using steady_service.keeps_reserve_phase res keepsD by blast
    show "submits_once w2 (snd (bnd ?m (\<lambda>r. case r of Inl z \<Rightarrow> ret z | Inr t \<Rightarrow> submit_sale d q corr tx t) w2))"
    proof (cases y)
      case (Inl e)
      then show ?thesis using m steady_submits_once [OF steady] by (simp add: bnd_def [of ?m] ret_def)
    next
      case (Inr t)
      note rec = reserve_phase_records [OF res [unfolded Inr]]
      show ?thesis
      proof (cases "submitted_once w2")
        case True
        then have "submissions (rq_merchantId q) (deriveIdempotencyKey (intent_of q)) w2 = 0"
          using rec by (auto simp: submitted_once_def)
        then have "submissions (rq_merchantId q) (deriveIdempotencyKey (intent_of q)) w3 = 0"
          using steady by (simp add: steady_def submissions_def)
        then have "submits_once w3 (snd (submit_sale d q corr tx t w3))" using submit_sale_once [OF provider] rec by blast
        then show ?thesis using m Inr once.trans [OF steady_submits_once [OF steady]] by (simp add: bnd_def [of ?m])
      next
        case False
        then show ?thesis by (simp add: submits_once_def)
      qed
    qed
  qed
qed

section \<open>Asking and recovering\<close>

lemma recoverOne_once:
  assumes "provider_once (rd_sale r)"
  shows "keeps submits_once (recoverOne r tx m policy scanId)"
  unfolding recoverOne_def ask_provider_def lookup_status_def Let_def
  by (intro once.progress_rules provider_once_calls(2) [OF assms] keeps_steady_once
      steady_service.keeps_apply_outcome steady_service.keeps_recovery_release steady_service.keeps_recovery_quiet)

lemma recoverInFlight_once:
  assumes "provider_once (rd_sale r)" and "\<And>go. so_shouldContinue o' = Some go \<Longrightarrow> keeps submits_once go"
  shows "keeps submits_once (recoverInFlight r o')"
  by (rule once.keeps_recoverInFlight)
     (use assms in \<open>auto intro: steady_submits_once steady_service.of_quiet recoverOne_once\<close>)

section \<open>Any number of requests\<close>

lemma createSale_once:
  assumes provider: "provider_once d" and run: "createSale d q w = (r, w')"
  shows "submits_once w w'"
  using run
proof (cases rule: createSale_cases)
  case (answered corr w1 x)
  then show ?thesis using steady_service.of_quiet steady_submits_once by blast
next
  case (checked corr w1)
  have "submits_once w1 (snd (checked_sale d q corr w1))"
    unfolding checked_sale_def
  proof (rule once.bnd_at)
    show "submits_once w1 (snd (healthCheck d w1))" using provider_once_calls(1) [OF provider] by (simp add: keeps_def)
    fix h v
    show "submits_once v (snd ((if \<not> h then ret (reject PROVIDER_UNAVAILABLE corr ''PROVIDER_UNHEALTHY'' SHOW_PROVIDER_UNAVAILABLE_NO_CHARGE
        (Some (deriveIdempotencyKey (intent_of q))) None) else attempt_sale d q corr) v))"
      using attempt_sale_once [OF provider] once.refl by (simp add: ret_def)
  qed
  then show ?thesis using checked(5) once.trans [OF steady_submits_once [OF steady_service.of_quiet [OF checked(1)]]] by simp
qed

lemma resolvePending_once:
  assumes provider: "provider_once d"
  shows "keeps submits_once (resolvePending d tx m)"
  unfolding resolvePending_def Let_def
  by (intro once.progress_rules keeps_steady_once [OF steady_service.keeps_resolve_phase] provider_once_calls(2) [OF provider]
      keeps_steady_once [OF steady_writes(1)] keeps_steady_once [OF steady_writes(2)]
      keeps_steady_once [OF steady_service.keeps_quiet [OF quiet_recordResolutionAttempt]])

text \<open>Sales, questions, and whatever else forgets no request and submits none.\<close>

inductive request_step :: "sale_deps \<Rightarrow> world \<Rightarrow> world \<Rightarrow> bool" for d where
  sell: "createSale d q w = (r, w') \<Longrightarrow> request_step d w w'"
| ask: "resolvePending d tx m w = (r, w') \<Longrightarrow> request_step d w w'"
| recover: "recoverInFlight v o' w = (p, w') \<Longrightarrow> rd_sale v = d \<Longrightarrow>
    (\<And>go. so_shouldContinue o' = Some go \<Longrightarrow> keeps submits_once go) \<Longrightarrow> request_step d w w'"
| other: "steady w w' \<Longrightarrow> request_step d w w'"

lemma requests_once:
  assumes "provider_once d"
  shows "(request_step d)\<^sup>*\<^sup>* w w' \<Longrightarrow> submits_once w w'"
proof (induction rule: rtranclp_induct)
  case base
  then show ?case by (rule once.refl)
next
  case (step v u)
  from step.hyps(2) have "submits_once v u"
  proof cases
    case (recover rd o' p)
    then show ?thesis using recoverInFlight_once [of rd o'] assms keepsD by blast
  qed (blast intro: createSale_once [OF assms] keepsD [OF resolvePending_once [OF assms]] steady_submits_once)+
  then show ?case using step.IH once.trans by blast
qed

text \<open>
  C19. A request reaches the provider at most once: from a log without submissions, after any sequence of sales, questions and
  recovery sweeps,
  with other requests served during every call to the provider, no merchant and idempotency key
  has been submitted twice, and a submitted request is on record, so that its repetition is answered from the record.
\<close>

theorem submitted_at_most_once:
  assumes "(request_step d)\<^sup>*\<^sup>* w w'" and "provider_once d" and "w_calls w = []"
  shows "submissions m k w' \<le> 1 \<and> (submissions m k w' = 1 \<longrightarrow> findIdempotencyRecord (w_db w') m k \<noteq> None)"
proof -
  have "submitted_once w" using assms(3) by (simp add: submitted_once_def submissions_def count_where_def)
  then have "submitted_once w'" using requests_once [OF assms(2,1)] by (simp add: submits_once_def)
  then show ?thesis by (auto simp: submitted_once_def recorded_def)
qed

lemma shop_provider_once: "provider_once (shop_deps out st)"
  by (simp add: provider_once_def shop_deps_fields once.keeps_ret)

text \<open>A second press of the button: the sale is made once, and the repetition is told so.\<close>

definition sold_twice :: world where
  "sold_twice = snd (createSale (shop_deps CONFIRMED_SUCCESS ST_STILL_PENDING) shop_request world_sold)"

lemma sold_twice_run:
  "case createSale (shop_deps CONFIRMED_SUCCESS ST_STILL_PENDING) shop_request world_sold of (r, w) \<Rightarrow>
     r = Inr (DuplicateRequest \<lparr>du_originalTransactionId = ''txn_'', du_state = SUCCESSFUL, du_correlationId = ''c1'',
       du_idempotencyKey = ''idem_004f0fcf'', du_messageKey = DUPLICATE_MESSAGE, du_nextAction = SHOW_EXISTING_TRANSACTION_STATE\<rparr>) \<and>
     submissions ''m1'' ''idem_004f0fcf'' w = 1"
  by (simp add: run_all run_shop submissions_def is_submission_def cong: run_congs)

theorem submitted_at_most_once_witness:
  "submissions ''m1'' ''idem_004f0fcf'' sold_twice = 1 \<and> findIdempotencyRecord (w_db sold_twice) ''m1'' ''idem_004f0fcf'' \<noteq> None"
proof -
  let ?d = "shop_deps CONFIRMED_SUCCESS ST_STILL_PENDING"
  have "request_step ?d shop_funded world_sold" by (rule request_step.sell [OF shop_sells])
  moreover have "request_step ?d world_sold sold_twice"
    unfolding sold_twice_def by (rule request_step.sell [OF prod.collapse [symmetric]])
  ultimately have "(request_step ?d)\<^sup>*\<^sup>* shop_funded sold_twice"
    by (rule two_steps [where r = "request_step ?d"])
  moreover have "w_calls shop_funded = []" by (rule shop_funded_fields)
  moreover have "submissions ''m1'' ''idem_004f0fcf'' sold_twice = 1"
    using sold_twice_run by (simp add: sold_twice_def split: prod.splits)
  ultimately show ?thesis
    using submitted_at_most_once [OF _ shop_provider_once, of _ _ shop_funded sold_twice "''m1''" "''idem_004f0fcf''"] by simp
qed

end
