(* ===== verification/Recovery_Properties.thy ===== *)
theory Recovery_Properties
  imports Submission
begin

text \<open>
  What the recovery sweep guarantees: only a determinate answer of the provider moves a merchant's money, what a sweep
  reports is what the store says, a sale is worked on by one worker at a time, and the attempts on a sale are bounded.
\<close>

section \<open>Without an answer the value is held\<close>

text \<open>
  No shop's spendable balance changes, reserved and under-review value together stay the same, and a
  reservation at most moves from held to under review.
\<close>

definition holds_money :: "world \<Rightarrow> world \<Rightarrow> bool" where
  "holds_money w w' \<longleftrightarrow>
     (\<forall>m. netMinor (w_db w') m [MERCHANT_AVAILABLE, MERCHANT_FUNDS] = netMinor (w_db w) m [MERCHANT_AVAILABLE, MERCHANT_FUNDS]) \<and>
     (\<forall>m. netMinor (w_db w') m [MERCHANT_RESERVED, MERCHANT_UNDER_REVIEW] = netMinor (w_db w) m [MERCHANT_RESERVED, MERCHANT_UNDER_REVIEW]) \<and>
     (\<forall>r\<in>set (balance_reservations (w_db w)). \<exists>r'\<in>set (balance_reservations (w_db w')).
        rr_id r' = rr_id r \<and> (rr_status r' = rr_status r \<or> rr_status r = HELD \<and> rr_status r' = RES_UNDER_REVIEW))"

lemma holds_money_refl: "holds_money w w"
  by (auto simp: holds_money_def)

lemma holds_money_trans:
  assumes "holds_money u v" and "holds_money v w"
  shows "holds_money u w"
  unfolding holds_money_def
proof (intro conjI)
  show "\<forall>m. netMinor (w_db w) m [MERCHANT_AVAILABLE, MERCHANT_FUNDS] = netMinor (w_db u) m [MERCHANT_AVAILABLE, MERCHANT_FUNDS]"
    using assms by (simp add: holds_money_def)
  show "\<forall>m. netMinor (w_db w) m [MERCHANT_RESERVED, MERCHANT_UNDER_REVIEW] = netMinor (w_db u) m [MERCHANT_RESERVED, MERCHANT_UNDER_REVIEW]"
    using assms by (simp add: holds_money_def)
  show "\<forall>r\<in>set (balance_reservations (w_db u)). \<exists>r'\<in>set (balance_reservations (w_db w)).
        rr_id r' = rr_id r \<and> (rr_status r' = rr_status r \<or> rr_status r = HELD \<and> rr_status r' = RES_UNDER_REVIEW)"
  proof
    fix r :: reservation_row
    assume "r \<in> set (balance_reservations (w_db u))"
    then obtain s where s: "s \<in> set (balance_reservations (w_db v))" "rr_id s = rr_id r"
        "rr_status s = rr_status r \<or> rr_status r = HELD \<and> rr_status s = RES_UNDER_REVIEW"
      using assms(1) by (auto simp: holds_money_def)
    obtain r' where "r' \<in> set (balance_reservations (w_db w))" "rr_id r' = rr_id s"
        "rr_status r' = rr_status s \<or> rr_status s = HELD \<and> rr_status r' = RES_UNDER_REVIEW"
      using assms(2) s(1) by (auto simp: holds_money_def)
    then show "\<exists>r'\<in>set (balance_reservations (w_db w)).
        rr_id r' = rr_id r \<and> (rr_status r' = rr_status r \<or> rr_status r = HELD \<and> rr_status r' = RES_UNDER_REVIEW)"
      using s by (intro bexI [of _ r']) auto
  qed
qed

lemma holds_money_same:
  "ledger_entries (w_db w') = ledger_entries (w_db w) \<Longrightarrow> balance_reservations (w_db w') = balance_reservations (w_db w) \<Longrightarrow> holds_money w w'"
  by (auto simp: holds_money_def netMinor_def)



text \<open>
  The sales that were never submitted, in a store: RESERVED and without a reference of the provider. Everything below holds money and
  makes no sale one of these.
\<close>

definition all_submitted :: "world \<Rightarrow> bool" where
  "all_submitted w \<longleftrightarrow> (\<forall>t\<in>set (transactions (w_db w)). \<not> (tw_state t = RESERVED \<and> tw_providerReference t = None))"

definition calm :: "world \<Rightarrow> world \<Rightarrow> bool" where
  "calm w w' \<longleftrightarrow> holds_money w w' \<and> (all_submitted w \<longrightarrow> all_submitted w')"

lemma calm_same: "holds_money w w' \<Longrightarrow> transactions (w_db w') = transactions (w_db w) \<Longrightarrow> calm w w'"
  by (simp add: calm_def all_submitted_def)

interpretation calm: guarantee calm
proof
  show "calm w w" for w by (rule calm_same) (simp_all add: holds_money_refl)
  show "calm u w" if "calm u v" "calm v w" for u v w using that holds_money_trans [of u v w] by (simp add: calm_def)
  show "calm w (w'\<lparr>w_db := w_db w\<rparr>)" for w w' by (rule calm_same) (simp_all add: holds_money_same)
qed
















section \<open>What a sweep reports\<close>

definition reported :: "recovery_result \<Rightarrow> string \<Rightarrow> world \<Rightarrow> bool" where
  "reported x tx w \<longleftrightarrow>
     (case re_kind x of
        RECOVERED_SUCCESSFUL \<Rightarrow> sale_stands tx SUCCESSFUL SETTLED w
      | RECOVERED_FAILED \<Rightarrow> sale_stands tx FAILED RELEASED w
      | RELEASED_NEVER_SUBMITTED \<Rightarrow> sale_stands tx FAILED RELEASED w
      | ESCALATED_UNDER_REVIEW \<Rightarrow> sale_stands tx UNDER_REVIEW RES_UNDER_REVIEW w
      | _ \<Rightarrow> True)"

lemma stands_quiet: "quiet w w' \<Longrightarrow> sale_stands tx s rs w \<Longrightarrow> sale_stands tx s rs w'"
  using sale_stands_same by (auto simp: quiet_def)

lemma settle_row_stands:
  assumes s1: "persistRehydrated t' row w = (Inr (), wa)" and s2: "money_context d' m tx amount at corr actor wa = (Inr c, wb)"
    and s3: "resolve_reservation c HELD target es a k wb = (Inr (), w')"
    and id: "tx_id t' = tx" and ok: "sale_ok d w" and known: "(tx, m, amount') \<in> identity_tx ` set (transactions (w_db w))"
  shows "sale_stands tx (tx_state t') target w'"
proof -
  have "known_id d ''txn'' tx w" using known ok by (auto simp: identity_tx_def sale_ok_def)
  then have "evolves d w wa" using persistRehydrated_evolves [OF s1] id by simp
  note b = evolve.trans [OF this evolves_quiet [OF quiet_steps(4) [OF s2]]]
  have okb: "sale_ok d wb" using b ok by (simp add: evolves_def)
  obtain t :: transaction_row where "t \<in> set (transactions (w_db wa))" "tw_id t = tx" "tw_state t = tx_state t'"
    using saveTransaction_row [OF s1 [unfolded persistRehydrated_def]] id by auto
  then have t: "t \<in> set (transactions (w_db wb))" "tw_id t = oc_transactionId c" "tw_state t = tx_state t'"
    using quiet_steps(4) [OF s2] money_context_Inr [OF s2] by (auto simp: quiet_def same_on_def money_tables_def)
  show ?thesis using resolve_stands [OF s3 _ okb t] money_context_Inr [OF s2] by simp
qed

lemmas quiet_recovery_steps = quiet_writeAudit [THEN keepsD] quiet_closePendingResolution [THEN keepsD]
  quiet_updatePendingMetadata [THEN keepsD] quiet_ensurePending [THEN keepsD] quiet_recordResolutionAttempt [THEN keepsD]

lemma release_never_submitted_stands:
  assumes run: "release_never_submitted r tx m row corr w = (Inr u, w')" and ok: "sale_ok d w" and id: "tw_id row = tx"
    and known: "(tx, m, a) \<in> identity_tx ` set (transactions (w_db w))"
  shows "sale_stands tx FAILED RELEASED w'"
proof -
  from run obtain at w0 t0 t1 t2 wa c wb wc wd where
    s: "now (rd_sale r) w = (Inr at, w0)" "rehydrate row = Inr t0"
      "transitionTo t0 PROCESSING at (Some ''recovery: reconstructing legal path'') None = Inr t1"
      "transitionTo t1 FAILED at (Some ''recovery: provider was never called'') None = Inr t2"
      "persistRehydrated t2 row w0 = (Inr (), wa)"
      "money_context (rd_sale r) m tx (tx_amount t2) at corr RECOVERY_ACTOR wa = (Inr c, wb)"
      "release c wb = (Inr (), wc)" "recordIdempotencyResult m (tw_idempotencyKey row) FAILED at wc = (Inr (), wd)"
      "writeAudit r RECOVERY_RECOVERED_FAILED m corr (Some tx) (Some (tw_state row)) (Some FAILED) (Some ''never_submitted'') wd = (Inr u, w')"
    unfolding release_never_submitted_def db_transaction_Inr by (auto simp: bnd_Inr seq_Inr)
  have "sale_ok d w0" using evolves_quiet [OF quiet_steps(6) [OF s(1)]] ok by (simp add: evolves_def)
  moreover have "(tx, m, a) \<in> identity_tx ` set (transactions (w_db w0))" using known s(1) by (auto simp: now_def)
  moreover have "tx_id t2 = tx" "tx_state t2 = FAILED"
    using transitionTo_Inr [OF s(3)] transitionTo_Inr [OF s(4)] rehydrate_Inr [OF s(2)] id by simp_all
  ultimately have "sale_stands tx FAILED RELEASED wc"
    using settle_row_stands [OF s(5,6) s(7) [unfolded release_def]] by metis
  then show ?thesis
    using sale_stands_same [OF result_same_money [OF s(8)]] stands_quiet [OF quiet_recovery_steps(1) [OF s(9)]] by blast
qed

lemma apply_success_stands:
  assumes run: "apply_success r tx m before corr ref at current t w = (Inr x, w')" and ok: "sale_ok d w" and id: "tx_id t = tx"
    and known: "(tx, m, a) \<in> identity_tx ` set (transactions (w_db w))"
  shows "reported x tx w'"
proof -
  from run obtain t' wa c wb wc b wd we n where
    s: "transitionTo t SUCCESSFUL at (Some ''recovery: provider confirmed delivery'') ref = Inr t'"
      "persistRehydrated t' current w = (Inr (), wa)"
      "money_context (rd_sale r) m tx (tx_amount t) at corr RECOVERY_ACTOR wa = (Inr c, wb)"
      "finalizeSuccess c None None wb = (Inr (), wc)" "closePendingResolution tx PR_RESOLVED at wc = (Inr b, wd)"
      "recordIdempotencyResult m (tw_idempotencyKey current) SUCCESSFUL at wd = (Inr (), we)"
      "writeAudit r RECOVERY_RECOVERED_SUCCESSFUL m corr (Some tx) (Some (tw_state current)) (Some SUCCESSFUL) None we = (Inr (), w')"
      "x = outcomeResult tx m RECOVERED_SUCCESSFUL before SUCCESSFUL LO_SUCCESS corr ref n"
    by (auto simp: apply_success_def bnd_Inr seq_Inr)
  have "sale_stands tx SUCCESSFUL SETTLED wc"
    using settle_row_stands [OF s(2,3) s(4) [unfolded finalizeSuccess_def Let_def] _ ok known] transitionTo_Inr [OF s(1)] id by simp
  then have "sale_stands tx SUCCESSFUL SETTLED w'"
    using stands_quiet [OF quiet_recovery_steps(2) [OF s(5)]] sale_stands_same [OF result_same_money [OF s(6)]]
      stands_quiet [OF quiet_recovery_steps(1) [OF s(7)]] by blast
  then show ?thesis by (simp add: reported_def s(8) outcomeResult_def)
qed

lemma apply_failure_stands:
  assumes run: "apply_failure r tx m before corr ref at current t w = (Inr x, w')" and ok: "sale_ok d w" and id: "tx_id t = tx"
    and known: "(tx, m, a) \<in> identity_tx ` set (transactions (w_db w))"
  shows "reported x tx w'"
proof -
  from run obtain t' wa c wb wc b wd we n where
    s: "transitionTo t FAILED at (Some ''recovery: provider confirmed failure'') ref = Inr t'"
      "persistRehydrated t' current w = (Inr (), wa)"
      "money_context (rd_sale r) m tx (tx_amount t) at corr RECOVERY_ACTOR wa = (Inr c, wb)"
      "release c wb = (Inr (), wc)" "closePendingResolution tx PR_RESOLVED at wc = (Inr b, wd)"
      "recordIdempotencyResult m (tw_idempotencyKey current) FAILED at wd = (Inr (), we)"
      "writeAudit r RECOVERY_RECOVERED_FAILED m corr (Some tx) (Some (tw_state current)) (Some FAILED) None we = (Inr (), w')"
      "x = outcomeResult tx m RECOVERED_FAILED before FAILED LO_FAILURE corr ref n"
    by (auto simp: apply_failure_def bnd_Inr seq_Inr)
  have "sale_stands tx FAILED RELEASED wc"
    using settle_row_stands [OF s(2,3) s(4) [unfolded release_def] _ ok known] transitionTo_Inr [OF s(1)] id by simp
  then have "sale_stands tx FAILED RELEASED w'"
    using stands_quiet [OF quiet_recovery_steps(2) [OF s(5)]] sale_stands_same [OF result_same_money [OF s(6)]]
      stands_quiet [OF quiet_recovery_steps(1) [OF s(7)]] by blast
  then show ?thesis by (simp add: reported_def s(8) outcomeResult_def)
qed

lemma escalate_stands:
  assumes run: "escalate r tx m before corr ref out at current t n late w = (Inr x, w')" and ok: "sale_ok d w" and id: "tx_id t = tx"
    and known: "(tx, m, a) \<in> identity_tx ` set (transactions (w_db w))"
  shows "reported x tx w'"
proof -
  from run obtain t' wa c wb wc b wd and existing :: "support_row option" and we u wf wg why where
    s: "transitionTo t UNDER_REVIEW at (Some why) None = Inr t'"
      "persistRehydrated t' current w = (Inr (), wa)"
      "money_context (rd_sale r) m tx (tx_amount t) at corr RECOVERY_ACTOR wa = (Inr c, wb)"
      "moveToUnderReview c wb = (Inr (), wc)" "closePendingResolution tx ESCALATED at wc = (Inr b, wd)"
      and opened: "(case existing of Some _ \<Rightarrow> ret ()
          | None \<Rightarrow>
              bnd (newId (rd_sale r) ''case'') (\<lambda>i.
              seq (createSupportCase
                \<lparr>si_case_id = i, si_case_merchantId = m, si_case_transactionId = Some tx,
                 si_case_reason = SR_UNDER_REVIEW, si_case_reference = (case existing of None \<Rightarrow> support_reference tx | Some k \<Rightarrow> sw_reference k),
                 si_case_correlationId = corr, si_case_at = at\<rparr>)
              (writeAudit r MANUAL_REVIEW_CREATED m corr (Some tx) None None (Some (case existing of None \<Rightarrow> support_reference tx | Some k \<Rightarrow> sw_reference k))))) wd = (Inr u, we)"
      and z: "updatePendingMetadata tx
            \<lparr>pm_at = at, pm_nextCheckAt = None, pm_lastOutcomeCategory = None, pm_currentState = None,
             pm_manualReviewStatus = Some ''OPEN'', pm_deadlineAt = None\<rparr> we = (Inr (), wf)"
      "writeAudit r RECOVERY_ESCALATED_UNDER_REVIEW m corr (Some tx) (Some (tw_state current)) (Some UNDER_REVIEW)
             (Some (lookup_name out)) wf = (Inr (), wg)" "w' = wg"
    by (simp add: escalate_def bnd_Inr seq_Inr Let_def) blast
  have kind: "re_kind x = ESCALATED_UNDER_REVIEW" using run by (auto simp: escalate_def bnd_Inr seq_Inr Let_def outcomeResult_def)
  have "sale_stands tx UNDER_REVIEW RES_UNDER_REVIEW wc"
    using settle_row_stands [OF s(2,3) s(4) [unfolded moveToUnderReview_def] _ ok known] transitionTo_Inr [OF s(1)] id by simp
  moreover have "quiet wd we" using opened by (rule keepsD [rotated]) (intro quiet_rules recovery_quiet)
  ultimately have "sale_stands tx UNDER_REVIEW RES_UNDER_REVIEW w'"
    using stands_quiet quiet_recovery_steps(2) [OF s(5)] quiet_recovery_steps(3) [OF z(1)] quiet_recovery_steps(1) [OF z(2)] z(3) by blast
  then show ?thesis by (simp add: reported_def kind)
qed

lemma keep_waiting_reports: "keep_waiting r tx m before corr ref out current n w = (Inr x, w') \<Longrightarrow> reported x tx w'"
  by (auto simp: keep_waiting_def seq_Inr reported_def outcomeResult_def split: if_splits)

lemma count_attempt_stands:
  assumes run: "count_attempt r tx m policy before corr ref out at current t w = (Inr x, w')" and ok: "sale_ok d w" and id: "tx_id t = tx"
    and known: "(tx, m, a) \<in> identity_tx ` set (transactions (w_db w))"
  shows "reported x tx w'"
proof -
  from run obtain wa wb job wc nx wd upd late n where
    s: "ensurePending tx m current corr policy w = (Inr (), wa)" "recordResolutionAttempt tx at wa = (Inr (), wb)"
      "updatePendingMetadata tx upd wb = (Inr (), wd)"
      "(if late then escalate r tx m before corr ref out at current t n nx else keep_waiting r tx m before corr ref out current n) wd = (Inr x, w')"
    by (simp add: count_attempt_def bnd_Inr seq_Inr Let_def) blast
  note q = quiet.trans [OF quiet.trans [OF quiet_recovery_steps(4) [OF s(1)] quiet_recovery_steps(5) [OF s(2)]] quiet_recovery_steps(3) [OF s(3)]]
  have okd: "sale_ok d wd" using evolves_quiet [OF q] ok by (simp add: evolves_def)
  have knownd: "(tx, m, a) \<in> identity_tx ` set (transactions (w_db wd))"
    using quiet_sales_grow [OF q] known unfolding sales_grow_def by blast
  show ?thesis
  proof (cases late)
    case True
    then show ?thesis using escalate_stands [OF _ okd id knownd] s(4) by simp
  next
    case False
    then show ?thesis using keep_waiting_reports s(4) by simp
  qed
qed

lemma hold_value_stands:
  assumes run: "hold_value r tx m policy before corr ref out at current t w = (Inr x, w')" and ok: "sale_ok d w" and id: "tx_id t = tx"
    and known: "(tx, m, a) \<in> identity_tx ` set (transactions (w_db w))"
  shows "reported x tx w'"
proof -
  from run obtain t' v where e: "enter_pending out at current t w = (Inr t', v)"
    and c: "count_attempt r tx m policy before corr ref out at current t' v = (Inr x, w')"
    by (auto simp: hold_value_def bnd_Inr)
  have "keeps (row_kept d (tx, m, a)) (enter_pending out at current t)"
    unfolding enter_pending_def using id by (intro row_rules row_persist) (auto dest!: transitionTo_Inr)
  then have "row_kept d (tx, m, a) w v" using e by (rule keepsD)
  then have "sale_ok d v" "(tx, m, a) \<in> identity_tx ` set (transactions (w_db v))"
    using ok known by (auto simp: row_kept_def evolves_def)
  then show ?thesis using count_attempt_stands [OF c] enter_pending_Inr [OF e] id by simp
qed

lemma skip_reports: "reported (skip row SKIPPED_TERMINAL corr) tx w"
  by (simp add: reported_def skip_def)

lemma apply_outcome_cases:
  assumes run: "apply_outcome r tx m policy before corr answer w = (Inr x, w')"
  obtains (skipped) corr' row where "x = skip row SKIPPED_TERMINAL corr'"
  | (applied) at v current t where "now (rd_sale r) w = (Inr at, v)" "findTransaction (w_db v) tx (Some m) = Some current"
      "rehydrate current = Inr t"
      "(if fst answer = LO_SUCCESS then apply_success r tx m before corr (snd answer) at current t
         else if fst answer = LO_FAILURE then apply_failure r tx m before corr (snd answer) at current t
         else hold_value r tx m policy before corr (snd answer) (fst answer) at current t) v = (Inr x, w')"
proof -
  obtain out ref where a: "answer = (out, ref)" by (cases answer)
  from run obtain at v current where now: "now (rd_sale r) w = (Inr at, v)"
    and found: "findTransaction (w_db v) tx (Some m) = Some current"
    and body: "(if tw_state current \<noteq> PROCESSING \<and> tw_state current \<noteq> PENDING then ret (skip current SKIPPED_TERMINAL corr)
       else bnd (lift_domain (rehydrate current)) (\<lambda>t.
         if out = LO_SUCCESS then apply_success r tx m before corr ref at current t
         else if out = LO_FAILURE then apply_failure r tx m before corr ref at current t
         else hold_value r tx m policy before corr ref out at current t)) v = (Inr x, w')"
    unfolding apply_outcome_def a db_transaction_Inr by (auto simp: bnd_Inr split: option.splits)
  show thesis
  proof (cases "tw_state current \<noteq> PROCESSING \<and> tw_state current \<noteq> PENDING")
    case True
    then show thesis using body skipped by simp
  next
    case False
    then have "bnd (lift_domain (rehydrate current)) (\<lambda>t.
         if out = LO_SUCCESS then apply_success r tx m before corr ref at current t
         else if out = LO_FAILURE then apply_failure r tx m before corr ref at current t
         else hold_value r tx m policy before corr ref out at current t) v = (Inr x, w')"
      using body by (simp only: if_False)
    then obtain t where "rehydrate current = Inr t"
      and "(if out = LO_SUCCESS then apply_success r tx m before corr ref at current t
         else if out = LO_FAILURE then apply_failure r tx m before corr ref at current t
         else hold_value r tx m policy before corr ref out at current t) v = (Inr x, w')"
      by (auto simp: bnd_Inr)
    then show thesis by (rule applied [OF now found, unfolded a fst_conv snd_conv])
  qed
qed

lemma apply_outcome_stands:
  assumes run: "apply_outcome r tx m policy before corr answer w = (Inr x, w')" and ok: "sale_ok d w"
  shows "reported x tx w'"
  using run
proof (cases rule: apply_outcome_cases)
  case (skipped corr' row)
  then show ?thesis by (simp only: skip_reports)
next
  case (applied at v current t)
  have okv: "sale_ok d v" using evolves_quiet [OF quiet_steps(6) [OF applied(1)]] ok by (simp add: evolves_def)
  note cur = findTransaction_SomeD [OF applied(2)]
  have known: "(tx, m, tw_amountMinor current) \<in> identity_tx ` set (transactions (w_db v))"
    using cur by (force simp: identity_tx_def)
  have id: "tx_id t = tx" using rehydrate_Inr [OF applied(3)] cur by simp
  show ?thesis
    using applied(4) apply_success_stands [OF _ okv id known] apply_failure_stands [OF _ okv id known] hold_value_stands [OF _ okv id known]
    by (auto split: if_splits)
qed

text \<open>How the recovery of one sale can return.\<close>

lemma recoverOne_cases:
  assumes run: "recoverOne r tx m policy scanId w = (Inr (x, ms), w')"
  obtains (skipped) corr row where "x = skip row SKIPPED_TERMINAL corr"
  | (never) row corr where "findTransaction (w_db w) tx (Some m) = Some row" "release_never_submitted r tx m row corr w = (Inr (), w')"
      "x = never_submitted_result tx m (tw_state row) corr"
  | (asked) row corr u wa wb s wc answer wd e we wf where "findTransaction (w_db w) tx (Some m) = Some row"
      "(if tw_state row = RESERVED then mark_uncertain r tx m policy row corr else ret ()) w = (Inr u, wa)"
      "writeAudit r RECOVERY_STATUS_LOOKUP m corr (Some tx) None None None wa = (Inr (), wb)"
      "now (rd_sale r) wb = (Inr s, wc)" "lookup_status r tx row wc = (Inr answer, wd)" "now (rd_sale r) wd = (Inr e, we)"
      "writeAudit r RECOVERY_OUTCOME_RECEIVED m corr (Some tx) None None (Some (lookup_name (fst answer))) we = (Inr (), wf)"
      "apply_outcome r tx m policy (tw_state row) corr answer wf = (Inr x, w')"
proof (cases "findTransaction (w_db w) tx (Some m)")
  case None
  then show thesis using run by (simp add: recoverOne_def bnd_def get_db_def throw_def)
next
  case (Some row)
  define corr where "corr = (case findPendingResolution (w_db w) tx of None \<Rightarrow> scanId | Some j \<Rightarrow> pw_correlationId j)"
  have body: "(if tw_state row \<notin> set IN_FLIGHT_STATES then ret (skip row SKIPPED_TERMINAL corr, Some 0)
        else if tw_state row = RESERVED \<and> tw_providerReference row = None then
          seq (release_never_submitted r tx m row corr) (ret (never_submitted_result tx m (tw_state row) corr, Some 0))
        else seq (if tw_state row = RESERVED then mark_uncertain r tx m policy row corr else ret ())
              (ask_provider r tx m policy row corr)) w = (Inr (x, ms), w')"
    using run unfolding recoverOne_def bnd_def get_db_def prod.case sum.case Some option.case Let_def corr_def .
  consider "x = skip row SKIPPED_TERMINAL corr"
    | "seq (release_never_submitted r tx m row corr) (ret (never_submitted_result tx m (tw_state row) corr, Some 0)) w = (Inr (x, ms), w')"
    | "seq (if tw_state row = RESERVED then mark_uncertain r tx m policy row corr else ret ())
                (ask_provider r tx m policy row corr) w = (Inr (x, ms), w')"
    using body by (auto split: if_splits)
  then show thesis
  proof cases
    case 1
    then show thesis by (rule skipped)
  next
    case 2
    then show thesis using never [OF Some] by (auto simp: seq_Inr)
  next
    case 3
    then obtain u wa where u: "(if tw_state row = RESERVED then mark_uncertain r tx m policy row corr else ret ()) w = (Inr u, wa)"
      and ask: "ask_provider r tx m policy row corr wa = (Inr (x, ms), w')" unfolding seq_Inr by blast
    from ask obtain wb s wc answer wd e we wf where
      "writeAudit r RECOVERY_STATUS_LOOKUP m corr (Some tx) None None None wa = (Inr (), wb)"
      "now (rd_sale r) wb = (Inr s, wc)" "lookup_status r tx row wc = (Inr answer, wd)" "now (rd_sale r) wd = (Inr e, we)"
      "writeAudit r RECOVERY_OUTCOME_RECEIVED m corr (Some tx) None None (Some (lookup_name (fst answer))) we = (Inr (), wf)"
      "apply_outcome r tx m policy (tw_state row) corr answer wf = (Inr x, w')"
      by (auto simp: ask_provider_def bnd_Inr seq_Inr)
    then show thesis by (rule asked [OF Some u])
  qed
qed

text \<open>
  C21. A sweep's report is true: when recovering a sale reports it recovered as successful, the sale is SUCCESSFUL and its
  reservation settled; reported failed or never submitted, the sale is FAILED and its value released; reported
  escalated, the sale and its reservation are under review. Whatever other requests did while the provider was awaited.
\<close>

theorem recovery_report_stands:
  assumes "recoverOne r tx m policy scanId w = (Inr (x, ms), w')" and "sale_ok (rd_sale r) w" and "provider_evolves (rd_sale r)"
  shows "reported x tx w'"
  using assms(1)
proof (cases rule: recoverOne_cases)
  case (skipped corr row)
  then show ?thesis by (simp only: skip_reports)
next
  case (never row corr)
  note row = findTransaction_SomeD [OF never(1)]
  have "(tx, m, tw_amountMinor row) \<in> identity_tx ` set (transactions (w_db w))" using row by (force simp: identity_tx_def)
  then have "sale_stands tx FAILED RELEASED w'" using release_never_submitted_stands [OF never(2) assms(2)] row by metis
  then show ?thesis by (simp add: never(3) reported_def never_submitted_result_def outcomeResult_def)
next
  case (asked row corr u wa wb s wc answer wd e we wf)
  have "keeps (row_kept (rd_sale r) (tx, m, tw_amountMinor row)) (if tw_state row = RESERVED then mark_uncertain r tx m policy row corr else ret ())"
    by (intro row.keeps_rules row_mark_uncertain) (use findTransaction_SomeD [OF asked(1)] in simp)
  then have "evolves (rd_sale r) w wa" using asked(2) evolves_of_row [OF asked(1)] keepsD by blast
  then have "sale_ok (rd_sale r) wf"
    using assms(2) quiet_recovery_steps(1) [OF asked(3)] quiet_steps(6) [OF asked(4)] keepsD [OF lookup_status_evolves [OF assms(3)] asked(5)]
      quiet_steps(6) [OF asked(6)] quiet_recovery_steps(1) [OF asked(7)] evolves_quiet
    by (metis evolves_def)
  then show ?thesis by (rule apply_outcome_stands [OF asked(8)])
qed

section \<open>A pending sale, recovered\<close>

text \<open>A sale whose submission ended in doubt, and one sweep of its shop by a worker that asks the same provider.\<close>

definition shop_worker :: "status_outcome \<Rightarrow> recovery_deps" where
  "shop_worker st = \<lparr>rd_sale = shop_deps INDETERMINATE st, rd_workerId = ''worker1'',
     rd_recovery = \<lparr>rc_policy = DEVELOPMENT_RECOVERY_POLICY\<lparr>rp_recoveryAgeMs := 0\<rparr>, rc_perProvider = []\<rparr>\<rparr>"

definition shop_policy :: recovery_policy where
  "shop_policy = policyFor (rd_recovery (shop_worker ST_SUCCESS)) None"

lemma shop_policy_fields:
  "rp_maxStatusAttempts shop_policy = 5" "rp_statusCheckIntervalMs shop_policy = 30000" "rp_pendingMaximumMs shop_policy = 300000"
  "rp_claimLeaseMs shop_policy = 30000" "rp_recoveryAgeMs shop_policy = 0"
  by (simp_all add: shop_policy_def shop_worker_def policyFor_def DEVELOPMENT_RECOVERY_POLICY_def)

lemma shop_worker_fields:
  "rd_sale (shop_worker st) = shop_deps INDETERMINATE st" "rd_workerId (shop_worker st) = ''worker1''"
  by (simp_all add: shop_worker_def)

lemmas run_recovery = recoverOne_def ask_provider_def lookup_status_def classifyStatus_def writeAudit_def apply_outcome_def
  apply_success_def apply_failure_def hold_value_def enter_pending_def count_attempt_def keep_waiting_def outcomeResult_def
  attemptsOf_def ensurePending_def skip_def IN_FLIGHT_STATES_def RECOVERY_ACTOR_def isOperationalFault_def lookup_name_def
  rehydrate_def persistRehydrated_def updatePendingMetadata_def shop_worker_fields shop_policy_fields
  guarded_move_def

lemma shop_recovers:
  "case recoverOne (shop_worker ST_SUCCESS) ''txn_'' ''m1'' shop_policy ''scan1'' world_pending of (r, w) \<Rightarrow>
     (\<exists>x ms. r = Inr (x, ms) \<and> re_kind x = RECOVERED_SUCCESSFUL) \<and>
     state_of_sales w = ([(''txn_'', SUCCESSFUL)], [(''txn_'', SETTLED)], 600) \<and> commission_entries (w_db w) = []"
  by (simp add: run_recovery run_all run_shop cong: run_congs)

lemma shop_waits:
  "case recoverOne (shop_worker ST_STILL_PENDING) ''txn_'' ''m1'' shop_policy ''scan1'' world_pending of (r, w) \<Rightarrow>
     (\<exists>x ms. r = Inr (x, ms) \<and> re_kind x = MOVED_TO_PENDING \<and> re_attempts x = 1) \<and>
     state_of_sales w = ([(''txn_'', PENDING)], [(''txn_'', HELD)], 600)"
  by (simp add: run_recovery run_all run_shop cong: run_congs)

lemma world_pending_sales: "state_of_sales world_pending = ([(''txn_'', PENDING)], [(''txn_'', HELD)], 600)"
  by (rule sales_of_shop)

lemma world_pending_job:
  "map (\<lambda>j. (pw_transactionId j, pw_status j, pw_attempts j)) (pending_resolutions (w_db world_pending)) = [(''txn_'', AWAITING, 0)] \<and>
   recovery_claims (w_db world_pending) = []"
  by (simp add: world_pending_fields shop_funded_fields shop_job_def)


lemma world_pending_ok: "sale_ok (shop_deps INDETERMINATE st) world_pending"
proof -
  let ?d = "shop_deps INDETERMINATE st"
  have "service_step ?d shop_funded world_pending"
    by (rule service_step.sell [OF shop_leaves_pending safe_request])
  then have "(service_step ?d)\<^sup>*\<^sup>* shop_world world_pending"
    by (rule two_steps [where r = "service_step ?d", OF shop_deposit])
  then show ?thesis using services_evolve [OF shop_provider_evolves shop_fresh_ids] shop_start by (auto simp: evolves_def)
qed

theorem recovery_report_stands_witness:
  "sale_stands ''txn_'' SUCCESSFUL SETTLED
     (snd (recoverOne (shop_worker ST_SUCCESS) ''txn_'' ''m1'' shop_policy ''scan1'' world_pending))"
proof -
  obtain x ms w where run: "recoverOne (shop_worker ST_SUCCESS) ''txn_'' ''m1'' shop_policy ''scan1'' world_pending = (Inr (x, ms), w)"
      and kind: "re_kind x = RECOVERED_SUCCESSFUL"
    using shop_recovers by (auto split: prod.splits)
  have "reported x ''txn_'' w"
    using recovery_report_stands [OF run] by (simp add: shop_worker_fields world_pending_ok shop_provider_evolves)
  then show ?thesis by (simp add: run reported_def kind)
qed

section \<open>Waiting ends\<close>

text \<open>The job of a sale that is being waited for: open, with at least \<open>n\<close> attempts on record.\<close>

definition open_job :: "string \<Rightarrow> int \<Rightarrow> world \<Rightarrow> bool" where
  "open_job tx n w \<longleftrightarrow>
     (case findPendingResolution (w_db w) tx of None \<Rightarrow> n \<le> 0 | Some j \<Rightarrow> pw_status j = AWAITING \<and> n \<le> pw_attempts j)"

lemma open_job_same: "same_on pending_resolutions w w' \<Longrightarrow> open_job tx n w' = open_job tx n w"
  by (simp add: open_job_def same_on_def findPendingResolution_def)

lemma find_update_where:
  "(\<And>x. Q (f x) = Q x) \<Longrightarrow> find Q (update_where P f xs) = map_option (\<lambda>x. if P x then f x else x) (find Q xs)"
  by (induction xs) (auto simp: update_where_def)

lemma ensurePending_open: "ensurePending tx m row corr policy w = (Inr (), w') \<Longrightarrow> open_job tx n w \<Longrightarrow> n \<le> 0 \<or> findPendingResolution (w_db w) tx \<noteq> None \<Longrightarrow>
   open_job tx n w' \<and> findPendingResolution (w_db w') tx \<noteq> None"
  by (auto simp: ensurePending_def upsertPendingResolution_def open_job_def findPendingResolution_def bnd_Inr seq_Inr pending_row_of_def
      find_append split: option.splits if_splits)

lemma recordAttempt_open:
  assumes run: "recordResolutionAttempt tx at w = (Inr (), w')" and job: "open_job tx n w" "findPendingResolution (w_db w) tx \<noteq> None"
  shows "open_job tx (n + 1) w' \<and> findPendingResolution (w_db w') tx \<noteq> None"
proof -
  obtain j where j: "findPendingResolution (w_db w) tx = Some j" using job(2) by auto
  have id: "pw_transactionId j = tx" using find_SomeD [OF j [unfolded findPendingResolution_def]] by simp
  show ?thesis
    using run job(1) j id
    by (auto simp: recordResolutionAttempt_def put_db_def open_job_def findPendingResolution_def find_update_where)
qed

text \<open>All other steps of a sweep leave the jobs alone.\<close>

abbreviation same_jobs :: "world \<Rightarrow> world \<Rightarrow> bool" where
  "same_jobs \<equiv> same_on pending_resolutions"

lemma rest_jobs: "leaves_rest w w' \<Longrightarrow> same_jobs w w'"
  by (simp add: leaves_rest_def other_tables_def same_on_def)

lemma jobs_now: "keeps same_jobs (now d)" and jobs_newId: "keeps same_jobs (newId d k)"
  by (simp_all add: keeps_def now_def newId_def same_on_def)

lemma jobs_writeAudit: "keeps same_jobs (writeAudit r a m corr tx before after detail)"
proof -
  have "keeps same_jobs (saveAuditEvent i)" for i
    unfolding saveAuditEvent_def
    by (intro same.keeps_rules) (auto simp: keeps_def put_db_def same_on_def lift_result_def ret_def throw_def split: sum.split)
  then show ?thesis unfolding writeAudit_def by (intro same.keeps_rules jobs_now jobs_newId)
qed

lemma jobs_persist: "keeps same_jobs (persistRehydrated t row)"
  unfolding persistRehydrated_def by (rule keeps_mono [OF rest_saveTransaction rest_jobs])

lemma keep_waiting_open: "keep_waiting r tx m before corr ref out current n w = (Inr x, w') \<Longrightarrow>
    same_jobs w w' \<and> (re_kind x = MOVED_TO_PENDING \<longrightarrow> re_attempts x = n)"
  using keepsD [OF jobs_writeAudit]
  by (fastforce simp: keep_waiting_def seq_Inr outcomeResult_def split: if_splits)

lemma count_attempt_open:
  assumes run: "count_attempt r tx m policy before corr ref out at current t w = (Inr x, w')" and kind: "re_kind x = MOVED_TO_PENDING"
    and job: "open_job tx n w" "n \<le> 0 \<or> findPendingResolution (w_db w) tx \<noteq> None"
  shows "open_job tx (n + 1) w' \<and> findPendingResolution (w_db w') tx \<noteq> None \<and> n + 1 \<le> re_attempts x \<and> re_attempts x < rp_maxStatusAttempts policy"
proof -
  define attempts :: "world \<Rightarrow> int" where "attempts v = (case findPendingResolution (w_db v) tx of None \<Rightarrow> 0 | Some j \<Rightarrow> pw_attempts j)" for v
  from run obtain wa wb nx wd upd late where
    s: "ensurePending tx m current corr policy w = (Inr (), wa)" "recordResolutionAttempt tx at wa = (Inr (), wb)"
      "updatePendingMetadata tx upd wb = (Inr (), wd)"
      "(if late \<or> rp_maxStatusAttempts policy \<le> attempts wb then escalate r tx m before corr ref out at current t (attempts wb) nx
        else keep_waiting r tx m before corr ref out current (attempts wb)) wd = (Inr x, w')"
    unfolding attempts_def by (simp add: count_attempt_def bnd_Inr seq_Inr Let_def) blast
  note open1 = ensurePending_open [OF s(1) job]
  note open2 = recordAttempt_open [OF s(2) conjunct1 [OF open1] conjunct2 [OF open1]]
  have open3: "open_job tx (n + 1) wd \<and> findPendingResolution (w_db wd) tx \<noteq> None"
    using open2 s(3) by (auto simp: updatePendingMetadata_def put_db_def open_job_def findPendingResolution_def find_update_where split: option.splits)
  have not_escalated: "\<not> (late \<or> rp_maxStatusAttempts policy \<le> attempts wb)"
    using s(4) kind by (auto simp: escalate_def bnd_Inr seq_Inr Let_def outcomeResult_def)
  then have "keep_waiting r tx m before corr ref out current (attempts wb) wd = (Inr x, w')" using s(4) by simp
  then have "same_jobs wd w'" "re_attempts x = attempts wb" using keep_waiting_open kind by blast+
  moreover have "n + 1 \<le> attempts wb" using open2 by (auto simp: open_job_def attempts_def)
  moreover have "open_job tx (n + 1) w'" using open3 open_job_same [OF calculation(1)] by simp
  moreover have "findPendingResolution (w_db w') tx \<noteq> None"
    using open3 calculation(1) by (simp add: same_on_def findPendingResolution_def)
  ultimately show ?thesis using not_escalated by simp
qed

lemma apply_success_kind: "apply_success r tx m before corr ref at current t w = (Inr x, w') \<Longrightarrow> re_kind x = RECOVERED_SUCCESSFUL"
  by (auto simp: apply_success_def bnd_Inr seq_Inr outcomeResult_def)

lemma apply_failure_kind: "apply_failure r tx m before corr ref at current t w = (Inr x, w') \<Longrightarrow> re_kind x = RECOVERED_FAILED"
  by (auto simp: apply_failure_def bnd_Inr seq_Inr outcomeResult_def)

lemma apply_outcome_open:
  assumes run: "apply_outcome r tx m policy before corr answer w = (Inr x, w')" and kind: "re_kind x = MOVED_TO_PENDING"
    and job: "open_job tx n w" "n \<le> 0 \<or> findPendingResolution (w_db w) tx \<noteq> None"
  shows "open_job tx (n + 1) w' \<and> findPendingResolution (w_db w') tx \<noteq> None \<and> n + 1 \<le> re_attempts x \<and> re_attempts x < rp_maxStatusAttempts policy"
  using run
proof (cases rule: apply_outcome_cases)
  case (skipped corr' row)
  then show ?thesis using kind by (simp add: skip_def)
next
  case (applied at v current t)
  have "hold_value r tx m policy before corr (snd answer) (fst answer) at current t v = (Inr x, w')"
    using applied(4) kind apply_success_kind apply_failure_kind by (fastforce split: if_splits)
  then obtain t' u where e: "enter_pending (fst answer) at current t v = (Inr t', u)"
    and c: "count_attempt r tx m policy before corr (snd answer) (fst answer) at current t' u = (Inr x, w')"
    by (auto simp: hold_value_def bnd_Inr)
  have "keeps same_jobs (enter_pending (fst answer) at current t)" unfolding enter_pending_def by (intro same.keeps_rules jobs_persist)
  then have "same_jobs v u" using e by (rule keepsD)
  moreover have "same_jobs w v" using applied(1) by (rule keepsD [OF jobs_now])
  ultimately have same: "same_jobs w u" by (auto simp: same_on_def)
  have "open_job tx n u" "n \<le> 0 \<or> findPendingResolution (w_db u) tx \<noteq> None"
    using job open_job_same [OF same] same by (auto simp: same_on_def findPendingResolution_def)
  then show ?thesis by (rule count_attempt_open [OF c kind])
qed

lemma mark_uncertain_open:
  assumes run: "mark_uncertain r tx m policy row corr w = (Inr u, w')"
    and job: "open_job tx n w" "n \<le> 0 \<or> findPendingResolution (w_db w) tx \<noteq> None"
  shows "open_job tx n w' \<and> findPendingResolution (w_db w') tx \<noteq> None"
proof -
  from run obtain at w0 t2 w1 w2 where p: "now (rd_sale r) w = (Inr at, w0)" "persistRehydrated t2 row w0 = (Inr (), w1)"
      "ensurePending tx m row corr policy w1 = (Inr (), w2)"
      "writeAudit r RECOVERY_MOVED_TO_PENDING m corr (Some tx) (Some (tw_state row)) (Some PENDING) (Some ''submission_uncertain'') w2 = (Inr u, w')"
    unfolding mark_uncertain_def db_transaction_Inr by (auto simp: bnd_Inr seq_Inr)
  have same: "same_jobs w w1" using keepsD [OF jobs_now p(1)] keepsD [OF jobs_persist p(2)] by (simp add: same_on_def)
  have "open_job tx n w1" "n \<le> 0 \<or> findPendingResolution (w_db w1) tx \<noteq> None"
    using job open_job_same [OF same] same by (auto simp: same_on_def findPendingResolution_def)
  then have "open_job tx n w2 \<and> findPendingResolution (w_db w2) tx \<noteq> None" by (rule ensurePending_open [OF p(3)])
  then show ?thesis
    using keepsD [OF jobs_writeAudit p(4)] open_job_same [OF keepsD [OF jobs_writeAudit p(4)]] by (simp add: same_on_def findPendingResolution_def)
qed

lemma recoverOne_open:
  assumes run: "recoverOne r tx m policy scanId w = (Inr (x, ms), w')" and kind: "re_kind x = MOVED_TO_PENDING"
    and provider: "\<And>q. keeps same_jobs (sd_getStatus (rd_sale r) q)"
    and job: "open_job tx n w" "n \<le> 0 \<or> findPendingResolution (w_db w) tx \<noteq> None"
  shows "open_job tx (n + 1) w' \<and> findPendingResolution (w_db w') tx \<noteq> None \<and> n + 1 \<le> re_attempts x \<and> re_attempts x < rp_maxStatusAttempts policy"
  using run
proof (cases rule: recoverOne_cases)
  case (skipped corr row)
  then show ?thesis using kind by (simp add: skip_def)
next
  case (never row corr)
  then show ?thesis using kind by (simp add: never_submitted_result_def outcomeResult_def)
next
  case (asked row corr u wa wb s wc answer wd e we wf)
  have marked: "open_job tx n wa \<and> (n \<le> 0 \<or> findPendingResolution (w_db wa) tx \<noteq> None)"
    using asked(2) mark_uncertain_open job by (cases "tw_state row = RESERVED") auto
  have "keeps same_jobs (log_call c)" for c by (simp add: keeps_def log_call_def same_on_def)
  then have "keeps same_jobs (getStatus (rd_sale r) q)" for q unfolding getStatus_def by (intro same.keeps_seq provider)
  then have "keeps same_jobs (lookup_status r tx row)" unfolding lookup_status_def by (intro same.keeps_rules)
  then have "same_jobs wc wd" using asked(5) by (rule keepsD)
  then have same: "same_jobs wa wf"
    using keepsD [OF jobs_writeAudit asked(3)] keepsD [OF jobs_now asked(4)] keepsD [OF jobs_now asked(6)]
      keepsD [OF jobs_writeAudit asked(7)]
    by (simp add: same_on_def)
  have "open_job tx n wf" "n \<le> 0 \<or> findPendingResolution (w_db wf) tx \<noteq> None"
    using marked open_job_same [OF same] same by (auto simp: same_on_def findPendingResolution_def)
  then show ?thesis by (rule apply_outcome_open [OF asked(8) kind])
qed

text \<open>
  A sale recovered again and again, and told each time to wait: whatever else happens in between leaves its job alone.
\<close>

inductive waits :: "recovery_deps \<Rightarrow> string \<Rightarrow> string \<Rightarrow> recovery_policy \<Rightarrow> int \<Rightarrow> world \<Rightarrow> bool" for r tx m policy where
  fresh: "open_job tx 0 w \<Longrightarrow> waits r tx m policy 0 w"
| wait: "waits r tx m policy n w \<Longrightarrow> recoverOne r tx m policy scanId w = (Inr (x, ms), w') \<Longrightarrow> re_kind x = MOVED_TO_PENDING \<Longrightarrow>
    waits r tx m policy (n + 1) w'"
| elsewhere: "waits r tx m policy n w \<Longrightarrow> findPendingResolution (w_db w') tx = findPendingResolution (w_db w) tx \<Longrightarrow>
    waits r tx m policy n w'"

lemma waits_job:
  assumes "\<And>q. keeps same_jobs (sd_getStatus (rd_sale r) q)"
  shows "waits r tx m policy n w \<Longrightarrow>
    open_job tx n w \<and> (n \<le> 0 \<or> findPendingResolution (w_db w) tx \<noteq> None \<and> n < rp_maxStatusAttempts policy) \<and> 0 \<le> n"
proof (induction rule: waits.induct)
  case (fresh w)
  then show ?case by simp
next
  case (wait n w scanId x ms w')
  then have "open_job tx n w" "n \<le> 0 \<or> findPendingResolution (w_db w) tx \<noteq> None" by auto
  from recoverOne_open [OF wait.hyps(2,3) assms this] show ?case using wait.IH by auto
next
  case (elsewhere n w w')
  then show ?case by (simp add: open_job_def)
qed

text \<open>
  C22. Waiting ends: a sale whose outcome stays unknown is told to wait fewer times than the policy's number of status
  attempts, after which a sweep no longer answers so: the sale is escalated to a person, or the sweep fails loudly.
\<close>

theorem waiting_ends:
  assumes "waits r tx m policy n w" and "0 < n" and "\<And>q. keeps same_jobs (sd_getStatus (rd_sale r) q)"
  shows "n < rp_maxStatusAttempts policy"
  using waits_job [OF assms(3) assms(1)] assms(2) by auto

definition waited_once where
  "waited_once = recoverOne (shop_worker ST_STILL_PENDING) ''txn_'' ''m1'' shop_policy ''scan1'' world_pending"

theorem waiting_ends_witness:
  "waits (shop_worker ST_STILL_PENDING) ''txn_'' ''m1'' shop_policy 1 (snd waited_once) \<and> 1 < rp_maxStatusAttempts shop_policy"
proof -
  obtain x ms where run: "recoverOne (shop_worker ST_STILL_PENDING) ''txn_'' ''m1'' shop_policy ''scan1'' world_pending = (Inr (x, ms), snd waited_once)"
      and kind: "re_kind x = MOVED_TO_PENDING"
    using shop_waits unfolding waited_once_def by (auto split: prod.splits)
  have "open_job ''txn_'' 0 world_pending" using world_pending_job by (auto simp: open_job_def findPendingResolution_def map_eq_Cons_conv)
  then have "waits (shop_worker ST_STILL_PENDING) ''txn_'' ''m1'' shop_policy (0 + 1) (snd waited_once)"
    by (intro waits.wait [OF waits.fresh run kind])
  then have w: "waits (shop_worker ST_STILL_PENDING) ''txn_'' ''m1'' shop_policy 1 (snd waited_once)" by simp
  then show ?thesis using waiting_ends [OF w] by (simp add: shop_worker_fields shop_deps_fields same.keeps_ret)
qed

section \<open>One worker at a time\<close>

text \<open>
  \<open>held\<close> says that a worker has a claim on a sale until a given time.
\<close>

definition held :: "string \<Rightarrow> string \<Rightarrow> timestamp \<Rightarrow> world \<Rightarrow> bool" where
  "held tx worker until w \<longleftrightarrow>
     (\<exists>c. findClaim (w_db w) tx = Some c \<and> cw_workerId c = worker \<and> cw_status c = CL_ACTIVE \<and> cw_expiresAt c = until)"

text \<open>A step of others while the lease lasts: a claim made before the lease ends, or a release by another worker.\<close>

inductive others_step :: "string \<Rightarrow> string \<Rightarrow> timestamp \<Rightarrow> world \<Rightarrow> world \<Rightarrow> bool" for tx worker until where
  claim: "claimTransaction i w = (x, w') \<Longrightarrow> ci_now i < until \<Longrightarrow> others_step tx worker until w w'"
| release: "releaseClaim tx' worker' t w = (x, w') \<Longrightarrow> worker' \<noteq> worker \<or> tx' \<noteq> tx \<Longrightarrow> others_step tx worker until w w'"
| other: "recovery_claims (w_db w') = recovery_claims (w_db w) \<Longrightarrow> others_step tx worker until w w'"

lemma claim_result:
  assumes "claimTransaction i w = (Inr o', w')" and "co_claimed o'"
  shows "held (ci_transactionId i) (ci_workerId i) (ci_expiresAt i) w'"
proof (cases "findClaim (w_db w) (ci_transactionId i)")
  case None
  then show ?thesis using assms
    by (auto simp: claimTransaction_def bnd_Inr seq_Inr get_db_def put_db_def require_run ret_def held_def findClaim_def find_append fresh_claim_def
        split: if_splits)
next
  case (Some c)
  note id = find_SomeD [OF Some [unfolded findClaim_def]]
  have "claim_free (ci_now i) c" using assms Some by (auto simp: claimTransaction_def bnd_Inr get_db_def ret_def split: if_splits)
  then have "w' = w\<lparr>w_db := (w_db w)\<lparr>recovery_claims :=
      update_where (\<lambda>x. cw_transactionId x = ci_transactionId i) (take_over i) (recovery_claims (w_db w))\<rparr>\<rparr>"
    using assms Some by (auto simp: claimTransaction_def bnd_Inr seq_Inr get_db_def put_db_def ret_def)
  then have "findClaim (w_db w') (ci_transactionId i) = Some (take_over i c)"
    using Some id by (simp add: findClaim_def find_update_where take_over_def)
  then show ?thesis by (simp add: held_def take_over_def)
qed

lemma claim_refused:
  assumes "held tx worker until w" and "claimTransaction i w = (x, w')" and "ci_transactionId i = tx" and "ci_now i < until"
  shows "w' = w \<and> (\<exists>o'. x = Inr o' \<and> \<not> co_claimed o' \<and> co_heldBy o' = Some worker)"
proof -
  have "\<not> until \<le> ci_now i" using assms(4) by simp
  then show ?thesis using assms(1-3) by (auto simp: held_def claimTransaction_def bnd_def get_db_def ret_def claim_free_def)
qed

lemma claim_elsewhere:
  assumes "claimTransaction i w = (x, w')" and "ci_transactionId i \<noteq> tx"
  shows "findClaim (w_db w') tx = findClaim (w_db w) tx"
proof (cases "findClaim (w_db w) (ci_transactionId i)")
  case None
  then show ?thesis using assms
    by (auto simp: claimTransaction_def bnd_def seq_def get_db_def put_db_def require_run ret_def findClaim_def find_append fresh_claim_def
        split: if_splits option.splits)
next
  case (Some c)
  have "find (\<lambda>c. cw_transactionId c = tx) (update_where (\<lambda>x. cw_transactionId x = ci_transactionId i) (take_over i) cs) =
      find (\<lambda>c. cw_transactionId c = tx) cs" for cs
    using assms(2) by (induction cs) (auto simp: update_where_def take_over_def)
  then show ?thesis using assms Some
    by (auto simp: claimTransaction_def bnd_def seq_def get_db_def put_db_def ret_def findClaim_def split: if_splits)
qed

lemma held_others:
  assumes "others_step tx worker until w w'" and held: "held tx worker until w"
  shows "held tx worker until w'"
  using assms(1)
proof cases
  case (claim i x)
  then show ?thesis using claim_refused [OF held] claim_elsewhere held by (cases "ci_transactionId i = tx") (auto simp: held_def)
next
  case (release tx' worker' t x)
  let ?P = "\<lambda>c. cw_transactionId c = tx' \<and> cw_workerId c = worker' \<and> cw_status c = CL_ACTIVE"
  have w': "recovery_claims (w_db w') = update_where ?P (release_row t) (recovery_claims (w_db w))"
    using release(1) by (auto simp: releaseClaim_def bnd_def seq_def get_db_def put_db_def ret_def)
  obtain c where c: "findClaim (w_db w) tx = Some c" "cw_workerId c = worker" "cw_status c = CL_ACTIVE" "cw_expiresAt c = until"
    using held by (auto simp: held_def)
  have "cw_transactionId c = tx" using find_SomeD [OF c(1) [unfolded findClaim_def]] by simp
  then have "findClaim (w_db w') tx = Some c"
    using c release(2) by (auto simp: findClaim_def w' find_update_where release_row_def)
  then show ?thesis using c by (auto simp: held_def)
next
  case other
  then show ?thesis using held by (simp add: held_def findClaim_def)
qed

text \<open>
  C23. One worker at a time: once a worker's claim on a sale has succeeded, then until its lease ends or the worker
  releases it, and whatever claims and releases all workers make meanwhile, every further claim on the sale is refused, names
  the holder and changes nothing.
\<close>

theorem claims_exclude:
  assumes "claimTransaction i w = (Inr o', v)" and "co_claimed o'"
    and "(others_step (ci_transactionId i) (ci_workerId i) (ci_expiresAt i))\<^sup>*\<^sup>* v u"
    and "claimTransaction j u = (x, u')" and "ci_transactionId j = ci_transactionId i" and "ci_now j < ci_expiresAt i"
  shows "u' = u \<and> (\<exists>k. x = Inr k \<and> \<not> co_claimed k \<and> co_heldBy k = Some (ci_workerId i))"
proof -
  have "held (ci_transactionId i) (ci_workerId i) (ci_expiresAt i) u"
    using assms(3) by (induction rule: rtranclp_induct) (auto intro: claim_result [OF assms(1,2)] held_others)
  then show ?thesis by (rule claim_refused [OF _ assms(4,5,6)])
qed

text \<open>A worker claims the pending sale for half a minute; another one comes ten seconds later.\<close>

definition sample_claim :: "string \<Rightarrow> timestamp \<Rightarrow> timestamp \<Rightarrow> claim_input" where
  "sample_claim worker t e = \<lparr>ci_transactionId = ''txn_'', ci_workerId = worker, ci_scanId = ''scan1'', ci_now = t, ci_expiresAt = e\<rparr>"

theorem claims_exclude_witness:
  "let w = snd (claimTransaction (sample_claim ''worker1'' t0 ''2026-09-14T08:00:30.000Z'') world_pending);
       (x, w') = claimTransaction (sample_claim ''worker2'' ''2026-09-14T08:00:10.000Z'' ''2026-09-14T08:00:40.000Z'') w
   in w' = w"
proof -
  let ?i = "sample_claim ''worker1'' t0 ''2026-09-14T08:00:30.000Z''"
  let ?j = "sample_claim ''worker2'' ''2026-09-14T08:00:10.000Z'' ''2026-09-14T08:00:40.000Z''"
  note conjunct2 [OF world_pending_job]
  moreover have "''txn_'' \<in> set (map fst (fst (state_of_sales world_pending)))"
    unfolding world_pending_sales by simp
  then have "transaction_exists (w_db world_pending) ''txn_''" by (auto simp: transaction_exists_def state_of_sales_def)
  ultimately have "\<exists>o' v. claimTransaction ?i world_pending = (Inr o', v) \<and> co_claimed o'"
    by (simp add: sample_claim_def claimTransaction_def bnd_def seq_def get_db_def put_db_def ret_def require_def findClaim_def)
  then obtain o' v where i: "claimTransaction ?i world_pending = (Inr o', v)" "co_claimed o'" by blast
  obtain x u where j: "claimTransaction ?j v = (x, u)" by (cases "claimTransaction ?j v")
  have "(''2026-09-14T08:00:10.000Z'' :: string) < ''2026-09-14T08:00:30.000Z''" by code_simp
  then have "u = v" using claims_exclude [OF i rtranclp.rtrancl_refl j] by (simp add: sample_claim_def)
  then show ?thesis using i j by simp
qed

end
