(* ===== verification/Recovery_Metrics.thy ===== *)
theory Recovery_Metrics
  imports Recovery Ledger_Properties
begin

text \<open>
  The gauges and alerts of the recovery sweep (\<open>services/api/src/application/recovery/metrics.ts\<close>). The health of the
  driver is SQLite's own integrity checks, an argument here, and a ledger that sums to zero.
\<close>

record recovery_gauges =
  ga_at :: timestamp
  ga_processing :: nat
  ga_reserved :: nat
  ga_pending :: nat
  ga_underReview :: nat
  ga_reversalRequired :: nat
  ga_oldestUnresolvedAgeMs :: "int option"
  ga_oldestUnresolvedId :: "string option"
  ga_openManualReviews :: nat
  ga_awaitingResolutions :: nat
  ga_ledgerResidualMinor :: int
  ga_healthy :: bool

text \<open>An age is \<open>None\<close> where JavaScript's is NaN: \<open>Math.max(0, NaN)\<close> is NaN, and no comparison with it holds.\<close>

definition driver_healthy :: "bool \<Rightarrow> db \<Rightarrow> bool" where
  "driver_healthy sqliteOk d \<longleftrightarrow> sqliteOk \<and> ledgerResidualMinor d = 0"

definition recoveryGauges :: "bool \<Rightarrow> db \<Rightarrow> timestamp \<Rightarrow> string option \<Rightarrow> recovery_gauges" where
  "recoveryGauges sqliteOk d t merchant =
     (let oldest = oldestUnresolved d UNRESOLVED_STATES;
          age = (case oldest of None \<Rightarrow> Some 0 | Some r \<Rightarrow> msBetween (tw_updatedAt r) t)
      in \<lparr>ga_at = t, ga_processing = countTransactionsByState d PROCESSING, ga_reserved = countTransactionsByState d RESERVED,
          ga_pending = countTransactionsByState d PENDING, ga_underReview = countTransactionsByState d UNDER_REVIEW,
          ga_reversalRequired = countTransactionsByState d REVERSAL_REQUIRED,
          ga_oldestUnresolvedAgeMs = map_option (max 0) age, ga_oldestUnresolvedId = map_option tw_id oldest,
          ga_openManualReviews = countOpenManualReviews d, ga_awaitingResolutions = length (awaitingResolutions d merchant),
          ga_ledgerResidualMinor = ledgerResidualMinor d, ga_healthy = driver_healthy sqliteOk d\<rparr>)"

datatype alert_severity = CRITICAL | HIGH | MEDIUM

record recovery_alert =
  al_code :: string
  al_severity :: alert_severity
  al_message :: string

record alert_thresholds =
  th_maxSafeUnresolvedMs :: int
  th_maxManualReviewQueue :: int
  th_maxRecoveryFailures :: int

definition alert_when :: "bool \<Rightarrow> string \<Rightarrow> alert_severity \<Rightarrow> string \<Rightarrow> recovery_alert list" where
  "alert_when b code severity message =
     (if b then [\<lparr>al_code = code, al_severity = severity, al_message = message\<rparr>] else [])"

definition evaluateAlerts :: "recovery_gauges \<Rightarrow> alert_thresholds \<Rightarrow> sweep_report option \<Rightarrow> recovery_alert list" where
  "evaluateAlerts g th sweep =
     alert_when (ga_ledgerResidualMinor g \<noteq> 0) ''LEDGER_RESIDUAL_NON_ZERO'' CRITICAL
       (''Ledger residual is '' @ dec_int (ga_ledgerResidualMinor g) @ ''; double entry has broken'') @
     alert_when (\<not> ga_healthy g) ''DATABASE_UNHEALTHY'' CRITICAL ''Driver health check failed'' @
     alert_when (case ga_oldestUnresolvedAgeMs g of None \<Rightarrow> False | Some a \<Rightarrow> th_maxSafeUnresolvedMs th < a)
       ''TRANSACTION_STUCK_BEYOND_SAFE_PERIOD'' HIGH
       (''Oldest unresolved transaction '' @ or_else (ga_oldestUnresolvedId g) '''' @ '' is beyond the safe period'') @
     alert_when (th_maxManualReviewQueue th < int (ga_openManualReviews g)) ''MANUAL_REVIEW_QUEUE_GROWING'' MEDIUM
       (dec_nat (ga_openManualReviews g) @ '' open manual reviews'') @
     (case sweep of None \<Rightarrow> []
      | Some s \<Rightarrow>
          alert_when (th_maxRecoveryFailures th < int (swp_recoveryFailures s)) ''RECOVERY_WORKER_FAILURES'' HIGH
            (dec_nat (swp_recoveryFailures s) @ '' recovery attempts failed in one sweep'') @
          alert_when (0 < swp_operationalAlerts s) ''PROVIDER_LOOKUP_FAILURE_SPIKE'' HIGH
            ''Provider status lookups are failing for configuration or authorization reasons'' @
          alert_when (0 < swp_duplicateWorkersPrevented s) ''MULTIPLE_RECOVERY_ATTEMPTS'' MEDIUM
            (dec_nat (swp_duplicateWorkersPrevented s) @ '' duplicate worker claims were refused''))"

section \<open>What an alert means\<close>

lemma mem_sort_key_hd: "sort_key f xs = x # ys \<Longrightarrow> x \<in> set xs \<and> (\<forall>y\<in>set xs. f x \<le> f y)"
  for f :: "'a \<Rightarrow> 'b::linorder"
  by (metis list.set_intros(1) set_ConsD set_sort order_refl sorted_sort_key sorted_simps(2) list.simps(9) set_map imageI)

text \<open>The oldest unresolved sale is one of the unresolved, and none of them was touched earlier.\<close>

lemma oldest_is_oldest:
  assumes "oldestUnresolved d states = Some r"
  shows "r \<in> set (transactions d) \<and> tw_state r \<in> set states \<and>
    (\<forall>t\<in>set (transactions d). tw_state t \<in> set states \<longrightarrow> tw_updatedAt r \<le> tw_updatedAt t)"
  using assms by (auto simp: oldestUnresolved_def split: list.splits dest!: mem_sort_key_hd)

text \<open>
  C34. A stuck sale cannot hide: when a sale that holds value was last touched longer ago than the safe period, the gauges
  raise the alert that a transaction is stuck, whatever else is in the store.
\<close>

theorem stuck_sale_raises_alert:
  assumes "r \<in> set (transactions d)" and "tw_state r \<in> set UNRESOLVED_STATES"
    and "\<forall>t\<in>set (transactions d). \<exists>m. iso_range m \<and> tw_updatedAt t = iso_of_ms m"
    and "tw_updatedAt r = iso_of_ms touched" and "iso_range touched" and "iso_range at" and "th_maxSafeUnresolvedMs th < at - touched"
  shows "''TRANSACTION_STUCK_BEYOND_SAFE_PERIOD'' \<in> al_code ` set (evaluateAlerts (recoveryGauges sqliteOk d (iso_of_ms at) merchant) th sweep)"
proof -
  have "r \<in> set (filter (\<lambda>t. tw_state t \<in> set UNRESOLVED_STATES) (transactions d))" using assms(1,2) by simp
  then obtain s where s: "oldestUnresolved d UNRESOLVED_STATES = Some s"
    unfolding oldestUnresolved_def by (metis (no_types, lifting) list.case_eq_if list.exhaust_sel set_sort length_0_conv list.set(1) empty_iff)
  note old = oldest_is_oldest [OF s]
  obtain m where m: "iso_range m" "tw_updatedAt s = iso_of_ms m" using old assms(3) by blast
  have "iso_of_ms m \<le> iso_of_ms touched" using old assms(1,2,4) m by auto
  then have "m \<le> touched" using iso_le_iff m(1) assms(5) by blast
  then have "th_maxSafeUnresolvedMs th < max 0 (at - m)" using assms(7) by simp
  then show ?thesis
    using s m assms(6)
    by (simp add: evaluateAlerts_def recoveryGauges_def Let_def msBetween_def date_parse_iso alert_when_def image_Un)
qed

text \<open>The sale of the sample store, half an hour later.\<close>

definition stuck_db :: db where
  "stuck_db = sample_db\<lparr>transactions := [sample_tx\<lparr>tw_state := PENDING\<rparr>]\<rparr>"

theorem stuck_sale_raises_alert_witness:
  "''TRANSACTION_STUCK_BEYOND_SAFE_PERIOD'' \<in> al_code ` set (evaluateAlerts
     (recoveryGauges True stuck_db (iso_of_ms (1789372800000 + 1800000)) None)
     \<lparr>th_maxSafeUnresolvedMs = 900000, th_maxManualReviewQueue = 5, th_maxRecoveryFailures = 3\<rparr> None)"
proof (rule stuck_sale_raises_alert)
  show "sample_tx\<lparr>tw_state := PENDING\<rparr> \<in> set (transactions stuck_db)" by (simp add: stuck_db_def)
  note t = t0_moment
  then show "tw_updatedAt (sample_tx\<lparr>tw_state := PENDING\<rparr>) = iso_of_ms 1789372800000" by (simp add: sample_tx_def)
  show "iso_range 1789372800000" "iso_range (1789372800000 + 1800000)" by (simp_all add: run_iso cong: Let_lazy)
  show "\<forall>t\<in>set (transactions stuck_db). \<exists>m. iso_range m \<and> tw_updatedAt t = iso_of_ms m"
    using t \<open>iso_range 1789372800000\<close> by (auto simp: stuck_db_def sample_tx_def)
qed (simp_all add: UNRESOLVED_STATES_def)

end
