(* ===== verification/Delayed_Sales.thy ===== *)
theory Delayed_Sales
  imports Recovery_Properties
begin

text \<open>
  What is different about a sale whose outcome arrives late: no commission is entered for it, and an answer that comes
  after a sweep has settled the sale overwrites the sale's state.
\<close>

section \<open>Commission\<close>

abbreviation same_commission :: "world \<Rightarrow> world \<Rightarrow> bool" where
  "same_commission \<equiv> same_on commission_entries"

lemma rest_commission: "leaves_rest w w' \<Longrightarrow> same_commission w w'"
  by (simp add: leaves_rest_def other_tables_def same_on_def)

lemma commission_put_db: "(\<And>s. commission_entries (f s) = commission_entries s) \<Longrightarrow> keeps same_commission (put_db f)"
  by (simp add: keeps_def put_db_def same_on_def)

lemma commission_basics: "keeps same_commission (now d)" "keeps same_commission (newId d k)" "keeps same_commission (lift_result x)"
  "keeps same_commission (log_call c)"
  by (simp_all add: keeps_def now_def newId_def lift_result_def log_call_def ret_def throw_def same_on_def split: sum.split)

lemma commission_writes:
  "keeps same_commission (saveAuditEvent u)" "keeps same_commission (upsertPendingResolution p)"
  "keeps same_commission (recordResolutionAttempt tx t)" "keeps same_commission (closePendingResolution tx s t)"
  "keeps same_commission (createSupportCase c)" "keeps same_commission (updatePendingMetadata tx i)"
  "keeps same_commission (recordIdempotencyResult m k st t)"
  unfolding saveAuditEvent_def upsertPendingResolution_def recordResolutionAttempt_def closePendingResolution_def
    createSupportCase_def updatePendingMetadata_def recordIdempotencyResult_def
  by (intro same.keeps_rules commission_put_db commission_basics; simp)+

lemmas commission_money = rest_resolutions(1-3) [THEN keeps_mono, OF rest_commission] rest_saveTransaction [THEN keeps_mono, OF rest_commission]

lemmas commission_rules = same.keeps_rules commission_basics commission_writes commission_money

lemma commission_recoverOne:
  assumes "\<And>q. keeps same_commission (sd_getStatus (rd_sale r) q)"
  shows "keeps same_commission (recoverOne r tx m policy scanId)"
  unfolding recoverOne_def ask_provider_def lookup_status_def apply_outcome_def apply_success_def apply_failure_def hold_value_def
    enter_pending_def count_attempt_def escalate_def keep_waiting_def release_never_submitted_def mark_uncertain_def writeAudit_def
    persistRehydrated_def money_context_def ensurePending_def getStatus_def Let_def
  by (intro commission_rules assms)

lemma commission_resolvePending:
  assumes "\<And>q. keeps same_commission (sd_getStatus d q)"
  shows "keeps same_commission (resolvePending d tx m)"
  unfolding resolvePending_def resolve_phase_def resolve_current_def resolved_success_def resolved_failure_def resolved_escalated_def
    resolution_audit_def persistRehydrated_def money_context_def getStatus_def Let_def
  by (intro commission_rules assms)

text \<open>
  A sale confirmed late earns no commission: neither a sweep that finds a sale delivered nor a later question
  about a pending one ever adds a commission entry, while a sale confirmed at once does.
\<close>

theorem late_success_earns_nothing:
  assumes "\<And>q. keeps same_commission (sd_getStatus (rd_sale r) q)"
    and "recoverOne r tx m policy scanId w = (x, v)" and "resolvePending (rd_sale r) tx' m' v = (y, w')"
  shows "commission_entries (w_db w') = commission_entries (w_db w)"
  using keepsD [OF commission_recoverOne assms(2)] keepsD [OF commission_resolvePending assms(3)] assms(1)
  by (simp add: same_on_def)

theorem late_success_earns_nothing_witness:
  "let (x, v) = recoverOne (shop_worker ST_SUCCESS) ''txn_'' ''m1'' shop_policy ''scan1'' world_pending;
       (y, w') = resolvePending (shop_deps INDETERMINATE ST_SUCCESS) ''txn_'' ''m1'' v
   in commission_entries (w_db w') = commission_entries (w_db world_pending)"
proof -
  obtain x v where x: "recoverOne (shop_worker ST_SUCCESS) ''txn_'' ''m1'' shop_policy ''scan1'' world_pending = (x, v)"
    by (cases "recoverOne (shop_worker ST_SUCCESS) ''txn_'' ''m1'' shop_policy ''scan1'' world_pending")
  obtain y w where y: "resolvePending (shop_deps INDETERMINATE ST_SUCCESS) ''txn_'' ''m1'' v = (y, w)"
    by (cases "resolvePending (shop_deps INDETERMINATE ST_SUCCESS) ''txn_'' ''m1'' v")
  have "commission_entries (w_db w) = commission_entries (w_db world_pending)"
    by (rule late_success_earns_nothing [OF _ x]) (use y in \<open>simp_all add: shop_worker_fields shop_deps_fields same.keeps_ret\<close>)
  then show ?thesis by (simp add: x y)
qed

lemma commission_at_once:
  "map (\<lambda>c. (kw_transactionId c, kw_providerCommissionMinor c)) (commission_entries (w_db world_sold)) = [(''txn_'', 20)]"
  by (simp add: world_sold_fields shop_commission_def)

section \<open>An answer that comes too late\<close>

text \<open>
  A provider whose answer to the submission takes so long that a sweep finds the sale, learns from the status lookup
  that it was delivered, and settles it; then the submission ends without a verdict.
\<close>

definition slow_shop :: sale_deps where
  "slow_shop = (shop_deps INDETERMINATE ST_SUCCESS)\<lparr>sd_submit := (\<lambda>r c.
     bnd (recoverOne (shop_worker ST_SUCCESS) ''txn_'' ''m1'' shop_policy ''scan1'')
     (\<lambda>_. ret \<lparr>sr_outcome = INDETERMINATE, sr_providerReference = Some ''ref1''\<rparr>))\<rparr>"

lemma slow_shop_fields:
  "sd_health slow_shop = ret True"
  "sd_submit slow_shop r pc = bnd (recoverOne (shop_worker ST_SUCCESS) ''txn_'' ''m1'' shop_policy ''scan1'')
     (\<lambda>_. ret \<lparr>sr_outcome = INDETERMINATE, sr_providerReference = Some ''ref1''\<rparr>)"
  "sd_getStatus slow_shop s = ret \<lparr>ps_outcome = ST_SUCCESS, ps_providerReference = None\<rparr>"
  "sd_providerId slow_shop = ''mock''" "sd_mode slow_shop = TRAINING"
  "sd_recipientSalt slow_shop = ''salt''" "sd_sha256 slow_shop t = ''hash''"
  "sd_now slow_shop n = t0" "sd_newId slow_shop k n = k @ ''_'' @ replicate n (CHR ''i'')"
  "sd_pendingMaximumMs slow_shop = None"
  "sd_catalog slow_shop ''p1'' = Some \<lparr>cp_id = ''p1'', cp_label = ''p'', cp_available = True\<rparr>"
  by (simp_all add: slow_shop_def shop_deps_def simulatedCatalog_def)

text \<open>The merchant's money is spent, and the sale is PENDING.\<close>

theorem late_answer_overwrites_recovery:
  "state_of_sales (snd (createSale slow_shop shop_request shop_funded)) = ([(''txn_'', PENDING)], [(''txn_'', SETTLED)], 600)"
  by (simp add: run_recovery run_all run_shop slow_shop_fields cong: run_congs)

end
