(* ===== verification/Feature_Flags.thy ===== *)
theory Feature_Flags
  imports Access "HOL-Library.Sublist"
begin

text \<open>
  \<open>packages/domain/src/featureFlags.ts\<close>: the register of capabilities, the routes and the permissions that belong to
  each, and the checks made at start-up. A flag that is off is refused at the route, in the roles, and at start-up.
\<close>

datatype feature_flag =
    FF_airtime_vending | FF_money_live | FF_training_mode | FF_product_electricity | FF_product_data | FF_wallet
  | FF_payments_acceptance | FF_cash_in_out | FF_lending | FF_remittance | FF_bills_general | FF_vending_offline
  | FF_settlement_independent | FF_funding_submission | FF_card_simulated | FF_deposits_training
  | FF_registration_self_service | FF_reversal_merchant_initiated | FF_transfer_shop_to_shop | FF_deposit_chapa

fun FEATURE_FLAGS :: "feature_flag \<Rightarrow> bool" where
  "FEATURE_FLAGS FF_airtime_vending = True"
| "FEATURE_FLAGS FF_money_live = False"
| "FEATURE_FLAGS FF_training_mode = True"
| "FEATURE_FLAGS FF_product_data = False"
| "FEATURE_FLAGS FF_product_electricity = False"
| "FEATURE_FLAGS FF_wallet = False"
| "FEATURE_FLAGS FF_payments_acceptance = False"
| "FEATURE_FLAGS FF_cash_in_out = False"
| "FEATURE_FLAGS FF_lending = False"
| "FEATURE_FLAGS FF_remittance = False"
| "FEATURE_FLAGS FF_bills_general = False"
| "FEATURE_FLAGS FF_vending_offline = False"
| "FEATURE_FLAGS FF_settlement_independent = False"
| "FEATURE_FLAGS FF_funding_submission = False"
| "FEATURE_FLAGS FF_card_simulated = True"
| "FEATURE_FLAGS FF_deposits_training = True"
| "FEATURE_FLAGS FF_registration_self_service = True"
| "FEATURE_FLAGS FF_reversal_merchant_initiated = True"
| "FEATURE_FLAGS FF_transfer_shop_to_shop = True"
| "FEATURE_FLAGS FF_deposit_chapa = True"

definition GATED_BY_LAUNCH_REVIEW :: "feature_flag list" where
  "GATED_BY_LAUNCH_REVIEW =
     [FF_money_live, FF_payments_acceptance, FF_wallet, FF_cash_in_out, FF_lending, FF_remittance,
      FF_settlement_independent, FF_funding_submission, FF_product_electricity, FF_bills_general, FF_vending_offline]"

definition MOVES_REAL_MONEY :: "feature_flag list" where
  "MOVES_REAL_MONEY =
     [FF_money_live, FF_payments_acceptance, FF_wallet, FF_cash_in_out, FF_lending, FF_remittance,
      FF_settlement_independent, FF_funding_submission]"

definition isEnabled :: "feature_flag \<Rightarrow> bool" where
  "isEnabled f = FEATURE_FLAGS f"

text \<open>\<open>requireFeature\<close> throws a \<open>FeatureDisabledError\<close>, which carries the flag.\<close>

definition requireFeature :: "feature_flag \<Rightarrow> feature_flag + unit" where
  "requireFeature f = (if FEATURE_FLAGS f then Inr () else Inl f)"

section \<open>Routes\<close>

definition FEATURE_ROUTES :: "(string \<times> feature_flag) list" where
  "FEATURE_ROUTES =
     [(''/sell'', FF_airtime_vending), (''/data'', FF_product_data), (''/electricity'', FF_product_electricity),
      (''/bills'', FF_bills_general), (''/wallet'', FF_wallet), (''/cash'', FF_cash_in_out), (''/lending'', FF_lending),
      (''/remittance'', FF_remittance), (''/settlement'', FF_settlement_independent), (''/funding'', FF_funding_submission),
      (''/pay'', FF_card_simulated), (''/vouchers/data'', FF_product_data), (''/api/sales'', FF_airtime_vending),
      (''/api/funding'', FF_funding_submission), (''/api/wallet'', FF_wallet),
      (''/api/training/pay/deposits'', FF_deposits_training), (''/register'', FF_registration_self_service),
      (''/reverse'', FF_reversal_merchant_initiated), (''/transfer'', FF_transfer_shop_to_shop)]"

definition route_matches :: "string \<Rightarrow> string \<Rightarrow> bool" where
  "route_matches path root \<longleftrightarrow> path = root \<or> prefix (root @ ''/'') path \<or> prefix (root @ ''?'') path"

text \<open>The loop keeps the longest prefix that matched and its flag.\<close>

fun best_route :: "string \<Rightarrow> (string \<times> feature_flag) list \<Rightarrow> string \<times> feature_flag option \<Rightarrow> string \<times> feature_flag option" where
  "best_route path [] best = best"
| "best_route path ((root, flag) # rs) best =
     best_route path rs
       (if \<not> route_matches path root then best
        else if length (fst best) < length root then (root, Some flag) else best)"

definition featureForPath :: "string \<Rightarrow> feature_flag option" where
  "featureForPath path = snd (best_route path FEATURE_ROUTES ('''', None))"

definition routeBlockedBy :: "string \<Rightarrow> feature_flag option" where
  "routeBlockedBy path =
     (case featureForPath path of None \<Rightarrow> None | Some flag \<Rightarrow> if FEATURE_FLAGS flag then None else Some flag)"

section \<open>Roles\<close>

text \<open>The entries of the record, in the order \<open>Object.entries\<close> gives them.\<close>

definition FEATURE_PERMISSIONS :: "(feature_flag \<times> permission list) list" where
  "FEATURE_PERMISSIONS =
     [(FF_airtime_vending, [POS_CREATE_SALE]), (FF_deposits_training, [POS_DEPOSIT_TRAINING_FUNDS]),
      (FF_funding_submission, [FUNDS_RELEASE])]"

definition ACTOR_ROLES :: "actor_role list" where
  "ACTOR_ROLES = [MERCHANT_OPERATOR, MERCHANT_OWNER, OPS_VERIFIER, OPS_RECONCILER, OPS_SUPPORT, OPS_APPROVER, ADMIN, SYSTEM]"

record capability_leak =
  lk_role :: actor_role
  lk_permission :: permission
  lk_flag :: feature_flag

definition findRoleCapabilityLeaks :: "capability_leak list" where
  "findRoleCapabilityLeaks =
     concat (map (\<lambda>(flag, permissions).
       if FEATURE_FLAGS flag then []
       else concat (map (\<lambda>role.
              concat (map (\<lambda>p. if p \<in> set (ROLE_PERMISSIONS role)
                               then [\<lparr>lk_role = role, lk_permission = p, lk_flag = flag\<rparr>] else []) permissions)) ACTOR_ROLES))
       FEATURE_PERMISSIONS)"

definition assertNoRoleCarriesDisabledCapability :: "actor_role list \<Rightarrow> capability_leak list + unit" where
  "assertNoRoleCarriesDisabledCapability roles =
     (let leaks = filter (\<lambda>l. lk_role l \<in> set roles) findRoleCapabilityLeaks
      in if 0 < length leaks then Inl leaks else Inr ())"

section \<open>Live money\<close>

datatype launch_gate =
    COMPANY_AUTHORITY | PROVIDER_AUTHORIZATION | FUNDS_STRUCTURE | MERCHANT_AGREEMENT | PROVIDER_SLA
  | FUNDING_RECONCILIATION_TESTED | SECURITY_PERMISSIONS_TESTED | SUPPORT_ESCALATION_ASSIGNED
  | LIMITS_AND_BUDGET_APPROVED | BACKUPS_RECOVERY_TESTED

definition LAUNCH_GATES :: "launch_gate list" where
  "LAUNCH_GATES =
     [COMPANY_AUTHORITY, PROVIDER_AUTHORIZATION, FUNDS_STRUCTURE, MERCHANT_AGREEMENT, PROVIDER_SLA,
      FUNDING_RECONCILIATION_TESTED, SECURITY_PERMISSIONS_TESTED, SUPPORT_ESCALATION_ASSIGNED,
      LIMITS_AND_BUDGET_APPROVED, BACKUPS_RECOVERY_TESTED]"

definition GATES_CLEARED :: "launch_gate list" where
  "GATES_CLEARED = []"

definition LIVE_MONEY_APPROVERS :: "string list" where
  "LIVE_MONEY_APPROVERS = []"

text \<open>The sentences are kept as what they say: which gates are outstanding, and how many owners approve.\<close>

datatype live_money_blocker = Gates_outstanding "launch_gate list" nat | Approvers_missing nat

definition liveMoneyBlockers :: "live_money_blocker list" where
  "liveMoneyBlockers =
     (let outstanding = filter (\<lambda>g. g \<notin> set GATES_CLEARED) LAUNCH_GATES
      in (if 0 < length outstanding then [Gates_outstanding outstanding (length LAUNCH_GATES)] else []) @
         (if length LIVE_MONEY_APPROVERS < 2 then [Approvers_missing (length LIVE_MONEY_APPROVERS)] else []))"

definition canEnableLiveMoney :: bool where
  "canEnableLiveMoney \<longleftrightarrow> length liveMoneyBlockers = 0"

section \<open>Start-up\<close>

datatype startup_refusal =
    Live_money_on "feature_flag list" | Live_money_blocked | Training_off | Role_leak "capability_leak list"

definition assertNoLiveMoneyEnabled :: "startup_refusal + unit" where
  "assertNoLiveMoneyEnabled =
     (let on = filter FEATURE_FLAGS MOVES_REAL_MONEY
      in if 0 < length on then Inl (Live_money_on on)
         else if FEATURE_FLAGS FF_money_live \<and> \<not> canEnableLiveMoney then Inl Live_money_blocked
         else if \<not> FEATURE_FLAGS FF_training_mode \<and> \<not> FEATURE_FLAGS FF_money_live then Inl Training_off
         else (case assertNoRoleCarriesDisabledCapability [MERCHANT_OPERATOR, MERCHANT_OWNER] of
                 Inl ls \<Rightarrow> Inl (Role_leak ls) | Inr _ \<Rightarrow> Inr ()))"

definition featurePermissionsAreKnown :: bool where
  "featurePermissionsAreKnown \<longleftrightarrow> list_all (\<lambda>p. p \<in> set PERMISSIONS) (concat (map snd FEATURE_PERMISSIONS))"

section \<open>The longest matching prefix\<close>

lemma best_route_spec:
  "best_route path rs best = b \<Longrightarrow>
    (b = best \<or> (\<exists>root flag. (root, flag) \<in> set rs \<and> route_matches path root \<and> b = (root, Some flag))) \<and>
    length (fst best) \<le> length (fst b) \<and>
    (\<forall>(root, flag) \<in> set rs. route_matches path root \<longrightarrow> length root \<le> length (fst b))"
proof (induction rs arbitrary: best)
  case Nil
  then show ?case by simp
next
  case (Cons r rs)
  obtain root flag where r: "r = (root, flag)" by (cases r)
  let ?best = "if \<not> route_matches path root then best
        else if length (fst best) < length root then (root, Some flag) else best"
  have b: "best_route path rs ?best = b" using Cons.prems by (simp add: r)
  from Cons.IH [OF b] show ?case by (auto simp: r split: if_splits)
qed

lemma routes_apart: "(p, f) \<in> set FEATURE_ROUTES \<Longrightarrow> (q, g) \<in> set FEATURE_ROUTES \<Longrightarrow> p = q \<Longrightarrow> f = g"
  by (auto simp: FEATURE_ROUTES_def)

lemma route_prefix: "route_matches path root \<Longrightarrow> prefix root path"
  by (auto simp: route_matches_def prefix_def)

lemma same_length_matches:
  assumes "route_matches path p" "route_matches path q" "length p = length q"
  shows "p = q"
  using route_prefix [OF assms(1)] route_prefix [OF assms(2)] assms(3) by (auto simp: prefix_def)

text \<open>
  The flag of a path is the flag of the longest route that matches it at a segment boundary, and no flag when none does:
  the loop over the table computes exactly that.
\<close>

theorem featureForPath_longest:
  "featureForPath path = Some flag \<longleftrightarrow>
     (\<exists>root. (root, flag) \<in> set FEATURE_ROUTES \<and> route_matches path root \<and>
       (\<forall>(other, g) \<in> set FEATURE_ROUTES. route_matches path other \<longrightarrow> length other \<le> length root))"
proof -
  obtain b where b: "best_route path FEATURE_ROUTES ('''', None) = b" by simp
  note spec = best_route_spec [OF b]
  have nonempty: "(root, f) \<in> set FEATURE_ROUTES \<Longrightarrow> root \<noteq> ''''" for root f by (auto simp: FEATURE_ROUTES_def)
  show ?thesis
  proof
    assume "featureForPath path = Some flag"
    then have "snd b = Some flag" by (simp add: featureForPath_def b)
    then show "\<exists>root. (root, flag) \<in> set FEATURE_ROUTES \<and> route_matches path root \<and>
       (\<forall>(other, g) \<in> set FEATURE_ROUTES. route_matches path other \<longrightarrow> length other \<le> length root)"
      using spec by auto
  next
    assume "\<exists>root. (root, flag) \<in> set FEATURE_ROUTES \<and> route_matches path root \<and>
       (\<forall>(other, g) \<in> set FEATURE_ROUTES. route_matches path other \<longrightarrow> length other \<le> length root)"
    then obtain root where root: "(root, flag) \<in> set FEATURE_ROUTES" "route_matches path root"
      and longest: "\<forall>(other, g) \<in> set FEATURE_ROUTES. route_matches path other \<longrightarrow> length other \<le> length root" by blast
    have "length root \<le> length (fst b)" using spec root by auto
    moreover have "root \<noteq> ''''" using nonempty root(1) .
    ultimately obtain r f where r: "b = (r, Some f)" "(r, f) \<in> set FEATURE_ROUTES" "route_matches path r"
      using spec by (cases b) auto
    then have "length r = length root" using longest \<open>length root \<le> length (fst b)\<close> by fastforce
    then have "r = root" using same_length_matches r(3) root(2) by blast
    then show "featureForPath path = Some flag" using r routes_apart root(1) by (auto simp: featureForPath_def b)
  qed
qed

theorem featureForPath_longest_witness:
  "featureForPath ''/vouchers/data/7'' = Some FF_product_data"
proof -
  have "(''/vouchers/data'', FF_product_data) \<in> set FEATURE_ROUTES \<and> route_matches ''/vouchers/data/7'' ''/vouchers/data'' \<and>
      (\<forall>(other, g) \<in> set FEATURE_ROUTES. route_matches ''/vouchers/data/7'' other \<longrightarrow> length other \<le> length ''/vouchers/data'')"
    by code_simp
  then show ?thesis unfolding featureForPath_longest [of "''/vouchers/data/7''" FF_product_data] by blast
qed

text \<open>No route of the table lies below another one.\<close>

lemma no_route_below:
  assumes "(p, f) \<in> set FEATURE_ROUTES" "(q, g) \<in> set FEATURE_ROUTES"
    and "route_matches path p" "route_matches path q"
  shows "p = q"
proof -
  have "prefix p q \<or> prefix q p" using route_prefix assms(3,4) prefix_same_cases by blast
  moreover have "list_all (\<lambda>(p, f). list_all (\<lambda>(q, g). prefix p q \<longrightarrow> p = q) FEATURE_ROUTES) FEATURE_ROUTES"
    by (simp add: FEATURE_ROUTES_def)
  ultimately show ?thesis using assms(1,2) by (fastforce simp: list_all_iff)
qed

text \<open>
  C36. A capability that is off is off as a tree: the pages of data, electricity, bills, wallet, cash, lending, remittance, settlement and
  funding and the wallet and funding endpoints are refused, each with its flag, together with every path below them and every
  query on them, whether or not such a page exists; and no other path is refused.
\<close>

theorem disabled_tree_blocked:
  "routeBlockedBy path = Some flag \<longleftrightarrow>
     (\<exists>(root, f) \<in> {(''/data'', FF_product_data), (''/electricity'', FF_product_electricity), (''/bills'', FF_bills_general),
        (''/wallet'', FF_wallet), (''/cash'', FF_cash_in_out), (''/lending'', FF_lending), (''/remittance'', FF_remittance),
        (''/settlement'', FF_settlement_independent), (''/funding'', FF_funding_submission), (''/vouchers/data'', FF_product_data),
        (''/api/funding'', FF_funding_submission), (''/api/wallet'', FF_wallet)}.
      f = flag \<and> (path = root \<or> (\<exists>rest. path = root @ ''/'' @ rest \<or> path = root @ ''?'' @ rest)))"
  (is "_ \<longleftrightarrow> (\<exists>(root, f) \<in> ?off. _ root f)")
proof -
  have governed: "featureForPath path = Some f \<longleftrightarrow> (\<exists>root. (root, f) \<in> set FEATURE_ROUTES \<and> route_matches path root)" for f
  proof -
    obtain b where b: "best_route path FEATURE_ROUTES ('''', None) = b" by simp
    note spec = best_route_spec [OF b]
    show ?thesis
    proof
      assume "featureForPath path = Some f"
      then show "\<exists>root. (root, f) \<in> set FEATURE_ROUTES \<and> route_matches path root"
        using spec by (auto simp: featureForPath_def b)
    next
      assume "\<exists>root. (root, f) \<in> set FEATURE_ROUTES \<and> route_matches path root"
      then obtain root where root: "(root, f) \<in> set FEATURE_ROUTES" "route_matches path root" by blast
      have "root \<noteq> ''''" using root(1) by (auto simp: FEATURE_ROUTES_def)
      moreover have "length root \<le> length (fst b)" using spec root by auto
      ultimately obtain r g where r: "b = (r, Some g)" "(r, g) \<in> set FEATURE_ROUTES" "route_matches path r"
        using spec by (cases b) auto
      then show "featureForPath path = Some f"
        using no_route_below root routes_apart by (metis featureForPath_def b snd_conv)
    qed
  qed
  have "set (filter (\<lambda>(root, f). \<not> FEATURE_FLAGS f) FEATURE_ROUTES) = ?off" by (simp add: FEATURE_ROUTES_def)
  then have off: "{(root, f). (root, f) \<in> set FEATURE_ROUTES \<and> \<not> FEATURE_FLAGS f} = ?off" by (simp add: case_prod_unfold)
  have matches: "route_matches path root \<longleftrightarrow> path = root \<or> (\<exists>rest. path = root @ ''/'' @ rest \<or> path = root @ ''?'' @ rest)" for root
    by (auto simp: route_matches_def prefix_def)
  have "routeBlockedBy path = Some flag \<longleftrightarrow> featureForPath path = Some flag \<and> \<not> FEATURE_FLAGS flag"
    by (auto simp: routeBlockedBy_def split: option.splits)
  also have "\<dots> \<longleftrightarrow> (\<exists>(root, f) \<in> {(root, f). (root, f) \<in> set FEATURE_ROUTES \<and> \<not> FEATURE_FLAGS f}. f = flag \<and> route_matches path root)"
    unfolding governed by auto
  finally show ?thesis unfolding off matches .
qed

text \<open>
  The build starts, and it starts without live money: every flag that moves real money is off, live money cannot be
  enabled, training mode is on, and no merchant role holds a permission of a capability that is off.
\<close>

theorem starts_without_live_money:
  "assertNoLiveMoneyEnabled = Inr () \<and> list_all (\<lambda>f. \<not> isEnabled f) MOVES_REAL_MONEY \<and> \<not> canEnableLiveMoney \<and>
   isEnabled FF_training_mode \<and>
   list_all (\<lambda>(flag, ps). isEnabled flag \<or> list_all (\<lambda>p. \<not> can MERCHANT_OPERATOR p \<and> \<not> can MERCHANT_OWNER p) ps) FEATURE_PERMISSIONS"
  by code_simp

end
