(* ===== verification/Decisions.thy ===== *)
theory Decisions
  imports States Money Js_Number Js_Time
begin

text \<open>
  The domain package's decisions about money that is asked for rather than sold: whether a claimed deposit is credited
  (\<open>fundingSubmission.ts\<close>), whether a sale may be reversed (\<open>reversal.ts\<close>), whether one shop may send to
  another (\<open>transfer.ts\<close>) and whether a deposit slip may be printed (\<open>topupOrder.ts\<close>). Each decides and moves nothing.
  A quotient by 10000 is exact on an exact product, as in \<open>Commission\<close>.
\<close>

section \<open>Claimed deposits\<close>

datatype funding_status =
    FS_SUBMITTED | AWAITING_VERIFICATION | MATCHED | CREDITED | FS_REJECTED | FS_DUPLICATE | FS_MANUAL_REVIEW

fun FUNDING_TRANSITIONS :: "funding_status \<Rightarrow> funding_status list" where
  "FUNDING_TRANSITIONS FS_SUBMITTED = [AWAITING_VERIFICATION, FS_MANUAL_REVIEW]"
| "FUNDING_TRANSITIONS AWAITING_VERIFICATION = [MATCHED, FS_REJECTED, FS_DUPLICATE, FS_MANUAL_REVIEW]"
| "FUNDING_TRANSITIONS MATCHED = [CREDITED, FS_MANUAL_REVIEW]"
| "FUNDING_TRANSITIONS FS_MANUAL_REVIEW = [CREDITED, FS_REJECTED, FS_DUPLICATE]"
| "FUNDING_TRANSITIONS CREDITED = []"
| "FUNDING_TRANSITIONS FS_REJECTED = []"
| "FUNDING_TRANSITIONS FS_DUPLICATE = []"

definition TERMINAL_FUNDING_STATUSES :: "funding_status list" where
  "TERMINAL_FUNDING_STATUSES = [CREDITED, FS_REJECTED, FS_DUPLICATE]"

definition isTerminalFundingStatus :: "funding_status \<Rightarrow> bool" where
  "isTerminalFundingStatus s \<longleftrightarrow> s \<in> set TERMINAL_FUNDING_STATUSES"

definition canTransitionFunding :: "funding_status \<Rightarrow> funding_status \<Rightarrow> bool" where
  "canTransitionFunding from to \<longleftrightarrow> to \<in> set (FUNDING_TRANSITIONS from)"

text \<open>\<open>FundingTransitionError\<close> carries the two statuses.\<close>

definition assertFundingTransition :: "funding_status \<Rightarrow> funding_status \<Rightarrow> (funding_status \<times> funding_status) + unit" where
  "assertFundingTransition from to = (if canTransitionFunding from to then Inr () else Inl (from, to))"

record bank_record =
  br_bankReference :: string
  br_amountMinor :: jsnum
  br_creditedAccount :: string

record deposit_claim =
  dc_depositReference :: string
  dc_bankReference :: string
  dc_claimedAmountMinor :: "jsnum option"

record verification_input =
  vf_claim :: deposit_claim
  vf_bankRecord :: "bank_record option"
  vf_merchantForReference :: "string option"
  vf_alreadyCredited :: bool
  vf_expectedAccount :: string
  vf_autoCreditCapMinor :: int

datatype funding_reject_reason = NO_BANK_RECORD | WRONG_ACCOUNT | AMOUNT_NOT_POSITIVE | BANK_REFERENCE_MISMATCH

datatype funding_review_reason = REFERENCE_UNREADABLE | REFERENCE_NOT_ASSIGNED | BANK_REFERENCE_MISSING

text \<open>A credit carries the merchant, the amount, the bank's reference, and whether the claimed amount differed.\<close>

datatype verification_decision =
    Credit string int string bool
  | Needs_approval string int string
  | Duplicate_deposit string
  | Reject_deposit funding_reject_reason
  | Review_deposit funding_review_reason

definition verifyDeposit :: "verification_input \<Rightarrow> verification_decision" where
  "verifyDeposit i =
     (let claim = vf_claim i in
      case vf_merchantForReference i of
        None \<Rightarrow>
          Review_deposit (if length (js_trim (dc_depositReference claim)) = 0 then REFERENCE_UNREADABLE else REFERENCE_NOT_ASSIGNED)
      | Some merchant \<Rightarrow>
          if length (js_trim (dc_bankReference claim)) = 0 then Review_deposit BANK_REFERENCE_MISSING
          else if vf_alreadyCredited i then Duplicate_deposit (dc_bankReference claim)
          else
            case vf_bankRecord i of
              None \<Rightarrow> Reject_deposit NO_BANK_RECORD
            | Some r \<Rightarrow>
                if br_bankReference r \<noteq> dc_bankReference claim then Reject_deposit BANK_REFERENCE_MISMATCH
                else if br_creditedAccount r \<noteq> vf_expectedAccount i then Reject_deposit WRONG_ACCOUNT
                else
                  (case br_amountMinor r of
                     JNotInt \<Rightarrow> Reject_deposit AMOUNT_NOT_POSITIVE
                   | JInt amount \<Rightarrow>
                       if \<not> safe_int amount \<or> amount \<le> 0 then Reject_deposit AMOUNT_NOT_POSITIVE
                       else if vf_autoCreditCapMinor i < amount then Needs_approval merchant amount (br_bankReference r)
                       else Credit merchant amount (br_bankReference r)
                              (case dc_claimedAmountMinor claim of None \<Rightarrow> False | Some c \<Rightarrow> c \<noteq> JInt amount)))"

definition statusAfterVerification :: "verification_decision \<Rightarrow> funding_status" where
  "statusAfterVerification d =
     (case d of Credit _ _ _ _ \<Rightarrow> CREDITED | Needs_approval _ _ _ \<Rightarrow> MATCHED | Duplicate_deposit _ \<Rightarrow> FS_DUPLICATE
      | Reject_deposit _ \<Rightarrow> FS_REJECTED | Review_deposit _ \<Rightarrow> FS_MANUAL_REVIEW)"

text \<open>What a credit rests on: the bank's record of the very reference, on the account of the platform, for a shop, once.\<close>

definition bank_supports :: "verification_input \<Rightarrow> string \<Rightarrow> int \<Rightarrow> string \<Rightarrow> bool" where
  "bank_supports i m a ref \<longleftrightarrow>
     (\<exists>r. vf_bankRecord i = Some r \<and> br_amountMinor r = JInt a \<and> br_bankReference r = ref \<and>
       ref = dc_bankReference (vf_claim i) \<and> js_trim ref \<noteq> '''' \<and> br_creditedAccount r = vf_expectedAccount i) \<and>
     vf_merchantForReference i = Some m \<and> \<not> vf_alreadyCredited i \<and> safe_int a \<and> 0 < a"

text \<open>
  C35. Money is credited only on the bank's word: a claim is credited exactly when the bank has a record of that very reference on the
  expected account with a positive amount within the cap, it was not credited before and the shop is known; above the cap it is exactly
  then offered for approval. The amount is the bank's and goes to the shop holding the reference; what the shop claimed changes
  none of it, a differing claim is only noted.
\<close>

theorem credit_only_on_bank_record:
  "(verifyDeposit i = Credit m a ref differed \<longleftrightarrow>
      bank_supports i m a ref \<and> a \<le> vf_autoCreditCapMinor i \<and>
      differed = (dc_claimedAmountMinor (vf_claim i) \<notin> {None, Some (JInt a)})) \<and>
   (verifyDeposit i = Needs_approval m a ref \<longleftrightarrow> bank_supports i m a ref \<and> vf_autoCreditCapMinor i < a)"
proof -
  let ?d = "dc_claimedAmountMinor (vf_claim i) \<notin> {None, Some (JInt a)}"
  have differs: "(case dc_claimedAmountMinor (vf_claim i) of None \<Rightarrow> False | Some c \<Rightarrow> c \<noteq> JInt a) = ?d"
    by (auto split: option.split)
  have decided: "bank_supports i m a ref" if "verifyDeposit i = Credit m a ref differed \<or> verifyDeposit i = Needs_approval m a ref"
    using that by (auto simp: verifyDeposit_def bank_supports_def Let_def split: option.splits jsnum.splits if_splits)
  have "verifyDeposit i = (if vf_autoCreditCapMinor i < a then Needs_approval m a ref else Credit m a ref ?d)" if "bank_supports i m a ref"
    using that unfolding differs [symmetric] by (auto simp: verifyDeposit_def bank_supports_def Let_def)
  then show ?thesis using decided by (cases "bank_supports i m a ref") auto
qed

text \<open>The flow of statuses: a status has left for good once it is passed, and the longest way has four.\<close>

fun funding_rank :: "funding_status \<Rightarrow> nat" where
  "funding_rank FS_SUBMITTED = 0"
| "funding_rank AWAITING_VERIFICATION = 1"
| "funding_rank MATCHED = 2"
| "funding_rank FS_MANUAL_REVIEW = 3"
| "funding_rank _ = 4"

lemma transition_rank: "canTransitionFunding s t \<Longrightarrow> funding_rank s < funding_rank t"
  by (cases s) (auto simp: canTransitionFunding_def)

lemma rank_bound: "funding_rank s \<le> 4"
  by (cases s) simp_all

inductive funding_path :: "funding_status list \<Rightarrow> bool" where
  one: "funding_path [s]"
| step: "funding_path (s # ss) \<Longrightarrow> canTransitionFunding t s \<Longrightarrow> funding_path (t # s # ss)"

lemma path_rank: "funding_path ss \<Longrightarrow> ss \<noteq> [] \<and> length ss + funding_rank (hd ss) \<le> funding_rank (last ss) + 1"
proof (induction rule: funding_path.induct)
  case (one s)
  then show ?case by simp
next
  case (step s ss t)
  then show ?case using transition_rank [OF step.hyps(2)] by simp
qed

lemma terminal_iff: "isTerminalFundingStatus s \<longleftrightarrow> FUNDING_TRANSITIONS s = []"
  by (cases s) (simp_all add: isTerminalFundingStatus_def TERMINAL_FUNDING_STATUSES_def)

lemma path_append: "funding_path ss \<Longrightarrow> canTransitionFunding (last ss) s \<Longrightarrow> funding_path (ss @ [s])"
proof (induction rule: funding_path.induct)
  case (one t)
  then show ?case by (auto intro: funding_path.intros)
next
  case (step t ss u)
  then show ?case by (auto intro: funding_path.step)
qed

text \<open>From wherever it is, a submission can be ended in at most two further steps.\<close>

lemma path_completes:
  assumes "funding_path ss"
  shows "\<exists>more. funding_path (ss @ more) \<and> last (ss @ more) \<in> {CREDITED, FS_REJECTED, FS_DUPLICATE}"
proof -
  have review: "\<exists>more. funding_path (ts @ more) \<and> last (ts @ more) \<in> {CREDITED, FS_REJECTED, FS_DUPLICATE}"
    if "funding_path ts" "last ts = FS_MANUAL_REVIEW" for ts
    using path_append [OF that(1), of FS_REJECTED] that(2) by (intro exI [of _ "[FS_REJECTED]"]) (simp add: canTransitionFunding_def)
  consider "last ss \<in> {FS_SUBMITTED, AWAITING_VERIFICATION, MATCHED}" | "last ss = FS_MANUAL_REVIEW"
    | "last ss \<in> {CREDITED, FS_REJECTED, FS_DUPLICATE}" by (cases "last ss") simp_all
  then show ?thesis
  proof cases
    case 1
    then have "funding_path (ss @ [FS_MANUAL_REVIEW])" by (intro path_append [OF assms]) (auto simp: canTransitionFunding_def)
    from review [OF this] obtain more where "funding_path ((ss @ [FS_MANUAL_REVIEW]) @ more)"
      "last ((ss @ [FS_MANUAL_REVIEW]) @ more) \<in> {CREDITED, FS_REJECTED, FS_DUPLICATE}" by auto
    then show ?thesis by (intro exI [of _ "FS_MANUAL_REVIEW # more"]) simp
  next
    case 2
    then show ?thesis by (rule review [OF assms])
  next
    case 3
    then show ?thesis using assms by (intro exI [of _ "[]"]) simp
  qed
qed

text \<open>
  C37. A funding submission ends: it moves at most four times and never returns to a status it has left; it can always be brought to
  an end, and it stops moving exactly when it is credited, rejected or found a duplicate, which is what the code calls terminal.
\<close>

theorem funding_flow_ends:
  assumes "funding_path ss"
  shows "length ss \<le> 5 \<and> distinct ss \<and>
    ((\<forall>s. \<not> canTransitionFunding (last ss) s) \<longleftrightarrow> last ss \<in> {CREDITED, FS_REJECTED, FS_DUPLICATE}) \<and>
    (isTerminalFundingStatus (last ss) \<longleftrightarrow> last ss \<in> {CREDITED, FS_REJECTED, FS_DUPLICATE}) \<and>
    (\<exists>more. funding_path (ss @ more) \<and> last (ss @ more) \<in> {CREDITED, FS_REJECTED, FS_DUPLICATE})"
proof -
  have "length ss \<le> 5" using path_rank [OF assms] rank_bound [of "last ss"] by linarith
  moreover have "distinct ss \<and> (\<forall>s\<in>set (tl ss). funding_rank (hd ss) < funding_rank s)"
    using assms
  proof (induction rule: funding_path.induct)
    case (one s)
    then show ?case by simp
  next
    case (step s ss t)
    note less = transition_rank [OF step.hyps(2)]
    have "\<forall>u\<in>set (s # ss). funding_rank t < funding_rank u" using step.IH less by auto
    then show ?case using step.IH by auto
  qed
  moreover have terminal: "isTerminalFundingStatus (last ss) \<longleftrightarrow> last ss \<in> {CREDITED, FS_REJECTED, FS_DUPLICATE}"
    by (simp add: isTerminalFundingStatus_def TERMINAL_FUNDING_STATUSES_def)
  moreover have "(\<forall>s. \<not> canTransitionFunding (last ss) s) \<longleftrightarrow> isTerminalFundingStatus (last ss)"
    unfolding terminal_iff by (cases "FUNDING_TRANSITIONS (last ss)") (auto simp: canTransitionFunding_def)
  ultimately show ?thesis using path_completes [OF assms] by blast
qed

theorem funding_flow_ends_witness:
  "funding_path [FS_SUBMITTED, AWAITING_VERIFICATION, MATCHED, FS_MANUAL_REVIEW, CREDITED] \<and>
   (\<forall>s. \<not> canTransitionFunding CREDITED s)"
proof -
  have p: "funding_path [FS_SUBMITTED, AWAITING_VERIFICATION, MATCHED, FS_MANUAL_REVIEW, CREDITED]"
    by (intro funding_path.intros) (simp_all add: canTransitionFunding_def)
  then show ?thesis using funding_flow_ends [OF p] by simp
qed

text \<open>
  The decision and the flow disagree: a claim that is verified is awaiting verification, and the decision to credit it leads
  to a status the flow does not allow from there.
\<close>

lemma verified_credit_not_in_flow:
  "\<not> canTransitionFunding AWAITING_VERIFICATION (statusAfterVerification (Credit m a ref differed))"
  by (simp add: canTransitionFunding_def statusAfterVerification_def)

section \<open>Reversals\<close>

datatype token_redemption = REDEEMED | UNREDEEMED | REDEMPTION_UNKNOWN

datatype reversal_outcome = ACCEPTED_FOR_REVIEW | REVERSAL_NEEDS_APPROVAL | REVERSAL_REFUSED

datatype reversal_refusal =
    ALREADY_REVERSED | NOT_A_REVERSIBLE_STATE | TOKEN_ALREADY_REDEEMED | OUTSIDE_REVERSAL_WINDOW | REVERSAL_ALREADY_REQUESTED

record reversal_policy =
  vp_windowMs :: int
  vp_approvalThresholdMinor :: int
  vp_feeBasisPoints :: int

record reversal_request =
  vq_state :: tx_state
  vq_amountMinor :: int
  vq_soldAt :: string
  vq_now :: string
  vq_redemption :: token_redemption
  vq_alreadyRequested :: bool

record reversal_decision =
  vd_outcome :: reversal_outcome
  vd_refusal :: "reversal_refusal option"
  vd_returnableMinor :: int
  vd_feeMinor :: int
  vd_needsRedemptionCheck :: bool

definition REVERSIBLE_FROM :: "tx_state list" where
  "REVERSIBLE_FROM = [SUCCESSFUL, PENDING, UNDER_REVIEW, REVERSAL_REQUIRED]"

definition feeFor :: "int \<Rightarrow> int \<Rightarrow> int" where
  "feeFor amount bps = (if bps \<le> 0 then 0 else js_mul amount bps div 10000)"

definition refuse_reversal :: "reversal_refusal \<Rightarrow> reversal_decision" where
  "refuse_reversal r =
     \<lparr>vd_outcome = REVERSAL_REFUSED, vd_refusal = Some r, vd_returnableMinor = 0, vd_feeMinor = 0, vd_needsRedemptionCheck = False\<rparr>"

definition decideReversal :: "reversal_request \<Rightarrow> reversal_policy \<Rightarrow> reversal_decision" where
  "decideReversal q p =
     (let fee = feeFor (vq_amountMinor q) (vp_feeBasisPoints p);
          returnable = js_add (vq_amountMinor q) (- fee)
      in if vq_state q = REVERSED then refuse_reversal ALREADY_REVERSED
         else if vq_state q \<notin> set REVERSIBLE_FROM then refuse_reversal NOT_A_REVERSIBLE_STATE
         else if vq_alreadyRequested q \<and> vq_state q \<noteq> REVERSAL_REQUIRED then refuse_reversal REVERSAL_ALREADY_REQUESTED
         else if vq_redemption q = REDEEMED then refuse_reversal TOKEN_ALREADY_REDEEMED
         else
           (case msBetween (vq_soldAt q) (vq_now q) of
              None \<Rightarrow> refuse_reversal OUTSIDE_REVERSAL_WINDOW
            | Some elapsed \<Rightarrow>
                if vp_windowMs p < elapsed then refuse_reversal OUTSIDE_REVERSAL_WINDOW
                else
                  (let check = (vq_redemption q = REDEMPTION_UNKNOWN)
                   in \<lparr>vd_outcome = (if check \<or> vp_approvalThresholdMinor p < vq_amountMinor q
                                     then REVERSAL_NEEDS_APPROVAL else ACCEPTED_FOR_REVIEW),
                       vd_refusal = None, vd_returnableMinor = returnable, vd_feeMinor = fee,
                       vd_needsRedemptionCheck = check\<rparr>)))"

definition TRAINING_REVERSAL_POLICY :: reversal_policy where
  "TRAINING_REVERSAL_POLICY =
     \<lparr>vp_windowMs = 24 * 60 * 60 * 1000, vp_approvalThresholdMinor = 100000, vp_feeBasisPoints = 0\<rparr>"

lemma safe_mult_bps:
  assumes "safe_int a" "0 \<le> a" "0 \<le> b" "b \<le> 10000" "a \<le> 900000000000"
  shows "safe_int (a * b)" "a * b div 10000 \<le> a" "0 \<le> a * b div 10000"
proof -
  have "a * b \<le> a * 10000" using assms by (simp add: mult_left_mono)
  also have "\<dots> \<le> 900000000000 * 10000" using assms by simp
  finally have "a * b \<le> 9000000000000000" by simp
  moreover have "0 \<le> a * b" using assms by simp
  ultimately show "safe_int (a * b)" unfolding safe_int_iff by linarith
  have "a * b div 10000 \<le> a * 10000 div 10000" using assms by (intro zdiv_mono1 mult_left_mono) simp_all
  then show "a * b div 10000 \<le> a" by simp
  show "0 \<le> a * b div 10000" using assms by (simp add: pos_imp_zdiv_nonneg_iff)
qed

text \<open>
  C38. What a reversal is worth: for amounts up to nine billion birr and a fee of at most the whole, a request that is not refused
  gives back the amount less the fee, never more than was paid and never less than nothing; a redeemed token is always
  refused, an unreadable one always waits for approval, and a refusal is worth nothing.
\<close>

theorem reversal_worth:
  assumes "0 \<le> vq_amountMinor q" and "vq_amountMinor q \<le> 900000000000" and "vp_feeBasisPoints p \<le> 10000"
  shows "let d = decideReversal q p in
    (vd_outcome d = REVERSAL_REFUSED \<longrightarrow> vd_returnableMinor d = 0 \<and> vd_feeMinor d = 0) \<and>
    (vd_outcome d \<noteq> REVERSAL_REFUSED \<longrightarrow>
       vd_returnableMinor d + vd_feeMinor d = vq_amountMinor q \<and> 0 \<le> vd_returnableMinor d \<and> 0 \<le> vd_feeMinor d \<and>
       vq_redemption q \<noteq> REDEEMED \<and> vq_state q \<in> {SUCCESSFUL, PENDING, UNDER_REVIEW, REVERSAL_REQUIRED}) \<and>
    (vd_outcome d = ACCEPTED_FOR_REVIEW \<longrightarrow> vq_redemption q = UNREDEEMED \<and> vq_amountMinor q \<le> vp_approvalThresholdMinor p)"
proof -
  have safe: "safe_int (vq_amountMinor q)" using assms by (simp add: safe_int_iff)
  have fee: "0 \<le> feeFor (vq_amountMinor q) (vp_feeBasisPoints p) \<and> feeFor (vq_amountMinor q) (vp_feeBasisPoints p) \<le> vq_amountMinor q"
    using safe_mult_bps [OF safe assms(1) _ assms(3,2)] assms(1) by (auto simp: feeFor_def js_mul_exact)
  then have "js_add (vq_amountMinor q) (- feeFor (vq_amountMinor q) (vp_feeBasisPoints p)) =
      vq_amountMinor q - feeFor (vq_amountMinor q) (vp_feeBasisPoints p)"
    using safe by (subst js_add_exact) (auto simp: safe_int_iff)
  then show ?thesis
    using fee by (cases "vq_redemption q") (auto simp: decideReversal_def refuse_reversal_def REVERSIBLE_FROM_def Let_def split: option.splits)
qed

definition sample_reversal :: reversal_request where
  "sample_reversal =
     \<lparr>vq_state = SUCCESSFUL, vq_amountMinor = 2500, vq_soldAt = ''2026-09-14T08:00:00.000Z'', vq_now = ''2026-09-14T09:00:00.000Z'',
      vq_redemption = UNREDEEMED, vq_alreadyRequested = False\<rparr>"

theorem reversal_worth_witness:
  "vd_outcome (decideReversal sample_reversal TRAINING_REVERSAL_POLICY) = ACCEPTED_FOR_REVIEW \<and>
   vd_returnableMinor (decideReversal sample_reversal TRAINING_REVERSAL_POLICY) = 2500"
proof -
  have d: "vd_outcome (decideReversal sample_reversal TRAINING_REVERSAL_POLICY) = ACCEPTED_FOR_REVIEW"
    "vd_feeMinor (decideReversal sample_reversal TRAINING_REVERSAL_POLICY) = 0" by code_simp+
  then show ?thesis
    using reversal_worth [of sample_reversal TRAINING_REVERSAL_POLICY]
    by (simp add: sample_reversal_def TRAINING_REVERSAL_POLICY_def Let_def)
qed

section \<open>Transfers between shops\<close>

datatype shop_status = SHOP_ONBOARDING | SHOP_ACTIVE | SHOP_SUSPENDED | SHOP_CLOSED

datatype transfer_outcome = TRANSFER_ACCEPTED | TRANSFER_NEEDS_APPROVAL | TRANSFER_REFUSED

datatype transfer_refusal =
    RECIPIENT_NOT_FOUND | RECIPIENT_IS_SENDER | SENDER_NOT_ACTIVE | RECIPIENT_NOT_ACTIVE | TRANSFER_NOT_POSITIVE
  | ABOVE_TRANSFER_LIMIT | ABOVE_DAILY_LIMIT | INSUFFICIENT_TRANSFER_BALANCE

record transfer_policy =
  xp_maxPerTransferMinor :: int
  xp_maxPerDayMinor :: int
  xp_approvalThresholdMinor :: int
  xp_feeBasisPoints :: int

record transfer_recipient =
  xr_merchantId :: string
  xr_status :: shop_status

record transfer_request =
  xq_senderMerchantId :: string
  xq_senderStatus :: shop_status
  xq_senderAvailableMinor :: int
  xq_sentTodayMinor :: int
  xq_recipient :: "transfer_recipient option"
  xq_amountMinor :: jsnum

record transfer_decision =
  xd_outcome :: transfer_outcome
  xd_refusal :: "transfer_refusal option"
  xd_feeMinor :: int
  xd_totalDebitMinor :: int
  xd_creditMinor :: int

text \<open>\<open>Math.ceil\<close> of the quotient.\<close>

definition transferFeeFor :: "int \<Rightarrow> int \<Rightarrow> int" where
  "transferFeeFor amount bps = (if bps \<le> 0 then 0 else - (- js_mul amount bps div 10000))"

definition refuse_transfer :: "transfer_refusal \<Rightarrow> transfer_decision" where
  "refuse_transfer r =
     \<lparr>xd_outcome = TRANSFER_REFUSED, xd_refusal = Some r, xd_feeMinor = 0, xd_totalDebitMinor = 0, xd_creditMinor = 0\<rparr>"

definition decideTransfer :: "transfer_request \<Rightarrow> transfer_policy \<Rightarrow> transfer_decision" where
  "decideTransfer q p =
     (case xq_recipient q of
        None \<Rightarrow> refuse_transfer RECIPIENT_NOT_FOUND
      | Some r \<Rightarrow>
          if xr_merchantId r = xq_senderMerchantId q then refuse_transfer RECIPIENT_IS_SENDER
          else if xq_senderStatus q \<noteq> SHOP_ACTIVE then refuse_transfer SENDER_NOT_ACTIVE
          else if xr_status r \<noteq> SHOP_ACTIVE then refuse_transfer RECIPIENT_NOT_ACTIVE
          else
            (case xq_amountMinor q of
               JNotInt \<Rightarrow> refuse_transfer TRANSFER_NOT_POSITIVE
             | JInt amount \<Rightarrow>
                 if amount \<le> 0 then refuse_transfer TRANSFER_NOT_POSITIVE
                 else if xp_maxPerTransferMinor p < amount then refuse_transfer ABOVE_TRANSFER_LIMIT
                 else if xp_maxPerDayMinor p < js_add (xq_sentTodayMinor q) amount then refuse_transfer ABOVE_DAILY_LIMIT
                 else
                   (let fee = transferFeeFor amount (xp_feeBasisPoints p);
                        debit = js_add amount fee
                    in if xq_senderAvailableMinor q < debit then refuse_transfer INSUFFICIENT_TRANSFER_BALANCE
                       else
                         \<lparr>xd_outcome = (if xp_approvalThresholdMinor p < amount then TRANSFER_NEEDS_APPROVAL else TRANSFER_ACCEPTED),
                          xd_refusal = None, xd_feeMinor = fee, xd_totalDebitMinor = debit, xd_creditMinor = amount\<rparr>)))"

definition TRAINING_TRANSFER_POLICY :: transfer_policy where
  "TRAINING_TRANSFER_POLICY =
     \<lparr>xp_maxPerTransferMinor = 1000000, xp_maxPerDayMinor = 5000000, xp_approvalThresholdMinor = 1000000, xp_feeBasisPoints = 0\<rparr>"

lemma ceil_div_bounds:
  fixes n :: int
  assumes "0 \<le> n"
  shows "0 \<le> - (- n div 10000)" "- (- n div 10000) \<le> n"
proof -
  have "- n div 10000 \<le> 0 div 10000" using assms by (intro zdiv_mono1) simp_all
  then show "0 \<le> - (- n div 10000)" by simp
  have "(- n * 10000) div 10000 \<le> - n div 10000" using assms by (intro zdiv_mono1) simp_all
  then show "- (- n div 10000) \<le> n" by simp
qed

definition accepted_transfer :: "transfer_policy \<Rightarrow> int \<Rightarrow> transfer_decision" where
  "accepted_transfer p a =
     \<lparr>xd_outcome = (if xp_approvalThresholdMinor p < a then TRANSFER_NEEDS_APPROVAL else TRANSFER_ACCEPTED), xd_refusal = None,
      xd_feeMinor = transferFeeFor a (xp_feeBasisPoints p),
      xd_totalDebitMinor = js_add a (transferFeeFor a (xp_feeBasisPoints p)), xd_creditMinor = a\<rparr>"

lemma decideTransfer_cases:
  "(\<exists>r. decideTransfer q p = refuse_transfer r) \<or>
   (\<exists>r a. xq_recipient q = Some r \<and> xr_merchantId r \<noteq> xq_senderMerchantId q \<and> xq_senderStatus q = SHOP_ACTIVE \<and>
      xr_status r = SHOP_ACTIVE \<and> xq_amountMinor q = JInt a \<and> 0 < a \<and> a \<le> xp_maxPerTransferMinor p \<and>
      js_add a (transferFeeFor a (xp_feeBasisPoints p)) \<le> xq_senderAvailableMinor q \<and> decideTransfer q p = accepted_transfer p a)"
proof (cases "xq_recipient q")
  case None
  then show ?thesis by (auto simp: decideTransfer_def)
next
  case (Some r)
  show ?thesis
  proof (cases "xq_amountMinor q")
    case (JInt a)
    show ?thesis
      unfolding decideTransfer_def Some option.case JInt jsnum.case Let_def accepted_transfer_def [symmetric]
      by (simp add: not_less) blast
  next
    case JNotInt
    then show ?thesis by (auto simp: decideTransfer_def Some)
  qed
qed

lemma transfer_debit_exact:
  assumes "xp_maxPerTransferMinor p \<le> 900000000000" and "xp_feeBasisPoints p \<le> 10000"
    and "0 < a" and "a \<le> xp_maxPerTransferMinor p"
  shows "js_add a (transferFeeFor a (xp_feeBasisPoints p)) = a + transferFeeFor a (xp_feeBasisPoints p) \<and>
    0 \<le> transferFeeFor a (xp_feeBasisPoints p)"
proof -
  have a: "safe_int a" "a \<le> 900000000000" using assms by (auto simp: safe_int_iff)
  have "0 \<le> transferFeeFor a (xp_feeBasisPoints p) \<and> transferFeeFor a (xp_feeBasisPoints p) \<le> 9000000000000000"
  proof (cases "xp_feeBasisPoints p \<le> 0")
    case True
    then show ?thesis by (simp add: transferFeeFor_def)
  next
    case False
    let ?n = "a * xp_feeBasisPoints p"
    have mul: "js_mul a (xp_feeBasisPoints p) = ?n"
      using safe_mult_bps(1) [OF a(1) _ _ assms(2) a(2)] assms False by (simp add: js_mul_exact)
    have "?n \<le> a * 10000" using assms(2) assms by (simp add: mult_left_mono)
    moreover have "0 \<le> ?n" using assms False by simp
    ultimately have "0 \<le> - (- ?n div 10000)" "- (- ?n div 10000) \<le> a * 10000"
      using ceil_div_bounds [of ?n] by linarith+
    then show ?thesis using a(2) False unfolding transferFeeFor_def mul by simp
  qed
  then show ?thesis using a assms by (subst js_add_exact) (auto simp: safe_int_iff)
qed

text \<open>
  A transfer that is accepted is covered and creates nothing: under a policy whose ceiling is at most nine billion birr and whose fee
  is at most the whole, the sender is debited the amount and the fee together, no more than it has, and the other shop, which
  is active and not the sender, is credited the amount; a refused transfer moves nothing.
\<close>

theorem transfer_conserves:
  assumes "xp_maxPerTransferMinor p \<le> 900000000000" and "xp_feeBasisPoints p \<le> 10000"
  shows "let d = decideTransfer q p in
    (xd_outcome d = TRANSFER_REFUSED \<longleftrightarrow> xd_refusal d \<noteq> None) \<and>
    (xd_outcome d = TRANSFER_REFUSED \<longrightarrow> xd_totalDebitMinor d = 0 \<and> xd_creditMinor d = 0) \<and>
    (xd_outcome d \<noteq> TRANSFER_REFUSED \<longrightarrow>
       xd_totalDebitMinor d = xd_creditMinor d + xd_feeMinor d \<and> 0 < xd_creditMinor d \<and> 0 \<le> xd_feeMinor d \<and>
       xd_totalDebitMinor d \<le> xq_senderAvailableMinor q \<and> xd_creditMinor d \<le> xp_maxPerTransferMinor p \<and>
       (\<exists>r. xq_recipient q = Some r \<and> xr_status r = SHOP_ACTIVE \<and> xr_merchantId r \<noteq> xq_senderMerchantId q) \<and>
       xq_senderStatus q = SHOP_ACTIVE \<and> xq_amountMinor q = JInt (xd_creditMinor d)) \<and>
    (xd_outcome d = TRANSFER_ACCEPTED \<longrightarrow> xd_creditMinor d \<le> xp_approvalThresholdMinor p)"
proof -
  consider r where "decideTransfer q p = refuse_transfer r"
    | r a where "xq_recipient q = Some r" "xr_merchantId r \<noteq> xq_senderMerchantId q" "xq_senderStatus q = SHOP_ACTIVE"
      "xr_status r = SHOP_ACTIVE" "xq_amountMinor q = JInt a" "0 < a" "a \<le> xp_maxPerTransferMinor p"
      "js_add a (transferFeeFor a (xp_feeBasisPoints p)) \<le> xq_senderAvailableMinor q" "decideTransfer q p = accepted_transfer p a"
    using decideTransfer_cases by blast
  then show ?thesis
  proof cases
    case 1
    then show ?thesis by (simp add: refuse_transfer_def)
  next
    case 2
    note e = transfer_debit_exact [OF assms 2(6,7)]
    show ?thesis unfolding 2(9) Let_def using 2 e by (simp add: accepted_transfer_def)
  qed
qed

definition sample_transfer :: transfer_request where
  "sample_transfer =
     \<lparr>xq_senderMerchantId = ''m1'', xq_senderStatus = SHOP_ACTIVE, xq_senderAvailableMinor = 90000, xq_sentTodayMinor = 0,
      xq_recipient = Some \<lparr>xr_merchantId = ''m2'', xr_status = SHOP_ACTIVE\<rparr>, xq_amountMinor = JInt 50000\<rparr>"

theorem transfer_conserves_witness:
  "xd_totalDebitMinor (decideTransfer sample_transfer TRAINING_TRANSFER_POLICY) =
     xd_creditMinor (decideTransfer sample_transfer TRAINING_TRANSFER_POLICY) +
     xd_feeMinor (decideTransfer sample_transfer TRAINING_TRANSFER_POLICY)"
proof -
  have "xd_outcome (decideTransfer sample_transfer TRAINING_TRANSFER_POLICY) = TRANSFER_ACCEPTED" by code_simp
  then show ?thesis
    using transfer_conserves [of TRAINING_TRANSFER_POLICY sample_transfer] by (simp add: TRAINING_TRANSFER_POLICY_def Let_def)
qed

section \<open>Deposit slips\<close>

datatype topup_order_status = TOP_OPEN | TOP_PAID | TOP_EXPIRED | TOP_CANCELLED

datatype topup_refusal =
    SHOP_NOT_ACTIVE | TOPUP_AMOUNT_INVALID | AMOUNT_BELOW_MINIMUM | AMOUNT_ABOVE_MAXIMUM | ORDER_ALREADY_OPEN | DEPOSITS_DISABLED

record topup_policy =
  tp_minimumMinor :: int
  tp_maximumMinor :: int
  tp_validForMs :: int

definition TRAINING_TOPUP_POLICY :: topup_policy where
  "TRAINING_TOPUP_POLICY = \<lparr>tp_minimumMinor = 5000, tp_maximumMinor = 5000000, tp_validForMs = 24 * 60 * 60 * 1000\<rparr>"

record topup_request =
  tq_shopStatus :: string
  tq_amount :: money
  tq_hasOpenOrder :: bool
  tq_depositsEnabled :: bool

definition decideTopupOrder :: "topup_request \<Rightarrow> topup_policy \<Rightarrow> topup_refusal option" where
  "decideTopupOrder q p =
     (if \<not> tq_depositsEnabled q then Some DEPOSITS_DISABLED
      else if tq_shopStatus q \<noteq> ''ACTIVE'' then Some SHOP_NOT_ACTIVE
      else if tq_hasOpenOrder q then Some ORDER_ALREADY_OPEN
      else
        (let m = minor (tq_amount q)
         in if \<not> safe_int m \<or> m \<le> 0 then Some TOPUP_AMOUNT_INVALID
            else if m < tp_minimumMinor p then Some AMOUNT_BELOW_MINIMUM
            else if tp_maximumMinor p < m then Some AMOUNT_ABOVE_MAXIMUM
            else None))"

text \<open>A \<open>Date\<close> is its time value; \<open>toISOString\<close> of one out of range throws a RangeError, here \<open>None\<close>.\<close>

definition topupOrderExpiry :: "int \<Rightarrow> topup_policy \<Rightarrow> timestamp option" where
  "topupOrderExpiry now p =
     (if \<bar>now + tp_validForMs p\<bar> \<le> 8640000000000000 then Some (iso_of_ms (now + tp_validForMs p)) else None)"

definition isTopupOrderExpired :: "timestamp \<Rightarrow> int \<Rightarrow> bool" where
  "isTopupOrderExpired expiresAt now = (case date_parse expiresAt of None \<Rightarrow> False | Some e \<Rightarrow> e \<le> now)"

text \<open>
  A slip runs out exactly when its time is up: an order printed at one moment with the expiry the module writes on it
  counts as expired at a later moment exactly when the validity of the policy has passed in between.
\<close>

theorem slip_expires_on_time:
  assumes "topupOrderExpiry printed p = Some e" and "iso_range (printed + tp_validForMs p)"
  shows "isTopupOrderExpired e t \<longleftrightarrow> printed + tp_validForMs p \<le> t"
  using assms by (auto simp: topupOrderExpiry_def isTopupOrderExpired_def date_parse_iso split: if_splits)

theorem slip_expires_on_time_witness:
  "isTopupOrderExpired ''2026-09-15T08:00:00.000Z'' (1789372800000 + 86400000) \<and>
   \<not> isTopupOrderExpired ''2026-09-15T08:00:00.000Z'' (1789372800000 + 86399999)"
proof -
  have e: "topupOrderExpiry 1789372800000 TRAINING_TOPUP_POLICY = Some ''2026-09-15T08:00:00.000Z''"
    by (simp add: topupOrderExpiry_def TRAINING_TOPUP_POLICY_def run_iso cong: Let_lazy)
  have r: "iso_range (1789372800000 + tp_validForMs TRAINING_TOPUP_POLICY)"
    by (simp add: TRAINING_TOPUP_POLICY_def run_iso cong: Let_lazy)
  show ?thesis using slip_expires_on_time [OF e r] by (simp add: TRAINING_TOPUP_POLICY_def)
qed

end
