(* ===== verification/Vouchers.thy ===== *)
theory Vouchers
  imports States Money Js_Number Js_Time Idempotency "HOL-Library.Sublist"
begin

text \<open>
  What surrounds a sale in the domain package: provider attempts and provider health (\<open>attempt.ts\<close>), receipts
  (\<open>receipt.ts\<close>), the simulated voucher codes (\<open>voucherCode.ts\<close>), product ids (\<open>productId.ts\<close>) and card declines
  (\<open>cardPayment.ts\<close>).
\<close>

section \<open>Attempts\<close>

datatype attempt_outcome = ATT_SUCCESS | ATT_FAILURE | ATT_TIMEOUT | ATT_MALFORMED | NOT_ANSWERED

definition UNCERTAIN_ATTEMPT_OUTCOMES :: "attempt_outcome list" where
  "UNCERTAIN_ATTEMPT_OUTCOMES = [ATT_TIMEOUT, ATT_MALFORMED, NOT_ANSWERED]"

definition isUncertainAttempt :: "attempt_outcome option \<Rightarrow> bool" where
  "isUncertainAttempt x \<longleftrightarrow> (case x of None \<Rightarrow> True | Some o' \<Rightarrow> o' \<in> set UNCERTAIN_ATTEMPT_OUTCOMES)"

record transaction_attempt =
  at_id :: string
  at_transactionId :: string
  at_attemptNo :: int
  at_providerId :: string
  at_startedAt :: timestamp
  at_finishedAt :: "timestamp option"
  at_outcome :: "attempt_outcome option"
  at_providerReference :: "string option"
  at_correlationId :: string

datatype attempt_error = Attempt_number_invalid jsnum | Attempt_already_finished string

definition startAttempt :: "string \<Rightarrow> string \<Rightarrow> jsnum \<Rightarrow> string \<Rightarrow> timestamp \<Rightarrow> string \<Rightarrow> attempt_error + transaction_attempt" where
  "startAttempt i tx no provider t corr =
     (case no of
        JNotInt \<Rightarrow> Inl (Attempt_number_invalid no)
      | JInt n \<Rightarrow>
          if \<not> safe_int n \<or> n < 1 then Inl (Attempt_number_invalid no)
          else Inr \<lparr>at_id = i, at_transactionId = tx, at_attemptNo = n, at_providerId = provider, at_startedAt = t,
                    at_finishedAt = None, at_outcome = None, at_providerReference = None, at_correlationId = corr\<rparr>)"

record attempt_result =
  ax_outcome :: attempt_outcome
  ax_at :: timestamp
  ax_providerReference :: "string option"

definition finishAttempt :: "transaction_attempt \<Rightarrow> attempt_result \<Rightarrow> attempt_error + transaction_attempt" where
  "finishAttempt a x =
     (if at_finishedAt a \<noteq> None then Inl (Attempt_already_finished (at_id a))
      else Inr (a\<lparr>at_finishedAt := Some (ax_at x), at_outcome := Some (ax_outcome x),
                  at_providerReference := (case ax_providerReference x of None \<Rightarrow> at_providerReference a | Some r \<Rightarrow> Some r)\<rparr>))"

text \<open>What a caller is left with after a list of answers, when it keeps the record it had whenever one is refused.\<close>

definition absorb :: "transaction_attempt \<Rightarrow> attempt_result \<Rightarrow> transaction_attempt" where
  "absorb a x = (case finishAttempt a x of Inl _ \<Rightarrow> a | Inr b \<Rightarrow> b)"

text \<open>
  The first answer stands: an attempt that is finished by an answer keeps that answer's outcome, time and reference
  whatever further answers arrive, and an attempt nobody answered stays uncertain.
\<close>

theorem first_answer_stands:
  assumes "startAttempt i tx no provider t corr = Inr a"
  shows "isUncertainAttempt (at_outcome (foldl absorb a [])) \<and>
    at_outcome (foldl absorb a (x # xs)) = Some (ax_outcome x) \<and> at_finishedAt (foldl absorb a (x # xs)) = Some (ax_at x) \<and>
    at_providerReference (foldl absorb a (x # xs)) = ax_providerReference x"
proof -
  have a: "at_finishedAt a = None" "at_outcome a = None" "at_providerReference a = None"
    using assms by (auto simp: startAttempt_def split: jsnum.splits if_splits)
  have "at_finishedAt b \<noteq> None \<Longrightarrow> foldl absorb b xs = b" for b
    by (induction xs) (simp_all add: absorb_def finishAttempt_def)
  then have "foldl absorb a (x # xs) = absorb a x" using a by (simp add: absorb_def finishAttempt_def)
  then show ?thesis
    using a by (auto simp: absorb_def finishAttempt_def isUncertainAttempt_def split: option.splits)
qed

theorem first_answer_stands_witness:
  "case startAttempt ''a1'' ''tx1'' (JInt 1) ''mock'' ''t0'' ''c1'' of
     Inl _ \<Rightarrow> False
   | Inr a \<Rightarrow> at_outcome (foldl absorb a [\<lparr>ax_outcome = ATT_TIMEOUT, ax_at = ''t1'', ax_providerReference = None\<rparr>,
         \<lparr>ax_outcome = ATT_SUCCESS, ax_at = ''t2'', ax_providerReference = Some ''r''\<rparr>]) = Some ATT_TIMEOUT"
proof -
  obtain a where a: "startAttempt ''a1'' ''tx1'' (JInt 1) ''mock'' ''t0'' ''c1'' = Inr a"
    by (simp add: startAttempt_def safe_int_iff)
  show ?thesis using first_answer_stands [OF a, of "\<lparr>ax_outcome = ATT_TIMEOUT, ax_at = ''t1'', ax_providerReference = None\<rparr>"]
    by (simp add: a del: foldl.simps)
qed

section \<open>Provider health\<close>

datatype health_status = HEALTHY | DEGRADED | UNAVAILABLE

record health_event =
  he_id :: string
  he_providerId :: string
  he_at :: timestamp
  he_status :: health_status
  he_previousStatus :: "health_status option"
  he_detail :: "string option"
  he_correlationId :: "string option"

definition isHealthChange :: "health_status option \<Rightarrow> health_status \<Rightarrow> bool" where
  "isHealthChange previous new \<longleftrightarrow> previous \<noteq> Some new"

definition recordHealthChange ::
  "string \<Rightarrow> string \<Rightarrow> timestamp \<Rightarrow> health_status \<Rightarrow> health_status option \<Rightarrow> string option \<Rightarrow> string option \<Rightarrow> health_event option" where
  "recordHealthChange i provider t status previous detail corr =
     (if \<not> isHealthChange previous status then None
      else Some \<lparr>he_id = i, he_providerId = provider, he_at = t, he_status = status, he_previousStatus = previous,
                 he_detail = detail, he_correlationId = corr\<rparr>)"

definition sellableUnder :: "health_status \<Rightarrow> bool" where
  "sellableUnder s \<longleftrightarrow> s \<noteq> UNAVAILABLE"

text \<open>The loop carries the total and the moment the current outage opened.\<close>

fun unhealthy_loop :: "health_event list \<Rightarrow> int \<Rightarrow> int option \<Rightarrow> int \<times> int option" where
  "unhealthy_loop [] acc opened = (acc, opened)"
| "unhealthy_loop (e # es) acc opened =
     (case date_parse (he_at e) of
        None \<Rightarrow> unhealthy_loop es acc opened
      | Some t \<Rightarrow>
          if he_status e = HEALTHY
          then (case opened of None \<Rightarrow> unhealthy_loop es acc None | Some o' \<Rightarrow> unhealthy_loop es (js_add acc (t - o')) None)
          else unhealthy_loop es acc (case opened of None \<Rightarrow> Some t | Some o' \<Rightarrow> Some o'))"

definition unhealthyMillis :: "health_event list \<Rightarrow> timestamp \<Rightarrow> int" where
  "unhealthyMillis events now =
     (case unhealthy_loop events 0 None of
        (acc, None) \<Rightarrow> acc
      | (acc, Some o') \<Rightarrow> (case date_parse now of None \<Rightarrow> acc | Some e \<Rightarrow> js_add acc (e - o')))"

section \<open>Receipts\<close>

record receipt =
  rc_id :: string
  rc_transactionId :: string
  rc_merchantId :: string
  rc_merchantName :: string
  rc_productLabel :: string
  rc_amount :: money
  rc_recipient :: string
  rc_providerReference :: "string option"
  rc_state :: tx_state
  rc_issuedAt :: timestamp
  rc_supportContact :: string
  rc_isReprint :: bool
  rc_trainingBanner :: "string option"

record reprint_event =
  rv_id :: string
  rv_transactionId :: string
  rv_merchantId :: string
  rv_operatorId :: string
  rv_deviceId :: string
  rv_at :: timestamp
  rv_sequence :: int

definition receiptAvailable :: "tx_state \<Rightarrow> bool" where
  "receiptAvailable s \<longleftrightarrow>
     s = SUCCESSFUL \<or> s = FAILED \<or> s = PENDING \<or> s = UNDER_REVIEW \<or> s = REVERSED \<or> s = REJECTED"

section \<open>Voucher codes\<close>

definition SIMULATED_DIAL_PREFIX :: string where
  "SIMULATED_DIAL_PREFIX = ''*000*''"

definition SIMULATED_PIN_PREFIX :: string where
  "SIMULATED_PIN_PREFIX = ''TRAIN-''"

record voucher_code =
  vc_networkCode :: string
  vc_voucherPin :: string
  vc_tokenReference :: string
  vc_dialString :: string

text \<open>The hash of \<open>digitsFrom\<close> is the step of the fingerprint; both are 32-bit.\<close>

definition digitsFrom :: "string \<Rightarrow> nat \<Rightarrow> string" where
  "digitsFrom seed n = take n (pad_start n (CHR ''0'') (dec_int (uint (fold fnv_step seed 2166136261))))"

definition letter_alphabet :: string where
  "letter_alphabet = ''ABCDEFGHJKLMNPQRTUVWXYZ''"

definition letter_step :: "char \<Rightarrow> 32 word \<Rightarrow> 32 word" where
  "letter_step c hash = hash * 33 + of_char c"

fun letters_loop :: "nat \<Rightarrow> nat \<Rightarrow> nat \<Rightarrow> string" where
  "letters_loop index 0 hash = []"
| "letters_loop index (Suc n) hash =
     letter_alphabet ! (hash mod length letter_alphabet) # letters_loop (index + 1) n (hash div length letter_alphabet + index + 1)"

definition voucher_letters :: "string \<Rightarrow> nat \<Rightarrow> string" where
  "voucher_letters seed n = letters_loop 0 n (unat (fold letter_step seed 5381))"

definition simulatedVoucherCode :: "string \<Rightarrow> string \<Rightarrow> voucher_code" where
  "simulatedVoucherCode tx network =
     (let seed = tx @ '':'' @ network;
          pin = SIMULATED_PIN_PREFIX @ digitsFrom seed 8
      in \<lparr>vc_networkCode = network, vc_voucherPin = pin,
          vc_tokenReference = ''TKN-TRAIN-'' @ voucher_letters seed 3 @ digitsFrom (''t:'' @ seed) 3,
          vc_dialString = SIMULATED_DIAL_PREFIX @ pin @ ''#''\<rparr>)"

definition isSimulatedVoucherCode :: "voucher_code \<Rightarrow> bool" where
  "isSimulatedVoucherCode c \<longleftrightarrow>
     prefix SIMULATED_PIN_PREFIX (vc_voucherPin c) \<and> prefix SIMULATED_DIAL_PREFIX (vc_dialString c) \<and>
     sublist SIMULATED_PIN_PREFIX (vc_dialString c) \<and> prefix ''TKN-TRAIN-'' (vc_tokenReference c)"

definition decimal_digits :: string where
  "decimal_digits = ''0123456789''"

lemma digit_char_decimal: "i < 10 \<Longrightarrow> digit_char i \<in> set decimal_digits"
proof -
  have "list_all (\<lambda>i. digit_char i \<in> set decimal_digits) [0..<10]" by code_simp
  then show "i < 10 \<Longrightarrow> digit_char i \<in> set decimal_digits" by (simp add: list_all_iff)
qed

lemma show_radix_digits: "0 \<le> n \<Longrightarrow> set (show_radix 10 n) \<subseteq> set decimal_digits"
proof (induction "nat n" arbitrary: n rule: less_induct)
  case less
  have "digit_char (nat (n mod 10)) \<in> set decimal_digits" by (rule digit_char_decimal) simp
  moreover have "digit_char (nat n) \<in> set decimal_digits" if "n < 10" using that less.prems by (intro digit_char_decimal) simp
  moreover have "set (show_radix 10 (n div 10)) \<subseteq> set decimal_digits" if "10 \<le> n"
    using that less by simp
  ultimately show ?case by (subst show_radix.simps) (simp split: if_splits)
qed

lemma digitsFrom_form: "length (digitsFrom seed n) = n \<and> set (digitsFrom seed n) \<subseteq> set decimal_digits"
proof -
  let ?t = "dec_int (uint (fold fnv_step seed 2166136261))"
  have t: "set ?t \<subseteq> set decimal_digits" unfolding dec_int_def by (simp add: show_radix_digits)
  have "CHR ''0'' \<in> set decimal_digits" by (simp add: decimal_digits_def)
  then have "set (pad_start n (CHR ''0'') ?t) \<subseteq> set decimal_digits" using t by (auto simp: pad_start_def)
  moreover have "set (digitsFrom seed n) \<subseteq> set (pad_start n (CHR ''0'') ?t)"
    unfolding digitsFrom_def by (rule set_take_subset)
  ultimately show ?thesis by (simp add: digitsFrom_def)
qed

lemma letters_loop_form: "length (letters_loop i n h) = n \<and> set (letters_loop i n h) \<subseteq> set letter_alphabet"
proof (induction n arbitrary: i h)
  case 0
  then show ?case by simp
next
  case (Suc n)
  have "letter_alphabet ! (h mod length letter_alphabet) \<in> set letter_alphabet"
    by (rule nth_mem) (simp add: letter_alphabet_def)
  then show ?case using Suc by simp
qed

text \<open>
  C40. A voucher code is always recognisably simulated and always of the same form: the PIN is the training prefix and
  eight digits, the reference the training prefix, three letters that cannot be misread and three digits, the dial string the
  simulated prefix, the PIN and a hash.
\<close>

theorem voucher_code_form:
  "\<exists>digits letters more. simulatedVoucherCode tx network =
     \<lparr>vc_networkCode = network, vc_voucherPin = ''TRAIN-'' @ digits, vc_tokenReference = ''TKN-TRAIN-'' @ letters @ more,
      vc_dialString = ''*000*'' @ ''TRAIN-'' @ digits @ ''#''\<rparr> \<and>
   length digits = 8 \<and> length letters = 3 \<and> length more = 3 \<and> set digits \<union> set more \<subseteq> set decimal_digits \<and>
   set letters \<subseteq> set letter_alphabet \<and> isSimulatedVoucherCode (simulatedVoucherCode tx network)"
proof -
  let ?seed = "tx @ '':'' @ network"
  define digits letters more where "digits = digitsFrom ?seed 8" and "letters = voucher_letters ?seed 3" and "more = digitsFrom (''t:'' @ ?seed) 3"
  have code: "simulatedVoucherCode tx network =
     \<lparr>vc_networkCode = network, vc_voucherPin = ''TRAIN-'' @ digits, vc_tokenReference = ''TKN-TRAIN-'' @ letters @ more,
      vc_dialString = ''*000*'' @ ''TRAIN-'' @ digits @ ''#''\<rparr>"
    by (simp add: simulatedVoucherCode_def Let_def SIMULATED_PIN_PREFIX_def SIMULATED_DIAL_PREFIX_def digits_def letters_def more_def)
  have "sublist ''TRAIN-'' (''*000*'' @ ''TRAIN-'' @ digits @ ''#'')" by (rule sublist_appendI)
  then have "isSimulatedVoucherCode (simulatedVoucherCode tx network)"
    unfolding code isSimulatedVoucherCode_def SIMULATED_PIN_PREFIX_def SIMULATED_DIAL_PREFIX_def
    by (simp only: voucher_code.select_convs prefixI simp_thms)
  moreover have "length letters = 3 \<and> set letters \<subseteq> set letter_alphabet"
    unfolding letters_def voucher_letters_def by (rule letters_loop_form)
  moreover have "length digits = 8 \<and> length more = 3 \<and> set digits \<union> set more \<subseteq> set decimal_digits"
    unfolding digits_def more_def using digitsFrom_form by auto
  ultimately show ?thesis using code by blast
qed

section \<open>Product ids\<close>

datatype product_kind = AIRTIME | TOPUP | DATA_BUNDLE

definition PRODUCT_KINDS :: "product_kind list" where
  "PRODUCT_KINDS = [AIRTIME, TOPUP, DATA_BUNDLE]"

fun kind_name :: "product_kind \<Rightarrow> string" where
  "kind_name AIRTIME = ''AIRTIME''"
| "kind_name TOPUP = ''TOPUP''"
| "kind_name DATA_BUNDLE = ''DATA''"

record parsed_product =
  pp_network :: string
  pp_kind :: product_kind
  pp_descriptor :: string

text \<open>
  The pattern \<open>^(.+?)_(AIRTIME|TOPUP|DATA)_(.+)$\<close>: the shortest non-empty network before a kind between underscores with something
  after it. A dot matches no line terminator, so a text with one does not match.
\<close>

definition kind_mark :: "product_kind \<Rightarrow> string" where
  "kind_mark k = ''_'' @ kind_name k @ ''_''"

definition kind_here :: "string \<Rightarrow> (product_kind \<times> string) option" where
  "kind_here s =
     map_option (\<lambda>k. (k, drop (length (kind_mark k)) s))
       (find (\<lambda>k. prefix (kind_mark k) s \<and> length (kind_mark k) < length s) PRODUCT_KINDS)"

fun split_kind :: "string \<Rightarrow> string \<Rightarrow> parsed_product option" where
  "split_kind network [] = None"
| "split_kind network (c # cs) =
     (case (if network = [] then None else kind_here (c # cs)) of
        Some (k, rest) \<Rightarrow> Some \<lparr>pp_network = network, pp_kind = k, pp_descriptor = rest\<rparr>
      | None \<Rightarrow> split_kind (network @ [c]) cs)"

definition parseProductId :: "string \<Rightarrow> parsed_product option" where
  "parseProductId s = (if CHR 0x0A \<in> set s \<or> CHR 0x0D \<in> set s then None else split_kind [] s)"

text \<open>The dash of the label is a character outside this model's alphabet; the label is given by its parts.\<close>

datatype product_label = Raw_label string | Airtime_label | Topup_label | Data_label string

definition productLabelFor :: "string \<Rightarrow> product_label" where
  "productLabelFor s =
     (case parseProductId s of
        None \<Rightarrow> Raw_label s
      | Some p \<Rightarrow>
          (case pp_kind p of AIRTIME \<Rightarrow> Airtime_label | TOPUP \<Rightarrow> Topup_label
           | DATA_BUNDLE \<Rightarrow> Data_label (map (\<lambda>c. if c = CHR ''_'' then CHR '' '' else c) (pp_descriptor p))))"

definition product_id_of :: "parsed_product \<Rightarrow> string" where
  "product_id_of p =
     pp_network p @ (case pp_kind p of AIRTIME \<Rightarrow> ''_AIRTIME_'' | TOPUP \<Rightarrow> ''_TOPUP_'' | DATA_BUNDLE \<Rightarrow> ''_DATA_'') @ pp_descriptor p"

lemma product_id_mark: "product_id_of p = pp_network p @ kind_mark (pp_kind p) @ pp_descriptor p"
  by (cases "pp_kind p") (simp_all add: product_id_of_def kind_mark_def)

lemma kind_here_Some: "kind_here s = Some (k, rest) \<Longrightarrow> s = kind_mark k @ rest \<and> rest \<noteq> []"
  by (auto simp: kind_here_def prefix_def dest!: find_SomeD)

lemma kind_here_None: "kind_here s = None \<longleftrightarrow> (\<forall>k rest. s = kind_mark k @ rest \<longrightarrow> rest = [])"
proof -
  have "\<And>k. k \<in> set PRODUCT_KINDS" using product_kind.exhaust by (auto simp: PRODUCT_KINDS_def)
  then show ?thesis by (fastforce simp: kind_here_def find_None_iff prefix_def)
qed

lemma split_kind_sound:
  "split_kind network s = Some p \<Longrightarrow> product_id_of p = network @ s \<and> pp_network p \<noteq> [] \<and> pp_descriptor p \<noteq> []"
proof (induction network s rule: split_kind.induct)
  case (1 network)
  then show ?case by simp
next
  case (2 network c cs)
  show ?case
  proof (cases "if network = [] then None else kind_here (c # cs)")
    case None
    then show ?thesis using 2 by simp
  next
    case (Some kr)
    obtain k rest where kr: "kr = (k, rest)" by (cases kr)
    have net: "network \<noteq> []" and "kind_here (c # cs) = Some (k, rest)" using Some kr by (auto split: if_splits)
    then have "c # cs = kind_mark k @ rest \<and> rest \<noteq> []" by (intro kind_here_Some)
    moreover have "p = \<lparr>pp_network = network, pp_kind = k, pp_descriptor = rest\<rparr>" using 2(2) Some kr by simp
    ultimately show ?thesis using net by (simp add: product_id_mark)
  qed
qed

lemma split_kind_complete:
  "network @ s = n @ kind_mark k @ d \<Longrightarrow> d \<noteq> [] \<Longrightarrow> n \<noteq> [] \<Longrightarrow> length network \<le> length n \<Longrightarrow> split_kind network s \<noteq> None"
proof (induction network s rule: split_kind.induct)
  case (1 network)
  have "length network = length n + length (kind_mark k) + length d" using 1(1) by (metis append_Nil2 length_append add.assoc)
  then show ?case using 1 by simp
next
  case (2 network c cs)
  show ?case
  proof (cases "if network = [] then None else kind_here (c # cs)")
    case (Some kr)
    then show ?thesis by (cases kr) simp
  next
    case None
    have "length network \<noteq> length n"
    proof
      assume "length network = length n"
      then have "network = n" "c # cs = kind_mark k @ d" using 2(2) by (simp_all add: append_eq_append_conv)
      then show False using None 2(3,4) kind_here_None by (auto split: if_splits)
    qed
    then have "split_kind (network @ [c]) cs \<noteq> None" using 2(1) [OF None] 2(2-5) by simp
    then show ?thesis using None by simp
  qed
qed

lemma split_kind_least:
  "network @ s = n @ kind_mark k @ d \<Longrightarrow> d \<noteq> [] \<Longrightarrow> n \<noteq> [] \<Longrightarrow> length network \<le> length n \<Longrightarrow>
   split_kind network s = Some p \<Longrightarrow> length (pp_network p) \<le> length n"
proof (induction network s rule: split_kind.induct)
  case (1 network)
  then show ?case by simp
next
  case (2 network c cs)
  show ?case
  proof (cases "if network = [] then None else kind_here (c # cs)")
    case (Some kr)
    then show ?thesis using 2(5,6) by (cases kr) auto
  next
    case None
    have "length network \<noteq> length n"
    proof
      assume "length network = length n"
      then have "network = n" "c # cs = kind_mark k @ d" using 2(2) by (simp_all add: append_eq_append_conv)
      then show False using None 2(3,4) kind_here_None by (auto split: if_splits)
    qed
    then show ?thesis using 2(1) [OF None] 2(2-6) None by simp
  qed
qed

text \<open>A way to read a text as a product id: the parts, none empty, that give the text.\<close>

definition reads_as :: "string \<Rightarrow> parsed_product \<Rightarrow> bool" where
  "reads_as s p \<longleftrightarrow> product_id_of p = s \<and> pp_network p \<noteq> [] \<and> pp_descriptor p \<noteq> []"

definition one_line :: "string \<Rightarrow> bool" where
  "one_line s \<longleftrightarrow> CHR 0x0A \<notin> set s \<and> CHR 0x0D \<notin> set s"

lemma reads_as_apart:
  assumes "reads_as s p" "reads_as s q" "length (pp_network p) = length (pp_network q)"
  shows "p = q"
proof -
  have "pp_network p @ kind_mark (pp_kind p) @ pp_descriptor p = pp_network q @ kind_mark (pp_kind q) @ pp_descriptor q"
    using assms(1,2) by (simp add: reads_as_def product_id_mark)
  then have net: "pp_network p = pp_network q" and rest: "kind_mark (pp_kind p) @ pp_descriptor p = kind_mark (pp_kind q) @ pp_descriptor q"
    using assms(3) by (simp_all add: append_eq_append_conv)
  have "pp_kind p = pp_kind q \<and> pp_descriptor p = pp_descriptor q"
    using rest by (cases "pp_kind p"; cases "pp_kind q") (simp_all add: kind_mark_def)
  then show ?thesis using net by simp
qed

lemma parse_spec:
  "parseProductId s = Some p \<longleftrightarrow>
     one_line s \<and> reads_as s p \<and> (\<forall>q. reads_as s q \<longrightarrow> length (pp_network p) \<le> length (pp_network q))"
proof
  assume "parseProductId s = Some p"
  then have s: "one_line s" "split_kind [] s = Some p" by (auto simp: parseProductId_def one_line_def split: if_splits)
  have "length (pp_network p) \<le> length (pp_network q)" if "reads_as s q" for q
    using split_kind_least [of "[]" s "pp_network q" "pp_kind q" "pp_descriptor q" p] s(2) that by (simp add: reads_as_def product_id_mark)
  then show "one_line s \<and> reads_as s p \<and> (\<forall>q. reads_as s q \<longrightarrow> length (pp_network p) \<le> length (pp_network q))"
    using s split_kind_sound [OF s(2)] by (simp add: reads_as_def)
next
  assume p: "one_line s \<and> reads_as s p \<and> (\<forall>q. reads_as s q \<longrightarrow> length (pp_network p) \<le> length (pp_network q))"
  then have "split_kind [] s \<noteq> None"
    using split_kind_complete [of "[]" s "pp_network p" "pp_kind p" "pp_descriptor p"] by (simp add: reads_as_def product_id_mark)
  then obtain p' where p': "split_kind [] s = Some p'" by blast
  have r: "reads_as s p'" using split_kind_sound [OF p'] by (simp add: reads_as_def)
  have "length (pp_network p') \<le> length (pp_network p)"
    using split_kind_least [of "[]" s "pp_network p" "pp_kind p" "pp_descriptor p" p'] p' p by (simp add: reads_as_def product_id_mark)
  then have "length (pp_network p') = length (pp_network p)" using p r by (simp add: le_antisym)
  then have "p' = p" using reads_as_apart [OF r] p by blast
  then show "parseProductId s = Some p" using p' p by (auto simp: parseProductId_def one_line_def)
qed

text \<open>A network in which no kind stands between underscores, its own included, cannot be cut earlier.\<close>

lemma mark_ends: "kind_mark k = x @ CHR ''_'' # y \<Longrightarrow> x \<noteq> [] \<Longrightarrow> y = []"
  by (cases k) (auto simp: kind_mark_def append_eq_Cons_conv Cons_eq_append_conv)

lemma no_earlier_cut:
  assumes "n @ kind_mark k @ d = n' @ kind_mark k' @ d'" and "\<forall>j. \<not> sublist (kind_mark j) (n @ ''_'')"
  shows "length n \<le> length n'"
proof (rule ccontr)
  assume "\<not> length n \<le> length n'"
  then have shorter: "length n' < length n" by simp
  have "\<exists>us. n = n' @ us \<and> us @ kind_mark k @ d = kind_mark k' @ d' \<or> n @ us = n' \<and> kind_mark k @ d = us @ kind_mark k' @ d'"
    using assms(1) by (rule append_eq_append_conv2 [THEN iffD1])
  then obtain x where "n = n' @ x" "kind_mark k' @ d' = x @ kind_mark k @ d" using shorter by auto
  then have x: "n = n' @ x" "x \<noteq> []" "kind_mark k' @ d' = x @ kind_mark k @ d" using shorter by auto
  have "\<exists>us. kind_mark k' = x @ us \<and> us @ d' = kind_mark k @ d \<or> kind_mark k' @ us = x \<and> d' = us @ kind_mark k @ d"
    using x(3) by (rule append_eq_append_conv2 [THEN iffD1])
  then obtain us where us: "kind_mark k' = x @ us \<and> us @ d' = kind_mark k @ d \<or> x = kind_mark k' @ us" by metis
  have "\<exists>a b. n @ ''_'' = a @ kind_mark k' @ b"
  proof (cases "x = kind_mark k' @ us")
    case True
    then show ?thesis using x(1) by (intro exI [of _ n'] exI [of _ "us @ ''_''"]) simp
  next
    case False
    then have u: "kind_mark k' = x @ us" "us @ d' = kind_mark k @ d" using us by blast+
    show ?thesis
    proof (cases us)
      case Nil
      then show ?thesis using x(1) u(1) by (intro exI [of _ n'] exI [of _ "''_''"]) simp
    next
      case (Cons c cs)
      then have c: "c = CHR ''_''" using u(2) by (simp add: kind_mark_def)
      then have "cs = []" using mark_ends [of k' x cs] u(1) Cons x(2) by blast
      then show ?thesis using x(1) u(1) Cons c by (intro exI [of _ n'] exI [of _ "[]"]) simp
    qed
  qed
  then show False using assms(2) unfolding sublist_def by blast
qed

text \<open>
  C39. A text is read as a product id exactly when it is one line that can be cut into a network, a kind and a descriptor, and then as the
  cut with the shortest network; what is read, written out again, is the text. An id written from its parts is read back into them
  when its network and the underscore after it contain no kind between underscores (a network such as \<open>A_DATA_B\<close> is read
  differently), the parts are not empty and have no line break.
\<close>

theorem product_id_roundtrip:
  "(parseProductId s = Some p \<longleftrightarrow>
      one_line s \<and> reads_as s p \<and> (\<forall>q. reads_as s q \<longrightarrow> length (pp_network p) \<le> length (pp_network q))) \<and>
   (parseProductId s = None \<longleftrightarrow> \<not> one_line s \<or> (\<nexists>q. reads_as s q)) \<and>
   (pp_network q \<noteq> [] \<and> pp_descriptor q \<noteq> [] \<and> one_line (product_id_of q) \<and>
      (\<forall>mark \<in> {''_AIRTIME_'', ''_TOPUP_'', ''_DATA_''}. \<not> sublist mark (pp_network q @ ''_'')) \<longrightarrow>
    parseProductId (product_id_of q) = Some q)"
proof (intro conjI impI)
  show "parseProductId s = Some p \<longleftrightarrow>
      one_line s \<and> reads_as s p \<and> (\<forall>q. reads_as s q \<longrightarrow> length (pp_network p) \<le> length (pp_network q))" by (rule parse_spec)
  show "parseProductId s = None \<longleftrightarrow> \<not> one_line s \<or> (\<nexists>q. reads_as s q)"
  proof
    assume none: "parseProductId s = None"
    show "\<not> one_line s \<or> (\<nexists>q. reads_as s q)"
    proof (rule ccontr)
      assume "\<not> (\<not> one_line s \<or> (\<nexists>q. reads_as s q))"
      then obtain q where q: "one_line s" "reads_as s q" by blast
      then have "split_kind [] s \<noteq> None"
        using split_kind_complete [of "[]" s "pp_network q" "pp_kind q" "pp_descriptor q"] by (simp add: reads_as_def product_id_mark)
      then show False using none q(1) by (auto simp: parseProductId_def one_line_def)
    qed
  next
    assume "\<not> one_line s \<or> (\<nexists>q. reads_as s q)"
    then show "parseProductId s = None" using parse_spec [of s] by (cases "parseProductId s") blast+
  qed
  assume q: "pp_network q \<noteq> [] \<and> pp_descriptor q \<noteq> [] \<and> one_line (product_id_of q) \<and>
      (\<forall>mark \<in> {''_AIRTIME_'', ''_TOPUP_'', ''_DATA_''}. \<not> sublist mark (pp_network q @ ''_''))"
  have "\<not> sublist (kind_mark j) (pp_network q @ ''_'')" for j
  proof -
    have "kind_mark j \<in> {''_AIRTIME_'', ''_TOPUP_'', ''_DATA_''}" by (cases j) (simp_all add: kind_mark_def)
    then show ?thesis using q by blast
  qed
  then have "length (pp_network q) \<le> length (pp_network r)" if "reads_as (product_id_of q) r" for r
    using that no_earlier_cut by (metis reads_as_def product_id_mark)
  then show "parseProductId (product_id_of q) = Some q" unfolding parse_spec using q by (simp add: reads_as_def)
qed

theorem product_id_roundtrip_witness:
  "parseProductId ''NETWORK_A_AIRTIME_2500'' = Some \<lparr>pp_network = ''NETWORK_A'', pp_kind = AIRTIME, pp_descriptor = ''2500''\<rparr> \<and>
   product_id_of \<lparr>pp_network = ''NETWORK_A'', pp_kind = AIRTIME, pp_descriptor = ''2500''\<rparr> = ''NETWORK_A_AIRTIME_2500''"
proof -
  let ?p = "\<lparr>pp_network = ''NETWORK_A'', pp_kind = AIRTIME, pp_descriptor = ''2500''\<rparr>"
  have "\<forall>mark \<in> {''_AIRTIME_'', ''_TOPUP_'', ''_DATA_''}. \<not> sublist mark (pp_network ?p @ ''_'')" by (simp add: sublist_code)
  moreover have "one_line (product_id_of ?p)" "product_id_of ?p = ''NETWORK_A_AIRTIME_2500''" by (simp_all add: one_line_def product_id_of_def)
  ultimately show ?thesis using product_id_roundtrip [of "''''" ?p ?p] by simp
qed

section \<open>Card declines\<close>

datatype decline_reason =
    DCL_INSUFFICIENT_FUNDS | WRONG_PIN | CARD_EXPIRED | CARD_BLOCKED | LIMIT_EXCEEDED | ISSUER_UNAVAILABLE | DCL_DECLINED

fun DECLINE_MESSAGE_KEYS :: "decline_reason \<Rightarrow> string" where
  "DECLINE_MESSAGE_KEYS DCL_INSUFFICIENT_FUNDS = ''card.decline.insufficient_funds''"
| "DECLINE_MESSAGE_KEYS WRONG_PIN = ''card.decline.wrong_pin''"
| "DECLINE_MESSAGE_KEYS CARD_EXPIRED = ''card.decline.expired''"
| "DECLINE_MESSAGE_KEYS CARD_BLOCKED = ''card.decline.blocked''"
| "DECLINE_MESSAGE_KEYS LIMIT_EXCEEDED = ''card.decline.limit''"
| "DECLINE_MESSAGE_KEYS ISSUER_UNAVAILABLE = ''card.decline.issuer''"
| "DECLINE_MESSAGE_KEYS DCL_DECLINED = ''card.decline.generic''"

definition isRetryable :: "decline_reason \<Rightarrow> bool" where
  "isRetryable r \<longleftrightarrow> r = WRONG_PIN \<or> r = ISSUER_UNAVAILABLE"

end
