(* ===== verification/View_Model.thy ===== *)
theory View_Model
  imports States Js_Number "HOL-Library.Sublist"
begin

text \<open>
  The view model of the terminal (\<open>packages/pos-view-model/src\<close>): the table that says what a merchant may see and do in each
  state (\<open>presentation.ts\<close>), the shapes that cross the wire (\<open>dto.ts\<close>), the screen built from a transaction
  (\<open>transaction.ts\<close>), the state of a request (\<open>remote.ts\<close>) and the check of everything sent to a screen (\<open>redaction.ts\<close>).
  The strings of \<open>packages/localization\<close> are an argument: the English table, and the table of each language.
\<close>

section \<open>What a state looks like\<close>

datatype funds_status = NOT_YET_COMMITTED | FUNDS_HELD | HELD_UNDER_REVIEW | FUNDS_DEBITED | FUNDS_RELEASED

datatype outcome_certainty = IN_PROGRESS | UNCERTAIN | AWAITING_DETERMINATION | CERTAIN_SUCCESS | CERTAIN_NO_SALE

datatype merchant_action =
    VIEW_DETAIL | REFRESH_STATUS | PRINT_RECEIPT | REPRINT_RECEIPT | START_NEW_SALE | CONTACT_SUPPORT
  | COPY_SUPPORT_REFERENCE | BACK_TO_HOME

datatype forbidden_action =
    RETRY_SAME_SALE | NO_RECEIPT | TREAT_AS_SUCCESSFUL | TREAT_AS_FAILED | RELEASE_FUNDS | CHANGE_STATE

datatype refresh_behaviour = POLL_UNTIL_RESOLVED | MANUAL_ONLY | NO_REFRESH

datatype support_escalation = NO_ESCALATION | AVAILABLE_ON_REQUEST | CASE_OPEN_AUTOMATICALLY | CASE_REQUIRED

datatype tone = NEUTRAL | PROGRESS | CAUTION | POSITIVE | NEGATIVE

record state_presentation =
  sp_state :: tx_state
  sp_labelKey :: string
  sp_explanationKey :: string
  sp_tone :: tone
  sp_icon :: string
  sp_certainty :: outcome_certainty
  sp_allowedActions :: "merchant_action list"
  sp_forbiddenActions :: "forbidden_action list"
  sp_refresh :: refresh_behaviour
  sp_supportEscalation :: support_escalation
  sp_doNotRetryYet :: bool
  sp_receiptAvailable :: bool

definition IN_PROGRESS_ACTIONS :: "merchant_action list" where
  "IN_PROGRESS_ACTIONS = [VIEW_DETAIL, REFRESH_STATUS]"

definition NEVER :: "forbidden_action list" where
  "NEVER = [RETRY_SAME_SALE, NO_RECEIPT, TREAT_AS_SUCCESSFUL, TREAT_AS_FAILED, RELEASE_FUNDS, CHANGE_STATE]"

definition inFlight :: "tx_state \<Rightarrow> state_presentation" where
  "inFlight s =
     \<lparr>sp_state = s, sp_labelKey = ''status.processing'', sp_explanationKey = ''status.processing'', sp_tone = PROGRESS,
      sp_icon = ''...'', sp_certainty = IN_PROGRESS, sp_allowedActions = IN_PROGRESS_ACTIONS, sp_forbiddenActions = NEVER,
      sp_refresh = POLL_UNTIL_RESOLVED, sp_supportEscalation = NO_ESCALATION, sp_doNotRetryYet = True,
      sp_receiptAvailable = False\<rparr>"

definition noSale :: "tx_state \<Rightarrow> merchant_action list \<Rightarrow> state_presentation" where
  "noSale s allowed =
     \<lparr>sp_state = s, sp_labelKey = ''status.failed'', sp_explanationKey = ''status.failed.message'', sp_tone = NEGATIVE,
      sp_icon = ''x'', sp_certainty = CERTAIN_NO_SALE, sp_allowedActions = allowed,
      sp_forbiddenActions = [RETRY_SAME_SALE, NO_RECEIPT, TREAT_AS_SUCCESSFUL, RELEASE_FUNDS, CHANGE_STATE],
      sp_refresh = NO_REFRESH, sp_supportEscalation = AVAILABLE_ON_REQUEST, sp_doNotRetryYet = False,
      sp_receiptAvailable = False\<rparr>"

definition awaiting_review :: "tx_state \<Rightarrow> support_escalation \<Rightarrow> state_presentation" where
  "awaiting_review s escalation =
     \<lparr>sp_state = s, sp_labelKey = ''status.under_review'', sp_explanationKey = ''status.under_review.message'',
      sp_tone = CAUTION, sp_icon = ''?'', sp_certainty = AWAITING_DETERMINATION,
      sp_allowedActions = [VIEW_DETAIL, REFRESH_STATUS, CONTACT_SUPPORT, COPY_SUPPORT_REFERENCE],
      sp_forbiddenActions = NEVER, sp_refresh = POLL_UNTIL_RESOLVED, sp_supportEscalation = escalation,
      sp_doNotRetryYet = True, sp_receiptAvailable = False\<rparr>"

fun STATE_PRESENTATION :: "tx_state \<Rightarrow> state_presentation" where
  "STATE_PRESENTATION CREATED = inFlight CREATED"
| "STATE_PRESENTATION VALIDATED = inFlight VALIDATED"
| "STATE_PRESENTATION RESERVED = inFlight RESERVED"
| "STATE_PRESENTATION SUBMITTED = inFlight SUBMITTED"
| "STATE_PRESENTATION PROCESSING = inFlight PROCESSING"
| "STATE_PRESENTATION PENDING =
     \<lparr>sp_state = PENDING, sp_labelKey = ''status.pending'', sp_explanationKey = ''status.pending.message'', sp_tone = CAUTION,
      sp_icon = ''!'', sp_certainty = UNCERTAIN, sp_allowedActions = [VIEW_DETAIL, REFRESH_STATUS, CONTACT_SUPPORT],
      sp_forbiddenActions = NEVER, sp_refresh = POLL_UNTIL_RESOLVED, sp_supportEscalation = AVAILABLE_ON_REQUEST,
      sp_doNotRetryYet = True, sp_receiptAvailable = False\<rparr>"
| "STATE_PRESENTATION UNDER_REVIEW = awaiting_review UNDER_REVIEW CASE_OPEN_AUTOMATICALLY"
| "STATE_PRESENTATION REVERSAL_REQUIRED = awaiting_review REVERSAL_REQUIRED CASE_REQUIRED"
| "STATE_PRESENTATION SUCCESSFUL =
     \<lparr>sp_state = SUCCESSFUL, sp_labelKey = ''status.successful'', sp_explanationKey = ''status.successful'',
      sp_tone = POSITIVE, sp_icon = ''ok'', sp_certainty = CERTAIN_SUCCESS,
      sp_allowedActions = [VIEW_DETAIL, PRINT_RECEIPT, REPRINT_RECEIPT, START_NEW_SALE],
      sp_forbiddenActions = [RETRY_SAME_SALE, TREAT_AS_FAILED, RELEASE_FUNDS, CHANGE_STATE],
      sp_refresh = NO_REFRESH, sp_supportEscalation = AVAILABLE_ON_REQUEST, sp_doNotRetryYet = False,
      sp_receiptAvailable = True\<rparr>"
| "STATE_PRESENTATION FAILED = noSale FAILED [VIEW_DETAIL, START_NEW_SALE]"
| "STATE_PRESENTATION REVERSED = noSale REVERSED [VIEW_DETAIL, COPY_SUPPORT_REFERENCE, START_NEW_SALE]"
| "STATE_PRESENTATION REJECTED = noSale REJECTED [VIEW_DETAIL, START_NEW_SALE]"

fun FUNDS_BY_DISPOSITION :: "value_disposition \<Rightarrow> funds_status" where
  "FUNDS_BY_DISPOSITION VdNone = NOT_YET_COMMITTED"
| "FUNDS_BY_DISPOSITION VdReserved = FUNDS_HELD"
| "FUNDS_BY_DISPOSITION VdUnderReview = HELD_UNDER_REVIEW"
| "FUNDS_BY_DISPOSITION VdDebited = FUNDS_DEBITED"
| "FUNDS_BY_DISPOSITION VdReleased = FUNDS_RELEASED"

definition fundsStatusFor :: "tx_state \<Rightarrow> funds_status" where
  "fundsStatusFor s = FUNDS_BY_DISPOSITION (VALUE_DISPOSITION s)"

definition presentationFor :: "tx_state \<Rightarrow> state_presentation" where
  "presentationFor s = STATE_PRESENTATION s"

definition isUncertain :: "tx_state \<Rightarrow> bool" where
  "isUncertain s \<longleftrightarrow>
     (let c = sp_certainty (STATE_PRESENTATION s) in c = IN_PROGRESS \<or> c = UNCERTAIN \<or> c = AWAITING_DETERMINATION)"

section \<open>What crosses the wire\<close>

record money_dto =
  md_amountMinor :: int
  md_currency :: string
  md_formatted :: string

datatype dto_pending = DTO_AWAITING | DTO_RESOLVED | DTO_ESCALATED

record recovery_dto =
  rd_pendingStatus :: "dto_pending option"
  rd_attempts :: int
  rd_maxAttempts :: "int option"
  rd_firstPendingAt :: "string option"
  rd_lastAttemptAt :: "string option"
  rd_nextCheckAt :: "string option"
  rd_deadlineAt :: "string option"
  rd_lastOutcomeCategory :: "string option"
  rd_manualReviewStatus :: string
  rd_claimActive :: bool
  rd_claimAttemptNo :: "int option"

record support_dto =
  sd_reference :: string
  sd_reason :: string
  sd_status :: string
  sd_openedAt :: string
  sd_approvedBy :: "string option"

record reservation_dto =
  vd_status :: string
  vd_amount :: money_dto

record transaction_dto =
  td_transactionId :: string
  td_merchantId :: string
  td_deviceId :: string
  td_state :: tx_state
  td_productType :: string
  td_amount :: money_dto
  td_recipientMasked :: string
  td_providerReference :: "string option"
  td_idempotencyKey :: string
  td_correlationId :: string
  td_createdAt :: string
  td_updatedAt :: string
  td_mode :: string
  td_recovery :: recovery_dto
  td_support :: "support_dto option"
  td_reservation :: "reservation_dto option"

record balance_dto =
  bd_available :: money_dto
  bd_reserved :: money_dto
  bd_underReview :: money_dto
  bd_total :: money_dto
  bd_todayProfit :: "money_dto option"
  bd_profitAvailable :: "money_dto option"

section \<open>The screen of a transaction\<close>

datatype recovery_phase = NOT_APPLICABLE | AWAITING_RECOVERY | BEING_CHECKED_NOW | PHASE_ESCALATED | PHASE_RESOLVED

record recovery_summary =
  rs_phase :: recovery_phase
  rs_attempts :: int
  rs_maxAttempts :: "int option"
  rs_lastAttemptAt :: "string option"
  rs_nextCheckAt :: "string option"
  rs_deadlineAt :: "string option"
  rs_lastOutcomeCategory :: "string option"
  rs_manualReviewOpen :: bool

record transaction_view =
  tv_transactionId :: string
  tv_state :: tx_state
  tv_statusLabel :: string
  tv_statusExplanation :: string
  tv_tone :: tone
  tv_icon :: string
  tv_certainty :: outcome_certainty
  tv_fundsStatus :: funds_status
  tv_fundsLabel :: string
  tv_amountFormatted :: string
  tv_productType :: string
  tv_recipientMasked :: string
  tv_providerReference :: "string option"
  tv_correlationId :: string
  tv_createdAt :: string
  tv_updatedAt :: string
  tv_allowedActions :: "merchant_action list"
  tv_forbiddenActions :: "forbidden_action list"
  tv_refresh :: refresh_behaviour
  tv_supportEscalation :: support_escalation
  tv_supportReference :: "string option"
  tv_doNotRetryYet :: bool
  tv_receiptAvailable :: bool
  tv_recovery :: recovery_summary
  tv_trainingMode :: bool
  tv_untranslated :: "string list"
  tv_localeWarning :: "string option"

fun FUNDS_LABEL :: "funds_status \<Rightarrow> string" where
  "FUNDS_LABEL NOT_YET_COMMITTED = ''No money committed yet''"
| "FUNDS_LABEL FUNDS_HELD = ''Your money is held for this sale''"
| "FUNDS_LABEL HELD_UNDER_REVIEW = ''Your money is held while this is checked''"
| "FUNDS_LABEL FUNDS_DEBITED = ''Your balance was reduced for this sale''"
| "FUNDS_LABEL FUNDS_RELEASED = ''Your money was returned to your available balance''"

definition recoveryPhase :: "recovery_dto \<Rightarrow> tx_state \<Rightarrow> recovery_phase" where
  "recoveryPhase r s =
     (case rd_pendingStatus r of
        None \<Rightarrow> NOT_APPLICABLE
      | Some p \<Rightarrow>
          if p = DTO_RESOLVED then PHASE_RESOLVED
          else if p = DTO_ESCALATED then PHASE_ESCALATED
          else if rd_claimActive r then BEING_CHECKED_NOW
          else if s = UNDER_REVIEW then PHASE_ESCALATED else AWAITING_RECOVERY)"

definition toRecoverySummary :: "recovery_dto \<Rightarrow> tx_state \<Rightarrow> recovery_summary" where
  "toRecoverySummary r s =
     \<lparr>rs_phase = recoveryPhase r s, rs_attempts = rd_attempts r, rs_maxAttempts = rd_maxAttempts r,
      rs_lastAttemptAt = rd_lastAttemptAt r, rs_nextCheckAt = rd_nextCheckAt r, rs_deadlineAt = rd_deadlineAt r,
      rs_lastOutcomeCategory = rd_lastOutcomeCategory r, rs_manualReviewOpen = (rd_manualReviewStatus r = ''OPEN'')\<rparr>"

text \<open>The languages; a table of strings for each, and the English one, which has an entry for every key.\<close>

datatype locale_code = LOCALE_EN | LOCALE_AM

record string_tables =
  st_english :: "string \<Rightarrow> string"
  st_table :: "locale_code \<Rightarrow> string \<Rightarrow> string option"

record translation =
  tr_key :: string
  tr_locale :: locale_code
  tr_text :: string
  tr_fellBackToEnglish :: bool

definition translate :: "string_tables \<Rightarrow> locale_code \<Rightarrow> string \<Rightarrow> translation" where
  "translate tb l k =
     (case st_table tb l k of
        Some text \<Rightarrow> \<lparr>tr_key = k, tr_locale = l, tr_text = text, tr_fellBackToEnglish = False\<rparr>
      | None \<Rightarrow> \<lparr>tr_key = k, tr_locale = l, tr_text = st_english tb k, tr_fellBackToEnglish = True\<rparr>)"

definition AMHARIC_REVIEW_WARNING :: string where
  "AMHARIC_REVIEW_WARNING = ''REQUIRES NATIVE AMHARIC REVIEW BEFORE PRODUCTION''"

definition toTransactionViewModel :: "string_tables \<Rightarrow> transaction_dto \<Rightarrow> locale_code \<Rightarrow> transaction_view" where
  "toTransactionViewModel tb d l =
     (let p = presentationFor (td_state d);
          label = translate tb l (sp_labelKey p);
          explanation = translate tb l (sp_explanationKey p);
          funds = fundsStatusFor (td_state d)
      in \<lparr>tv_transactionId = td_transactionId d, tv_state = td_state d, tv_statusLabel = tr_text label,
          tv_statusExplanation = tr_text explanation, tv_tone = sp_tone p, tv_icon = sp_icon p, tv_certainty = sp_certainty p,
          tv_fundsStatus = funds, tv_fundsLabel = FUNDS_LABEL funds, tv_amountFormatted = md_formatted (td_amount d),
          tv_productType = td_productType d, tv_recipientMasked = td_recipientMasked d,
          tv_providerReference = td_providerReference d, tv_correlationId = td_correlationId d,
          tv_createdAt = td_createdAt d, tv_updatedAt = td_updatedAt d, tv_allowedActions = sp_allowedActions p,
          tv_forbiddenActions = sp_forbiddenActions p, tv_refresh = sp_refresh p,
          tv_supportEscalation = sp_supportEscalation p, tv_supportReference = map_option sd_reference (td_support d),
          tv_doNotRetryYet = sp_doNotRetryYet p, tv_receiptAvailable = sp_receiptAvailable p,
          tv_recovery = toRecoverySummary (td_recovery d) (td_state d), tv_trainingMode = (td_mode d = ''TRAINING''),
          tv_untranslated = (if tr_fellBackToEnglish label then [sp_labelKey p] else []) @
                            (if tr_fellBackToEnglish explanation then [sp_explanationKey p] else []),
          tv_localeWarning = (if l = LOCALE_AM then Some AMHARIC_REVIEW_WARNING else None)\<rparr>)"

definition retryInstruction :: "string_tables \<Rightarrow> transaction_view \<Rightarrow> locale_code \<Rightarrow> string option" where
  "retryInstruction tb v l =
     (if tv_doNotRetryYet v then Some (tr_text (translate tb l ''status.pending.do_not_retry'')) else None)"

definition permits :: "transaction_view \<Rightarrow> merchant_action \<Rightarrow> bool" where
  "permits v a \<longleftrightarrow> a \<in> set (tv_allowedActions v)"

definition refuses :: "transaction_view \<Rightarrow> forbidden_action \<Rightarrow> bool" where
  "refuses v a \<longleftrightarrow> a \<in> set (tv_forbiddenActions v)"

text \<open>
  C9. A screen never misstates a sale: it shows certain success, allows treating the sale as successful, or says the balance was reduced,
  exactly for a successful sale; it keeps polling, tells the merchant not to retry and refuses every treatment of the
  outcome exactly while the outcome is open; it says money is held exactly when the state holds the merchant's
  value; it offers the receipt of a successful sale, and none in a state that has no receipt; and it always refuses to retry
  the same sale, to release its funds and to change its state.
\<close>

theorem screen_tells_the_truth:
  "let v = toTransactionViewModel tb d l; s = td_state d in
    (permits v PRINT_RECEIPT \<longleftrightarrow> tv_receiptAvailable v) \<and> \<not> (s = SUCCESSFUL \<and> \<not> permits v PRINT_RECEIPT) \<and>
    \<not> (permits v PRINT_RECEIPT \<and> s \<notin> {SUCCESSFUL, FAILED, PENDING, UNDER_REVIEW, REVERSED, REJECTED}) \<and>
    (tv_certainty v = CERTAIN_SUCCESS \<longleftrightarrow> s = SUCCESSFUL) \<and> (tv_fundsStatus v = FUNDS_DEBITED \<longleftrightarrow> s = SUCCESSFUL) \<and>
    (\<not> refuses v TREAT_AS_SUCCESSFUL \<longleftrightarrow> s = SUCCESSFUL) \<and>
    (isUncertain s \<longleftrightarrow> \<not> isTerminal s) \<and> (tv_refresh v = POLL_UNTIL_RESOLVED \<longleftrightarrow> \<not> isTerminal s) \<and>
    (retryInstruction tb v l \<noteq> None \<longleftrightarrow> \<not> isTerminal s) \<and> (permits v START_NEW_SALE \<longleftrightarrow> isTerminal s) \<and>
    (refuses v TREAT_AS_SUCCESSFUL \<and> refuses v TREAT_AS_FAILED \<longleftrightarrow> \<not> isTerminal s) \<and>
    (tv_fundsStatus v \<in> {FUNDS_HELD, HELD_UNDER_REVIEW} \<longleftrightarrow> holdsMerchantValue s) \<and>
    refuses v RETRY_SAME_SALE \<and> refuses v RELEASE_FUNDS \<and> refuses v CHANGE_STATE"
  by (cases "td_state d")
    (simp_all add: toTransactionViewModel_def Let_def permits_def refuses_def presentationFor_def fundsStatusFor_def
      isUncertain_def retryInstruction_def holdsMerchantValue_def isTerminal_def TERMINAL_STATES_def
      inFlight_def noSale_def awaiting_review_def IN_PROGRESS_ACTIONS_def NEVER_def)

text \<open>
  Of the states that have a receipt in the domain (\<open>packages/domain/src/receipt.ts\<close>), a screen offers it in one only: a failed, pending,
  reviewed or reversed sale has a receipt that no screen offers.
\<close>

lemma receipt_offered_for_success_only:
  "permits (toTransactionViewModel tb d l) PRINT_RECEIPT \<longleftrightarrow> td_state d = SUCCESSFUL"
  by (cases "td_state d") (simp_all add: toTransactionViewModel_def Let_def permits_def presentationFor_def
      inFlight_def noSale_def awaiting_review_def IN_PROGRESS_ACTIONS_def NEVER_def)

section \<open>The state of a request\<close>

record remote_failure =
  rf_reasonCode :: string
  rf_messageKey :: string
  rf_status :: "int option"
  rf_correlationId :: "string option"
  rf_at :: string

datatype 'a remote_data =
    Remote_idle
  | Remote_loading "('a \<times> string) option"
  | Remote_ready 'a string
  | Remote_empty string
  | Remote_stale 'a string remote_failure
  | Remote_error remote_failure

text \<open>\<open>previous\<close> and \<open>loadedAt\<close> of a load are written together or not at all.\<close>

fun startLoad :: "'a remote_data \<Rightarrow> 'a remote_data" where
  "startLoad (Remote_ready x t) = Remote_loading (Some (x, t))"
| "startLoad (Remote_stale x t f) = Remote_loading (Some (x, t))"
| "startLoad (Remote_loading p) = Remote_loading p"
| "startLoad _ = Remote_loading None"

definition remote_succeed :: "'a \<Rightarrow> string \<Rightarrow> 'a remote_data" where
  "remote_succeed x t = Remote_ready x t"

definition succeedList :: "'a list \<Rightarrow> string \<Rightarrow> 'a list remote_data" where
  "succeedList xs t = (if length xs = 0 then Remote_empty t else Remote_ready xs t)"

fun remote_fail :: "'a remote_data \<Rightarrow> remote_failure \<Rightarrow> 'a remote_data" where
  "remote_fail (Remote_ready x t) f = Remote_stale x t f"
| "remote_fail (Remote_stale x t _) f = Remote_stale x t f"
| "remote_fail (Remote_loading (Some (x, t))) f = Remote_stale x t f"
| "remote_fail _ f = Remote_error f"

fun dataOf :: "'a remote_data \<Rightarrow> 'a option" where
  "dataOf (Remote_ready x t) = Some x"
| "dataOf (Remote_stale x t f) = Some x"
| "dataOf (Remote_loading p) = map_option fst p"
| "dataOf _ = None"

fun isStale :: "'a remote_data \<Rightarrow> bool" where
  "isStale (Remote_stale x t f) \<longleftrightarrow> True"
| "isStale _ \<longleftrightarrow> False"

fun failureOf :: "'a remote_data \<Rightarrow> remote_failure option" where
  "failureOf (Remote_error f) = Some f"
| "failureOf (Remote_stale x t f) = Some f"
| "failureOf _ = None"

text \<open>What the code can do to the state of one request.\<close>

datatype 'a remote_event = Start_load | Load_succeeds 'a string | Load_fails remote_failure

fun remote_step :: "'a remote_event \<Rightarrow> 'a remote_data \<Rightarrow> 'a remote_data" where
  "remote_step Start_load s = startLoad s"
| "remote_step (Load_succeeds x t) s = remote_succeed x t"
| "remote_step (Load_fails f) s = remote_fail s f"

fun last_loaded :: "'a remote_event list \<Rightarrow> 'a option" where
  "last_loaded [] = None"
| "last_loaded (Load_succeeds x t # es) = Some x"
| "last_loaded (_ # es) = last_loaded es"

lemma step_dataOf:
  "dataOf (remote_step e s) = (case e of Load_succeeds x t \<Rightarrow> Some x | _ \<Rightarrow> dataOf s)"
proof (cases e)
  case Start_load
  then show ?thesis by (cases s) simp_all
next
  case (Load_succeeds x t)
  then show ?thesis by (simp add: remote_succeed_def)
next
  case (Load_fails f)
  then show ?thesis by (cases "(s, f)" rule: remote_fail.cases) simp_all
qed

lemma failure_is_kept: "failureOf (remote_fail s f) = Some f"
  by (cases "(s, f)" rule: remote_fail.cases) simp_all

text \<open>
  Whatever loads, refreshes and failures follow each other, the screen shows the data of the last load that
  succeeded; a failure never blanks it, is always reported, and marks the data stale when there is some.
\<close>

theorem last_answer_stays_on_screen:
  "dataOf (foldr remote_step es Remote_idle) = last_loaded es \<and>
   failureOf (foldr remote_step (Load_fails f # es) Remote_idle) = Some f \<and>
   (isStale (foldr remote_step (Load_fails f # es) Remote_idle) \<longleftrightarrow> last_loaded es \<noteq> None)"
proof -
  have shown: "dataOf (foldr remote_step es Remote_idle) = last_loaded es" for es :: "'a remote_event list"
    by (induction es rule: last_loaded.induct) (simp_all only: foldr.simps o_apply step_dataOf remote_event.case last_loaded.simps id_apply dataOf.simps)
  let ?s = "foldr remote_step (Load_fails f # es) Remote_idle"
  have failed: "failureOf ?s = Some f" by (simp add: failure_is_kept)
  have "isStale ?s \<longleftrightarrow> dataOf ?s \<noteq> None" using failed by (cases ?s) simp_all
  then show ?thesis using shown failed by (simp only: last_loaded.simps)
qed

end
