(* ===== verification/Read_Model.thy ===== *)
theory Read_Model
  imports Ledger_Properties View_Model
begin

text \<open>
  What leaves the server for a screen: the read model (\<open>services/api/src/http/readModel.ts\<close>), which shapes stored rows into
  the objects of \<open>View_Model\<close>, and the last check before a body is sent (\<open>packages/pos-view-model/src/redaction.ts\<close>).
  A body is a JSON value; texts, numbers and booleans are one case of it, as the check looks at keys only.
\<close>

section \<open>The check\<close>

datatype json = J_null | J_value string | J_array "json list" | J_object "(string \<times> json) list"

definition FORBIDDEN_KEY_PARTS :: "string list" where
  "FORBIDDEN_KEY_PARTS =
     [''pin'', ''password'', ''secret'', ''token'', ''credential'', ''apikey'', ''api_key'', ''authorization'',
      ''recipienthash'', ''recipient_hash'', ''payloadfingerprint'', ''payload_fingerprint'', ''salt'', ''privatekey'',
      ''private_key'']"

definition RECIPIENT_KEYS :: "string list" where
  "RECIPIENT_KEYS = [''recipient'', ''phone'', ''msisdn'']"

definition to_lower_char :: "char \<Rightarrow> char" where
  "to_lower_char c = (if CHR ''A'' \<le> c \<and> c \<le> CHR ''Z'' then char_of (of_char c + (32 :: nat)) else c)"

definition normalize_key :: "string \<Rightarrow> string" where
  "normalize_key key = filter (\<lambda>c. CHR ''a'' \<le> c \<and> c \<le> CHR ''z'' \<or> c = CHR ''_'') (map to_lower_char key)"

datatype unsafe_reason = Names_secret | Full_recipient

text \<open>The reason and the path of the first key that is refused.\<close>

definition check_key :: "string \<Rightarrow> unsafe_reason option" where
  "check_key key =
     (let n = normalize_key key
      in if list_ex (\<lambda>part. sublist (normalize_key part) n) FORBIDDEN_KEY_PARTS then Some Names_secret
         else if n \<in> set RECIPIENT_KEYS \<and> \<not> sublist ''masked'' n then Some Full_recipient
         else None)"

fun assertSafeForDisplay :: "json \<Rightarrow> string \<Rightarrow> string \<times> unsafe_reason + unit"
and check_items :: "json list \<Rightarrow> nat \<Rightarrow> string \<Rightarrow> string \<times> unsafe_reason + unit"
and check_fields :: "(string \<times> json) list \<Rightarrow> string \<Rightarrow> string \<times> unsafe_reason + unit" where
  "assertSafeForDisplay J_null path = Inr ()"
| "assertSafeForDisplay (J_value v) path = Inr ()"
| "assertSafeForDisplay (J_array items) path = check_items items 0 path"
| "assertSafeForDisplay (J_object members) path = check_fields members path"
| "check_items [] index path = Inr ()"
| "check_items (item # items) index path =
     rbind (assertSafeForDisplay item (path @ ''['' @ dec_nat index @ '']'')) (\<lambda>_. check_items items (index + 1) path)"
| "check_fields [] path = Inr ()"
| "check_fields ((key, child) # members) path =
     (let childPath = path @ ''.'' @ key
      in case check_key key of
           Some reason \<Rightarrow> Inl (childPath, reason)
         | None \<Rightarrow> rbind (assertSafeForDisplay child childPath) (\<lambda>_. check_fields members path))"

text \<open>Every key of a body, at any depth.\<close>

fun json_keys :: "json \<Rightarrow> string set" where
  "json_keys J_null = {}"
| "json_keys (J_value v) = {}"
| "json_keys (J_array items) = (\<Union>x\<in>set items. json_keys x)"
| "json_keys (J_object members) = fst ` set members \<union> (\<Union>x\<in>set members. json_keys (snd x))"

lemma rbind_unit: "rbind r (\<lambda>_. s) = Inr () \<longleftrightarrow> r = Inr () \<and> s = Inr ()" for r :: "'e + unit"
  by (cases r) (simp_all add: unit_eq)

lemma check_spec:
  "assertSafeForDisplay j path = Inr () \<longleftrightarrow> (\<forall>k\<in>json_keys j. check_key k = None)"
  "check_items items index path = Inr () \<longleftrightarrow> (\<forall>x\<in>set items. \<forall>k\<in>json_keys x. check_key k = None)"
  "check_fields members path = Inr () \<longleftrightarrow> (\<forall>x\<in>set members. check_key (fst x) = None \<and> (\<forall>k\<in>json_keys (snd x). check_key k = None))"
  by (induction j path and items index path and members path rule: assertSafeForDisplay_check_items_check_fields.induct)
    (simp_all add: rbind_unit Let_def ball_Un ball_conj_distrib split: option.split, blast)

section \<open>Rows to objects\<close>

definition toMoneyDto :: "money \<Rightarrow> money_dto" where
  "toMoneyDto a = \<lparr>md_amountMinor = minor a, md_currency = currency_name (currency a), md_formatted = format_money a\<rparr>"

text \<open>The only currency of a row is ETB, so the refusal of any other one is not reached.\<close>

definition moneyDtoFromRow :: "int \<Rightarrow> currency \<Rightarrow> domain_error + money_dto" where
  "moneyDtoFromRow m c = rbind (mk_money (JInt m) ETB) (\<lambda>a. Inr (toMoneyDto a))"

fun support_reason_name :: "support_reason \<Rightarrow> string" where
  "support_reason_name SR_UNDER_REVIEW = ''UNDER_REVIEW''"
| "support_reason_name SR_REVERSAL_REQUIRED = ''REVERSAL_REQUIRED''"
| "support_reason_name SR_MERCHANT_REPORTED = ''MERCHANT_REPORTED''"
| "support_reason_name SR_PROVIDER_DISPUTE = ''PROVIDER_DISPUTE''"

fun support_status_name :: "support_status \<Rightarrow> string" where
  "support_status_name SC_OPEN = ''OPEN''"
| "support_status_name SC_AWAITING_PROVIDER = ''AWAITING_PROVIDER''"
| "support_status_name SC_RESOLVED = ''RESOLVED''"
| "support_status_name SC_CLOSED = ''CLOSED''"

fun reservation_name :: "reservation_state \<Rightarrow> string" where
  "reservation_name HELD = ''HELD''"
| "reservation_name RES_UNDER_REVIEW = ''UNDER_REVIEW''"
| "reservation_name RELEASED = ''RELEASED''"
| "reservation_name SETTLED = ''SETTLED''"

fun mode_name :: "operating_mode \<Rightarrow> string" where
  "mode_name TRAINING = ''TRAINING''"
| "mode_name LIVE = ''LIVE''"

fun pending_name :: "pending_status \<Rightarrow> dto_pending" where
  "pending_name AWAITING = DTO_AWAITING"
| "pending_name PR_RESOLVED = DTO_RESOLVED"
| "pending_name ESCALATED = DTO_ESCALATED"

definition toSupportDto :: "support_row option \<Rightarrow> support_dto option" where
  "toSupportDto r =
     map_option (\<lambda>s. \<lparr>sd_reference = sw_reference s, sd_reason = support_reason_name (sw_reason s),
       sd_status = support_status_name (sw_status s), sd_openedAt = sw_createdAt s, sd_approvedBy = sw_approvedBy s\<rparr>) r"

definition toRecoveryDto :: "pending_row option \<Rightarrow> bool \<Rightarrow> int option \<Rightarrow> int option \<Rightarrow> recovery_dto" where
  "toRecoveryDto pending claimActive claimAttemptNo maxAttempts =
     (case pending of
        None \<Rightarrow>
          \<lparr>rd_pendingStatus = None, rd_attempts = 0, rd_maxAttempts = maxAttempts, rd_firstPendingAt = None,
           rd_lastAttemptAt = None, rd_nextCheckAt = None, rd_deadlineAt = None, rd_lastOutcomeCategory = None,
           rd_manualReviewStatus = ''NONE'', rd_claimActive = claimActive, rd_claimAttemptNo = claimAttemptNo\<rparr>
      | Some p \<Rightarrow>
          \<lparr>rd_pendingStatus = Some (pending_name (pw_status p)), rd_attempts = pw_attempts p, rd_maxAttempts = maxAttempts,
           rd_firstPendingAt = Some (pw_firstPendingAt p), rd_lastAttemptAt = pw_lastAttemptAt p,
           rd_nextCheckAt = pw_nextCheckAt p, rd_deadlineAt = Some (pw_deadlineAt p),
           rd_lastOutcomeCategory = pw_lastOutcomeCategory p, rd_manualReviewStatus = pw_manualReviewStatus p,
           rd_claimActive = claimActive, rd_claimAttemptNo = claimAttemptNo\<rparr>)"

definition claim_active :: "timestamp \<Rightarrow> claim_row option \<Rightarrow> bool" where
  "claim_active t c = (case c of None \<Rightarrow> False | Some k \<Rightarrow> cw_status k = CL_ACTIVE \<and> t < cw_expiresAt k)"

definition reservation_dto_of :: "reservation_row option \<Rightarrow> domain_error + reservation_dto option" where
  "reservation_dto_of r =
     (case r of None \<Rightarrow> Inr None
      | Some k \<Rightarrow> rbind (moneyDtoFromRow (rr_amountMinor k) (rr_currency k))
          (\<lambda>a. Inr (Some \<lparr>vd_status = reservation_name (rr_status k), vd_amount = a\<rparr>)))"

definition toTransactionDto :: "db \<Rightarrow> timestamp \<Rightarrow> int option \<Rightarrow> transaction_row \<Rightarrow> string \<Rightarrow> domain_error + transaction_dto" where
  "toTransactionDto d t maxAttempts row fallback =
     (let tx = tw_id row; merchant = tw_merchantId row;
          pending = findPendingResolution d tx;
          support = findSupportCaseByTransaction d tx (Some merchant);
          reservation = findReservation d tx (Some merchant);
          claim = findClaim d tx
      in rbind (moneyDtoFromRow (tw_amountMinor row) (tw_currency row)) (\<lambda>amount.
         rbind (reservation_dto_of reservation) (\<lambda>held.
           Inr \<lparr>td_transactionId = tx, td_merchantId = merchant, td_deviceId = tw_deviceId row, td_state = tw_state row,
                td_productType = tw_productType row, td_amount = amount, td_recipientMasked = tw_recipientMasked row,
                td_providerReference = tw_providerReference row, td_idempotencyKey = tw_idempotencyKey row,
                td_correlationId = (case pending of None \<Rightarrow> fallback | Some p \<Rightarrow> pw_correlationId p),
                td_createdAt = tw_createdAt row, td_updatedAt = tw_updatedAt row, td_mode = mode_name (tw_mode row),
                td_recovery = toRecoveryDto pending (claim_active t claim) (map_option cw_attemptNo claim) maxAttempts,
                td_support = toSupportDto support, td_reservation = held\<rparr>)))"

definition toBalanceDto :: "db \<Rightarrow> timestamp \<Rightarrow> string \<Rightarrow> domain_error + balance_dto" where
  "toBalanceDto d t m =
     rbind (balanceFor d m) (\<lambda>view.
     rbind (mk_money (JInt (profitForDay d m (take 10 t))) ETB) (\<lambda>today.
     rbind (mk_money (JInt (profitAvailableMinor d m)) ETB) (\<lambda>profit.
       Inr \<lparr>bd_available = toMoneyDto (bv_available view), bd_reserved = toMoneyDto (bv_reserved view),
            bd_underReview = toMoneyDto (bv_underReview view), bd_total = toMoneyDto (bv_total view),
            bd_todayProfit = Some (toMoneyDto today), bd_profitAvailable = Some (toMoneyDto profit)\<rparr>)))"

fun all_dtos :: "(transaction_row \<Rightarrow> domain_error + transaction_dto) \<Rightarrow> transaction_row list \<Rightarrow> domain_error + transaction_dto list" where
  "all_dtos f [] = Inr []"
| "all_dtos f (r # rs) = rbind (f r) (\<lambda>x. rbind (all_dtos f rs) (\<lambda>xs. Inr (x # xs)))"

text \<open>Newest first: the reverse of the order by creation and identifier, in which no two rows are equal.\<close>

definition listed_rows :: "db \<Rightarrow> string \<Rightarrow> nat option \<Rightarrow> tx_state list option \<Rightarrow> transaction_row list" where
  "listed_rows d m limit states =
     (let rows = findTransactionsByMerchant d m;
          filtered = (case states of None \<Rightarrow> rows | Some ss \<Rightarrow> filter (\<lambda>r. tw_state r \<in> set ss) rows);
          ordered = rev (order_by tw_createdAt tw_id filtered)
      in case limit of None \<Rightarrow> ordered | Some n \<Rightarrow> take n ordered)"

definition listTransactionDtos ::
  "db \<Rightarrow> timestamp \<Rightarrow> int option \<Rightarrow> string \<Rightarrow> string \<Rightarrow> nat option \<Rightarrow> tx_state list option \<Rightarrow> domain_error + transaction_dto list" where
  "listTransactionDtos d t maxAttempts m fallback limit states =
     all_dtos (\<lambda>r. toTransactionDto d t maxAttempts r fallback) (listed_rows d m limit states)"

section \<open>What a listing shows\<close>

lemma toTransactionDto_fields:
  "toTransactionDto d t k row c = Inr x \<Longrightarrow>
     td_transactionId x = tw_id row \<and> td_merchantId x = tw_merchantId row \<and> td_state x = tw_state row \<and> td_createdAt x = tw_createdAt row"
  by (auto simp: toTransactionDto_def Let_def rbind_Inr_iff)

lemma all_dtos_list: "all_dtos f rs = Inr xs \<Longrightarrow> list_all2 (\<lambda>r x. f r = Inr x) rs xs"
  by (induction rs arbitrary: xs) (auto simp: rbind_Inr_iff)

lemma sorted_order_by: "sorted (map f (order_by f g rows))"
  by (simp add: order_by_def)

lemma listed_rows_set:
  "set (listed_rows d m limit states) \<subseteq>
     {r \<in> set (transactions d). tw_merchantId r = m \<and> (case states of None \<Rightarrow> True | Some ss \<Rightarrow> tw_state r \<in> set ss)}"
  by (auto simp: listed_rows_def Let_def findTransactionsByMerchant_def dest!: in_set_takeD split: option.splits)

lemma listed_rows_all:
  "set (listed_rows d m None states) =
     {r \<in> set (transactions d). tw_merchantId r = m \<and> (case states of None \<Rightarrow> True | Some ss \<Rightarrow> tw_state r \<in> set ss)}"
  by (auto simp: listed_rows_def Let_def findTransactionsByMerchant_def split: option.splits)

lemma listed_rows_newest_first: "sorted_wrt (\<lambda>r q. tw_createdAt q \<le> tw_createdAt r) (listed_rows d m limit states)"
proof -
  have "sorted_wrt (\<lambda>r q. tw_createdAt q \<le> tw_createdAt r) (rev (order_by tw_createdAt tw_id rows))" for rows
    using sorted_order_by [of tw_createdAt tw_id rows] by (simp add: sorted_wrt_rev sorted_map)
  then show ?thesis by (auto simp: listed_rows_def Let_def sorted_wrt_take split: option.splits)
qed

text \<open>
  C10. A listing shows a merchant its own sales and nothing else: each object is a stored row of that merchant, in the state the
  row is in and in the states asked for, the newest come first, there are no more than the limit, and without a
  limit every such row is shown.
\<close>

theorem listing_shows_own_sales:
  assumes "listTransactionDtos d t k m c limit states = Inr xs"
  shows "(\<forall>x\<in>set xs. td_merchantId x = m \<and> (case states of None \<Rightarrow> True | Some ss \<Rightarrow> td_state x \<in> set ss) \<and>
      (\<exists>r\<in>set (transactions d). tw_id r = td_transactionId x \<and> tw_merchantId r = m \<and> tw_state r = td_state x)) \<and>
    sorted_wrt (\<lambda>x y. td_createdAt y \<le> td_createdAt x) xs \<and>
    (case limit of Some n \<Rightarrow> length xs \<le> n
     | None \<Rightarrow> td_transactionId ` set xs =
         tw_id ` {r \<in> set (transactions d). tw_merchantId r = m \<and> (case states of None \<Rightarrow> True | Some ss \<Rightarrow> tw_state r \<in> set ss)})"
proof -
  let ?rs = "listed_rows d m limit states"
  have rel: "list_all2 (\<lambda>r x. td_transactionId x = tw_id r \<and> td_merchantId x = tw_merchantId r \<and> td_state x = tw_state r \<and>
      td_createdAt x = tw_createdAt r) ?rs xs"
    using all_dtos_list [OF assms [unfolded listTransactionDtos_def]] by (rule list_all2_mono) (rule toTransactionDto_fields)
  then have same: "map td_transactionId xs = map tw_id ?rs" "map td_createdAt xs = map tw_createdAt ?rs"
    by (induction rule: list_all2_induct) simp_all
  have own: "\<forall>x\<in>set xs. \<exists>r\<in>set ?rs. td_transactionId x = tw_id r \<and> td_merchantId x = tw_merchantId r \<and> td_state x = tw_state r"
    using rel by (induction rule: list_all2_induct) auto
  have "sorted_wrt (\<lambda>a b. b \<le> a) (map td_createdAt xs)"
    using listed_rows_newest_first [of d m limit states] by (simp add: same sorted_wrt_map)
  then have sorted: "sorted_wrt (\<lambda>x y. td_createdAt y \<le> td_createdAt x) xs" by (simp add: sorted_wrt_map)
  have "length xs = length ?rs" using rel by (simp add: list_all2_lengthD)
  then have few: "\<forall>n. limit = Some n \<longrightarrow> length xs \<le> n" by (auto simp: listed_rows_def Let_def)
  have all: "td_transactionId ` set xs = tw_id ` set ?rs" using same(1) by (metis list.set_map)
  have "(\<forall>x\<in>set xs. td_merchantId x = m \<and> (case states of None \<Rightarrow> True | Some ss \<Rightarrow> td_state x \<in> set ss) \<and>
      (\<exists>r\<in>set (transactions d). tw_id r = td_transactionId x \<and> tw_merchantId r = m \<and> tw_state r = td_state x))"
    using own listed_rows_set [of d m limit states] by (fastforce split: option.splits)
  then show ?thesis using sorted few all by (cases limit) (simp_all add: listed_rows_all)
qed

theorem listing_shows_own_sales_witness:
  "case listTransactionDtos sample_db t0 None ''m1'' ''c1'' (Some 5) None of
     Inl e \<Rightarrow> False
   | Inr xs \<Rightarrow> map td_transactionId xs = [''tx1''] \<and> map td_merchantId xs = [''m1'']"
proof -
  have "case listTransactionDtos sample_db t0 None ''m1'' ''c1'' (Some 5) None of
      Inl e \<Rightarrow> False | Inr xs \<Rightarrow> map td_transactionId xs = [''tx1'']"
    by (simp add: listTransactionDtos_def listed_rows_def findTransactionsByMerchant_def order_by_def Let_def sample_db_def sample_tx_def
        empty_db_def toTransactionDto_def moneyDtoFromRow_def mk_money_def safe_int_iff reservation_dto_of_def findReservation_def)
  then obtain xs where xs: "listTransactionDtos sample_db t0 None ''m1'' ''c1'' (Some 5) None = Inr xs"
    and ids: "map td_transactionId xs = [''tx1'']" by (auto split: sum.splits)
  then obtain x where "xs = [x]" "td_transactionId x = ''tx1''" by (cases xs) auto
  then show ?thesis using listing_shows_own_sales [OF xs] xs by simp
qed

section \<open>What is sent is safe to show\<close>

definition money_json :: "money_dto \<Rightarrow> json" where
  "money_json a =
     J_object [(''amountMinor'', J_value (dec_int (md_amountMinor a))), (''currency'', J_value (md_currency a)),
               (''formatted'', J_value (md_formatted a))]"

definition text_json :: "string option \<Rightarrow> json" where
  "text_json v = (case v of None \<Rightarrow> J_null | Some s \<Rightarrow> J_value s)"

definition number_json :: "int option \<Rightarrow> json" where
  "number_json v = text_json (map_option dec_int v)"

definition bool_json :: "bool \<Rightarrow> json" where
  "bool_json b = J_value (if b then ''true'' else ''false'')"

fun dto_pending_name :: "dto_pending \<Rightarrow> string" where
  "dto_pending_name DTO_AWAITING = ''AWAITING''"
| "dto_pending_name DTO_RESOLVED = ''RESOLVED''"
| "dto_pending_name DTO_ESCALATED = ''ESCALATED''"

definition recovery_json :: "recovery_dto \<Rightarrow> json" where
  "recovery_json r =
     J_object [(''pendingStatus'', text_json (map_option dto_pending_name (rd_pendingStatus r))),
       (''attempts'', J_value (dec_int (rd_attempts r))), (''maxAttempts'', number_json (rd_maxAttempts r)),
       (''firstPendingAt'', text_json (rd_firstPendingAt r)), (''lastAttemptAt'', text_json (rd_lastAttemptAt r)),
       (''nextCheckAt'', text_json (rd_nextCheckAt r)), (''deadlineAt'', text_json (rd_deadlineAt r)),
       (''lastOutcomeCategory'', text_json (rd_lastOutcomeCategory r)),
       (''manualReviewStatus'', J_value (rd_manualReviewStatus r)), (''claimActive'', bool_json (rd_claimActive r)),
       (''claimAttemptNo'', number_json (rd_claimAttemptNo r))]"

definition support_json :: "support_dto \<Rightarrow> json" where
  "support_json s =
     J_object [(''reference'', J_value (sd_reference s)), (''reason'', J_value (sd_reason s)),
       (''status'', J_value (sd_status s)), (''openedAt'', J_value (sd_openedAt s)), (''approvedBy'', text_json (sd_approvedBy s))]"

definition reservation_json :: "reservation_dto \<Rightarrow> json" where
  "reservation_json v = J_object [(''status'', J_value (vd_status v)), (''amount'', money_json (vd_amount v))]"

definition transaction_json :: "transaction_dto \<Rightarrow> json" where
  "transaction_json d =
     J_object [(''transactionId'', J_value (td_transactionId d)), (''merchantId'', J_value (td_merchantId d)),
       (''deviceId'', J_value (td_deviceId d)), (''state'', J_value (state_name (td_state d))),
       (''productType'', J_value (td_productType d)), (''amount'', money_json (td_amount d)),
       (''recipientMasked'', J_value (td_recipientMasked d)), (''providerReference'', text_json (td_providerReference d)),
       (''idempotencyKey'', J_value (td_idempotencyKey d)), (''correlationId'', J_value (td_correlationId d)),
       (''createdAt'', J_value (td_createdAt d)), (''updatedAt'', J_value (td_updatedAt d)), (''mode'', J_value (td_mode d)),
       (''simulated'', bool_json True), (''recovery'', recovery_json (td_recovery d)),
       (''support'', case td_support d of None \<Rightarrow> J_null | Some s \<Rightarrow> support_json s),
       (''reservation'', case td_reservation d of None \<Rightarrow> J_null | Some v \<Rightarrow> reservation_json v)]"

text \<open>The parts are in normal form already.\<close>

lemma parts_normal: "map normalize_key FORBIDDEN_KEY_PARTS = FORBIDDEN_KEY_PARTS"
  by code_simp

lemma list_ex_map: "list_ex (\<lambda>x. P (f x)) xs \<longleftrightarrow> list_ex P (map f xs)"
  by (induction xs) simp_all

lemma check_key_alt:
  "check_key key =
     (let n = normalize_key key
      in if list_ex (\<lambda>part. sublist part n) FORBIDDEN_KEY_PARTS then Some Names_secret
         else if n \<in> set RECIPIENT_KEYS \<and> \<not> sublist ''masked'' n then Some Full_recipient else None)"
  by (simp only: check_key_def list_ex_map [of "\<lambda>p. sublist p _" normalize_key] parts_normal)

lemma lower_letters:
  "char_of (97 :: nat) = CHR ''a''"
  "char_of (98 :: nat) = CHR ''b''"
  "char_of (99 :: nat) = CHR ''c''"
  "char_of (100 :: nat) = CHR ''d''"
  "char_of (101 :: nat) = CHR ''e''"
  "char_of (102 :: nat) = CHR ''f''"
  "char_of (103 :: nat) = CHR ''g''"
  "char_of (104 :: nat) = CHR ''h''"
  "char_of (105 :: nat) = CHR ''i''"
  "char_of (106 :: nat) = CHR ''j''"
  "char_of (107 :: nat) = CHR ''k''"
  "char_of (108 :: nat) = CHR ''l''"
  "char_of (109 :: nat) = CHR ''m''"
  "char_of (110 :: nat) = CHR ''n''"
  "char_of (111 :: nat) = CHR ''o''"
  "char_of (112 :: nat) = CHR ''p''"
  "char_of (113 :: nat) = CHR ''q''"
  "char_of (114 :: nat) = CHR ''r''"
  "char_of (115 :: nat) = CHR ''s''"
  "char_of (116 :: nat) = CHR ''t''"
  "char_of (117 :: nat) = CHR ''u''"
  "char_of (118 :: nat) = CHR ''v''"
  "char_of (119 :: nat) = CHR ''w''"
  "char_of (120 :: nat) = CHR ''x''"
  "char_of (121 :: nat) = CHR ''y''"
  "char_of (122 :: nat) = CHR ''z''"
  by (rule char_of_code, simp)+

lemma dto_keys_pass:
  "check_key ''amountMinor'' = None"
  "check_key ''currency'' = None"
  "check_key ''formatted'' = None"
  "check_key ''pendingStatus'' = None"
  "check_key ''attempts'' = None"
  "check_key ''maxAttempts'' = None"
  "check_key ''firstPendingAt'' = None"
  "check_key ''lastAttemptAt'' = None"
  "check_key ''nextCheckAt'' = None"
  "check_key ''deadlineAt'' = None"
  "check_key ''lastOutcomeCategory'' = None"
  "check_key ''manualReviewStatus'' = None"
  "check_key ''claimActive'' = None"
  "check_key ''claimAttemptNo'' = None"
  "check_key ''reference'' = None"
  "check_key ''reason'' = None"
  "check_key ''status'' = None"
  "check_key ''openedAt'' = None"
  "check_key ''approvedBy'' = None"
  "check_key ''amount'' = None"
  "check_key ''transactionId'' = None"
  "check_key ''merchantId'' = None"
  "check_key ''deviceId'' = None"
  "check_key ''state'' = None"
  "check_key ''productType'' = None"
  "check_key ''recipientMasked'' = None"
  "check_key ''providerReference'' = None"
  "check_key ''idempotencyKey'' = None"
  "check_key ''correlationId'' = None"
  "check_key ''createdAt'' = None"
  "check_key ''updatedAt'' = None"
  "check_key ''mode'' = None"
  "check_key ''simulated'' = None"
  "check_key ''recovery'' = None"
  "check_key ''support'' = None"
  "check_key ''reservation'' = None"
  by (simp_all add: check_key_alt Let_def FORBIDDEN_KEY_PARTS_def RECIPIENT_KEYS_def normalize_key_def to_lower_char_def
      sublist_code lower_letters)

lemma plain_json_keys [simp]:
  "json_keys (text_json v) = {}" "json_keys (number_json n) = {}" "json_keys (bool_json b) = {}"
  by (simp_all add: text_json_def number_json_def bool_json_def split: option.split)

definition passes :: "json \<Rightarrow> bool" where
  "passes j \<longleftrightarrow> (\<forall>k\<in>json_keys j. check_key k = None)"

lemma passes_object: "passes (J_object ms) \<longleftrightarrow> list_all (\<lambda>x. check_key (fst x) = None \<and> passes (snd x)) ms"
  by (auto simp: passes_def list_all_iff)

lemma passes_plain:
  "passes (text_json v)" "passes (number_json n)" "passes (bool_json b)" "passes (J_value x)" "passes J_null"
  by (simp_all add: passes_def)

lemma list_all_nil: "list_all P []" and list_all_cons: "list_all P (x # xs) \<longleftrightarrow> P x \<and> list_all P xs"
  by simp_all

lemmas passes_rules = passes_object list_all_nil list_all_cons fst_conv snd_conv dto_keys_pass passes_plain simp_thms

lemma passes_parts: "passes (money_json a)" "passes (recovery_json r)" "passes (support_json s)"
  unfolding money_json_def recovery_json_def support_json_def by (simp_all only: passes_rules)

lemma transaction_json_pass: "passes (transaction_json d)"
proof -
  have "passes (reservation_json v)" for v
    unfolding reservation_json_def by (simp only: passes_rules passes_parts)
  then have "passes (case td_support d of None \<Rightarrow> J_null | Some s \<Rightarrow> support_json s)"
    "passes (case td_reservation d of None \<Rightarrow> J_null | Some v \<Rightarrow> reservation_json v)"
    by (simp_all only: passes_rules passes_parts split: option.split)
  then show ?thesis unfolding transaction_json_def by (simp only: passes_rules passes_parts)
qed

text \<open>
  What must never be a key, said without the code: the letters and underscores of the key in lower case contain one of these words, or are
  one of the three names of a full recipient.
\<close>

definition plain_letter :: "char \<Rightarrow> string" where
  "plain_letter c =
     (case map_of (zip ''ABCDEFGHIJKLMNOPQRSTUVWXYZ'' ''abcdefghijklmnopqrstuvwxyz'') c of
        Some l \<Rightarrow> [l]
      | None \<Rightarrow> if c \<in> set ''abcdefghijklmnopqrstuvwxyz_'' then [c] else [])"

definition plain_letters :: "string \<Rightarrow> string" where
  "plain_letters key = concat (map plain_letter key)"

definition names_secret :: "string \<Rightarrow> bool" where
  "names_secret key \<longleftrightarrow> (\<exists>word \<in> {''pin'', ''password'', ''secret'', ''token'', ''credential'', ''apikey'', ''api_key'', ''authorization'',
      ''recipienthash'', ''recipient_hash'', ''payloadfingerprint'', ''payload_fingerprint'', ''salt'', ''privatekey'', ''private_key''}.
      \<exists>before after. plain_letters key = before @ word @ after)"

definition names_recipient :: "string \<Rightarrow> bool" where
  "names_recipient key \<longleftrightarrow> plain_letters key \<in> {''recipient'', ''phone'', ''msisdn''}"

lemma between_chars:
  assumes "m < 256" and that: "n \<le> m"
  shows "char_of (n :: nat) \<le> c \<and> c \<le> char_of m \<longleftrightarrow> c \<in> char_of ` set [n..<Suc m]"
proof
  assume "char_of n \<le> c \<and> c \<le> char_of m"
  then have "of_char c \<in> set [n..<Suc m]" using assms that by (auto simp: less_eq_char_def)
  then have "char_of (of_char c :: nat) \<in> char_of ` set [n..<Suc m]" by (rule imageI)
  then show "c \<in> char_of ` set [n..<Suc m]" by simp
next
  assume "c \<in> char_of ` set [n..<Suc m]"
  then show "char_of n \<le> c \<and> c \<le> char_of m" using assms that by (auto simp: less_eq_char_def)
qed

lemma lower_letter: "CHR ''a'' \<le> c \<and> c \<le> CHR ''z'' \<longleftrightarrow> c \<in> set ''abcdefghijklmnopqrstuvwxyz''"
  using between_chars [of 122 97 c] by (simp add: upt_conv_Cons lower_letters)

lemma upper_letter: "CHR ''A'' \<le> c \<and> c \<le> CHR ''Z'' \<longleftrightarrow> c \<in> set ''ABCDEFGHIJKLMNOPQRSTUVWXYZ''"
proof -
  have "map char_of [65..<91::nat] = ''ABCDEFGHIJKLMNOPQRSTUVWXYZ''" by code_simp
  then have "char_of ` set [65..<91::nat] = set ''ABCDEFGHIJKLMNOPQRSTUVWXYZ''" by (metis list.set_map)
  moreover have "char_of (65 :: nat) = CHR ''A''" "char_of (90 :: nat) = CHR ''Z''" by (rule char_of_code, simp)+
  ultimately show ?thesis using between_chars [of 90 65 c] by simp
qed

lemma plain_letter_code:
  "plain_letter c = filter (\<lambda>c. CHR ''a'' \<le> c \<and> c \<le> CHR ''z'' \<or> c = CHR ''_'') [to_lower_char c]"
proof (cases "c \<in> set ''ABCDEFGHIJKLMNOPQRSTUVWXYZ''")
  case True
  have "list_all (\<lambda>c. plain_letter c = [char_of (of_char c + 32 :: nat)]) ''ABCDEFGHIJKLMNOPQRSTUVWXYZ''"
    by (simp add: plain_letter_def lower_letters)
  then have p: "plain_letter c = [char_of (of_char c + 32 :: nat)]" using True unfolding list_all_iff by blast
  have "list_all (\<lambda>c. char_of (of_char c + 32 :: nat) \<in> set ''abcdefghijklmnopqrstuvwxyz'') ''ABCDEFGHIJKLMNOPQRSTUVWXYZ''"
    by (simp add: lower_letters)
  then have "char_of (of_char c + 32 :: nat) \<in> set ''abcdefghijklmnopqrstuvwxyz''" using True unfolding list_all_iff by blast
  then show ?thesis unfolding p to_lower_char_def using True by (simp only: upper_letter lower_letter if_True filter.simps simp_thms)
next
  case False
  then have "map_of (zip ''ABCDEFGHIJKLMNOPQRSTUVWXYZ'' ''abcdefghijklmnopqrstuvwxyz'') c = None"
    by (simp add: map_of_eq_None_iff)
  moreover have "to_lower_char c = c" unfolding to_lower_char_def upper_letter using False by (simp only: if_False)
  ultimately show ?thesis by (simp only: plain_letter_def lower_letter option.case filter.simps) auto
qed

lemma plain_letters_normal: "plain_letters key = normalize_key key"
  by (induction key) (simp_all add: plain_letters_def normalize_key_def plain_letter_code)

lemma names_check: "check_key key \<noteq> None \<longleftrightarrow> names_secret key \<or> names_recipient key"
proof -
  have secret: "list_ex (\<lambda>part. sublist part (normalize_key key)) FORBIDDEN_KEY_PARTS \<longleftrightarrow> names_secret key"
    unfolding list_ex_iff sublist_def names_secret_def plain_letters_normal FORBIDDEN_KEY_PARTS_def list.set by (rule refl)
  have recipient: "normalize_key key \<in> set RECIPIENT_KEYS \<and> \<not> sublist ''masked'' (normalize_key key) \<longleftrightarrow> names_recipient key"
    unfolding names_recipient_def plain_letters_normal RECIPIENT_KEYS_def by (auto simp: sublist_code)
  show ?thesis unfolding check_key_alt Let_def secret recipient by simp
qed

text \<open>
  C11. The check looks everywhere, and for the right names: a body passes it exactly when no key at any depth contains the word of a secret or
  is the name of a full recipient, in whatever case and with whatever signs between the letters; every
  transaction the read model builds passes, and what it builds does not depend on the recipient's hash or the payload's fingerprint.
\<close>

theorem only_displayable_is_sent:
  "(assertSafeForDisplay body path = Inr () \<longleftrightarrow> json_keys body \<inter> {k. names_secret k \<or> names_recipient k} = {}) \<and>
   assertSafeForDisplay (J_array (map transaction_json xs)) path = Inr () \<and>
   toTransactionDto d t k (row\<lparr>tw_recipientHash := h, tw_payloadFingerprint := f\<rparr>) c = toTransactionDto d t k row c"
proof -
  have "\<forall>k\<in>json_keys (J_array (map transaction_json xs)). check_key k = None"
    using transaction_json_pass by (auto simp: passes_def)
  then show ?thesis by (auto simp: check_spec toTransactionDto_def names_check [symmetric])
qed

end
