(* ===== verification/Polling.thy ===== *)
theory Polling
  imports Telga_Prelude
begin

text \<open>
  Polling for the outcome of a sale (\<open>packages/pos-view-model/src/polling.ts\<close>): the controller, the scheduler
  driven by hand, and the events between which the code waits: a call of \<open>start\<close> or \<open>stop\<close>, a timer that fires,
  a lookup that is answered. The callback of every scheduled timer is the controller's own.
\<close>

section \<open>The scheduler\<close>

record manual_scheduler =
  ms_nextId :: nat
  ms_queued :: "(nat \<times> int) list"

definition schedule :: "int \<Rightarrow> manual_scheduler \<Rightarrow> nat \<times> manual_scheduler" where
  "schedule delay s =
     (ms_nextId s, s\<lparr>ms_nextId := ms_nextId s + 1, ms_queued := ms_queued s @ [(ms_nextId s, delay)]\<rparr>)"

definition cancel :: "nat \<Rightarrow> manual_scheduler \<Rightarrow> manual_scheduler" where
  "cancel h s = s\<lparr>ms_queued := filter (\<lambda>q. fst q \<noteq> h) (ms_queued s)\<rparr>"

definition scheduler_pending :: "manual_scheduler \<Rightarrow> nat" where
  "scheduler_pending s = length (ms_queued s)"

definition scheduler_delays :: "manual_scheduler \<Rightarrow> int list" where
  "scheduler_delays s = map snd (ms_queued s)"

section \<open>The controller\<close>

datatype poll_stop = RESOLVED | MAX_POLLS_REACHED | STOPPED_BY_CALLER | NOT_STARTED

record poll_options =
  po_intervalMs :: int
  po_maxPolls :: nat

text \<open>\<open>pk_inFlight\<close> counts the lookups that were started and are not answered yet.\<close>

record poll_controller =
  pk_handle :: "nat option"
  pk_attempts :: nat
  pk_running :: bool
  pk_stopped :: poll_stop
  pk_inFlight :: nat
  pk_scheduler :: manual_scheduler

definition new_controller :: poll_controller where
  "new_controller =
     \<lparr>pk_handle = None, pk_attempts = 0, pk_running = False, pk_stopped = NOT_STARTED, pk_inFlight = 0,
      pk_scheduler = \<lparr>ms_nextId = 1, ms_queued = []\<rparr>\<rparr>"

definition poll_stop_with :: "poll_stop \<Rightarrow> poll_controller \<Rightarrow> poll_controller" where
  "poll_stop_with reason c =
     (if \<not> pk_running c then c
      else c\<lparr>pk_running := False, pk_stopped := reason, pk_handle := None,
             pk_scheduler := (case pk_handle c of None \<Rightarrow> pk_scheduler c | Some h \<Rightarrow> cancel h (pk_scheduler c))\<rparr>)"

definition poll_queue :: "poll_options \<Rightarrow> poll_controller \<Rightarrow> poll_controller" where
  "poll_queue o' c =
     (if \<not> pk_running c then c
      else if po_maxPolls o' \<le> pk_attempts c then poll_stop_with MAX_POLLS_REACHED c
      else (case schedule (po_intervalMs o') (pk_scheduler c) of (h, s) \<Rightarrow> c\<lparr>pk_handle := Some h, pk_scheduler := s\<rparr>))"

definition poll_start :: "poll_options \<Rightarrow> poll_controller \<Rightarrow> poll_controller" where
  "poll_start o' c = (if pk_running c then c else poll_queue o' (c\<lparr>pk_running := True\<rparr>))"

text \<open>The part of \<open>tick\<close> before the lookup is awaited, and the part after it; \<open>None\<close> is a lookup that failed.\<close>

definition tick_begins :: "poll_controller \<Rightarrow> poll_controller" where
  "tick_begins c =
     (if \<not> pk_running c then c else c\<lparr>pk_attempts := pk_attempts c + 1, pk_inFlight := pk_inFlight c + 1\<rparr>)"

definition tick_answered :: "poll_options \<Rightarrow> bool option \<Rightarrow> poll_controller \<Rightarrow> poll_controller" where
  "tick_answered o' carryOn c =
     (let c' = c\<lparr>pk_inFlight := pk_inFlight c - 1\<rparr>
      in if carryOn = Some False then poll_stop_with RESOLVED c' else poll_queue o' c')"

definition timer_fires :: "nat \<Rightarrow> poll_controller \<Rightarrow> poll_controller" where
  "timer_fires h c = tick_begins (c\<lparr>pk_handle := None, pk_scheduler := cancel h (pk_scheduler c)\<rparr>)"

definition runNext :: "poll_controller \<Rightarrow> bool \<times> poll_controller" where
  "runNext c =
     (case ms_queued (pk_scheduler c) of [] \<Rightarrow> (False, c) | (h, _) # _ \<Rightarrow> (True, timer_fires h c))"

section \<open>What can happen\<close>

datatype poll_event = Start_polling | Stop_polling poll_stop | Timer nat | Answer "bool option"

fun poll_step :: "poll_options \<Rightarrow> poll_event \<Rightarrow> poll_controller \<Rightarrow> poll_controller" where
  "poll_step o' Start_polling c = poll_start o' c"
| "poll_step o' (Stop_polling r) c = poll_stop_with r c"
| "poll_step o' (Timer h) c = (if h \<in> fst ` set (ms_queued (pk_scheduler c)) then timer_fires h c else c)"
| "poll_step o' (Answer a) c = (if 0 < pk_inFlight c then tick_answered o' a c else c)"

text \<open>A controller is not started again before the lookup of its earlier run is answered.\<close>

fun orderly :: "poll_event \<Rightarrow> poll_controller \<Rightarrow> bool" where
  "orderly Start_polling c \<longleftrightarrow> pk_running c \<or> pk_inFlight c = 0"
| "orderly _ c \<longleftrightarrow> True"

inductive polls :: "poll_options \<Rightarrow> poll_controller \<Rightarrow> bool" for o' where
  new: "polls o' new_controller"
| event: "polls o' c \<Longrightarrow> orderly e c \<Longrightarrow> polls o' (poll_step o' e c)"

definition poll_ok :: "poll_options \<Rightarrow> poll_controller \<Rightarrow> bool" where
  "poll_ok o' c \<longleftrightarrow>
     (let q = ms_queued (pk_scheduler c) in
      pk_attempts c + length q \<le> po_maxPolls o' \<and>
      (if pk_running c then length q + pk_inFlight c = 1 else q = [] \<and> pk_inFlight c \<le> 1) \<and>
      (case q of [] \<Rightarrow> pk_handle c = None | (h, d) # _ \<Rightarrow> pk_handle c = Some h \<and> d = po_intervalMs o'))"

lemma poll_ok_idle:
  "\<not> pk_running c \<Longrightarrow> poll_ok o' c \<longleftrightarrow>
     ms_queued (pk_scheduler c) = [] \<and> pk_handle c = None \<and> pk_inFlight c \<le> 1 \<and> pk_attempts c \<le> po_maxPolls o'"
  by (auto simp: poll_ok_def Let_def)

lemma poll_ok_waiting:
  "pk_running c \<Longrightarrow> pk_inFlight c = 0 \<Longrightarrow> poll_ok o' c \<longleftrightarrow>
     (\<exists>h. ms_queued (pk_scheduler c) = [(h, po_intervalMs o')] \<and> pk_handle c = Some h \<and> pk_attempts c < po_maxPolls o')"
  by (auto simp: poll_ok_def Let_def length_Suc_conv split: list.splits)

lemma poll_ok_asking:
  "pk_running c \<Longrightarrow> 0 < pk_inFlight c \<Longrightarrow> poll_ok o' c \<longleftrightarrow>
     pk_inFlight c = 1 \<and> ms_queued (pk_scheduler c) = [] \<and> pk_handle c = None \<and> pk_attempts c \<le> po_maxPolls o'"
  by (auto simp: poll_ok_def Let_def split: list.splits)

lemmas poll_ok_cases = poll_ok_idle poll_ok_waiting poll_ok_asking

lemmas poll_defs = poll_start_def poll_queue_def poll_stop_with_def timer_fires_def tick_begins_def tick_answered_def
  schedule_def cancel_def Let_def

lemma poll_step_ok:
  assumes ok: "poll_ok o' c" and order: "orderly e c"
  shows "poll_ok o' (poll_step o' e c)"
proof (cases "pk_running c")
  case False
  note idle = ok [unfolded poll_ok_idle [OF False]]
  show ?thesis using idle order False
    by (cases e) (auto simp: poll_defs poll_ok_def)
next
  case running: True
  show ?thesis
  proof (cases "pk_inFlight c")
    case 0
    then obtain h where "ms_queued (pk_scheduler c) = [(h, po_intervalMs o')]" "pk_handle c = Some h" "pk_attempts c < po_maxPolls o'"
      using ok poll_ok_waiting running by blast
    then show ?thesis using running 0 ok by (cases e) (auto simp: poll_defs poll_ok_def)
  next
    case (Suc n)
    then have "pk_inFlight c = 1" "ms_queued (pk_scheduler c) = []" "pk_handle c = None" "pk_attempts c \<le> po_maxPolls o'"
      using ok poll_ok_asking running by (metis zero_less_Suc)+
    then show ?thesis using running ok by (cases e) (auto simp: poll_defs poll_ok_def)
  qed
qed

lemma polls_ok: "polls o' c \<Longrightarrow> poll_ok o' c"
  by (induction rule: polls.induct) (auto simp: poll_step_ok, simp add: poll_ok_def new_controller_def)

text \<open>
  C12. Polling is bounded and never doubled: whatever the caller does and however timers fire and lookups are answered, as long as
  the controller is not started again while a lookup is in flight, there are at most as many lookups as allowed, at most
  one timer or lookup is pending at a time, a timer always has the server's interval, and a controller that runs always has one
  pending.
\<close>

theorem polling_bounded:
  assumes "polls o' c"
  shows "pk_attempts c \<le> po_maxPolls o' \<and> scheduler_pending (pk_scheduler c) + pk_inFlight c \<le> 1 \<and>
    set (scheduler_delays (pk_scheduler c)) \<subseteq> {po_intervalMs o'} \<and>
    (pk_running c \<longrightarrow> scheduler_pending (pk_scheduler c) + pk_inFlight c = 1)"
  using polls_ok [OF assms]
  by (auto simp: poll_ok_def scheduler_pending_def scheduler_delays_def Let_def length_Suc_conv split: if_splits list.splits)

lemma polls_fold: "polls o' c \<Longrightarrow> list_all (\<lambda>e. e \<noteq> Start_polling) es \<Longrightarrow> polls o' (fold (poll_step o') es c)"
proof (induction es arbitrary: c)
  case (Cons e es)
  then have "orderly e c" by (cases e) simp_all
  then show ?case using Cons polls.event by simp
qed simp

definition three_polls :: poll_options where
  "three_polls = \<lparr>po_intervalMs = 5000, po_maxPolls = 3\<rparr>"

theorem polling_bounded_witness:
  "polls three_polls (fold (poll_step three_polls) [Start_polling, Timer 1, Answer None, Timer 2] new_controller) \<and>
   pk_attempts (fold (poll_step three_polls) [Start_polling, Timer 1, Answer None, Timer 2] new_controller) \<le> 3"
proof -
  let ?p = "\<lambda>es. fold (poll_step three_polls) es new_controller"
  have "polls three_polls (poll_step three_polls Start_polling new_controller)"
    by (rule polls.intros)+ (simp add: new_controller_def)
  then have "polls three_polls (?p [Start_polling, Timer 1, Answer None, Timer 2])"
    using polls_fold [of _ _ "[Timer 1, Answer None, Timer 2]"] by simp
  then show ?thesis using polling_bounded [of three_polls "?p [Start_polling, Timer 1, Answer None, Timer 2]"]
    by (simp only: three_polls_def poll_options.select_convs simp_thms)
qed

text \<open>Started again during a lookup, two runs are under way and together they ask once too often.\<close>

lemma restart_in_flight_overshoots:
  "pk_attempts (fold (poll_step \<lparr>po_intervalMs = 5000, po_maxPolls = 2\<rparr>)
     [Start_polling, Timer 1, Stop_polling STOPPED_BY_CALLER, Start_polling, Answer None, Timer 2, Timer 3] new_controller) = 3"
  by code_simp

section \<open>How polling ends\<close>

text \<open>Undisturbed: the timer fires, its lookup gets the answer numbered by the attempts before it, and so on.\<close>

definition poll_round :: "poll_options \<Rightarrow> (nat \<Rightarrow> bool option) \<Rightarrow> poll_controller \<Rightarrow> poll_controller" where
  "poll_round o' answers c = tick_answered o' (answers (pk_attempts c)) (snd (runNext c))"

fun poll_rounds :: "poll_options \<Rightarrow> (nat \<Rightarrow> bool option) \<Rightarrow> nat \<Rightarrow> poll_controller \<Rightarrow> poll_controller" where
  "poll_rounds o' answers 0 c = c"
| "poll_rounds o' answers (Suc n) c =
     (if pk_running c then poll_rounds o' answers n (poll_round o' answers c) else c)"

text \<open>What the rounds should come to: the first answer that resolves, or the limit.\<close>

definition poll_outcome :: "nat \<Rightarrow> (nat \<Rightarrow> bool option) \<Rightarrow> nat \<Rightarrow> nat \<times> poll_stop" where
  "poll_outcome limit answers k =
     (case find (\<lambda>i. answers i = Some False) [k..<limit] of
        Some i \<Rightarrow> (i + 1, RESOLVED) | None \<Rightarrow> (limit, MAX_POLLS_REACHED))"

lemma poll_outcome_step:
  "k < limit \<Longrightarrow> poll_outcome limit answers k =
     (if answers k = Some False then (k + 1, RESOLVED) else poll_outcome limit answers (k + 1))"
  by (simp add: poll_outcome_def upt_conv_Cons)

lemma poll_outcome_end: "poll_outcome limit answers limit = (limit, MAX_POLLS_REACHED)"
  by (simp add: poll_outcome_def)

lemma poll_rounds_end:
  assumes "poll_ok o' c" "pk_running c" "pk_inFlight c = 0" "po_maxPolls o' - pk_attempts c \<le> n"
  shows "let e = poll_rounds o' answers n c in
    \<not> pk_running e \<and> (pk_attempts e, pk_stopped e) = poll_outcome (po_maxPolls o') answers (pk_attempts c)"
  using assms
proof (induction n arbitrary: c)
  case 0
  then show ?case using poll_ok_waiting [of c o'] by auto
next
  case (Suc n)
  let ?k = "pk_attempts c"
  obtain h where q: "ms_queued (pk_scheduler c) = [(h, po_intervalMs o')]" "pk_handle c = Some h" and k: "?k < po_maxPolls o'"
    using Suc.prems poll_ok_waiting by blast
  let ?f = "snd (runNext c)"
  have f: "?f = c\<lparr>pk_handle := None, pk_scheduler := cancel h (pk_scheduler c), pk_attempts := ?k + 1, pk_inFlight := 1\<rparr>"
    using Suc.prems q by (simp add: runNext_def timer_fires_def tick_begins_def)
  show ?case
  proof (cases "answers ?k = Some False")
    case True
    then have "poll_round o' answers c = c\<lparr>pk_handle := None, pk_scheduler := cancel h (pk_scheduler c), pk_attempts := ?k + 1,
        pk_inFlight := 0, pk_running := False, pk_stopped := RESOLVED\<rparr>"
      using Suc.prems by (simp add: poll_round_def f tick_answered_def poll_stop_with_def)
    then show ?thesis using True Suc.prems(2) poll_outcome_step [OF k] by (cases n) simp_all
  next
    case False
    let ?c = "poll_round o' answers c"
    have round: "?c = poll_queue o' (c\<lparr>pk_handle := None, pk_scheduler := cancel h (pk_scheduler c), pk_attempts := ?k + 1, pk_inFlight := 0\<rparr>)"
      using False by (simp add: poll_round_def f tick_answered_def)
    show ?thesis
    proof (cases "?k + 1 = po_maxPolls o'")
      case True
      then have "\<not> pk_running ?c \<and> pk_attempts ?c = ?k + 1 \<and> pk_stopped ?c = MAX_POLLS_REACHED"
        using Suc.prems by (simp add: round poll_queue_def poll_stop_with_def)
      moreover have "poll_rounds o' answers n ?c = ?c" using calculation by (cases n) simp_all
      ultimately show ?thesis using True False Suc.prems(2) poll_outcome_step [OF k] poll_outcome_end [of "?k + 1"]
        by (simp add: Let_def)
    next
      case more: False
      have c: "pk_running ?c" "pk_inFlight ?c = 0" "pk_attempts ?c = ?k + 1" "poll_ok o' ?c"
        using more k Suc.prems q by (auto simp: round poll_queue_def schedule_def cancel_def poll_ok_def Let_def)
      have "po_maxPolls o' - pk_attempts ?c \<le> n" using Suc.prems(4) c(3) by simp
      from Suc.IH [OF c(4,1,2) this] show ?thesis
        using False Suc.prems(2) poll_outcome_step [OF k] c(3) by (simp add: Let_def)
    qed
  qed
qed

text \<open>
  Polling ends and says why: a controller that is started and left alone stops within as many lookups as allowed;
  it stops as resolved at the first answer that settles the sale, having asked exactly that often, and otherwise for having reached
  the limit; a lookup that fails never stops it.
\<close>

theorem polling_ends:
  "let c = poll_rounds o' answers (po_maxPolls o') (poll_start o' new_controller) in
   \<not> pk_running c \<and> (pk_attempts c, pk_stopped c) = poll_outcome (po_maxPolls o') answers 0"
proof (cases "po_maxPolls o' = 0")
  case True
  then show ?thesis
    by (simp add: poll_start_def poll_queue_def poll_stop_with_def new_controller_def poll_outcome_def)
next
  case False
  let ?c = "poll_start o' new_controller"
  have "poll_ok o' ?c" using polls_ok polls.event [OF polls.new, of Start_polling] by (simp add: new_controller_def)
  moreover have "pk_running ?c" "pk_inFlight ?c = 0" "pk_attempts ?c = 0"
    using False by (simp_all add: poll_start_def poll_queue_def schedule_def new_controller_def)
  ultimately show ?thesis using poll_rounds_end [of o' ?c "po_maxPolls o'" answers] by simp
qed

end
