(* ===== verification/Worker.thy ===== *)
theory Worker
  imports Recovery Software_Fee
begin

text \<open>
  The recovery worker (\<open>services/worker/src\<close>): its policy and what makes one acceptable (\<open>workerConfig.ts\<close>), backoff
  (\<open>backoff.ts\<close>), failures (\<open>failures.ts\<close>), shutdown (\<open>shutdown.ts\<close>), health (\<open>workerHealth.ts\<close>), the supervised
  loop (\<open>workerLifecycle.ts\<close>) and the sweep it runs (\<open>recoveryWorker.ts\<close>). The clock, the random source and what a sweep returns
  are arguments of the steps; the settings of a policy are integers. Logs, metrics and the signal handlers are left out.
\<close>

section \<open>The policy\<close>

record worker_policy =
  yp_recoveryWorkerEnabled :: bool
  yp_recoveryIntervalMs :: int
  yp_recoveryJitterMs :: int
  yp_recoveryBatchLimit :: int
  yp_recoveryAgeMs :: int
  yp_pendingMaximumMs :: int
  yp_maxStatusAttempts :: int
  yp_claimLeaseMs :: int
  yp_statusCheckIntervalMs :: int
  yp_failureBackoffInitialMs :: int
  yp_failureBackoffMaximumMs :: int
  yp_failureBackoffMultiplier :: int
  yp_gracefulShutdownTimeoutMs :: int
  yp_runInitialSweepOnStart :: bool
  yp_allowPendingMaximumBelowRecoveryAge :: bool

definition MINIMUM_CLAIM_LEASE_MS :: int where
  "MINIMUM_CLAIM_LEASE_MS = 1000"

definition MINIMUM_RECOVERY_INTERVAL_MS :: int where
  "MINIMUM_RECOVERY_INTERVAL_MS = 1000"

datatype worker_config_error =
    MISSING_SETTING | NOT_A_NUMBER | NOT_POSITIVE | NEGATIVE | BATCH_LIMIT_TOO_SMALL | BACKOFF_MAXIMUM_BELOW_INITIAL
  | BACKOFF_MULTIPLIER_TOO_SMALL | CLAIM_LEASE_TOO_SHORT | INTERVAL_TOO_SHORT | PENDING_MAXIMUM_BELOW_RECOVERY_AGE
  | PRODUCTION_FALLBACK_REFUSED

fun config_code_name :: "worker_config_error \<Rightarrow> string" where
  "config_code_name MISSING_SETTING = ''MISSING_SETTING''"
| "config_code_name NOT_A_NUMBER = ''NOT_A_NUMBER''"
| "config_code_name NOT_POSITIVE = ''NOT_POSITIVE''"
| "config_code_name NEGATIVE = ''NEGATIVE''"
| "config_code_name BATCH_LIMIT_TOO_SMALL = ''BATCH_LIMIT_TOO_SMALL''"
| "config_code_name BACKOFF_MAXIMUM_BELOW_INITIAL = ''BACKOFF_MAXIMUM_BELOW_INITIAL''"
| "config_code_name BACKOFF_MULTIPLIER_TOO_SMALL = ''BACKOFF_MULTIPLIER_TOO_SMALL''"
| "config_code_name CLAIM_LEASE_TOO_SHORT = ''CLAIM_LEASE_TOO_SHORT''"
| "config_code_name INTERVAL_TOO_SHORT = ''INTERVAL_TOO_SHORT''"
| "config_code_name PENDING_MAXIMUM_BELOW_RECOVERY_AGE = ''PENDING_MAXIMUM_BELOW_RECOVERY_AGE''"
| "config_code_name PRODUCTION_FALLBACK_REFUSED = ''PRODUCTION_FALLBACK_REFUSED''"

definition DEVELOPMENT_RECOVERY_WORKER_POLICY :: worker_policy where
  "DEVELOPMENT_RECOVERY_WORKER_POLICY =
     \<lparr>yp_recoveryWorkerEnabled = True, yp_recoveryIntervalMs = 30000, yp_recoveryJitterMs = 5000, yp_recoveryBatchLimit = 50,
      yp_recoveryAgeMs = 60000, yp_pendingMaximumMs = 300000, yp_maxStatusAttempts = 5, yp_claimLeaseMs = 30000,
      yp_statusCheckIntervalMs = 30000, yp_failureBackoffInitialMs = 1000, yp_failureBackoffMaximumMs = 60000,
      yp_failureBackoffMultiplier = 2, yp_gracefulShutdownTimeoutMs = 10000, yp_runInitialSweepOnStart = True,
      yp_allowPendingMaximumBelowRecoveryAge = False\<rparr>"

definition TEST_RECOVERY_WORKER_POLICY :: worker_policy where
  "TEST_RECOVERY_WORKER_POLICY =
     \<lparr>yp_recoveryWorkerEnabled = True, yp_recoveryIntervalMs = 1000, yp_recoveryJitterMs = 0, yp_recoveryBatchLimit = 10,
      yp_recoveryAgeMs = 60000, yp_pendingMaximumMs = 300000, yp_maxStatusAttempts = 3, yp_claimLeaseMs = 30000,
      yp_statusCheckIntervalMs = 30000, yp_failureBackoffInitialMs = 1000, yp_failureBackoffMaximumMs = 8000,
      yp_failureBackoffMultiplier = 2, yp_gracefulShutdownTimeoutMs = 5000, yp_runInitialSweepOnStart = True,
      yp_allowPendingMaximumBelowRecoveryAge = False\<rparr>"

definition positive_settings :: "worker_policy \<Rightarrow> (string \<times> int) list" where
  "positive_settings p =
     [(''recoveryIntervalMs'', yp_recoveryIntervalMs p), (''recoveryAgeMs'', yp_recoveryAgeMs p),
      (''pendingMaximumMs'', yp_pendingMaximumMs p), (''maxStatusAttempts'', yp_maxStatusAttempts p),
      (''claimLeaseMs'', yp_claimLeaseMs p), (''statusCheckIntervalMs'', yp_statusCheckIntervalMs p),
      (''failureBackoffInitialMs'', yp_failureBackoffInitialMs p), (''failureBackoffMaximumMs'', yp_failureBackoffMaximumMs p),
      (''gracefulShutdownTimeoutMs'', yp_gracefulShutdownTimeoutMs p)]"

text \<open>The first problem found is the one that is thrown, with the setting it is about.\<close>

definition validateWorkerPolicy :: "worker_policy \<Rightarrow> (worker_config_error \<times> string) + worker_policy" where
  "validateWorkerPolicy p =
     (case find (\<lambda>(_, v). v \<le> 0) (positive_settings p) of
        Some (setting, _) \<Rightarrow> Inl (NOT_POSITIVE, setting)
      | None \<Rightarrow>
          if yp_recoveryJitterMs p < 0 then Inl (NEGATIVE, ''recoveryJitterMs'')
          else if yp_recoveryBatchLimit p < 1 then Inl (BATCH_LIMIT_TOO_SMALL, ''recoveryBatchLimit'')
          else if yp_failureBackoffMaximumMs p < yp_failureBackoffInitialMs p
          then Inl (BACKOFF_MAXIMUM_BELOW_INITIAL, ''failureBackoffMaximumMs'')
          else if yp_failureBackoffMultiplier p < 1 then Inl (BACKOFF_MULTIPLIER_TOO_SMALL, ''failureBackoffMultiplier'')
          else if yp_recoveryIntervalMs p < MINIMUM_RECOVERY_INTERVAL_MS then Inl (INTERVAL_TOO_SHORT, ''recoveryIntervalMs'')
          else if yp_claimLeaseMs p < MINIMUM_CLAIM_LEASE_MS \<or> 2 * yp_claimLeaseMs p \<le> yp_statusCheckIntervalMs p
          then Inl (CLAIM_LEASE_TOO_SHORT, ''claimLeaseMs'')
          else if yp_pendingMaximumMs p < yp_recoveryAgeMs p \<and> \<not> yp_allowPendingMaximumBelowRecoveryAge p
          then Inl (PENDING_MAXIMUM_BELOW_RECOVERY_AGE, ''pendingMaximumMs'')
          else Inr p)"

datatype environment = DEVELOPMENT | TESTING | PRODUCTION

text \<open>\<open>===\<close> compares identities; here two policies of the same settings are the same.\<close>

definition assertNotDevelopmentPolicyInProduction :: "environment \<Rightarrow> worker_policy \<Rightarrow> (worker_config_error \<times> string) + unit" where
  "assertNotDevelopmentPolicyInProduction env p =
     (if env = PRODUCTION \<and> (p = DEVELOPMENT_RECOVERY_WORKER_POLICY \<or> p = TEST_RECOVERY_WORKER_POLICY)
      then Inl (PRODUCTION_FALLBACK_REFUSED, ''policy'') else Inr ())"

section \<open>Backoff\<close>

record backoff_state =
  bs_consecutiveFailures :: nat
  bs_currentDelayMs :: int

definition initialBackoffState :: backoff_state where
  "initialBackoffState = \<lparr>bs_consecutiveFailures = 0, bs_currentDelayMs = 0\<rparr>"

text \<open>
  The product is exact where it stays under \<open>2 ^ 53\<close>; beyond, a double is at least as large as any maximum that is a safe
  integer, and the minimum is the maximum.
\<close>

definition baseBackoffMs :: "worker_policy \<Rightarrow> nat \<Rightarrow> int" where
  "baseBackoffMs p n =
     (if n = 0 then 0
      else min (yp_failureBackoffInitialMs p * yp_failureBackoffMultiplier p ^ (n - 1)) (yp_failureBackoffMaximumMs p))"

text \<open>\<open>Math.random()\<close> is \<open>k / 2 ^ 53\<close> for a \<open>k\<close> below \<open>2 ^ 53\<close>; the product is rounded once, then floored.\<close>

definition jitter :: "worker_policy \<Rightarrow> int \<Rightarrow> int" where
  "jitter p k = fl53 (k * yp_recoveryJitterMs p) div 2 ^ 53"

definition advanceBackoff :: "worker_policy \<Rightarrow> backoff_state \<Rightarrow> int \<Rightarrow> backoff_state" where
  "advanceBackoff p s k =
     (let n = Suc (bs_consecutiveFailures s)
      in \<lparr>bs_consecutiveFailures = n, bs_currentDelayMs = baseBackoffMs p n + jitter p k\<rparr>)"

definition isBackingOff :: "backoff_state \<Rightarrow> bool" where
  "isBackingOff s \<longleftrightarrow> 0 < bs_consecutiveFailures s"

definition nextDelayMs :: "worker_policy \<Rightarrow> backoff_state \<Rightarrow> int \<Rightarrow> int" where
  "nextDelayMs p s k = (if isBackingOff s then bs_currentDelayMs s else yp_recoveryIntervalMs p + jitter p k)"

section \<open>Failures\<close>

datatype failure_category =
    CONFIGURATION | DATABASE_CONNECTION | MIGRATION_SCHEMA | PROVIDER_ADAPTER | SHUTDOWN_CANCELLED | PARTIAL_BATCH | UNEXPECTED

definition FATAL_CATEGORIES :: "failure_category list" where
  "FATAL_CATEGORIES = [CONFIGURATION, DATABASE_CONNECTION, MIGRATION_SCHEMA]"

definition isFatal :: "failure_category \<Rightarrow> bool" where
  "isFatal c \<longleftrightarrow> c \<in> set FATAL_CATEGORIES"

record classified_failure =
  cf_category :: failure_category
  cf_code :: string
  cf_fatal :: bool

text \<open>The code of an error, or its name when it has none.\<close>

definition codeOf :: "err \<Rightarrow> string" where
  "codeOf e = or_else (err_code e) (err_name e)"

definition classifyWorkerFailure :: "err \<Rightarrow> classified_failure" where
  "classifyWorkerFailure e =
     (let token = map to_upper_char (err_name e @ '':'' @ codeOf e);
          category =
            (if err_name e = ''WorkerConfigurationError'' then CONFIGURATION
             else if mentions [''SQLITE_CANTOPEN'', ''SQLITE_IOERR'', ''SQLITE_CORRUPT'', ''SQLITE_NOTADB'', ''DRIVER_CLOSED'', ''DATABASE''] token
             then DATABASE_CONNECTION
             else if mentions [''MIGRATION'', ''SQLITE_SCHEMA'', ''NO_SUCH_TABLE'', ''SQLITE_ERROR''] token then MIGRATION_SCHEMA
             else if mentions [''SHUTDOWN'', ''ABORT'', ''CANCELLED'', ''CANCELED''] token then SHUTDOWN_CANCELLED
             else if mentions [''PROVIDER'', ''ECONNREFUSED'', ''ETIMEDOUT'', ''ENOTFOUND'', ''UNAVAILABLE'', ''AUTH''] token
             then PROVIDER_ADAPTER
             else UNEXPECTED)
      in \<lparr>cf_category = category, cf_code = codeOf e, cf_fatal = isFatal category\<rparr>)"

definition partialBatchFailure :: "string \<Rightarrow> classified_failure" where
  "partialBatchFailure code = \<lparr>cf_category = PARTIAL_BATCH, cf_code = code, cf_fatal = False\<rparr>"

section \<open>Health\<close>

datatype worker_status = STARTING | RUNNING | BACKING_OFF | STOPPING | STOPPED | WORKER_FAILED

datatype health_level = HEALTHY | DEGRADED | UNHEALTHY

record failure_record =
  fr_at :: timestamp
  fr_failure :: classified_failure

record sweep_outcome =
  oc_found :: nat
  oc_claimed :: nat
  oc_resolved :: nat
  oc_skipped :: nat
  oc_recoveryFailures :: nat
  oc_duplicateWorkersPrevented :: nat

definition summarizeSweep :: "sweep_report \<Rightarrow> sweep_outcome" where
  "summarizeSweep r =
     \<lparr>oc_found = swp_found r, oc_claimed = swp_claimed r,
      oc_resolved = swp_recoveredSuccessful r + swp_recoveredFailed r + swp_releasedNeverSubmitted r + swp_movedToPending r + swp_escalatedUnderReview r,
      oc_skipped = swp_skipped r, oc_recoveryFailures = swp_recoveryFailures r,
      oc_duplicateWorkersPrevented = swp_duplicateWorkersPrevented r\<rparr>"

record health_thresholds =
  ht_degradedAfterFailures :: nat
  ht_degradedOldestUnresolvedMs :: int
  ht_staleAfterMs :: int

definition DEFAULT_HEALTH_THRESHOLDS :: health_thresholds where
  "DEFAULT_HEALTH_THRESHOLDS =
     \<lparr>ht_degradedAfterFailures = 1, ht_degradedOldestUnresolvedMs = 15 * 60000, ht_staleAfterMs = 10 * 60000\<rparr>"

record health_inputs =
  he_status :: worker_status
  he_now :: timestamp
  he_backoff :: backoff_state
  he_lastFailure :: "failure_record option"
  he_lastSuccessfulSweepAt :: "timestamp option"
  he_ledgerResidualMinor :: int
  he_databaseHealthy :: bool
  he_oldestUnresolvedAgeMs :: int
  he_lastSweep :: "sweep_outcome option"

definition swept_badly :: "sweep_outcome option \<Rightarrow> bool" where
  "swept_badly sweep =
     (case sweep of None \<Rightarrow> False | Some s \<Rightarrow> 0 < oc_recoveryFailures s \<or> (0 < oc_claimed s \<and> oc_resolved s = 0))"

text \<open>A time that is no date gives NaN, and no comparison with it holds.\<close>

definition stale :: "timestamp option \<Rightarrow> timestamp \<Rightarrow> int \<Rightarrow> bool" where
  "stale success t limit =
     (case success of
        None \<Rightarrow> False
      | Some s \<Rightarrow> (case (date_parse t, date_parse s) of (Some a, Some b) \<Rightarrow> limit < a - b | _ \<Rightarrow> False))"

definition healthLevel :: "health_inputs \<Rightarrow> health_thresholds \<Rightarrow> health_level" where
  "healthLevel i th =
     (if he_status i = WORKER_FAILED \<or> he_status i = STOPPED then UNHEALTHY
      else if \<not> he_databaseHealthy i then UNHEALTHY
      else if he_ledgerResidualMinor i \<noteq> 0 then UNHEALTHY
      else if (case he_lastFailure i of None \<Rightarrow> False | Some f \<Rightarrow> cf_fatal (fr_failure f)) then UNHEALTHY
      else if swept_badly (he_lastSweep i) then DEGRADED
      else if he_status i = BACKING_OFF then DEGRADED
      else if ht_degradedAfterFailures th \<le> bs_consecutiveFailures (he_backoff i) then DEGRADED
      else if ht_degradedOldestUnresolvedMs th < he_oldestUnresolvedAgeMs i then DEGRADED
      else if stale (he_lastSuccessfulSweepAt i) (he_now i) (ht_staleAfterMs th) then DEGRADED
      else if he_status i = STARTING \<or> he_status i = STOPPING then DEGRADED
      else HEALTHY)"

section \<open>The loop\<close>

datatype shutdown_reason = SIGTERM | SIGINT | REQUESTED | FATAL_FAILURE

record worker_loop =
  wl_status :: worker_status
  wl_backoff :: backoff_state
  wl_startedAt :: timestamp
  wl_sweepInFlight :: bool
  wl_lastSweepStartedAt :: "timestamp option"
  wl_lastSweepCompletedAt :: "timestamp option"
  wl_lastSuccessfulSweepAt :: "timestamp option"
  wl_lastFailure :: "failure_record option"
  wl_lastSweepReport :: "sweep_report option"
  wl_sweepsScheduled :: nat
  wl_sweepsStarted :: nat
  wl_sweepsCompleted :: nat
  wl_sweepsFailed :: nat
  wl_sweepsSkipped :: nat
  wl_stopReason :: "shutdown_reason option"

definition new_loop :: "timestamp \<Rightarrow> worker_loop" where
  "new_loop t =
     \<lparr>wl_status = STARTING, wl_backoff = initialBackoffState, wl_startedAt = t, wl_sweepInFlight = False,
      wl_lastSweepStartedAt = None, wl_lastSweepCompletedAt = None, wl_lastSuccessfulSweepAt = None, wl_lastFailure = None,
      wl_lastSweepReport = None, wl_sweepsScheduled = 0, wl_sweepsStarted = 0, wl_sweepsCompleted = 0, wl_sweepsFailed = 0,
      wl_sweepsSkipped = 0, wl_stopReason = None\<rparr>"

text \<open>The controller's state is the reason of the stop, if one was requested; the first reason stays.\<close>

definition stopRequested :: "worker_loop \<Rightarrow> bool" where
  "stopRequested s \<longleftrightarrow> wl_stopReason s \<noteq> None"

definition requestStop :: "shutdown_reason \<Rightarrow> worker_loop \<Rightarrow> worker_loop" where
  "requestStop r s = (if stopRequested s then s else s\<lparr>wl_stopReason := Some r\<rparr>)"

definition shouldContinue :: "worker_loop \<Rightarrow> bool" where
  "shouldContinue s \<longleftrightarrow> \<not> stopRequested s"

text \<open>\<open>runOnce\<close> up to the await of the sweep; the flag says whether a sweep began.\<close>

definition begin_sweep :: "timestamp \<Rightarrow> worker_loop \<Rightarrow> bool \<times> worker_loop" where
  "begin_sweep t s =
     (if wl_sweepInFlight s then (False, s\<lparr>wl_sweepsSkipped := Suc (wl_sweepsSkipped s)\<rparr>)
      else if stopRequested s then (False, s)
      else (True, s\<lparr>wl_sweepInFlight := True, wl_sweepsStarted := Suc (wl_sweepsStarted s), wl_lastSweepStartedAt := Some t\<rparr>))"

definition recordFailure :: "worker_policy \<Rightarrow> timestamp \<Rightarrow> int \<Rightarrow> classified_failure \<Rightarrow> worker_loop \<Rightarrow> worker_loop" where
  "recordFailure p t k f s =
     (let s' = s\<lparr>wl_sweepsFailed := Suc (wl_sweepsFailed s), wl_lastSweepCompletedAt := Some t,
                 wl_lastFailure := Some \<lparr>fr_at = t, fr_failure = f\<rparr>\<rparr>
      in if cf_fatal f then requestStop FATAL_FAILURE (s'\<lparr>wl_status := WORKER_FAILED\<rparr>)
         else s'\<lparr>wl_backoff := advanceBackoff p (wl_backoff s) k, wl_status := BACKING_OFF\<rparr>)"

definition recordSuccess :: "timestamp \<Rightarrow> sweep_report \<Rightarrow> worker_loop \<Rightarrow> worker_loop" where
  "recordSuccess t r s =
     s\<lparr>wl_lastSweepReport := Some r, wl_lastSweepCompletedAt := Some t, wl_lastSuccessfulSweepAt := Some t,
       wl_sweepsCompleted := Suc (wl_sweepsCompleted s), wl_backoff := initialBackoffState, wl_status := RUNNING\<rparr>"

text \<open>What follows the await.\<close>

definition end_sweep :: "worker_policy \<Rightarrow> timestamp \<Rightarrow> int \<Rightarrow> err + sweep_report \<Rightarrow> worker_loop \<Rightarrow> worker_loop" where
  "end_sweep p t k result s =
     (case result of
        Inr r \<Rightarrow> recordSuccess t r s
      | Inl e \<Rightarrow> recordFailure p t k (classifyWorkerFailure e) s)\<lparr>wl_sweepInFlight := False\<rparr>"

definition schedule_next :: "worker_loop \<Rightarrow> worker_loop" where
  "schedule_next s = s\<lparr>wl_sweepsScheduled := Suc (wl_sweepsScheduled s)\<rparr>"

text \<open>The end of \<open>shutdownGracefully\<close>, once the sweep in flight has reached its boundary or its time is up.\<close>

definition shutdownGracefully :: "worker_loop \<Rightarrow> worker_loop" where
  "shutdownGracefully s = (if wl_status s = WORKER_FAILED then s else s\<lparr>wl_status := STOPPED\<rparr>)"

text \<open>\<open>start\<close>, one element for each turn of the loop: the sweep's result and the stops that arrive during it and during the sleep.\<close>

record turn =
  tu_startedAt :: timestamp
  tu_endedAt :: timestamp
  tu_random :: int
  tu_result :: "err + sweep_report"
  tu_stopInSweep :: "shutdown_reason option"
  tu_stopInSleep :: "shutdown_reason option"

definition stop_if :: "shutdown_reason option \<Rightarrow> worker_loop \<Rightarrow> worker_loop" where
  "stop_if r s = (case r of None \<Rightarrow> s | Some x \<Rightarrow> requestStop x s)"

definition runOnce :: "worker_policy \<Rightarrow> turn \<Rightarrow> worker_loop \<Rightarrow> worker_loop" where
  "runOnce p i s =
     (case begin_sweep (tu_startedAt i) s of
        (False, s') \<Rightarrow> s'
      | (True, s') \<Rightarrow> end_sweep p (tu_endedAt i) (tu_random i) (tu_result i) (stop_if (tu_stopInSweep i) s'))"

fun supervise :: "worker_policy \<Rightarrow> turn list \<Rightarrow> worker_loop \<Rightarrow> worker_loop" where
  "supervise p [] s = (if stopRequested s then shutdownGracefully s else s)"
| "supervise p (i # is) s =
     (if stopRequested s then shutdownGracefully s
      else
        let s' = runOnce p i s
        in if stopRequested s' then shutdownGracefully s'
           else supervise p is (stop_if (tu_stopInSleep i) (schedule_next s')))"

text \<open>
  A worker that does not sweep at once sleeps before the loop; \<open>initial\<close> is the stop that arrives in this sleep, which there is only
  where \<open>runInitialSweepOnStart\<close> is off.
\<close>

definition start :: "worker_policy \<Rightarrow> timestamp \<Rightarrow> shutdown_reason option \<Rightarrow> turn list \<Rightarrow> worker_loop \<Rightarrow> worker_loop" where
  "start p t initial is s =
     (if \<not> yp_recoveryWorkerEnabled p then s\<lparr>wl_startedAt := t, wl_status := STOPPED\<rparr>
      else
        let s' = s\<lparr>wl_startedAt := t, wl_status := RUNNING\<rparr>
        in supervise p is (if yp_runInitialSweepOnStart p then s' else stop_if initial s'))"

definition loop_health :: "worker_loop \<Rightarrow> health_thresholds \<Rightarrow> timestamp \<Rightarrow> int \<Rightarrow> bool \<Rightarrow> int \<Rightarrow> health_level" where
  "loop_health s th t residual databaseHealthy oldest =
     healthLevel
       \<lparr>he_status = wl_status s, he_now = t, he_backoff = wl_backoff s, he_lastFailure = wl_lastFailure s,
        he_lastSuccessfulSweepAt = wl_lastSuccessfulSweepAt s, he_ledgerResidualMinor = residual,
        he_databaseHealthy = databaseHealthy, he_oldestUnresolvedAgeMs = oldest,
        he_lastSweep = map_option summarizeSweep (wl_lastSweepReport s)\<rparr> th"

section \<open>The sweep\<close>

text \<open>The worker's own identifiers: a counter that starts at zero in every process.\<close>

definition defaultIdFactory :: "string \<Rightarrow> string \<Rightarrow> nat \<Rightarrow> string" where
  "defaultIdFactory workerId kind n = kind @ ''_'' @ workerId @ ''_'' @ dec_int (int (Suc n))"

definition recovery_config_of :: "worker_policy \<Rightarrow> recovery_policy" where
  "recovery_config_of p =
     \<lparr>rp_recoveryAgeMs = yp_recoveryAgeMs p, rp_pendingMaximumMs = yp_pendingMaximumMs p, rp_maxStatusAttempts = yp_maxStatusAttempts p,
      rp_claimLeaseMs = yp_claimLeaseMs p, rp_statusCheckIntervalMs = yp_statusCheckIntervalMs p,
      rp_batchLimit = nat (yp_recoveryBatchLimit p)\<rparr>"

definition attempt :: "'a prog \<Rightarrow> (err + 'a) prog" where
  "attempt m = try_catch (bnd m (\<lambda>x. ret (Inr x))) (\<lambda>e. ret (Inl e))"

text \<open>Recovery first, then the fee run whatever became of it; recovery's failure is the sweep's.\<close>

definition runSweep :: "recovery_deps \<Rightarrow> sweep_options \<Rightarrow> sweep_report prog" where
  "runSweep r o' =
     bnd (attempt (recoverInFlight r o')) (\<lambda>result.
     bnd (attempt (runDueSoftwareFees (rd_sale r))) (\<lambda>_.
     case result of Inl e \<Rightarrow> throw e | Inr report \<Rightarrow> ret report))"

definition createRecoveryWorker :: "worker_policy \<Rightarrow> operating_mode \<Rightarrow> timestamp \<Rightarrow> err + worker_loop" where
  "createRecoveryWorker p mode t =
     (case validateWorkerPolicy p of
        Inl (code, _) \<Rightarrow> Inl (ErrorWith ''WorkerConfigurationError'' (config_code_name code))
      | Inr _ \<Rightarrow> if mode \<noteq> TRAINING then Inl (DomainErr LiveMoneyDisabled) else Inr (new_loop t))"

end
