(* ===== verification/Worker_Properties.thy ===== *)
theory Worker_Properties
  imports Worker Ledger_Properties
begin

text \<open>
  What the recovery worker keeps: a policy it accepts makes its delays positive and bounded, one sweep runs at a time and every
  sweep is accounted for, a fatal failure or a stop ends the loop, and it calls itself healthy only when everything it looks at is.
\<close>

section \<open>Policies that are accepted\<close>

lemma validate_Inr:
  "validateWorkerPolicy p = Inr q \<longleftrightarrow>
     q = p \<and> list_all (\<lambda>(_, v). 0 < v) (positive_settings p) \<and> 0 \<le> yp_recoveryJitterMs p \<and> 1 \<le> yp_recoveryBatchLimit p \<and>
     yp_failureBackoffInitialMs p \<le> yp_failureBackoffMaximumMs p \<and> 1 \<le> yp_failureBackoffMultiplier p \<and>
     MINIMUM_RECOVERY_INTERVAL_MS \<le> yp_recoveryIntervalMs p \<and>
     MINIMUM_CLAIM_LEASE_MS \<le> yp_claimLeaseMs p \<and> yp_statusCheckIntervalMs p < 2 * yp_claimLeaseMs p \<and>
     (yp_recoveryAgeMs p \<le> yp_pendingMaximumMs p \<or> yp_allowPendingMaximumBelowRecoveryAge p)"
proof -
  have "find (\<lambda>(_, v). v \<le> 0) xs = None \<longleftrightarrow> list_all (\<lambda>(_, v). 0 < v) xs" for xs :: "(string \<times> int) list"
    by (induction xs) auto
  from this [of "positive_settings p"] show ?thesis
    by (cases "find (\<lambda>(_, v). v \<le> 0) (positive_settings p)") (auto simp: validateWorkerPolicy_def not_less not_le)
qed

section \<open>Delays\<close>

text \<open>Rounding to 53 bits moves a number by at most half of its lowest bit.\<close>

lemma fl_pos_error:
  assumes "0 < a"
  shows "2 * fl_pos a \<le> 2 * a + 2 ^ (bits a - 53)"
proof -
  let ?e = "bits a - 53"
  have a: "a = a div 2 ^ ?e * 2 ^ ?e + a mod 2 ^ ?e" by (simp add: div_mult_mod_eq)
  have r: "0 \<le> a mod 2 ^ ?e" by simp
  have low: "a div 2 ^ ?e * 2 ^ ?e \<le> a" using a r by linarith
  show ?thesis
  proof (cases "?e = 0 \<or> 2 * (a mod 2 ^ ?e) < 2 ^ ?e \<or> 2 * (a mod 2 ^ ?e) = 2 ^ ?e \<and> even (a div 2 ^ ?e)")
    case True
    then have "fl_pos a \<le> a" using low by (auto simp: fl_pos_def Let_def)
    then show ?thesis using zero_le_power [of "2::int" ?e] by linarith
  next
    case False
    then have "fl_pos a = (a div 2 ^ ?e + 1) * 2 ^ ?e" "2 ^ ?e \<le> 2 * (a mod 2 ^ ?e)"
      by (auto simp: fl_pos_def Let_def)
    moreover have "(a div 2 ^ ?e + 1) * 2 ^ ?e = a div 2 ^ ?e * 2 ^ ?e + 2 ^ ?e" by (simp add: algebra_simps)
    ultimately show ?thesis using a by linarith
  qed
qed

lemma jitter_bounds:
  assumes "0 \<le> k" "k < 2 ^ 53" "0 \<le> yp_recoveryJitterMs p"
  shows "0 \<le> jitter p k" "jitter p k \<le> yp_recoveryJitterMs p" "0 < yp_recoveryJitterMs p \<Longrightarrow> jitter p k < yp_recoveryJitterMs p"
proof -
  let ?J = "yp_recoveryJitterMs p"
  let ?a = "k * ?J"
  have a0: "0 \<le> ?a" using assms by simp
  then have f: "fl53 ?a = fl_pos ?a" by (simp add: fl53_def)
  show "0 \<le> jitter p k" unfolding jitter_def f using fl_pos_nonneg [OF a0] by (simp add: pos_imp_zdiv_nonneg_iff)
  show strict: "jitter p k < ?J" if J: "0 < ?J"
  proof (cases "?a = 0")
    case True
    have "fl_pos ?a = 0" unfolding True by (simp add: fl_pos_exact)
    then show ?thesis using J by (simp add: jitter_def f)
  next
    case False
    then have pos: "0 < ?a" using a0 by linarith
    have top: "?a \<le> 2 ^ 53 * ?J - ?J" using mult_right_mono [of k "2 ^ 53 - 1" ?J] assms J by (simp add: algebra_simps)
    have half: "(2::int) ^ (bits ?a - 53) < 2 * ?J"
    proof (cases "bits ?a \<le> 53")
      case True
      then show ?thesis using J by simp
    next
      case False
      then have e: "bits ?a - 1 = 52 + (bits ?a - 53)" by simp
      have "(2::int) ^ (bits ?a - 1) = 2 ^ 52 * 2 ^ (bits ?a - 53)" unfolding e power_add by simp
      then have "4503599627370496 * 2 ^ (bits ?a - 53) \<le> ?a" using bits_lower [OF pos] by simp
      moreover have "?a \<le> 9007199254740992 * ?J - ?J" using top by simp
      ultimately show ?thesis using J by linarith
    qed
    have "fl_pos ?a < 2 ^ 53 * ?J" using fl_pos_error [OF pos] half top by linarith
    then have "fl_pos ?a div 2 ^ 53 < ?J" by (simp add: div_less_iff_less_mult mult.commute)
    then show ?thesis by (simp add: jitter_def f)
  qed
  show "jitter p k \<le> ?J"
  proof (cases "?J = 0")
    case True
    then show ?thesis by (simp add: jitter_def fl53_exact safe_int_iff)
  next
    case False
    then show ?thesis using strict assms(3) by simp
  qed
qed

lemma base_bounds:
  assumes "validateWorkerPolicy p = Inr q" "0 < n"
  shows "0 < baseBackoffMs p n" "baseBackoffMs p n \<le> yp_failureBackoffMaximumMs p" "yp_failureBackoffInitialMs p \<le> baseBackoffMs p n"
proof -
  have p: "0 < yp_failureBackoffInitialMs p" "yp_failureBackoffInitialMs p \<le> yp_failureBackoffMaximumMs p" "1 \<le> yp_failureBackoffMultiplier p"
    using assms(1) by (auto simp: validate_Inr positive_settings_def)
  have "1 * yp_failureBackoffInitialMs p \<le> yp_failureBackoffMultiplier p ^ (n - 1) * yp_failureBackoffInitialMs p"
    using p one_le_power [OF p(3), of "n - 1"] by (intro mult_right_mono) simp_all
  then show "0 < baseBackoffMs p n" "baseBackoffMs p n \<le> yp_failureBackoffMaximumMs p" "yp_failureBackoffInitialMs p \<le> baseBackoffMs p n"
    using p assms(2) by (auto simp: baseBackoffMs_def mult.commute)
qed

lemma base_mono:
  assumes "validateWorkerPolicy p = Inr q" "0 < m" "m \<le> n"
  shows "baseBackoffMs p m \<le> baseBackoffMs p n"
proof -
  have p: "0 < yp_failureBackoffInitialMs p" "1 \<le> yp_failureBackoffMultiplier p"
    using assms(1) by (auto simp: validate_Inr positive_settings_def)
  have "yp_failureBackoffMultiplier p ^ (m - 1) \<le> yp_failureBackoffMultiplier p ^ (n - 1)"
    using p(2) assms(3) by (intro power_increasing) simp_all
  then have "yp_failureBackoffInitialMs p * yp_failureBackoffMultiplier p ^ (m - 1) \<le> yp_failureBackoffInitialMs p * yp_failureBackoffMultiplier p ^ (n - 1)"
    using p(1) by simp
  then show ?thesis using assms(2,3) by (auto simp: baseBackoffMs_def)
qed

section \<open>The loop as a state machine\<close>

text \<open>
  Between two awaits of one caller another may call \<open>runOnce\<close>, a signal may ask for a stop, or the sweep in flight may
  end: the steps of the loop in any order. A random draw is \<open>k / 2 ^ 53\<close>.
\<close>

inductive worker_step :: "worker_policy \<Rightarrow> worker_loop \<Rightarrow> worker_loop \<Rightarrow> bool" for p where
  began: "begin_sweep t s = (b, s') \<Longrightarrow> worker_step p s s'"
| ended: "wl_sweepInFlight s \<Longrightarrow> 0 \<le> k \<Longrightarrow> k < 2 ^ 53 \<Longrightarrow> worker_step p s (end_sweep p t k r s)"
| stop: "worker_step p s (requestStop reason s)"
| scheduled: "worker_step p s (schedule_next s)"
| shut_down: "stopRequested s \<Longrightarrow> worker_step p s (shutdownGracefully s)"

definition backoff_ok :: "worker_policy \<Rightarrow> backoff_state \<Rightarrow> bool" where
  "backoff_ok p b \<longleftrightarrow>
     (if bs_consecutiveFailures b = 0 then bs_currentDelayMs b = 0
      else baseBackoffMs p (bs_consecutiveFailures b) \<le> bs_currentDelayMs b \<and>
        bs_currentDelayMs b \<le> baseBackoffMs p (bs_consecutiveFailures b) + yp_recoveryJitterMs p)"

definition loop_ok :: "worker_policy \<Rightarrow> worker_loop \<Rightarrow> bool" where
  "loop_ok p s \<longleftrightarrow>
     wl_sweepsStarted s = wl_sweepsCompleted s + wl_sweepsFailed s + (if wl_sweepInFlight s then 1 else 0) \<and>
     bs_consecutiveFailures (wl_backoff s) \<le> wl_sweepsFailed s \<and>
     (wl_status s = BACKING_OFF \<longrightarrow> isBackingOff (wl_backoff s)) \<and>
     (wl_status s = WORKER_FAILED \<longrightarrow> stopRequested s) \<and>
     backoff_ok p (wl_backoff s)"

lemmas loop_defs = loop_ok_def begin_sweep_def end_sweep_def recordFailure_def recordSuccess_def requestStop_def schedule_next_def
  shutdownGracefully_def stopRequested_def isBackingOff_def initialBackoffState_def

lemma advance_ok:
  assumes "0 \<le> yp_recoveryJitterMs p" "0 \<le> k" "k < 2 ^ 53"
  shows "backoff_ok p (advanceBackoff p b k)"
  using jitter_bounds [of k p] assms by (simp add: backoff_ok_def advanceBackoff_def Let_def)

lemma new_loop_ok: "loop_ok p (new_loop t)"
  by (simp add: loop_defs new_loop_def backoff_ok_def)

lemma end_sweep_ok:
  assumes "0 \<le> yp_recoveryJitterMs p" "loop_ok p s" "wl_sweepInFlight s" "0 \<le> k" "k < 2 ^ 53"
  shows "loop_ok p (end_sweep p t k r s)"
proof (cases r)
  case (Inr x)
  then show ?thesis using assms(2,3) by (simp add: loop_defs backoff_ok_def)
next
  case (Inl e)
  then show ?thesis
    using assms advance_ok [OF assms(1,4,5), of "wl_backoff s"]
    by (auto simp: loop_defs Let_def advanceBackoff_def)
qed

lemma worker_step_ok:
  assumes "0 \<le> yp_recoveryJitterMs p"
  shows "worker_step p s s' \<Longrightarrow> loop_ok p s \<Longrightarrow> loop_ok p s'"
proof (induction rule: worker_step.induct)
  case (ended s k t r)
  then show ?case using end_sweep_ok [OF assms] by blast
qed (auto simp: loop_defs split: if_splits)

lemma worker_steps_ok:
  assumes "0 \<le> yp_recoveryJitterMs p"
  shows "(worker_step p)\<^sup>*\<^sup>* s s' \<Longrightarrow> loop_ok p s \<Longrightarrow> loop_ok p s'"
  by (induction rule: rtranclp_induct) (auto intro: worker_step_ok [OF assms])

text \<open>
  C13. However calls, signals and sweeps interleave, one sweep runs at a time and every sweep that began has
  completed, failed or is the one in flight; and whatever failed before, the delay before the next sweep is positive and at most
  the longest of the interval and the maximal backoff, plus the jitter, so that a failing worker neither spins nor stops trying.
\<close>

theorem worker_never_runs_away:
  assumes "createRecoveryWorker p mode t = Inr s" and "(worker_step p)\<^sup>*\<^sup>* s s'" and "0 \<le> k" and "k < 2 ^ 53"
  shows "wl_sweepsStarted s' = wl_sweepsCompleted s' + wl_sweepsFailed s' + (if wl_sweepInFlight s' then 1 else 0) \<and>
    0 < nextDelayMs p (wl_backoff s') k \<and>
    nextDelayMs p (wl_backoff s') k \<le> max (yp_recoveryIntervalMs p) (yp_failureBackoffMaximumMs p) + yp_recoveryJitterMs p"
proof -
  have v: "validateWorkerPolicy p = Inr p" and s: "s = new_loop t"
    using assms(1) by (auto simp: createRecoveryWorker_def validate_Inr split: sum.splits if_splits)
  then have J: "0 \<le> yp_recoveryJitterMs p" and I: "0 < yp_recoveryIntervalMs p"
    by (auto simp: validate_Inr positive_settings_def)
  have ok: "loop_ok p s'" using worker_steps_ok [OF J assms(2)] new_loop_ok by (simp add: s)
  have "0 < nextDelayMs p (wl_backoff s') k \<and>
      nextDelayMs p (wl_backoff s') k \<le> max (yp_recoveryIntervalMs p) (yp_failureBackoffMaximumMs p) + yp_recoveryJitterMs p"
  proof (cases "isBackingOff (wl_backoff s')")
    case True
    then show ?thesis
      using ok base_bounds [OF v, of "bs_consecutiveFailures (wl_backoff s')"]
      by (auto simp: loop_ok_def backoff_ok_def nextDelayMs_def isBackingOff_def)
  next
    case False
    then show ?thesis using jitter_bounds [OF assms(3,4) J] I by (simp add: nextDelayMs_def)
  qed
  then show ?thesis using ok by (simp add: loop_ok_def)
qed

theorem worker_never_runs_away_witness:
  "nextDelayMs DEVELOPMENT_RECOVERY_WORKER_POLICY
     (wl_backoff (end_sweep DEVELOPMENT_RECOVERY_WORKER_POLICY t0 0 (Inl RangeErr) (snd (begin_sweep t0 (new_loop t0))))) 0 \<le> 65000"
proof -
  let ?p = DEVELOPMENT_RECOVERY_WORKER_POLICY and ?s = "new_loop t0"
  have c: "createRecoveryWorker ?p TRAINING t0 = Inr ?s" by code_simp
  have i: "wl_sweepInFlight (snd (begin_sweep t0 ?s))" by code_simp
  have s1: "worker_step ?p ?s (snd (begin_sweep t0 ?s))" by (rule began [of t0 _ "fst (begin_sweep t0 ?s)"]) simp
  have s2: "worker_step ?p (snd (begin_sweep t0 ?s)) (end_sweep ?p t0 0 (Inl RangeErr) (snd (begin_sweep t0 ?s)))"
    by (rule ended [OF i]) simp_all
  have "(worker_step ?p)\<^sup>*\<^sup>* ?s (end_sweep ?p t0 0 (Inl RangeErr) (snd (begin_sweep t0 ?s)))"
    by (rule converse_rtranclp_into_rtranclp [where r = "worker_step ?p", OF s1 r_into_rtranclp [where r = "worker_step ?p", OF s2]])
  from worker_never_runs_away [OF c this, of 0]
  have "nextDelayMs ?p (wl_backoff (end_sweep ?p t0 0 (Inl RangeErr) (snd (begin_sweep t0 ?s)))) 0
      \<le> max (yp_recoveryIntervalMs ?p) (yp_failureBackoffMaximumMs ?p) + yp_recoveryJitterMs ?p" by simp
  also have "\<dots> = 65000" by code_simp
  finally show ?thesis .
qed

section \<open>Stopping\<close>

lemma stopped_stays: "worker_step p s s' \<Longrightarrow> stopRequested s \<Longrightarrow> stopRequested s' \<and> wl_stopReason s' = wl_stopReason s \<and> wl_sweepsStarted s' = wl_sweepsStarted s"
  by (induction rule: worker_step.induct)
     (auto simp: begin_sweep_def end_sweep_def recordFailure_def recordSuccess_def requestStop_def schedule_next_def shutdownGracefully_def
       stopRequested_def Let_def split: if_splits sum.splits)

lemma fatal_stops: "cf_fatal (classifyWorkerFailure e) \<Longrightarrow> stopRequested (end_sweep p t k (Inl e) s)"
  by (auto simp: end_sweep_def recordFailure_def requestStop_def stopRequested_def Let_def)

text \<open>
  C14. A failure of the database, the schema or the configuration is not retried into: once a sweep ended in one, no step of the
  worker ever begins another.
\<close>

theorem fatal_failure_is_final:
  assumes "cf_fatal (classifyWorkerFailure e)" and "(worker_step p)\<^sup>*\<^sup>* (end_sweep p t k (Inl e) s) s'"
  shows "wl_sweepsStarted s' = wl_sweepsStarted s \<and> stopRequested s' \<and> fst (begin_sweep u s') = False"
proof -
  let ?f = "end_sweep p t k (Inl e) s"
  have f: "stopRequested ?f" "wl_sweepsStarted ?f = wl_sweepsStarted s"
    using fatal_stops [OF assms(1)] by (auto simp: end_sweep_def recordFailure_def requestStop_def Let_def)
  from assms(2) have "stopRequested s' \<and> wl_sweepsStarted s' = wl_sweepsStarted ?f"
    by (induction rule: rtranclp_induct) (use f(1) stopped_stays in auto)
  then show ?thesis using f(2) by (simp add: begin_sweep_def)
qed

theorem fatal_failure_is_final_witness:
  "stopRequested (end_sweep TEST_RECOVERY_WORKER_POLICY t0 0 (Inl (PersistErr DRIVER_CLOSED)) (new_loop t0))"
proof -
  have "cf_fatal (classifyWorkerFailure (PersistErr DRIVER_CLOSED))" by code_simp
  from fatal_failure_is_final [OF this rtranclp.rtrancl_refl] show ?thesis by blast
qed

section \<open>Health\<close>

text \<open>A life of the worker, with the sweeps that have ended, the last first, each with the time and the result.\<close>

type_synonym ended_sweep = "timestamp \<times> (err + sweep_report)"

inductive worker_life :: "worker_policy \<Rightarrow> worker_loop \<Rightarrow> ended_sweep list \<Rightarrow> worker_loop \<Rightarrow> bool" for p s where
  born: "worker_life p s [] s"
| sweeps: "worker_life p s rs u \<Longrightarrow> begin_sweep t u = (b, v) \<Longrightarrow> worker_life p s rs v"
| swept: "worker_life p s rs u \<Longrightarrow> wl_sweepInFlight u \<Longrightarrow> worker_life p s ((t, r) # rs) (end_sweep p t k r u)"
| asked: "worker_life p s rs u \<Longrightarrow> worker_life p s rs (requestStop reason u)"
| waits: "worker_life p s rs u \<Longrightarrow> worker_life p s rs (schedule_next u)"
| stops: "worker_life p s rs u \<Longrightarrow> stopRequested u \<Longrightarrow> worker_life p s rs (shutdownGracefully u)"

definition fatal_sweep :: "ended_sweep \<Rightarrow> bool" where
  "fatal_sweep x \<longleftrightarrow> (case snd x of Inl e \<Rightarrow> cf_fatal (classifyWorkerFailure e) | Inr _ \<Rightarrow> False)"

definition life_told :: "ended_sweep list \<Rightarrow> worker_loop \<Rightarrow> bool" where
  "life_told rs s \<longleftrightarrow>
     (case rs of
        [] \<Rightarrow> True
      | (t, Inr r) # _ \<Rightarrow> wl_lastSweepReport s = Some r \<and> wl_lastSuccessfulSweepAt s = Some t
      | (t, Inl e) # _ \<Rightarrow> wl_status s \<in> {BACKING_OFF, WORKER_FAILED, STOPPED}) \<and>
     ((\<exists>x\<in>set rs. fatal_sweep x) \<longrightarrow> wl_status s = WORKER_FAILED \<and> stopRequested s \<and> \<not> wl_sweepInFlight s)"

lemma life_told_same:
  "life_told rs u \<Longrightarrow> wl_lastSweepReport v = wl_lastSweepReport u \<Longrightarrow> wl_lastSuccessfulSweepAt v = wl_lastSuccessfulSweepAt u \<Longrightarrow>
   wl_status v = wl_status u \<or> wl_status v = STOPPED \<and> wl_status u \<noteq> WORKER_FAILED \<Longrightarrow> (stopRequested u \<longrightarrow> stopRequested v) \<Longrightarrow>
   (stopRequested u \<and> \<not> wl_sweepInFlight u \<longrightarrow> \<not> wl_sweepInFlight v) \<Longrightarrow> life_told rs v"
  by (auto simp: life_told_def split: list.splits sum.splits prod.splits)

lemma life_told_swept:
  assumes "life_told rs u" "wl_sweepInFlight u"
  shows "life_told ((t, r) # rs) (end_sweep p t k r u)"
proof -
  have before: "\<not> (\<exists>x\<in>set rs. fatal_sweep x)" using assms by (auto simp: life_told_def)
  then show ?thesis
    by (cases r) (auto simp: life_told_def fatal_sweep_def end_sweep_def recordSuccess_def recordFailure_def requestStop_def stopRequested_def Let_def)
qed

lemma worker_life_told:
  "worker_life p s rs u \<Longrightarrow> s = (new_loop t)\<lparr>wl_status := st\<rparr> \<Longrightarrow> life_told rs u"
proof (induction rule: worker_life.induct)
  case born
  then show ?case by (simp add: life_told_def)
next
  case (swept rs u t r k)
  then show ?case using life_told_swept by blast
qed (auto elim!: life_told_same simp: begin_sweep_def requestStop_def stopRequested_def schedule_next_def shutdownGracefully_def split: if_splits)

text \<open>
  C15. A worker that reports healthy is: however its life went, the database answers, the ledger sums to zero and nothing it is told of
  waits longer than the threshold, none of its sweeps ever ended in a fatal failure, and the last sweep that ended, if any has, succeeded, not
  longer ago than the threshold in milliseconds, failed to recover no sale and resolved something of what it claimed.
\<close>

theorem health_is_honest:
  assumes "worker_life p ((new_loop t)\<lparr>wl_status := st\<rparr>) rs s"
    and "loop_health s th (iso_of_ms at) residual databaseHealthy oldest = HEALTHY" and "iso_range at"
  shows "databaseHealthy \<and> residual = 0 \<and> oldest \<le> ht_degradedOldestUnresolvedMs th \<and> \<not> (\<exists>x\<in>set rs. fatal_sweep x) \<and>
    (\<forall>x rest. rs = x # rest \<longrightarrow> (\<exists>ended r. x = (ended, Inr r) \<and> swp_recoveryFailures r = 0 \<and>
       (swp_claimed r = 0 \<or> 0 < oc_resolved (summarizeSweep r)) \<and>
       (\<forall>n. iso_range n \<and> ended = iso_of_ms n \<longrightarrow> at - n \<le> ht_staleAfterMs th)))"
proof -
  note told = worker_life_told [OF assms(1) refl]
  note healthy = assms(2) [unfolded loop_health_def healthLevel_def]
  have ok: "databaseHealthy" "residual = 0" "oldest \<le> ht_degradedOldestUnresolvedMs th" "wl_status s \<notin> {BACKING_OFF, WORKER_FAILED, STOPPED}"
    "\<not> swept_badly (map_option summarizeSweep (wl_lastSweepReport s))" "\<not> stale (wl_lastSuccessfulSweepAt s) (iso_of_ms at) (ht_staleAfterMs th)"
    using healthy by (auto split: if_splits)
  have "\<exists>ended r. x = (ended, Inr r) \<and> swp_recoveryFailures r = 0 \<and> (swp_claimed r = 0 \<or> 0 < oc_resolved (summarizeSweep r)) \<and>
      (\<forall>n. iso_range n \<and> ended = iso_of_ms n \<longrightarrow> at - n \<le> ht_staleAfterMs th)" if "rs = x # rest" for x rest
  proof (cases x)
    case (Pair ended result)
    then obtain r where r: "result = Inr r" using told ok(4) by (cases result) (auto simp: life_told_def \<open>rs = x # rest\<close> Pair)
    then have last: "wl_lastSweepReport s = Some r" "wl_lastSuccessfulSweepAt s = Some ended" using told by (simp_all add: life_told_def \<open>rs = x # rest\<close> Pair)
    have "at - n \<le> ht_staleAfterMs th" if "iso_range n" "ended = iso_of_ms n" for n
      using ok(6) last(2) that assms(3) by (simp add: stale_def date_parse_iso)
    moreover have "swp_recoveryFailures r = 0 \<and> (swp_claimed r = 0 \<or> 0 < oc_resolved (summarizeSweep r))"
      using ok(5) last(1) by (auto simp: swept_badly_def summarizeSweep_def)
    ultimately show ?thesis using Pair r by blast
  qed
  moreover have "\<not> (\<exists>x\<in>set rs. fatal_sweep x)" using told ok(4) by (auto simp: life_told_def)
  ultimately show ?thesis using ok(1-3) by blast
qed

definition clean_sweep :: sweep_report where
  "clean_sweep =
     \<lparr>swp_scanId = ''scan_1'', swp_startedAt = t0, swp_finishedAt = t0, swp_found = 1, swp_claimed = 1, swp_duplicateWorkersPrevented = 0,
      swp_recoveredSuccessful = 1, swp_recoveredFailed = 0, swp_releasedNeverSubmitted = 0, swp_movedToPending = 0,
      swp_escalatedUnderReview = 0, swp_skipped = 0, swp_recoveryFailures = 0, swp_operationalAlerts = 0, swp_providerLookupMs = None,
      swp_stoppedEarly = False, swp_results = []\<rparr>"

theorem health_is_honest_witness:
  "loop_health (end_sweep TEST_RECOVERY_WORKER_POLICY (iso_of_ms 1789372800000) 0 (Inr clean_sweep) (snd (begin_sweep t0 (new_loop t0))))
     DEFAULT_HEALTH_THRESHOLDS (iso_of_ms 1789372860000) 0 True 0 = HEALTHY \<and>
   (1789372860000::int) - 1789372800000 \<le> ht_staleAfterMs DEFAULT_HEALTH_THRESHOLDS"
proof -
  let ?p = TEST_RECOVERY_WORKER_POLICY and ?t = "iso_of_ms 1789372800000" and ?s = "(new_loop t0)\<lparr>wl_status := STARTING\<rparr>"
  let ?u = "snd (begin_sweep t0 (new_loop t0))"
  have s: "?s = new_loop t0" by (simp add: new_loop_def)
  have "worker_life ?p ?s [] ?u" unfolding s by (rule sweeps [OF born, of t0 _ "fst (begin_sweep t0 (new_loop t0))"]) simp
  then have "worker_life ?p ?s [(?t, Inr clean_sweep)] (end_sweep ?p ?t 0 (Inr clean_sweep) ?u)"
    by (rule swept) (simp add: begin_sweep_def new_loop_def stopRequested_def)
  moreover have "loop_health (end_sweep ?p ?t 0 (Inr clean_sweep) ?u) DEFAULT_HEALTH_THRESHOLDS (iso_of_ms 1789372860000) 0 True 0 = HEALTHY"
    by code_simp
  moreover have r: "iso_range 1789372860000" "iso_range 1789372800000" by code_simp+
  ultimately show ?thesis using health_is_honest [where p = ?p and t = t0 and st = STARTING and rs = "[(?t, Inr clean_sweep)]"] by blast
qed

section \<open>A supervised run\<close>

lemma runOnce_counts:
  "\<not> wl_sweepInFlight s \<Longrightarrow> \<not> stopRequested s \<Longrightarrow> wl_sweepsStarted (runOnce p i s) = Suc (wl_sweepsStarted s) \<and> \<not> wl_sweepInFlight (runOnce p i s)"
  by (auto simp: runOnce_def begin_sweep_def end_sweep_def recordFailure_def recordSuccess_def requestStop_def stop_if_def Let_def split: option.split sum.split)

definition stopping_turn :: "turn \<Rightarrow> bool" where
  "stopping_turn i \<longleftrightarrow> tu_stopInSweep i \<noteq> None \<or> tu_stopInSleep i \<noteq> None \<or>
     (case tu_result i of Inl e \<Rightarrow> cf_fatal (classifyWorkerFailure e) | Inr _ \<Rightarrow> False)"

lemma stopping_turn_stops:
  assumes "\<not> wl_sweepInFlight s" "\<not> stopRequested s"
  shows "stopping_turn i \<longleftrightarrow> stopRequested (stop_if (tu_stopInSleep i) (schedule_next (runOnce p i s)))"
  using assms
  by (auto simp: stopping_turn_def runOnce_def begin_sweep_def end_sweep_def recordFailure_def recordSuccess_def requestStop_def stopRequested_def
      stop_if_def schedule_next_def Let_def split: option.splits sum.splits)

lemma idle_after: "\<not> wl_sweepInFlight s \<Longrightarrow> \<not> wl_sweepInFlight (stop_if x (schedule_next s))"
  by (auto simp: stop_if_def schedule_next_def requestStop_def split: option.split)

lemma started_after: "wl_sweepsStarted (stop_if x (schedule_next s)) = wl_sweepsStarted s"
  by (auto simp: stop_if_def schedule_next_def requestStop_def split: option.split)

lemma shut_down_is_final:
  "stopRequested s \<Longrightarrow> wl_sweepsStarted (shutdownGracefully s) = wl_sweepsStarted s \<and>
     wl_status (shutdownGracefully s) \<in> {STOPPED, WORKER_FAILED} \<and> stopRequested (shutdownGracefully s)"
  by (auto simp: shutdownGracefully_def stopRequested_def)

lemma supervise_stopped:
  "stopRequested s \<Longrightarrow> supervise p is s = shutdownGracefully s"
  by (cases "is") simp_all

text \<open>
  C16. The loop sweeps once in every turn until the first turn with a stop or a fatal failure, and then stops: no sweep follows, whatever
  was still to come, and the worker is left stopped or failed. A stop in the sleep before the first sweep, of a worker configured not
  to sweep at once, leaves no sweep at all.
\<close>

theorem supervision_ends:
  assumes "list_all (\<lambda>i. \<not> stopping_turn i) before" and "stopping_turn i" and "yp_recoveryWorkerEnabled p"
  shows "let s = start p t initial (before @ i # rest) (new_loop t) in
    wl_sweepsStarted s = (if \<not> yp_runInitialSweepOnStart p \<and> initial \<noteq> None then 0 else Suc (length before)) \<and>
    wl_status s \<in> {STOPPED, WORKER_FAILED} \<and> stopRequested s"
proof -
  have main: "wl_sweepsStarted (supervise p (before @ i # rest) s) = wl_sweepsStarted s + Suc (length before) \<and>
      wl_status (supervise p (before @ i # rest) s) \<in> {STOPPED, WORKER_FAILED} \<and> stopRequested (supervise p (before @ i # rest) s)"
    if "\<not> wl_sweepInFlight s" "\<not> stopRequested s" for s
    using assms(1) that
  proof (induction before arbitrary: s)
    case Nil
    let ?s = "runOnce p i s"
    let ?n = "stop_if (tu_stopInSleep i) (schedule_next ?s)"
    have n: "stopRequested ?n" using stopping_turn_stops [OF Nil(2,3)] assms(2) by blast
    have c: "wl_sweepsStarted ?s = Suc (wl_sweepsStarted s)" using runOnce_counts [OF Nil(2,3)] by blast
    show ?case
      using Nil(3) c shut_down_is_final [of ?s] shut_down_is_final [OF n] supervise_stopped [OF n, of p rest]
      by (auto simp: Let_def started_after)
  next
    case (Cons b bs)
    let ?s = "runOnce p b s"
    let ?n = "stop_if (tu_stopInSleep b) (schedule_next ?s)"
    have n: "\<not> stopRequested ?n" using stopping_turn_stops [OF Cons(3,4)] Cons(2) by auto
    then have s: "\<not> stopRequested ?s"
      by (auto simp: stop_if_def schedule_next_def requestStop_def stopRequested_def split: option.splits if_splits)
    have c: "wl_sweepsStarted ?s = Suc (wl_sweepsStarted s)" "\<not> wl_sweepInFlight ?s" using runOnce_counts [OF Cons(3,4)] by blast+
    have "supervise p ((b # bs) @ i # rest) s = supervise p (bs @ i # rest) ?n" using Cons(4) s by (simp add: Let_def)
    then show ?case using Cons.IH [of ?n] Cons(2) n c idle_after [OF c(2)] by (simp add: started_after)
  qed
  let ?s = "(new_loop t)\<lparr>wl_startedAt := t, wl_status := RUNNING\<rparr>"
  have fresh: "\<not> wl_sweepInFlight ?s" "\<not> stopRequested ?s" "wl_sweepsStarted ?s = 0" by (simp_all add: stopRequested_def new_loop_def)
  show ?thesis
  proof (cases "yp_runInitialSweepOnStart p \<or> initial = None")
    case True
    then have "start p t initial (before @ i # rest) (new_loop t) = supervise p (before @ i # rest) ?s"
      using assms(3) by (auto simp: start_def stop_if_def Let_def)
    then show ?thesis using True main [OF fresh(1,2)] fresh(3) by (auto simp: Let_def)
  next
    case False
    then obtain x where x: "initial = Some x" by blast
    have stop: "stopRequested (requestStop x ?s)" "wl_sweepsStarted (requestStop x ?s) = 0"
      using fresh(3) by (simp_all add: requestStop_def stopRequested_def)
    have "start p t initial (before @ i # rest) (new_loop t) = shutdownGracefully (requestStop x ?s)"
      using assms(3) False supervise_stopped [OF stop(1)] by (simp add: start_def stop_if_def x Let_def)
    then show ?thesis using False shut_down_is_final [OF stop(1)] stop(2) by (simp add: Let_def x)
  qed
qed

definition quiet_turn :: turn where
  "quiet_turn = \<lparr>tu_startedAt = t0, tu_endedAt = t0, tu_random = 0, tu_result = Inl RangeErr, tu_stopInSweep = None, tu_stopInSleep = None\<rparr>"

theorem supervision_ends_witness:
  "wl_sweepsStarted (start TEST_RECOVERY_WORKER_POLICY t0 None
     [quiet_turn, quiet_turn\<lparr>tu_stopInSweep := Some SIGTERM\<rparr>, quiet_turn] (new_loop t0)) = 2 \<and>
   wl_sweepsStarted (start (TEST_RECOVERY_WORKER_POLICY\<lparr>yp_runInitialSweepOnStart := False\<rparr>) t0 (Some SIGTERM)
     [quiet_turn, quiet_turn\<lparr>tu_stopInSweep := Some SIGTERM\<rparr>, quiet_turn] (new_loop t0)) = 0"
proof -
  have turns: "list_all (\<lambda>i. \<not> stopping_turn i) [quiet_turn]" "stopping_turn (quiet_turn\<lparr>tu_stopInSweep := Some SIGTERM\<rparr>)" by code_simp+
  have on: "yp_recoveryWorkerEnabled TEST_RECOVERY_WORKER_POLICY"
    "yp_recoveryWorkerEnabled (TEST_RECOVERY_WORKER_POLICY\<lparr>yp_runInitialSweepOnStart := False\<rparr>)" by code_simp+
  from supervision_ends [OF turns on(1), of t0 None "[quiet_turn]"] supervision_ends [OF turns on(2), of t0 "Some SIGTERM" "[quiet_turn]"]
  show ?thesis by (simp add: Let_def)
qed

section \<open>The sweep\<close>

lemma attempt_run: "attempt m w = (Inr (fst (m w)), snd (m w))"
  by (cases "m w"; cases "fst (m w)") (auto simp: attempt_def try_catch_def bnd_def ret_def)

text \<open>
  A sweep is recovery and then the fee run, whatever became of recovery; its result is recovery's, and a failure of the fee run
  is not seen by the loop.
\<close>

theorem sweep_runs_both:
  "runSweep r o' w =
     (fst (recoverInFlight r o' w), snd (runDueSoftwareFees (rd_sale r) (snd (recoverInFlight r o' w))))"
  by (cases "recoverInFlight r o' w"; cases "fst (recoverInFlight r o' w)")
     (auto simp: runSweep_def bnd_def attempt_run ret_def throw_def)

text \<open>
  The worker's identifiers start again in every process. A worker that comes back under the name it had before draws the identifier
  of an audit row that exists, and its sweep fails before it looks at any sale.
\<close>

lemma writeAudit_taken:
  assumes "x \<in> set (audit_events (w_db w))" and "uw_id x = sd_newId (rd_sale r) ''audit'' (w_ids w)"
  shows "fst (writeAudit r a m corr tx before after detail w) = Inl (SqliteErr PRIMARYKEY)"
proof -
  have "\<exists>x\<in>set (audit_events (w_db w)). uw_id x = sd_newId (rd_sale r) ''audit'' (w_ids w)" using assms by blast
  then show ?thesis
    by (auto simp: writeAudit_def saveAuditEvent_def serializeMetadata_def bnd_def seq_def newId_def now_def get_db_def
        lift_result_def ret_def require_def throw_def)
qed

lemma restart_repeats_ids:
  assumes "sd_newId (rd_sale r) = defaultIdFactory (rd_workerId r)" and "w_ids w = 0"
    and "x \<in> set (audit_events (w_db w))" and "uw_id x = defaultIdFactory (rd_workerId r) ''audit'' 1"
  shows "fst (recoverInFlight r o' w) = Inl (SqliteErr PRIMARYKEY)"
proof -
  let ?w = "w\<lparr>w_ids := Suc 0, w_ticks := Suc (w_ticks w)\<rparr>"
  let ?a = "writeAudit r RECOVERY_SCAN_STARTED (or_else (so_merchantId o') PLATFORM_SCOPE) (sd_newId (rd_sale r) ''scan'' 0) None None None
      (Some (''worker='' @ rd_workerId r)) ?w"
  have "fst ?a = Inl (SqliteErr PRIMARYKEY)" by (rule writeAudit_taken [of x]) (use assms in simp_all)
  then show ?thesis
    using assms(2) by (cases "?a") (simp add: recoverInFlight_def bnd_def seq_def newId_def now_def)
qed

lemma scan_audit_id:
  assumes "writeAudit r a m corr tx before after detail w = (Inr (), w')"
  shows "\<exists>x\<in>set (audit_events (w_db w')). uw_id x = sd_newId (rd_sale r) ''audit'' (w_ids w)"
  using assms
  by (auto simp: writeAudit_def saveAuditEvent_def bnd_Inr seq_Inr newId_def now_def audit_row_of_def Let_def)

end
