(* ===== verification/Extension_Repositories.thy ===== *)
theory Extension_Repositories
  imports Job_Repositories
begin

text \<open>
  The repositories of what a merchant asks of Telga beside a sale: reversal requests, complaint reviews and transfers
  between shops (\<open>packages/persistence/src/repositories/extensions.ts\<close>), and of how money comes in: deposit slips
  (\<open>topupOrders.ts\<close>) and the payments recorded for them (\<open>sqlite/driver.ts\<close>). The checks, unique indexes and
  foreign keys are those of migrations 016, 019, 020 and 022.
\<close>

text \<open>\<open>ORDER BY column DESC\<close>, rows of equal value in their order in the table.\<close>

definition newest_first :: "('r \<Rightarrow> string) \<Rightarrow> 'r list \<Rightarrow> 'r list" where
  "newest_first f rows = rev (sort_key f (rev rows))"

lemma set_newest_first [simp]: "set (newest_first f rows) = set rows"
  by (simp add: newest_first_def)

text \<open>An \<open>UPDATE\<close> that reports how many rows it changed.\<close>

definition update_count :: "(db \<Rightarrow> 'r list) \<Rightarrow> (('r list \<Rightarrow> 'r list) \<Rightarrow> db \<Rightarrow> db) \<Rightarrow> ('r \<Rightarrow> bool) \<Rightarrow> ('r \<Rightarrow> 'r) \<Rightarrow> nat prog" where
  "update_count table put P g =
     bnd (get_db (\<lambda>d. count_where P (table d))) (\<lambda>n.
     seq (put_db (put (update_where P g))) (ret n))"

section \<open>Reversal requests\<close>

record reversal_input =
  nr_id :: string
  nr_transactionId :: string
  nr_merchantId :: string
  nr_requestedBy :: string
  nr_deviceId :: string
  nr_reason :: string
  nr_amountMinor :: int
  nr_redemption :: string
  nr_status :: reversal_status
  nr_correlationId :: string
  nr_at :: timestamp

definition OPEN_REVERSALS :: "reversal_status list" where
  "OPEN_REVERSALS = [RV_REQUESTED, RV_NEEDS_APPROVAL, RV_APPROVED]"

definition open_reversal_for :: "string \<Rightarrow> reversal_row \<Rightarrow> bool" where
  "open_reversal_for tx r \<longleftrightarrow> zr_transactionId r = tx \<and> zr_status r \<in> set OPEN_REVERSALS"

definition findOpenReversalRequest :: "db \<Rightarrow> string \<Rightarrow> reversal_row option" where
  "findOpenReversalRequest d tx = find (open_reversal_for tx) (reversal_requests d)"

definition saveReversalRequest :: "reversal_input \<Rightarrow> unit prog" where
  "saveReversalRequest i =
     bnd (get_db (\<lambda>d. d)) (\<lambda>d.
     seq (require (0 < nr_amountMinor i \<and> nr_redemption i \<in> {''REDEEMED'', ''UNREDEEMED'', ''UNKNOWN''}) (SqliteErr CHECK))
     (seq (require (\<not> (\<exists>r\<in>set (reversal_requests d). zr_id r = nr_id i)) (SqliteErr PRIMARYKEY))
     (seq (require (nr_status i \<in> set OPEN_REVERSALS \<longrightarrow> findOpenReversalRequest d (nr_transactionId i) = None) (SqliteErr UNIQUE))
     (seq (require (transaction_exists d (nr_transactionId i) \<and> merchant_exists d (nr_merchantId i) \<and>
             findDevice d (nr_deviceId i) None \<noteq> None) (SqliteErr FOREIGNKEY))
     (put_db (\<lambda>d. d\<lparr>reversal_requests := reversal_requests d @
        [\<lparr>zr_id = nr_id i, zr_transactionId = nr_transactionId i, zr_merchantId = nr_merchantId i,
          zr_requestedBy = nr_requestedBy i, zr_deviceId = nr_deviceId i, zr_reason = js_trim (nr_reason i),
          zr_amountMinor = nr_amountMinor i, zr_redemption = nr_redemption i, zr_status = nr_status i,
          zr_decidedBy = None, zr_decidedAt = None, zr_decisionReason = None, zr_reversalEntryId = None,
          zr_correlationId = nr_correlationId i, zr_createdAt = nr_at i, zr_updatedAt = nr_at i\<rparr>]\<rparr>))))))"

definition undecided :: "reversal_row \<Rightarrow> bool" where
  "undecided r \<longleftrightarrow> zr_status r = RV_REQUESTED \<or> zr_status r = RV_NEEDS_APPROVAL"

definition listReversalQueue :: "db \<Rightarrow> reversal_row list" where
  "listReversalQueue d = sort_key zr_createdAt (filter undecided (reversal_requests d))"

definition decideReversalRequest :: "string \<Rightarrow> reversal_status \<Rightarrow> string \<Rightarrow> string \<Rightarrow> timestamp \<Rightarrow> nat prog" where
  "decideReversalRequest i status decidedBy reason t =
     update_count reversal_requests (\<lambda>f d. d\<lparr>reversal_requests := f (reversal_requests d)\<rparr>)
       (\<lambda>r. zr_id r = i \<and> undecided r)
       (\<lambda>r. r\<lparr>zr_status := status, zr_decidedBy := Some decidedBy, zr_decidedAt := Some t, zr_decisionReason := Some reason,
              zr_updatedAt := t\<rparr>)"

section \<open>Complaint reviews\<close>

definition saveComplaintReview :: "string \<Rightarrow> string \<Rightarrow> string \<Rightarrow> string \<Rightarrow> timestamp \<Rightarrow> unit prog" where
  "saveComplaintReview i supportCase merchant description t =
     bnd (get_db (\<lambda>d. d)) (\<lambda>d.
     seq (require (\<not> (\<exists>c\<in>set (complaint_reviews d). zc_id c = i)) (SqliteErr PRIMARYKEY))
     (seq (require ((\<exists>c\<in>set (support_cases d). sw_id c = supportCase) \<and> merchant_exists d merchant) (SqliteErr FOREIGNKEY))
     (put_db (\<lambda>d. d\<lparr>complaint_reviews := complaint_reviews d @
        [\<lparr>zc_id = i, zc_supportCaseId = supportCase, zc_merchantId = merchant, zc_description = js_trim description,
          zc_telgaState = None, zc_providerState = None, zc_redemption = None, zc_verdict = None, zc_reviewedBy = None,
          zc_reviewedAt = None, zc_verdictReason = None, zc_createdAt = t, zc_updatedAt = t\<rparr>]\<rparr>))))"

definition listOpenComplaints :: "db \<Rightarrow> complaint_row list" where
  "listOpenComplaints d = sort_key zc_createdAt (filter (\<lambda>c. zc_verdict c = None) (complaint_reviews d))"

definition findComplaintReview :: "db \<Rightarrow> string \<Rightarrow> complaint_row option" where
  "findComplaintReview d i = find (\<lambda>c. zc_id c = i) (complaint_reviews d)"

record verdict_input =
  nv_id :: string
  nv_telgaState :: "string option"
  nv_providerState :: "string option"
  nv_redemption :: "string option"
  nv_verdict :: string
  nv_reviewedBy :: string
  nv_reason :: string
  nv_at :: timestamp

definition verdict_checks :: "verdict_input \<Rightarrow> bool" where
  "verdict_checks i \<longleftrightarrow>
     nv_verdict i \<in> {''LEGITIMATE'', ''SCAM'', ''UNCERTAIN''} \<and>
     nv_redemption i \<in> {None, Some ''REDEEMED'', Some ''UNREDEEMED'', Some ''UNKNOWN''}"

definition recordComplaintVerdict :: "verdict_input \<Rightarrow> nat prog" where
  "recordComplaintVerdict i =
     bnd (get_db (\<lambda>d. count_where (\<lambda>c. zc_id c = nv_id i \<and> zc_verdict c = None) (complaint_reviews d))) (\<lambda>n.
     seq (require (n = 0 \<or> verdict_checks i) (SqliteErr CHECK))
     (update_count complaint_reviews (\<lambda>f d. d\<lparr>complaint_reviews := f (complaint_reviews d)\<rparr>)
       (\<lambda>c. zc_id c = nv_id i \<and> zc_verdict c = None)
       (\<lambda>c. c\<lparr>zc_telgaState := nv_telgaState i, zc_providerState := nv_providerState i, zc_redemption := nv_redemption i,
              zc_verdict := Some (nv_verdict i), zc_reviewedBy := Some (nv_reviewedBy i), zc_reviewedAt := Some (nv_at i),
              zc_verdictReason := Some (nv_reason i), zc_updatedAt := nv_at i\<rparr>)))"

section \<open>Transfers between shops\<close>

record transfer_input =
  nx_id :: string
  nx_senderMerchantId :: string
  nx_senderDeviceId :: string
  nx_senderOperatorId :: string
  nx_recipientDeviceId :: string
  nx_recipientMerchantId :: string
  nx_amountMinor :: int
  nx_feeMinor :: int
  nx_status :: transfer_status
  nx_refusalReason :: "string option"
  nx_postingId :: "string option"
  nx_correlationId :: string
  nx_at :: timestamp

definition transfer_row_of :: "transfer_input \<Rightarrow> transfer_row" where
  "transfer_row_of i =
     \<lparr>zx_id = nx_id i, zx_senderMerchantId = nx_senderMerchantId i, zx_senderDeviceId = nx_senderDeviceId i,
      zx_senderOperatorId = nx_senderOperatorId i, zx_recipientDeviceId = nx_recipientDeviceId i,
      zx_recipientMerchantId = nx_recipientMerchantId i, zx_amountMinor = nx_amountMinor i, zx_feeMinor = nx_feeMinor i,
      zx_status = nx_status i, zx_refusalReason = nx_refusalReason i, zx_approvedBy = None, zx_approvedAt = None,
      zx_postingId = nx_postingId i, zx_correlationId = nx_correlationId i, zx_createdAt = nx_at i, zx_updatedAt = nx_at i\<rparr>"

definition saveShopTransfer :: "transfer_input \<Rightarrow> unit prog" where
  "saveShopTransfer i =
     bnd (get_db (\<lambda>d. d)) (\<lambda>d.
     seq (require (0 < nx_amountMinor i \<and> 0 \<le> nx_feeMinor i \<and> nx_senderMerchantId i \<noteq> nx_recipientMerchantId i) (SqliteErr CHECK))
     (seq (require (\<not> (\<exists>r\<in>set (shop_transfers d). zx_id r = nx_id i)) (SqliteErr PRIMARYKEY))
     (seq (require (merchant_exists d (nx_senderMerchantId i) \<and> merchant_exists d (nx_recipientMerchantId i) \<and>
             findDevice d (nx_senderDeviceId i) None \<noteq> None \<and> findDevice d (nx_recipientDeviceId i) None \<noteq> None) (SqliteErr FOREIGNKEY))
     (put_db (\<lambda>d. d\<lparr>shop_transfers := shop_transfers d @ [transfer_row_of i]\<rparr>)))))"

text \<open>What was sent or is committed; the fee is not counted.\<close>

definition sentTodayMinor :: "db \<Rightarrow> string \<Rightarrow> string \<Rightarrow> int" where
  "sentTodayMinor d m since =
     sum_list (map zx_amountMinor (filter (\<lambda>r. zx_senderMerchantId r = m \<and> since \<le> zx_createdAt r \<and>
        zx_status r \<in> {XT_SETTLED, XT_REQUESTED, XT_NEEDS_APPROVAL}) (shop_transfers d)))"

definition listTransfersFor :: "db \<Rightarrow> string \<Rightarrow> nat \<Rightarrow> transfer_row list" where
  "listTransfersFor d m limit =
     take limit (newest_first zx_createdAt (filter (\<lambda>r. zx_senderMerchantId r = m \<or> zx_recipientMerchantId r = m) (shop_transfers d)))"

definition listTransferQueue :: "db \<Rightarrow> transfer_row list" where
  "listTransferQueue d = sort_key zx_createdAt (filter (\<lambda>r. zx_status r = XT_NEEDS_APPROVAL) (shop_transfers d))"

definition findShopTransfer :: "db \<Rightarrow> string \<Rightarrow> transfer_row option" where
  "findShopTransfer d i = find (\<lambda>r. zx_id r = i) (shop_transfers d)"

definition update_transfers :: "(transfer_row list \<Rightarrow> transfer_row list) \<Rightarrow> db \<Rightarrow> db" where
  "update_transfers f d = d\<lparr>shop_transfers := f (shop_transfers d)\<rparr>"

definition awaits_approval :: "string \<Rightarrow> transfer_row \<Rightarrow> bool" where
  "awaits_approval i r \<longleftrightarrow> zx_id r = i \<and> zx_status r = XT_NEEDS_APPROVAL"

definition approveShopTransfer :: "string \<Rightarrow> string \<Rightarrow> string \<Rightarrow> timestamp \<Rightarrow> nat prog" where
  "approveShopTransfer i posting approvedBy t =
     update_count shop_transfers update_transfers (awaits_approval i)
       (\<lambda>r. r\<lparr>zx_status := XT_SETTLED, zx_postingId := Some posting, zx_approvedBy := Some approvedBy, zx_approvedAt := Some t,
              zx_updatedAt := t\<rparr>)"

definition refuseShopTransfer :: "string \<Rightarrow> string \<Rightarrow> string \<Rightarrow> timestamp \<Rightarrow> nat prog" where
  "refuseShopTransfer i reason approvedBy t =
     update_count shop_transfers update_transfers (awaits_approval i)
       (\<lambda>r. r\<lparr>zx_status := XT_REFUSED, zx_refusalReason := Some reason, zx_approvedBy := Some approvedBy, zx_approvedAt := Some t,
              zx_updatedAt := t\<rparr>)"

section \<open>Deposit slips\<close>

record topup_input =
  nt_id :: string
  nt_method :: "topup_method option"
  nt_merchantId :: string
  nt_deviceId :: string
  nt_operatorId :: string
  nt_amountMinor :: int
  nt_correlationId :: string
  nt_mode :: operating_mode
  nt_at :: timestamp
  nt_expiresAt :: timestamp

definition topup_row_of :: "topup_input \<Rightarrow> string \<Rightarrow> topup_row" where
  "topup_row_of i reference =
     \<lparr>zt_id = nt_id i, zt_method = (case nt_method i of None \<Rightarrow> BANK_COUNTER | Some x \<Rightarrow> x), zt_providerReference = None,
      zt_providerStatus = None, zt_merchantId = nt_merchantId i, zt_deviceId = nt_deviceId i, zt_operatorId = nt_operatorId i,
      zt_reference = reference, zt_amountMinor = nt_amountMinor i, zt_status = TU_OPEN, zt_fundingSubmissionId = None,
      zt_correlationId = nt_correlationId i, zt_mode = nt_mode i, zt_createdAt = nt_at i, zt_expiresAt = nt_expiresAt i,
      zt_updatedAt = nt_at i\<rparr>"

definition insert_topup :: "topup_input \<Rightarrow> string \<Rightarrow> unit prog" where
  "insert_topup i reference =
     bnd (get_db (\<lambda>d. d)) (\<lambda>d.
     seq (require (0 < nt_amountMinor i) (SqliteErr CHECK))
     (seq (require (\<not> (\<exists>r\<in>set (topup_orders d). zt_id r = nt_id i)) (SqliteErr PRIMARYKEY))
     (seq (require (\<not> (\<exists>r\<in>set (topup_orders d). zt_reference r = reference)) (SqliteErr UNIQUE))
     (seq (require (merchant_exists d (nt_merchantId i)) (SqliteErr FOREIGNKEY))
     (put_db (\<lambda>d. d\<lparr>topup_orders := topup_orders d @ [topup_row_of i reference]\<rparr>))))))"

text \<open>SQLite's message is the same for a primary key and for a unique index.\<close>

definition isUniqueViolation :: "err \<Rightarrow> bool" where
  "isUniqueViolation e \<longleftrightarrow> e = SqliteErr UNIQUE \<or> e = SqliteErr PRIMARYKEY"

definition REFERENCE_ATTEMPTS :: nat where
  "REFERENCE_ATTEMPTS = 5"

definition ReferenceExhausted :: err where
  "ReferenceExhausted = ErrorWith ''Error'' ''TOPUP_REFERENCE_EXHAUSTED''"

fun draw_references :: "nat \<Rightarrow> topup_input \<Rightarrow> string prog \<Rightarrow> (string \<Rightarrow> string) \<Rightarrow> string prog" where
  "draw_references 0 i newReference norm = throw ReferenceExhausted"
| "draw_references (Suc n) i newReference norm =
     bnd newReference (\<lambda>raw.
       try_catch (seq (insert_topup i (norm raw)) (ret (norm raw)))
         (\<lambda>e. if isUniqueViolation e then draw_references n i newReference norm else throw e))"

definition saveTopupOrder :: "topup_input \<Rightarrow> string prog \<Rightarrow> (string \<Rightarrow> string) \<Rightarrow> string prog" where
  "saveTopupOrder i newReference norm = draw_references REFERENCE_ATTEMPTS i newReference norm"

definition findTopupOrderByReference :: "db \<Rightarrow> string \<Rightarrow> topup_row option" where
  "findTopupOrderByReference d reference = find (\<lambda>r. zt_reference r = reference) (topup_orders d)"

definition open_order :: "string \<Rightarrow> timestamp \<Rightarrow> topup_method option \<Rightarrow> topup_row \<Rightarrow> bool" where
  "open_order m t k r \<longleftrightarrow>
     zt_merchantId r = m \<and> zt_status r = TU_OPEN \<and> t < zt_expiresAt r \<and> (case k of None \<Rightarrow> True | Some x \<Rightarrow> zt_method r = x)"

definition findOpenTopupOrder :: "db \<Rightarrow> string \<Rightarrow> timestamp \<Rightarrow> topup_method option \<Rightarrow> topup_row option" where
  "findOpenTopupOrder d m t k =
     (case newest_first zt_createdAt (filter (open_order m t k) (topup_orders d)) of [] \<Rightarrow> None | r # _ \<Rightarrow> Some r)"

definition listTopupOrdersFor :: "db \<Rightarrow> string \<Rightarrow> nat \<Rightarrow> topup_row list" where
  "listTopupOrdersFor d m limit = take limit (newest_first zt_createdAt (filter (\<lambda>r. zt_merchantId r = m) (topup_orders d)))"

definition update_topups :: "(topup_row list \<Rightarrow> topup_row list) \<Rightarrow> db \<Rightarrow> db" where
  "update_topups f d = d\<lparr>topup_orders := f (topup_orders d)\<rparr>"

definition open_reference :: "string \<Rightarrow> topup_row \<Rightarrow> bool" where
  "open_reference reference r \<longleftrightarrow> zt_reference r = reference \<and> zt_status r = TU_OPEN"

definition funding_exists :: "db \<Rightarrow> string \<Rightarrow> bool" where
  "funding_exists d i \<longleftrightarrow> (\<exists>f\<in>set (funding_submissions d). zf_id f = i)"

definition markTopupOrderPaid :: "string \<Rightarrow> string \<Rightarrow> timestamp \<Rightarrow> nat prog" where
  "markTopupOrderPaid reference submission t =
     bnd (get_db (\<lambda>d. d)) (\<lambda>d.
     seq (require (count_where (open_reference reference) (topup_orders d) = 0 \<or> funding_exists d submission) (SqliteErr FOREIGNKEY))
     (update_count topup_orders update_topups (open_reference reference)
       (\<lambda>r. r\<lparr>zt_status := TU_PAID, zt_fundingSubmissionId := Some submission, zt_updatedAt := t\<rparr>)))"

definition claimTopupOrderForSettlement :: "string \<Rightarrow> timestamp \<Rightarrow> nat prog" where
  "claimTopupOrderForSettlement reference t =
     update_count topup_orders update_topups (open_reference reference) (\<lambda>r. r\<lparr>zt_status := TU_PAID, zt_updatedAt := t\<rparr>)"

definition unlinked :: "string \<Rightarrow> topup_row \<Rightarrow> bool" where
  "unlinked reference r \<longleftrightarrow> zt_reference r = reference \<and> zt_fundingSubmissionId r = None"

definition linkTopupOrderSubmission :: "string \<Rightarrow> string \<Rightarrow> timestamp \<Rightarrow> nat prog" where
  "linkTopupOrderSubmission reference submission t =
     bnd (get_db (\<lambda>d. d)) (\<lambda>d.
     seq (require (count_where (unlinked reference) (topup_orders d) = 0 \<or> funding_exists d submission) (SqliteErr FOREIGNKEY))
     (update_count topup_orders update_topups (unlinked reference)
       (\<lambda>r. r\<lparr>zt_fundingSubmissionId := Some submission, zt_updatedAt := t\<rparr>)))"

definition cancelTopupOrder :: "string \<Rightarrow> timestamp \<Rightarrow> nat prog" where
  "cancelTopupOrder i t =
     update_count topup_orders update_topups (\<lambda>r. zt_id r = i \<and> zt_status r = TU_OPEN)
       (\<lambda>r. r\<lparr>zt_status := TU_CANCELLED, zt_updatedAt := t\<rparr>)"

definition expireTopupOrders :: "timestamp \<Rightarrow> nat prog" where
  "expireTopupOrders t =
     update_count topup_orders update_topups (\<lambda>r. zt_status r = TU_OPEN \<and> zt_expiresAt r \<le> t)
       (\<lambda>r. r\<lparr>zt_status := TU_EXPIRED, zt_updatedAt := t\<rparr>)"

definition recordTopupProviderOutcome :: "string \<Rightarrow> string \<Rightarrow> string \<Rightarrow> timestamp \<Rightarrow> nat prog" where
  "recordTopupProviderOutcome reference providerReference providerStatus t =
     update_count topup_orders update_topups (\<lambda>r. zt_reference r = reference)
       (\<lambda>r. r\<lparr>zt_providerReference := Some providerReference, zt_providerStatus := Some providerStatus, zt_updatedAt := t\<rparr>)"

section \<open>Payments\<close>

record funding_input =
  nf_id :: string
  nf_merchantId :: string
  nf_quotedReference :: string
  nf_bankReference :: string
  nf_claimedAmountMinor :: int
  nf_bankAmountMinor :: int
  nf_status :: string
  nf_evidence :: string
  nf_at :: timestamp

definition funding_row_of :: "funding_input \<Rightarrow> funding_row" where
  "funding_row_of i =
     \<lparr>zf_id = nf_id i, zf_merchantId = Some (nf_merchantId i), zf_quotedReference = nf_quotedReference i,
      zf_bankReference = nf_bankReference i, zf_claimedAmountMinor = Some (nf_claimedAmountMinor i),
      zf_bankAmountMinor = Some (nf_bankAmountMinor i), zf_status = nf_status i, zf_outcomeReason = None, zf_postingId = None,
      zf_evidence = Some (nf_evidence i), zf_recordedBy = None, zf_createdAt = nf_at i, zf_updatedAt = nf_at i\<rparr>"

text \<open>\<open>recordedBy\<close> is null and \<open>currency\<close> is ETB in the only call; one bank reference is credited once.\<close>

definition FUNDING_STATUSES :: "string list" where
  "FUNDING_STATUSES =
     [''SUBMITTED'', ''AWAITING_VERIFICATION'', ''MATCHED'', ''CREDITED'', ''REJECTED'', ''DUPLICATE'', ''MANUAL_REVIEW'']"

definition credited_reference :: "string \<Rightarrow> funding_row \<Rightarrow> bool" where
  "credited_reference b f \<longleftrightarrow> zf_bankReference f = b \<and> zf_status f = ''CREDITED''"

definition insertFundingSubmission :: "funding_input \<Rightarrow> unit prog" where
  "insertFundingSubmission i =
     bnd (get_db (\<lambda>d. d)) (\<lambda>d.
     seq (require (0 < nf_claimedAmountMinor i \<and> 0 < nf_bankAmountMinor i \<and> nf_status i \<in> set FUNDING_STATUSES) (SqliteErr CHECK))
     (seq (require (\<not> funding_exists d (nf_id i)) (SqliteErr PRIMARYKEY))
     (seq (require (nf_status i = ''CREDITED'' \<longrightarrow> \<not> list_ex (credited_reference (nf_bankReference i)) (funding_submissions d)) (SqliteErr UNIQUE))
     (seq (require (merchant_exists d (nf_merchantId i)) (SqliteErr FOREIGNKEY))
     (put_db (\<lambda>d. d\<lparr>funding_submissions := funding_submissions d @ [funding_row_of i]\<rparr>))))))"

end
