(* ===== verification/Deposits.thy ===== *)
theory Deposits
  imports Application Extension_Repositories Decisions Deposit_Reference Feature_Flags
begin

text \<open>
  Money coming in and profit moving across, as the services under \<open>services/api/src/application\<close> do it: training deposits
  (\<open>deposits.ts\<close>), bank slips (\<open>bankDeposit.ts\<close>), card payments through Chapa (\<open>chapaDeposit.ts\<close> with the decision of
  \<open>services/provider-adapters/chapa/src/decide.ts\<close>) and the transfer of profit to the selling balance (\<open>profitTransfer.ts\<close>).
  The two calls to Chapa's server are parameters: programs whose world may be moved by other requests while they are awaited. A fresh
  deposit reference is the program \<open>newReference\<close>, whose random bytes are not the model's.
\<close>

section \<open>What the services share\<close>

record auth_context =
  ax_userId :: string
  ax_role :: actor_role
  ax_deviceId :: string
  ax_merchantId :: string

text \<open>\<open>JSON.stringify\<close> of an ASCII string.\<close>

definition hex_digit :: "nat \<Rightarrow> char" where
  "hex_digit n = ''0123456789abcdef'' ! (n mod 16)"

definition json_char :: "char \<Rightarrow> string" where
  "json_char c =
     (let n = of_char c :: nat
      in if n = 0x22 \<or> n = 0x5C then [CHR 0x5C, c]
         else if n = 8 then [CHR 0x5C, CHR ''b''] else if n = 9 then [CHR 0x5C, CHR ''t'']
         else if n = 10 then [CHR 0x5C, CHR ''n''] else if n = 12 then [CHR 0x5C, CHR ''f'']
         else if n = 13 then [CHR 0x5C, CHR ''r'']
         else if n < 32 then [CHR 0x5C, CHR ''u'', CHR ''0'', CHR ''0'', hex_digit (n div 16), hex_digit n]
         else [c])"

definition json_string :: "string \<Rightarrow> string" where
  "json_string s = [CHR 0x22] @ concat (map json_char s) @ [CHR 0x22]"

text \<open>An audit event about the shop, by the person who is signed in.\<close>

definition merchant_event ::
  "string \<Rightarrow> timestamp \<Rightarrow> audit_action \<Rightarrow> auth_context \<Rightarrow> string option \<Rightarrow> string \<Rightarrow> metadata \<Rightarrow> audit_input" where
  "merchant_event i at action c detail corr metadata =
     \<lparr>ui_event = \<lparr>ae_id = i, ae_at = at, ae_action = action,
        ae_actor = \<lparr>ac_userId = ax_userId c, ac_role = ax_role c, ac_deviceId = Some (ax_deviceId c)\<rparr>,
        ae_merchantId = ax_merchantId c, ae_transactionId = None, ae_before = None, ae_after = None, ae_detail = detail\<rparr>,
      ui_correlationId = corr, ui_entityType = ''merchant'', ui_entityId = Some (ax_merchantId c), ui_metadata = Some metadata\<rparr>"

definition audit_merchant ::
  "sale_deps \<Rightarrow> auth_context \<Rightarrow> timestamp \<Rightarrow> audit_action \<Rightarrow> string option \<Rightarrow> string \<Rightarrow> metadata \<Rightarrow> unit prog" where
  "audit_merchant d c at action detail corr metadata =
     bnd (newId d ''audit'') (\<lambda>i. saveAuditEvent (merchant_event i at action c detail corr metadata))"

text \<open>\<open>driver.balanceFor(m).available.minor\<close>.\<close>

definition availableMinor :: "string \<Rightarrow> int prog" where
  "availableMinor m = bnd (get_db (\<lambda>d. balanceFor d m)) (\<lambda>b. bnd (lift_domain b) (\<lambda>view. ret (minor (bv_available view))))"

section \<open>Training deposits\<close>

definition DEPOSIT_MIN_MINOR :: int where
  "DEPOSIT_MIN_MINOR = 1000"

definition DEPOSIT_MAX_MINOR :: int where
  "DEPOSIT_MAX_MINOR = 5000000"

datatype deposit_rejection =
    AMOUNT_NOT_A_NUMBER | AMOUNT_NOT_A_WHOLE_BIRR | DEPOSIT_BELOW_MINIMUM | DEPOSIT_ABOVE_MAXIMUM

definition depositRejection :: "jsnum \<Rightarrow> deposit_rejection option" where
  "depositRejection amount =
     (case amount of
        JNotInt \<Rightarrow> Some AMOUNT_NOT_A_NUMBER
      | JInt a \<Rightarrow>
          if \<not> safe_int a then Some AMOUNT_NOT_A_NUMBER
          else if a mod 100 \<noteq> 0 then Some AMOUNT_NOT_A_WHOLE_BIRR
          else if a < DEPOSIT_MIN_MINOR then Some DEPOSIT_BELOW_MINIMUM
          else if DEPOSIT_MAX_MINOR < a then Some DEPOSIT_ABOVE_MAXIMUM
          else None)"

definition isCardMethod :: "string \<Rightarrow> bool" where
  "isCardMethod s \<longleftrightarrow> s = ''TAP'' \<or> s = ''INSERT'' \<or> s = ''SWIPE''"

record deposit_request =
  dq_amountMinor :: jsnum
  dq_method :: string
  dq_clientRequestId :: string

record deposit_receipt =
  dr_depositId :: string
  dr_merchantId :: string
  dr_amountMinor :: int
  dr_method :: string
  dr_issuedAt :: timestamp
  dr_availableAfterMinor :: int

datatype deposit_result =
    Deposit_credited deposit_receipt
  | Already_credited deposit_receipt
  | Deposit_amount_invalid deposit_rejection
  | Method_invalid
  | Deposit_simulated_only

definition deposit_posting :: "string \<Rightarrow> string" where
  "deposit_posting client = ''posting_deposit_'' @ client"

definition receipt_of :: "auth_context \<Rightarrow> deposit_request \<Rightarrow> int \<Rightarrow> timestamp \<Rightarrow> int \<Rightarrow> deposit_receipt" where
  "receipt_of c q amount at available =
     \<lparr>dr_depositId = deposit_posting (dq_clientRequestId q), dr_merchantId = ax_merchantId c, dr_amountMinor = amount,
      dr_method = dq_method q, dr_issuedAt = at, dr_availableAfterMinor = available\<rparr>"

definition credit_deposit :: "sale_deps \<Rightarrow> auth_context \<Rightarrow> deposit_request \<Rightarrow> money \<Rightarrow> timestamp \<Rightarrow> deposit_result prog" where
  "credit_deposit d c q amount at =
     seq (fundMerchant
           \<lparr>vi_merchantId = ax_merchantId c, vi_amount = amount, vi_at = at, vi_correlationId = dq_clientRequestId q,
            vi_postingId = deposit_posting (dq_clientRequestId q)\<rparr>)
     (seq (audit_merchant d c at TRAINING_DEPOSIT_CREDITED (Some (''TRAINING_DEPOSIT_'' @ dq_method q)) (dq_clientRequestId q)
            [(''depositId'', json_string (deposit_posting (dq_clientRequestId q))), (''amountMinor'', dec_int (minor amount)),
             (''method'', json_string (dq_method q))])
     (bnd (availableMinor (ax_merchantId c)) (\<lambda>available. ret (Deposit_credited (receipt_of c q (minor amount) at available)))))"

definition depositTrainingFunds :: "sale_deps \<Rightarrow> auth_context \<Rightarrow> deposit_request \<Rightarrow> deposit_result prog" where
  "depositTrainingFunds d c q =
     (if sd_mode d \<noteq> TRAINING then ret Deposit_simulated_only
      else case depositRejection (dq_amountMinor q) of
        Some r \<Rightarrow> ret (Deposit_amount_invalid r)
      | None \<Rightarrow>
          if \<not> isCardMethod (dq_method q) then ret Method_invalid
          else
            bnd (now d) (\<lambda>at.
            bnd (lift_domain (mk_money (dq_amountMinor q) ETB)) (\<lambda>amount.
            bnd (get_db (\<lambda>s. postingExists s (deposit_posting (dq_clientRequestId q)))) (\<lambda>posted.
            if posted then
              bnd (availableMinor (ax_merchantId c)) (\<lambda>available. ret (Already_credited (receipt_of c q (minor amount) at available)))
            else credit_deposit d c q amount at))))"

section \<open>Bank slips\<close>

record order_request =
  oq_amountMinor :: jsnum
  oq_correlationId :: string

datatype bank_result =
    Slip_ordered string string int timestamp timestamp
  | Slip_refused topup_refusal
  | Slip_simulated_only

fun merchant_status_name :: "merchant_status \<Rightarrow> string" where
  "merchant_status_name MER_ONBOARDING = ''ONBOARDING''"
| "merchant_status_name MER_ACTIVE = ''ACTIVE''"
| "merchant_status_name MER_SUSPENDED = ''SUSPENDED''"
| "merchant_status_name MER_CLOSED = ''CLOSED''"

definition topup_request_of :: "db \<Rightarrow> auth_context \<Rightarrow> money \<Rightarrow> timestamp \<Rightarrow> topup_method \<Rightarrow> topup_request" where
  "topup_request_of s c amount at k =
     \<lparr>tq_shopStatus = (case findMerchant s (ax_merchantId c) of None \<Rightarrow> ''UNKNOWN'' | Some m \<Rightarrow> merchant_status_name (me_status m)),
      tq_amount = amount, tq_hasOpenOrder = findOpenTopupOrder s (ax_merchantId c) at (Some k) \<noteq> None, tq_depositsEnabled = True\<rparr>"

text \<open>\<open>new Date(at)\<close> of a string that is no date is an invalid date, and its expiry throws a RangeError.\<close>

definition order_expiry :: "timestamp \<Rightarrow> topup_policy \<Rightarrow> timestamp option" where
  "order_expiry at p = (case date_parse at of None \<Rightarrow> None | Some t \<Rightarrow> topupOrderExpiry t p)"

definition topup_input_of :: "auth_context \<Rightarrow> order_request \<Rightarrow> money \<Rightarrow> timestamp \<Rightarrow> timestamp \<Rightarrow> topup_method option \<Rightarrow> topup_input" where
  "topup_input_of c q amount at expires k =
     \<lparr>nt_id = ''top_'' @ oq_correlationId q, nt_method = k, nt_merchantId = ax_merchantId c, nt_deviceId = ax_deviceId c,
      nt_operatorId = ax_userId c, nt_amountMinor = minor amount, nt_correlationId = oq_correlationId q, nt_mode = TRAINING,
      nt_at = at, nt_expiresAt = expires\<rparr>"

definition orderBankDeposit :: "sale_deps \<Rightarrow> string prog \<Rightarrow> auth_context \<Rightarrow> order_request \<Rightarrow> topup_policy \<Rightarrow> bank_result prog" where
  "orderBankDeposit d newReference c q p =
     (if sd_mode d \<noteq> TRAINING then ret Slip_simulated_only
      else
        bnd (now d) (\<lambda>at.
        bnd (get_db (\<lambda>s. s)) (\<lambda>s.
        bnd (lift_domain (mk_money (oq_amountMinor q) ETB)) (\<lambda>amount.
        case decideTopupOrder (topup_request_of s c amount at BANK_COUNTER) p of
          Some r \<Rightarrow> ret (Slip_refused r)
        | None \<Rightarrow>
            bnd (lift_date (order_expiry at p)) (\<lambda>expires.
            bnd (saveTopupOrder (topup_input_of c q amount at expires None) newReference normalizeDepositReference) (\<lambda>reference.
            seq (audit_merchant d c at TOPUP_ORDER_CREATED None (oq_correlationId q)
                  [(''orderId'', json_string (''top_'' @ oq_correlationId q)), (''reference'', json_string reference),
                   (''amountMinor'', dec_int (minor amount))])
            (ret (Slip_ordered (''top_'' @ oq_correlationId q) reference (minor amount) at expires))))))))"

definition openBankDeposit :: "sale_deps \<Rightarrow> auth_context \<Rightarrow> topup_row option prog" where
  "openBankDeposit d c = bnd (now d) (\<lambda>at. get_db (\<lambda>s. findOpenTopupOrder s (ax_merchantId c) at None))"

definition cancelBankDeposit :: "sale_deps \<Rightarrow> auth_context \<Rightarrow> bool prog" where
  "cancelBankDeposit d c =
     bnd (now d) (\<lambda>at.
     bnd (get_db (\<lambda>s. findOpenTopupOrder s (ax_merchantId c) at None)) (\<lambda>row.
     case row of
       None \<Rightarrow> ret False
     | Some r \<Rightarrow>
         bnd (cancelTopupOrder (zt_id r) at) (\<lambda>n.
         if n \<noteq> 1 then ret False
         else
           seq (audit_merchant d c at TOPUP_ORDER_CANCELLED None (zt_correlationId r)
                 [(''orderId'', json_string (zt_id r)), (''reference'', json_string (zt_reference r))])
           (ret True))))"

section \<open>Chapa\<close>

datatype chapa_status = CH_SUCCESS | CH_FAILED | CH_PENDING | CH_UNKNOWN

fun chapa_status_name :: "chapa_status \<Rightarrow> string" where
  "chapa_status_name CH_SUCCESS = ''SUCCESS''"
| "chapa_status_name CH_FAILED = ''FAILED''"
| "chapa_status_name CH_PENDING = ''PENDING''"
| "chapa_status_name CH_UNKNOWN = ''UNKNOWN''"

record chapa_answer =
  ca_status :: chapa_status
  ca_amountMinor :: int
  ca_currency :: string
  ca_txRef :: string
  ca_providerReference :: string

datatype verify_result = Answered chapa_answer | Not_found | Unreachable string

datatype credit_refusal =
    NOT_SUCCESSFUL | WRONG_CURRENCY | REFERENCE_MISMATCH | UNDERPAID | OVERPAID | ALREADY_CREDITED | ORDER_NOT_OPEN

text \<open>\<open>decideChapaCredit\<close>: identity, state, currency, then amount; the order's figure is the one credited.\<close>

definition decideChapaCredit :: "chapa_answer \<Rightarrow> topup_row \<Rightarrow> credit_refusal + int" where
  "decideChapaCredit payment order =
     (if ca_status payment \<noteq> CH_SUCCESS then Inl NOT_SUCCESSFUL
      else if normalizeDepositReference (ca_txRef payment) \<noteq> normalizeDepositReference (zt_reference order) then Inl REFERENCE_MISMATCH
      else if zt_status order = TU_PAID then Inl ALREADY_CREDITED
      else if zt_status order \<noteq> TU_OPEN then Inl ORDER_NOT_OPEN
      else if ca_currency payment \<noteq> ''ETB'' then Inl WRONG_CURRENCY
      else if ca_amountMinor payment < zt_amountMinor order then Inl UNDERPAID
      else if zt_amountMinor order < ca_amountMinor payment then Inl OVERPAID
      else Inr (zt_amountMinor order))"

datatype start_answer = Chapa_started string | Chapa_refused string | Chapa_unreachable string

datatype start_result =
    Payment_started string string | Payment_refused topup_refusal | Payment_disabled | Payment_unavailable string

definition LiveChapaKeyRefused :: err where
  "LiveChapaKeyRefused = OtherErr ''LiveChapaKeyRefused''"

definition isTestKey :: "string \<Rightarrow> bool" where
  "isTestKey secretKey \<longleftrightarrow> take 13 secretKey = ''CHASECK_TEST-''"

definition assertChapaSandbox :: "string \<Rightarrow> unit prog" where
  "assertChapaSandbox secretKey = require (isTestKey secretKey) LiveChapaKeyRefused"

text \<open>\<open>initialize\<close> is the call to Chapa with the amount and the reference.\<close>

definition startChapaDeposit ::
  "sale_deps \<Rightarrow> string \<Rightarrow> string prog \<Rightarrow> (int \<Rightarrow> string \<Rightarrow> start_answer prog) \<Rightarrow> auth_context \<Rightarrow> order_request \<Rightarrow> topup_policy \<Rightarrow> start_result prog" where
  "startChapaDeposit d secretKey newReference initialize c q p =
     (if \<not> isEnabled FF_deposit_chapa then ret Payment_disabled
      else
        seq (assertChapaSandbox secretKey)
        (bnd (now d) (\<lambda>at.
        bnd (get_db (\<lambda>s. s)) (\<lambda>s.
        bnd (lift_domain (mk_money (oq_amountMinor q) ETB)) (\<lambda>amount.
        case decideTopupOrder (topup_request_of s c amount at CHAPA) p of
          Some r \<Rightarrow> ret (Payment_refused r)
        | None \<Rightarrow>
            bnd (lift_date (order_expiry at p)) (\<lambda>expires.
            bnd (saveTopupOrder (topup_input_of c q amount at expires (Some CHAPA)) newReference normalizeDepositReference) (\<lambda>reference.
            bnd (initialize (minor amount) reference) (\<lambda>started.
            case started of
              Chapa_started url \<Rightarrow> ret (Payment_started reference url)
            | Chapa_refused m \<Rightarrow> bnd (cancelTopupOrder (''top_'' @ oq_correlationId q) at) (\<lambda>_. ret (Payment_unavailable m))
            | Chapa_unreachable m \<Rightarrow> bnd (cancelTopupOrder (''top_'' @ oq_correlationId q) at) (\<lambda>_. ret (Payment_unavailable m))))))))))"

datatype settle_result =
    Chapa_credited string int | Chapa_not_credited credit_refusal | Unknown_reference | Unverifiable string

definition chapa_posting :: "string \<Rightarrow> string" where
  "chapa_posting reference = ''posting_chapa_'' @ reference"

text \<open>Claim, credit, record, link: one transaction, and the claim is the lock.\<close>

definition credit_claimed :: "topup_row \<Rightarrow> string \<Rightarrow> int \<Rightarrow> string \<Rightarrow> string \<Rightarrow> timestamp \<Rightarrow> bool prog" where
  "credit_claimed order reference amount providerReference submission at = db_transaction (
     bnd (claimTopupOrderForSettlement reference at) (\<lambda>claimed.
     if claimed \<noteq> 1 then ret False
     else
       bnd (lift_domain (mk_money (JInt amount) ETB)) (\<lambda>m.
       seq (fundMerchant
             \<lparr>vi_merchantId = zt_merchantId order, vi_amount = m, vi_at = at, vi_correlationId = reference,
              vi_postingId = chapa_posting reference\<rparr>)
       (seq (insertFundingSubmission
             \<lparr>nf_id = submission, nf_merchantId = zt_merchantId order, nf_quotedReference = reference,
              nf_bankReference = providerReference, nf_claimedAmountMinor = zt_amountMinor order, nf_bankAmountMinor = amount,
              nf_status = ''CREDITED'', nf_evidence = ''Chapa '' @ providerReference, nf_at = at\<rparr>)
       (bnd (linkTopupOrderSubmission reference submission at) (\<lambda>_. ret True))))))"

definition settle_answered :: "sale_deps \<Rightarrow> string \<Rightarrow> topup_row \<Rightarrow> chapa_answer \<Rightarrow> settle_result prog" where
  "settle_answered d reference order a =
     bnd (now d) (\<lambda>seen.
     bnd (recordTopupProviderOutcome reference (ca_providerReference a) (chapa_status_name (ca_status a)) seen) (\<lambda>_.
     case decideChapaCredit a order of
       Inl r \<Rightarrow> ret (Chapa_not_credited r)
     | Inr amount \<Rightarrow>
         bnd (newId d ''fund'') (\<lambda>submission.
         bnd (now d) (\<lambda>at.
         bnd (credit_claimed order reference amount (ca_providerReference a) submission at) (\<lambda>credited.
         ret (if credited then Chapa_credited submission amount else Chapa_not_credited ALREADY_CREDITED))))))"

definition settleChapaDeposit :: "sale_deps \<Rightarrow> string \<Rightarrow> (string \<Rightarrow> verify_result prog) \<Rightarrow> string \<Rightarrow> settle_result prog" where
  "settleChapaDeposit d secretKey verify txRef =
     seq (assertChapaSandbox secretKey)
     (bnd (get_db (\<lambda>s. findTopupOrderByReference s (normalizeDepositReference txRef))) (\<lambda>found.
     case found of
       None \<Rightarrow> ret Unknown_reference
     | Some order \<Rightarrow>
         bnd (verify (normalizeDepositReference txRef)) (\<lambda>answer.
         case answer of
           Unreachable m \<Rightarrow> ret (Unverifiable m)
         | Not_found \<Rightarrow> ret (Chapa_not_credited REFERENCE_MISMATCH)
         | Answered a \<Rightarrow> settle_answered d (normalizeDepositReference txRef) order a)))"

section \<open>Profit to the selling balance\<close>

datatype profit_result =
    Profit_transferred int int int
  | Profit_amount_invalid string
  | Exceeds_profit int int
  | Profit_simulated_only

definition profit_rejection :: "jsnum \<Rightarrow> string option" where
  "profit_rejection amount =
     (case amount of
        JNotInt \<Rightarrow> Some ''NOT_A_NUMBER''
      | JInt a \<Rightarrow>
          if \<not> safe_int a then Some ''NOT_A_NUMBER''
          else if a < 100 then Some ''BELOW_MINIMUM''
          else if a mod 100 \<noteq> 0 then Some ''NOT_WHOLE_BIRR''
          else None)"

definition move_profit :: "sale_deps \<Rightarrow> auth_context \<Rightarrow> string \<Rightarrow> int \<Rightarrow> int \<Rightarrow> profit_result prog" where
  "move_profit d c corr amount earned =
     bnd (now d) (\<lambda>at.
     bnd (lift_domain (mk_money (JInt amount) ETB)) (\<lambda>m.
     bnd (newId d ''post'') (\<lambda>posting.
     seq (transferProfitToBalance
           \<lparr>vi_merchantId = ax_merchantId c, vi_amount = m, vi_at = at, vi_correlationId = corr, vi_postingId = posting\<rparr>)
     (seq (audit_merchant d c at PROFIT_TRANSFERRED_TO_BALANCE (Some ''PROFIT_TO_SELLING_BALANCE'') corr
            [(''amountMinor'', dec_int amount), (''profitBeforeMinor'', dec_int earned)])
     (bnd (get_db (\<lambda>s. profitAvailableMinor s (ax_merchantId c))) (\<lambda>left.
     bnd (availableMinor (ax_merchantId c)) (\<lambda>available.
     ret (Profit_transferred amount left available))))))))"

definition transferProfit :: "sale_deps \<Rightarrow> auth_context \<Rightarrow> jsnum \<Rightarrow> string \<Rightarrow> profit_result prog" where
  "transferProfit d c amount corr =
     (if sd_mode d \<noteq> TRAINING then ret Profit_simulated_only
      else
        (case profit_rejection amount of
           Some reason \<Rightarrow> ret (Profit_amount_invalid reason)
         | None \<Rightarrow>
             (case amount of
                JNotInt \<Rightarrow> ret (Profit_amount_invalid ''NOT_A_NUMBER'')
              | JInt a \<Rightarrow> db_transaction (
                  bnd (get_db (\<lambda>s. profitAvailableMinor s (ax_merchantId c))) (\<lambda>earned.
                  if earned < a then ret (Exceeds_profit a earned) else move_profit d c corr a earned)))))"

end
