(* ===== verification/Shop_Transfers.thy ===== *)
theory Shop_Transfers
  imports Deposits
begin

text \<open>
  Balance moving from one shop to another: the service (\<open>services/api/src/application/shopTransfer.ts\<close>) with the ports the
  handler gives it (\<open>http/handlers.ts\<close>), and the decision of a queued transfer in the operations console
  (\<open>apps/operations-console/src/server.ts\<close>, ports in \<open>cli.ts\<close>). The amount is an integer, as the handler rounds it; the
  console's entry in the audit trail, which never fails the action, is left out.
\<close>

section \<open>Sending\<close>

record transfer_posting =
  xt_postingId :: string
  xt_senderMerchantId :: string
  xt_recipientMerchantId :: string
  xt_amountMinor :: int
  xt_feeMinor :: int
  xt_correlationId :: string
  xt_at :: timestamp

record transfer_attempt =
  xa_senderMerchantId :: string
  xa_senderDeviceId :: string
  xa_senderOperatorId :: string
  xa_recipientDeviceId :: string
  xa_amountMinor :: int

datatype transfer_settlement =
    Transfer_settled string int int string
  | Transfer_queued string int int
  | Transfer_turned_down transfer_refusal

text \<open>\<open>postTransfer\<close>, as both the handler and the console wire it; \<open>availableMinor\<close> is the one of the deposits.\<close>

definition postTransfer :: "transfer_posting \<Rightarrow> unit prog" where
  "postTransfer p =
     bnd (lift_domain (mk_money (JInt (xt_amountMinor p)) ETB)) (\<lambda>amount.
     bnd (lift_domain (mk_money (JInt (xt_feeMinor p)) ETB)) (\<lambda>fee.
     postShopTransfer
       \<lparr>hs_senderMerchantId = xt_senderMerchantId p, hs_recipientMerchantId = xt_recipientMerchantId p, hs_amount = amount,
        hs_fee = fee, hs_at = xt_at p, hs_correlationId = xt_correlationId p, hs_postingId = xt_postingId p\<rparr>))"

definition dayStart :: "timestamp \<Rightarrow> timestamp" where
  "dayStart at = take 10 at @ ''T00:00:00.000Z''"

fun shop_status_of :: "merchant_status \<Rightarrow> shop_status" where
  "shop_status_of MER_ONBOARDING = SHOP_ONBOARDING"
| "shop_status_of MER_ACTIVE = SHOP_ACTIVE"
| "shop_status_of MER_SUSPENDED = SHOP_SUSPENDED"
| "shop_status_of MER_CLOSED = SHOP_CLOSED"

text \<open>The recipient is the shop of the device that was typed.\<close>

definition recipient_of :: "db \<Rightarrow> string \<Rightarrow> transfer_recipient option" where
  "recipient_of d device =
     (case findDevice d device None of
        None \<Rightarrow> None
      | Some v \<Rightarrow> map_option (\<lambda>m. \<lparr>xr_merchantId = me_id m, xr_status = shop_status_of (me_status m)\<rparr>) (findMerchant d (dv_merchantId v)))"

definition saved_transfer ::
  "transfer_attempt \<Rightarrow> string \<Rightarrow> string \<Rightarrow> int \<Rightarrow> int \<Rightarrow> transfer_status \<Rightarrow> string \<Rightarrow> timestamp \<Rightarrow> transfer_input" where
  "saved_transfer a i recipient amount fee status corr at =
     \<lparr>nx_id = i, nx_senderMerchantId = xa_senderMerchantId a, nx_senderDeviceId = xa_senderDeviceId a,
      nx_senderOperatorId = xa_senderOperatorId a, nx_recipientDeviceId = xa_recipientDeviceId a,
      nx_recipientMerchantId = recipient, nx_amountMinor = amount, nx_feeMinor = fee, nx_status = status,
      nx_refusalReason = None, nx_postingId = None, nx_correlationId = corr, nx_at = at\<rparr>"

fun transfer_refusal_name :: "transfer_refusal \<Rightarrow> string" where
  "transfer_refusal_name RECIPIENT_NOT_FOUND = ''RECIPIENT_NOT_FOUND''"
| "transfer_refusal_name RECIPIENT_IS_SENDER = ''RECIPIENT_IS_SENDER''"
| "transfer_refusal_name SENDER_NOT_ACTIVE = ''SENDER_NOT_ACTIVE''"
| "transfer_refusal_name RECIPIENT_NOT_ACTIVE = ''RECIPIENT_NOT_ACTIVE''"
| "transfer_refusal_name TRANSFER_NOT_POSITIVE = ''AMOUNT_NOT_POSITIVE''"
| "transfer_refusal_name ABOVE_TRANSFER_LIMIT = ''ABOVE_TRANSFER_LIMIT''"
| "transfer_refusal_name ABOVE_DAILY_LIMIT = ''ABOVE_DAILY_LIMIT''"
| "transfer_refusal_name INSUFFICIENT_TRANSFER_BALANCE = ''INSUFFICIENT_BALANCE''"

text \<open>The three ends of an attempt: a refusal that is recorded, a queue entry that moves nothing, and the move itself.\<close>

definition record_refusal :: "transfer_attempt \<Rightarrow> string \<Rightarrow> string option \<Rightarrow> transfer_refusal \<Rightarrow> string \<Rightarrow> timestamp \<Rightarrow> transfer_settlement prog" where
  "record_refusal a i recipient reason corr at =
     seq (saveShopTransfer
           ((saved_transfer a i (or_else recipient (xa_senderMerchantId a))
               (if 0 < xa_amountMinor a then xa_amountMinor a else 1) 0 XT_REFUSED corr at)
             \<lparr>nx_refusalReason := Some (transfer_refusal_name reason)\<rparr>))
     (ret (Transfer_turned_down reason))"

definition queue_transfer :: "transfer_attempt \<Rightarrow> string \<Rightarrow> string \<Rightarrow> transfer_decision \<Rightarrow> string \<Rightarrow> timestamp \<Rightarrow> transfer_settlement prog" where
  "queue_transfer a i recipient x corr at =
     seq (saveShopTransfer (saved_transfer a i recipient (xd_creditMinor x) (xd_feeMinor x) XT_NEEDS_APPROVAL corr at))
     (ret (Transfer_queued i (xd_creditMinor x) (xd_feeMinor x)))"

definition move_transfer :: "sale_deps \<Rightarrow> transfer_attempt \<Rightarrow> string \<Rightarrow> string \<Rightarrow> transfer_decision \<Rightarrow> string \<Rightarrow> timestamp \<Rightarrow> transfer_settlement prog" where
  "move_transfer d a i recipient x corr at =
     bnd (newId d ''post'') (\<lambda>posting.
     seq (db_transaction
           (seq (postTransfer
                  \<lparr>xt_postingId = posting, xt_senderMerchantId = xa_senderMerchantId a, xt_recipientMerchantId = recipient,
                   xt_amountMinor = xd_creditMinor x, xt_feeMinor = xd_feeMinor x, xt_correlationId = corr, xt_at = at\<rparr>)
           (saveShopTransfer
             ((saved_transfer a i recipient (xd_creditMinor x) (xd_feeMinor x) XT_SETTLED corr at)\<lparr>nx_postingId := Some posting\<rparr>))))
     (ret (Transfer_settled i (xd_creditMinor x) (xd_feeMinor x) recipient)))"

definition transfer_request_of :: "db \<Rightarrow> transfer_attempt \<Rightarrow> merchant_row \<Rightarrow> int \<Rightarrow> timestamp \<Rightarrow> transfer_request" where
  "transfer_request_of d a sender available at =
     \<lparr>xq_senderMerchantId = xa_senderMerchantId a, xq_senderStatus = shop_status_of (me_status sender),
      xq_senderAvailableMinor = available, xq_sentTodayMinor = sentTodayMinor d (xa_senderMerchantId a) (dayStart at),
      xq_recipient = recipient_of d (xa_recipientDeviceId a), xq_amountMinor = JInt (xa_amountMinor a)\<rparr>"

definition carry_out :: "sale_deps \<Rightarrow> transfer_attempt \<Rightarrow> string \<Rightarrow> transfer_recipient option \<Rightarrow> transfer_decision \<Rightarrow> string \<Rightarrow> timestamp \<Rightarrow> transfer_settlement prog" where
  "carry_out d a i recipient x corr at =
     (case xd_refusal x of
        Some reason \<Rightarrow> record_refusal a i (map_option xr_merchantId recipient) reason corr at
      | None \<Rightarrow>
          (case recipient of
             None \<Rightarrow> throw (OtherErr ''TypeError'')
           | Some r \<Rightarrow>
               if xd_outcome x = TRANSFER_NEEDS_APPROVAL then queue_transfer a i (xr_merchantId r) x corr at
               else move_transfer d a i (xr_merchantId r) x corr at))"

definition attempt_transfer :: "sale_deps \<Rightarrow> transfer_policy \<Rightarrow> transfer_attempt \<Rightarrow> db \<Rightarrow> merchant_row \<Rightarrow> timestamp \<Rightarrow> string \<Rightarrow> transfer_settlement prog" where
  "attempt_transfer d policy a s sender at corr =
     bnd (availableMinor (xa_senderMerchantId a)) (\<lambda>available.
     let x = decideTransfer (transfer_request_of s a sender available at) policy in
     bnd (newId d ''xfer'') (\<lambda>i.
     carry_out d a i (recipient_of s (xa_recipientDeviceId a)) x corr at))"

definition settleShopTransfer :: "sale_deps \<Rightarrow> transfer_policy \<Rightarrow> transfer_attempt \<Rightarrow> transfer_settlement prog" where
  "settleShopTransfer d policy a =
     bnd (now d) (\<lambda>at.
     bnd (newId d ''corr'') (\<lambda>corr.
     bnd (get_db (\<lambda>s. s)) (\<lambda>s.
     case findMerchant s (xa_senderMerchantId a) of
       None \<Rightarrow> ret (Transfer_turned_down SENDER_NOT_ACTIVE)
     | Some sender \<Rightarrow> attempt_transfer d policy a s sender at corr)))"

section \<open>Deciding a queued transfer\<close>

datatype queue_answer =
    No_such_transfer | Already_decided transfer_status | Reason_required | Queue_refused | Not_posted | Decided_by_other | Queue_approved

definition refuse_queued :: "sale_deps \<Rightarrow> string \<Rightarrow> string \<Rightarrow> string \<Rightarrow> queue_answer prog" where
  "refuse_queued d admin i reason =
     (if js_trim reason = [] then ret Reason_required
      else
        bnd (now d) (\<lambda>at.
        bnd (refuseShopTransfer i (js_trim reason) admin at) (\<lambda>_. ret Queue_refused)))"

text \<open>The claim comes first, and only the caller it lets change the row posts the pair.\<close>

definition claim_and_post :: "string \<Rightarrow> transfer_row \<Rightarrow> string \<Rightarrow> timestamp \<Rightarrow> bool prog" where
  "claim_and_post admin row posting at = db_transaction (
     bnd (approveShopTransfer (zx_id row) posting admin at) (\<lambda>claimed.
     if claimed = 1 then
       seq (postTransfer
             \<lparr>xt_postingId = posting, xt_senderMerchantId = zx_senderMerchantId row,
              xt_recipientMerchantId = zx_recipientMerchantId row, xt_amountMinor = zx_amountMinor row,
              xt_feeMinor = zx_feeMinor row, xt_correlationId = zx_correlationId row, xt_at = at\<rparr>)
       (ret True)
     else ret False))"

definition approve_queued :: "sale_deps \<Rightarrow> string \<Rightarrow> transfer_row \<Rightarrow> queue_answer prog" where
  "approve_queued d admin row =
     bnd (now d) (\<lambda>at.
     bnd (newId d ''post'') (\<lambda>posting.
     try_catch
       (bnd (claim_and_post admin row posting at) (\<lambda>moved. ret (if moved then Queue_approved else Decided_by_other)))
       (\<lambda>e. ret Not_posted)))"

definition decideQueuedTransfer :: "sale_deps \<Rightarrow> string \<Rightarrow> string \<Rightarrow> string option \<Rightarrow> queue_answer prog" where
  "decideQueuedTransfer d admin i refusal =
     bnd (get_db (\<lambda>s. findShopTransfer s i)) (\<lambda>found.
     case found of
       None \<Rightarrow> ret No_such_transfer
     | Some row \<Rightarrow>
         if zx_status row \<noteq> XT_NEEDS_APPROVAL then ret (Already_decided (zx_status row))
         else case refusal of Some reason \<Rightarrow> refuse_queued d admin i reason | None \<Rightarrow> approve_queued d admin row)"

end
