(* ===== verification/Reversals.thy ===== *)
theory Reversals
  imports Sale
begin

text \<open>
  The reversal workflow (\<open>services/api/src/application/reversal.ts\<close>): a sale of unknown outcome is marked as needing a reversal, and a
  supervisor completes it, which returns the value from whichever bucket holds it. The provider's optional \<open>reverse\<close> is a
  parameter; its answer is not looked at, as in the code.
\<close>

fun role_text :: "actor_role \<Rightarrow> string" where
  "role_text MERCHANT_OPERATOR = ''MERCHANT_OPERATOR''"
| "role_text MERCHANT_OWNER = ''MERCHANT_OWNER''"
| "role_text OPS_VERIFIER = ''OPS_VERIFIER''"
| "role_text OPS_APPROVER = ''OPS_APPROVER''"
| "role_text OPS_RECONCILER = ''OPS_RECONCILER''"
| "role_text OPS_SUPPORT = ''OPS_SUPPORT''"
| "role_text ADMIN = ''ADMIN''"
| "role_text SYSTEM = ''SYSTEM''"

record reversal_approval =
  ra_approvedBy :: string
  ra_role :: actor_role

definition SUPERVISOR_ROLES :: "actor_role list" where
  "SUPERVISOR_ROLES = [OPS_APPROVER, ADMIN]"

section \<open>Results\<close>

definition reversal_outcome :: "string \<Rightarrow> tx_state \<Rightarrow> string \<Rightarrow> string option \<Rightarrow> string \<Rightarrow> string \<Rightarrow> next_action \<Rightarrow> outcome" where
  "reversal_outcome tx state key ref support message action =
     \<lparr>so_transactionId = tx, so_state = state, so_correlationId = support, so_idempotencyKey = key, so_providerReference = ref,
      so_messageKey = message, so_nextAction = action, so_providerErrorCategory = PROVIDER_INDETERMINATE\<rparr>"

definition reversalRequiredResult :: "string \<Rightarrow> string \<Rightarrow> string option \<Rightarrow> string \<Rightarrow> sale_result" where
  "reversalRequiredResult tx key ref support =
     ReversalRequired (reversal_outcome tx REVERSAL_REQUIRED key ref support ''status.under_review.message'' CONTACT_SUPPORT_WITH_REFERENCE) support"

definition reversedResult :: "string \<Rightarrow> string \<Rightarrow> string option \<Rightarrow> string \<Rightarrow> sale_result" where
  "reversedResult tx key ref support =
     Reversed (reversal_outcome tx REVERSED key ref support ''status.failed.message'' EXPLAIN_NO_SALE_FUNDS_RELEASED) support"

definition refused_reversal :: "sale_deps \<Rightarrow> rejection_kind \<Rightarrow> string \<Rightarrow> next_action \<Rightarrow> string option \<Rightarrow> sale_result prog" where
  "refused_reversal d kind reason action tx =
     bnd (newId d ''corr'') (\<lambda>corr. ret (reject kind corr reason action None tx))"

definition reversal_audit ::
  "sale_deps \<Rightarrow> timestamp \<Rightarrow> audit_action \<Rightarrow> actor_role \<Rightarrow> string \<Rightarrow> string \<Rightarrow> tx_state \<Rightarrow> tx_state \<Rightarrow> string option \<Rightarrow> string \<Rightarrow> unit prog" where
  "reversal_audit d at action role merchant tx before after detail corr =
     bnd (newId d ''audit'') (\<lambda>i.
     saveAuditEvent
       \<lparr>ui_event = \<lparr>ae_id = i, ae_at = at, ae_action = action,
          ae_actor = \<lparr>ac_userId = ''system'', ac_role = role, ac_deviceId = None\<rparr>, ae_merchantId = merchant,
          ae_transactionId = Some tx, ae_before = Some before, ae_after = Some after, ae_detail = detail\<rparr>,
        ui_correlationId = corr, ui_entityType = ''transaction'', ui_entityId = Some tx, ui_metadata = None\<rparr>)"

definition case_reference :: "string \<Rightarrow> support_row option \<Rightarrow> string" where
  "case_reference tx k = (case k of None \<Rightarrow> support_reference tx | Some s \<Rightarrow> sw_reference s)"

text \<open>The correlation id of the row at hand, or a new one.\<close>

definition known_correlation :: "sale_deps \<Rightarrow> string option \<Rightarrow> string prog" where
  "known_correlation d known = (case known of Some c \<Rightarrow> ret c | None \<Rightarrow> newId d ''corr'')"

section \<open>A reversal is needed\<close>

text \<open>The resolution job must close, so no worker pass can drive the sale somewhere else afterwards.\<close>

definition close_job :: "string \<Rightarrow> tx_state \<Rightarrow> timestamp \<Rightarrow> unit prog" where
  "close_job tx state at = (if state = PENDING then bnd (closePendingResolution tx ESCALATED at) (\<lambda>_. ret ()) else ret ())"

definition open_reversal_case :: "sale_deps \<Rightarrow> string \<Rightarrow> string \<Rightarrow> string \<Rightarrow> timestamp \<Rightarrow> support_row option \<Rightarrow> unit prog" where
  "open_reversal_case d tx merchant corr at existing =
     (case existing of
        Some _ \<Rightarrow> ret ()
      | None \<Rightarrow>
          bnd (newId d ''case'') (\<lambda>i. createSupportCase
            \<lparr>si_case_id = i, si_case_merchantId = merchant, si_case_transactionId = Some tx, si_case_reason = SR_REVERSAL_REQUIRED,
             si_case_reference = support_reference tx, si_case_correlationId = corr, si_case_at = at\<rparr>))"

definition mark_reversal :: "sale_deps \<Rightarrow> string \<Rightarrow> string \<Rightarrow> string \<Rightarrow> transaction_row \<Rightarrow> sale_result prog" where
  "mark_reversal d tx merchant reason row = db_transaction (
     bnd (now d) (\<lambda>at.
     bnd (lift_domain (rehydrate row)) (\<lambda>t.
     bnd (get_db (\<lambda>s. findPendingResolution s tx)) (\<lambda>job.
     bnd (known_correlation d (map_option pw_correlationId job)) (\<lambda>corr.
     seq (close_job tx (tw_state row) at)
     (bnd (lift_domain (transitionTo t REVERSAL_REQUIRED at (Some reason) None)) (\<lambda>t'.
     seq (persistRehydrated t' row)
     (bnd (get_db (\<lambda>s. findSupportCaseByTransaction s tx (Some merchant))) (\<lambda>existing.
     seq (open_reversal_case d tx merchant corr at existing)
     (seq (reversal_audit d at TRANSACTION_TRANSITIONED OPS_SUPPORT merchant tx (tw_state row) REVERSAL_REQUIRED (Some reason) corr)
     (ret (reversalRequiredResult tx (tw_idempotencyKey row) (tw_providerReference row) (case_reference tx existing)))))))))))))"

definition requireReversal :: "sale_deps \<Rightarrow> string \<Rightarrow> string \<Rightarrow> string \<Rightarrow> sale_result prog" where
  "requireReversal d tx merchant reason =
     bnd (get_db (\<lambda>s. s)) (\<lambda>s.
     case findTransaction s tx (Some merchant) of
       None \<Rightarrow> refused_reversal d UNAUTHORIZED ''TRANSACTION_NOT_FOUND_FOR_MERCHANT'' SHOW_PERMISSION_ERROR None
     | Some row \<Rightarrow>
         if tw_state row = REVERSAL_REQUIRED then
           ret (reversalRequiredResult tx (tw_idempotencyKey row) (tw_providerReference row)
                 (case findSupportCaseByTransaction s tx (Some merchant) of None \<Rightarrow> '''' | Some k \<Rightarrow> sw_reference k))
         else if tw_state row \<noteq> PENDING \<and> tw_state row \<noteq> UNDER_REVIEW then
           refused_reversal d INVALID_REQUEST (''REVERSAL_NOT_LEGAL_FROM_'' @ state_name (tw_state row)) SHOW_VALIDATION_ERROR (Some tx)
         else mark_reversal d tx merchant reason row)"

section \<open>Completing it\<close>

definition return_value :: "db \<Rightarrow> string \<Rightarrow> string \<Rightarrow> op_context \<Rightarrow> unit prog" where
  "return_value s tx merchant c =
     (case findReservation s tx (Some merchant) of
        Some r \<Rightarrow> if rr_status r = RES_UNDER_REVIEW then releaseFromUnderReview c else release c
      | None \<Rightarrow> release c)"

definition approve_case :: "support_row option \<Rightarrow> reversal_approval \<Rightarrow> timestamp \<Rightarrow> unit prog" where
  "approve_case support approval at =
     (case support of None \<Rightarrow> ret () | Some k \<Rightarrow> bnd (approveSupportCase (sw_id k) (ra_approvedBy approval) at) (\<lambda>_. ret ()))"

text \<open>The provider is asked where it can be and a reference is known; an empty string is no reference.\<close>

definition request_reversal :: "(string \<Rightarrow> string \<Rightarrow> unit prog) option \<Rightarrow> string \<Rightarrow> string option \<Rightarrow> unit prog" where
  "request_reversal reverse tx reference =
     (case (reverse, reference) of (Some f, Some ref) \<Rightarrow> if ref = '''' then ret () else f tx ref | _ \<Rightarrow> ret ())"

definition post_reversal ::
  "sale_deps \<Rightarrow> string \<Rightarrow> string \<Rightarrow> reversal_approval \<Rightarrow> support_row option \<Rightarrow> timestamp \<Rightarrow> transaction_row \<Rightarrow> sale_result prog" where
  "post_reversal d tx merchant approval support at current =
     bnd (lift_domain (rehydrate current)) (\<lambda>t.
     bnd (get_db (\<lambda>s. s)) (\<lambda>s.
     bnd (known_correlation d (map_option sw_correlationId support)) (\<lambda>corr.
     bnd (money_context d merchant tx (tx_amount t) at corr
           \<lparr>ac_userId = ''system'', ac_role = ra_role approval, ac_deviceId = None\<rparr>) (\<lambda>c.
     seq (return_value s tx merchant c)
     (bnd (lift_domain (transitionTo t REVERSED at (Some ''authorized adjustment posted'') None)) (\<lambda>t'.
     seq (persistRehydrated t' current)
     (seq (reversal_audit d at ADJUSTMENT_POSTED (ra_role approval) merchant tx REVERSAL_REQUIRED REVERSED None corr)
     (seq (approve_case support approval at)
     (seq (recordIdempotencyResult merchant (tw_idempotencyKey current) REVERSED at)
     (ret (reversedResult tx (tw_idempotencyKey current) (tw_providerReference current) (case_reference tx support))))))))))))"

definition reverse_phase ::
  "sale_deps \<Rightarrow> string \<Rightarrow> string \<Rightarrow> reversal_approval \<Rightarrow> support_row option \<Rightarrow> transaction_row \<Rightarrow> sale_result prog" where
  "reverse_phase d tx merchant approval support row = db_transaction (
     bnd (now d) (\<lambda>at.
     bnd (get_db (\<lambda>s. findTransaction s tx (Some merchant))) (\<lambda>found.
     let already = ret (reversedResult tx (tw_idempotencyKey row) (tw_providerReference row) (case_reference tx support)) in
     case found of
       None \<Rightarrow> already
     | Some current \<Rightarrow>
         if tw_state current \<noteq> REVERSAL_REQUIRED then already else post_reversal d tx merchant approval support at current)))"

definition completeReversal ::
  "sale_deps \<Rightarrow> (string \<Rightarrow> string \<Rightarrow> unit prog) option \<Rightarrow> string \<Rightarrow> string \<Rightarrow> reversal_approval \<Rightarrow> sale_result prog" where
  "completeReversal d reverse tx merchant approval =
     (if ra_role approval \<notin> set SUPERVISOR_ROLES then
        refused_reversal d UNAUTHORIZED (''REVERSAL_REQUIRES_SUPERVISOR_APPROVAL_NOT_'' @ role_text (ra_role approval)) SHOW_PERMISSION_ERROR (Some tx)
      else
        bnd (get_db (\<lambda>s. s)) (\<lambda>s.
        case findTransaction s tx (Some merchant) of
          None \<Rightarrow> refused_reversal d UNAUTHORIZED ''TRANSACTION_NOT_FOUND_FOR_MERCHANT'' SHOW_PERMISSION_ERROR None
        | Some row \<Rightarrow>
            (let support = findSupportCaseByTransaction s tx (Some merchant)
             in if tw_state row = REVERSED then
                  ret (reversedResult tx (tw_idempotencyKey row) (tw_providerReference row) (case_reference tx support))
                else if tw_state row \<noteq> REVERSAL_REQUIRED then
                  refused_reversal d INVALID_REQUEST (''REVERSED_NOT_LEGAL_FROM_'' @ state_name (tw_state row)) SHOW_VALIDATION_ERROR (Some tx)
                else
                  seq (request_reversal reverse tx (tw_providerReference row))
                  (reverse_phase d tx merchant approval support row))))"

end
