(* ===== verification/Money_Services.thy ===== *)
theory Money_Services
  imports Sale_Properties Deposits Shop_Transfers Reversals
begin

text \<open>
  What the services beside the sale guarantee: each keeps \<open>evolves\<close>, the guarantee of the sale, so that they may run while a sale
  waits for its provider and the books stay right under any interleaving of whole requests and of the phases between two awaits.
\<close>

section \<open>Operations that leave sales and reservations alone\<close>

definition holdings :: "db \<Rightarrow> transaction_row list \<times> reservation_row list" where
  "holdings s = (transactions s, balance_reservations s)"

definition same_holdings :: "world \<Rightarrow> world \<Rightarrow> bool" where
  "same_holdings w w' \<longleftrightarrow> same_on holdings w w' \<and> ids_grow w w'"

interpretation holdings: guarantee same_holdings
  by unfold_locales (auto simp: same_holdings_def same_on_def ids_grow_def)

lemma holdings_put_db: "(\<And>s. holdings (f s) = holdings s) \<Longrightarrow> keeps same_holdings (put_db f)"
  by (simp add: keeps_def put_db_def same_holdings_def same_on_def ids_grow_def)

lemma holdings_lift_result: "keeps same_holdings (lift_result r)"
  by (simp add: keeps_def lift_result_def ret_def throw_def holdings.refl split: sum.split)

lemma holdings_ensureAccounts: "keeps same_holdings (ensureAccounts m t)"
proof -
  have one: "keeps same_holdings (ensureAccount i m' k t)" for i m' k
    unfolding ensureAccount_def by (intro holdings.keeps_rules holdings_put_db) (simp add: holdings_def)
  have "keeps same_holdings (ensure_all t as)" for as
    by (induction as) (auto intro!: holdings.keeps_rules one)
  then show ?thesis unfolding ensureAccounts_def by (intro holdings.keeps_rules)
qed

lemma holdings_appendEntries: "keeps same_holdings (appendEntries p)"
proof -
  have one: "keeps same_holdings (insert_entry r)" for r
    unfolding insert_entry_def by (intro holdings.keeps_rules holdings_put_db) (simp add: holdings_def)
  have "keeps same_holdings (append_loop q md i es)" for q md i es
    by (induction es arbitrary: i) (auto intro!: holdings.keeps_rules one)
  then show ?thesis unfolding appendEntries_def by (intro holdings.keeps_rules holdings_lift_result)
qed

lemma holdings_moves:
  "keeps same_holdings (fundMerchant i)" "keeps same_holdings (transferProfitToBalance i)" "keeps same_holdings (postShopTransfer h)"
  unfolding fundMerchant_def transferProfitToBalance_def postShopTransfer_def
  by (intro holdings.keeps_rules holdings_ensureAccounts holdings_appendEntries)+

lemma holdings_evolves:
  assumes keep: "keeps same_holdings m" and run: "m w = (x, w')" and step: "ledger_step w w'"
  shows "evolves d w w'"
proof -
  have same: "transactions (w_db w') = transactions (w_db w)" "balance_reservations (w_db w') = balance_reservations (w_db w)"
    and ids: "ids_grow w w'"
    using keepsD [OF keep run] by (simp_all add: same_holdings_def same_on_def holdings_def)
  have "sale_ok d w'" if "sale_ok d w"
    using that ledger_step_ok [OF step] known_id_mono [OF _ ids] by (simp add: sale_ok_def same)
  then show ?thesis using step ids by (auto simp: evolves_def same)
qed

lemma fundMerchant_evolves: "keeps (evolves d) (fundMerchant i)"
  by (rule keepsI) (rule holdings_evolves [OF holdings_moves(1) _ step_fund])

lemma transferProfitToBalance_evolves: "keeps (evolves d) (transferProfitToBalance i)"
  by (rule keepsI) (rule holdings_evolves [OF holdings_moves(2) _ step_profit])

text \<open>A transfer between shops checks no balance: it evolves where the sender has the amount and the fee.\<close>

lemma postShopTransfer_evolves:
  assumes "postShopTransfer h w = (x, w')" and "0 \<le> minor (hs_fee h)"
    and "minor (hs_amount h) + minor (hs_fee h) \<le> netMinor (w_db w) (hs_senderMerchantId h) [MERCHANT_AVAILABLE, MERCHANT_FUNDS]"
  shows "evolves d w w'"
  using holdings_evolves [OF holdings_moves(3) assms(1) step_transfer [OF assms]] .

section \<open>Writes of the extension tables\<close>

lemma quiet_update_count:
  assumes "\<And>f d. money_tables (put f d) = money_tables d" and "\<And>f d. idempotency_records (put f d) = idempotency_records d"
  shows "keeps quiet (update_count table put P g)"
  unfolding update_count_def by (intro quiet.keeps_rules quiet_put_db assms)

lemma quiet_transfers:
  "keeps quiet (saveShopTransfer n)" "keeps quiet (approveShopTransfer i p a t)" "keeps quiet (refuseShopTransfer i r a t)"
  unfolding saveShopTransfer_def approveShopTransfer_def refuseShopTransfer_def
  by (intro quiet.keeps_rules quiet_put_db quiet_update_count; simp add: money_tables_def update_transfers_def)+

lemma quiet_topups:
  "keeps quiet (insert_topup n r)" "keeps quiet (markTopupOrderPaid r f t)" "keeps quiet (claimTopupOrderForSettlement r t)"
  "keeps quiet (linkTopupOrderSubmission r f t)" "keeps quiet (cancelTopupOrder i t)" "keeps quiet (expireTopupOrders t)"
  "keeps quiet (recordTopupProviderOutcome r p s t)" "keeps quiet (insertFundingSubmission fi)"
  unfolding insert_topup_def markTopupOrderPaid_def claimTopupOrderForSettlement_def linkTopupOrderSubmission_def cancelTopupOrder_def
    expireTopupOrders_def recordTopupProviderOutcome_def insertFundingSubmission_def
  by (intro quiet.keeps_rules quiet_put_db quiet_update_count; simp add: money_tables_def update_topups_def)+

lemma quiet_saveTopupOrder:
  assumes "keeps quiet newReference"
  shows "keeps quiet (saveTopupOrder i newReference norm)"
proof -
  have "keeps quiet (draw_references n i newReference norm)" for n
    by (induction n) (auto intro!: quiet.keeps_rules quiet_topups assms)
  then show ?thesis unfolding saveTopupOrder_def by blast
qed

lemma quiet_audit_merchant: "keeps quiet (audit_merchant d c at a x corr m)"
  unfolding audit_merchant_def by (intro quiet_rules)

lemma quiet_availableMinor: "keeps quiet (availableMinor m)"
  unfolding availableMinor_def by (intro quiet.keeps_rules)

lemma quiet_approveSupportCase: "keeps quiet (approveSupportCase i a t)"
  unfolding approveSupportCase_def by (intro quiet.keeps_rules quiet_put_db) (simp_all add: money_tables_def)

lemmas service_quiet = quiet_transfers quiet_topups quiet_audit_merchant quiet_availableMinor quiet_approveSupportCase quiet_now quiet_newId
  quiet_saveAuditEvent

lemmas evolves_service_rules = evolve.keeps_rules service_quiet [THEN keeps_evolves] fundMerchant_evolves transferProfitToBalance_evolves

section \<open>Deposits and profit\<close>

lemma depositTrainingFunds_evolves: "keeps (evolves d) (depositTrainingFunds d c q)"
  unfolding depositTrainingFunds_def credit_deposit_def by (intro evolves_service_rules)

lemma move_profit_evolves: "keeps (evolves d) (move_profit d c corr a earned)"
  unfolding move_profit_def by (intro evolves_service_rules)

lemma transferProfit_evolves: "keeps (evolves d) (transferProfit d c amount corr)"
proof (cases amount)
  case (JInt a)
  show ?thesis unfolding transferProfit_def JInt jsnum.case by (intro evolve.keeps_rules move_profit_evolves)
next
  case JNotInt
  show ?thesis unfolding transferProfit_def JNotInt jsnum.case by (intro evolve.keeps_rules)
qed

lemma orderBankDeposit_evolves: "keeps quiet newReference \<Longrightarrow> keeps (evolves d) (orderBankDeposit d newReference c q p)"
  unfolding orderBankDeposit_def by (intro evolves_service_rules keeps_evolves [OF quiet_saveTopupOrder]) 

lemma cancelBankDeposit_evolves: "keeps (evolves d) (cancelBankDeposit d c)"
  unfolding cancelBankDeposit_def by (intro evolves_service_rules)

lemma credit_claimed_evolves: "keeps (evolves d) (credit_claimed order r a p sub at)"
  unfolding credit_claimed_def by (intro evolves_service_rules)

lemma settle_answered_evolves: "keeps (evolves d) (settle_answered d r order a)"
  unfolding settle_answered_def by (intro evolves_service_rules credit_claimed_evolves)

lemma settleChapaDeposit_evolves:
  assumes "\<And>r. keeps (evolves d) (verify r)"
  shows "keeps (evolves d) (settleChapaDeposit d key verify txRef)"
proof -
  have "keeps (evolves d) (case v of Unreachable m \<Rightarrow> ret (Unverifiable m) | Not_found \<Rightarrow> ret (Chapa_not_credited REFERENCE_MISMATCH)
      | Answered a \<Rightarrow> settle_answered d r order a)" for v r order
    by (cases v) (simp_all add: evolve.keeps_ret settle_answered_evolves)
  then show ?thesis
    unfolding settleChapaDeposit_def assertChapaSandbox_def by (intro evolve.keeps_rules assms)
qed

lemma startChapaDeposit_evolves:
  assumes "keeps quiet newReference" and "\<And>a r. keeps (evolves d) (initialize a r)"
  shows "keeps (evolves d) (startChapaDeposit d key newReference initialize c q p)"
proof -
  have "keeps (evolves d) (case s of Chapa_started url \<Rightarrow> ret (Payment_started r url)
      | Chapa_refused m \<Rightarrow> bnd (cancelTopupOrder i at) (\<lambda>_. ret (Payment_unavailable m))
      | Chapa_unreachable m \<Rightarrow> bnd (cancelTopupOrder i at) (\<lambda>_. ret (Payment_unavailable m)))" for s r i at
    by (cases s) (auto intro!: evolves_service_rules)
  then show ?thesis
    unfolding startChapaDeposit_def assertChapaSandbox_def
    by (intro evolves_service_rules keeps_evolves [OF quiet_saveTopupOrder] assms)
qed

section \<open>Transfers between shops\<close>

lemma balance_available:
  "balanceFor s m = Inr view \<Longrightarrow> minor (bv_available view) = netMinor s m [MERCHANT_AVAILABLE, MERCHANT_FUNDS]"
  by (auto simp: balanceFor_def Let_def rbind_Inr_iff mk_money_Inr)

lemma availableMinor_run: "availableMinor m w = (x, w') \<Longrightarrow>
    w' = w \<and> (\<forall>a. x = Inr a \<longrightarrow> a = netMinor (w_db w) m [MERCHANT_AVAILABLE, MERCHANT_FUNDS])"
  by (auto simp: availableMinor_def bnd_def get_db_def lift_domain_def ret_def throw_def balance_available split: sum.splits)

definition enough :: "string \<Rightarrow> int \<Rightarrow> world \<Rightarrow> bool" where
  "enough m a w \<longleftrightarrow> a \<le> netMinor (w_db w) m [MERCHANT_AVAILABLE, MERCHANT_FUNDS]"

lemma postTransfer_evolves:
  assumes "0 \<le> xt_feeMinor p" and "enough (xt_senderMerchantId p) (xt_amountMinor p + xt_feeMinor p) w"
  shows "evolves d w (snd (postTransfer p w))"
proof (cases "mk_money (JInt (xt_amountMinor p)) ETB")
  case (Inl e)
  then show ?thesis by (simp add: postTransfer_def bnd_def lift_domain_def throw_def evolve.refl)
next
  case (Inr amount)
  note amount = this
  show ?thesis
  proof (cases "mk_money (JInt (xt_feeMinor p)) ETB")
    case (Inl e)
    then show ?thesis using amount by (simp add: postTransfer_def bnd_def lift_domain_def throw_def ret_def evolve.refl)
  next
    case (Inr fee)
    then have "minor amount = xt_amountMinor p" "minor fee = xt_feeMinor p" using amount by (auto simp: mk_money_Inr)
    then show ?thesis
      using assms amount Inr unfolding enough_def
      by (simp add: postTransfer_def bnd_def lift_domain_def ret_def)
         (rule postShopTransfer_evolves [OF prod.collapse [symmetric]]; simp)
  qed
qed

lemma move_transfer_evolves:
  assumes fee: "0 \<le> xd_feeMinor x" and cover: "enough (xa_senderMerchantId a) (xd_creditMinor x + xd_feeMinor x) w"
  shows "evolves d w (snd (move_transfer v a i recipient x corr at w))"
  unfolding move_transfer_def
proof (rule evolve.bnd_at)
  show "evolves d w (snd (newId v ''post'' w))" by (rule evolve.keeps_at) (intro evolves_service_rules)
next
  fix posting w1
  assume new: "newId v ''post'' w = (Inr posting, w1)"
  then have cover1: "enough (xa_senderMerchantId a) (xd_creditMinor x + xd_feeMinor x) w1"
    using cover by (auto simp: newId_def enough_def)
  let ?p = "\<lparr>xt_postingId = posting, xt_senderMerchantId = xa_senderMerchantId a, xt_recipientMerchantId = recipient,
     xt_amountMinor = xd_creditMinor x, xt_feeMinor = xd_feeMinor x, xt_correlationId = corr, xt_at = at\<rparr>"
  let ?s = "saveShopTransfer ((saved_transfer a i recipient (xd_creditMinor x) (xd_feeMinor x) XT_SETTLED corr at)\<lparr>nx_postingId := Some posting\<rparr>)"
  have "evolves d w1 (snd (postTransfer ?p w1))" by (rule postTransfer_evolves) (use fee cover1 in simp_all)
  then have "evolves d w1 (snd (db_transaction (seq (postTransfer ?p) ?s) w1))"
    by (intro evolve.db_transaction_at evolve.seq_at evolve.keeps_at [OF keeps_evolves [OF quiet_transfers(1)]])
  then show "evolves d w1 (snd (seq (db_transaction (seq (postTransfer ?p) ?s)) (ret (Transfer_settled i (xd_creditMinor x) (xd_feeMinor x) recipient)) w1))"
    by (rule evolve.seq_at) (rule evolve.keeps_at, rule evolve.keeps_ret)
qed

text \<open>What the decision gives for an attempt that goes through.\<close>

lemma decideTransfer_moves:
  assumes "xp_maxPerTransferMinor p \<le> 900000000000" "xp_feeBasisPoints p \<le> 10000" "xd_refusal (decideTransfer q p) = None"
  shows "0 \<le> xd_feeMinor (decideTransfer q p) \<and> 0 < xd_creditMinor (decideTransfer q p) \<and>
    xd_creditMinor (decideTransfer q p) + xd_feeMinor (decideTransfer q p) \<le> xq_senderAvailableMinor q \<and>
    xq_amountMinor q = JInt (xd_creditMinor (decideTransfer q p)) \<and>
    (\<exists>r. xq_recipient q = Some r \<and> xr_merchantId r \<noteq> xq_senderMerchantId q)"
  using decideTransfer_cases [of q p] assms(3)
  by (auto simp: refuse_transfer_def accepted_transfer_def dest: transfer_debit_exact [OF assms(1,2)])

definition transfer_policy_ok :: "transfer_policy \<Rightarrow> bool" where
  "transfer_policy_ok p \<longleftrightarrow> xp_maxPerTransferMinor p \<le> 900000000000 \<and> xp_feeBasisPoints p \<le> 10000"

lemma record_refusal_evolves: "keeps (evolves d) (record_refusal a i r reason corr at)"
  unfolding record_refusal_def by (intro evolves_service_rules)

lemma queue_transfer_evolves: "keeps (evolves d) (queue_transfer a i r x corr at)"
  unfolding queue_transfer_def by (intro evolves_service_rules)

lemma carry_out_evolves:
  assumes "xd_refusal x = None \<Longrightarrow> 0 \<le> xd_feeMinor x \<and> enough (xa_senderMerchantId a) (xd_creditMinor x + xd_feeMinor x) w"
  shows "evolves d w (snd (carry_out v a i recipient x corr at w))"
proof (cases "xd_refusal x")
  case None
  then show ?thesis
    using assms move_transfer_evolves
    by (auto simp: carry_out_def split: option.split
        intro: evolve.keeps_at [OF queue_transfer_evolves] evolve.keeps_at [OF evolve.keeps_throw])
next
  case (Some reason)
  then show ?thesis by (simp add: carry_out_def evolve.keeps_at [OF record_refusal_evolves])
qed

lemma settleShopTransfer_evolves:
  assumes "transfer_policy_ok policy"
  shows "keeps (evolves d) (settleShopTransfer v policy a)"
proof -
  have tail: "evolves d w (snd (bnd (newId v ''xfer'') (\<lambda>i. carry_out v a i (recipient_of s (xa_recipientDeviceId a))
      (decideTransfer (transfer_request_of s a sender available at) policy) corr at) w))"
    if "enough (xa_senderMerchantId a) available w" for s sender available at corr w
  proof (rule evolve.bnd_at)
    show "evolves d w (snd (newId v ''xfer'' w))" by (rule evolve.keeps_at) (intro evolves_service_rules)
    fix i w1
    assume "newId v ''xfer'' w = (Inr i, w1)"
    then have "enough (xa_senderMerchantId a) available w1" using that by (auto simp: newId_def enough_def)
    then show "evolves d w1 (snd (carry_out v a i (recipient_of s (xa_recipientDeviceId a))
        (decideTransfer (transfer_request_of s a sender available at) policy) corr at w1))"
      using decideTransfer_moves [of policy "transfer_request_of s a sender available at"] assms
      by (intro carry_out_evolves) (auto simp: transfer_policy_ok_def enough_def transfer_request_of_def)
  qed
  have "evolves d w (snd (attempt_transfer v policy a s sender at corr w))" for s sender at corr w
    unfolding attempt_transfer_def
  proof (rule evolve.bnd_at)
    show "evolves d w (snd (availableMinor (xa_senderMerchantId a) w))" by (rule evolve.keeps_at) (intro evolves_service_rules)
    fix available w1
    assume "availableMinor (xa_senderMerchantId a) w = (Inr available, w1)"
    then have "enough (xa_senderMerchantId a) available w1" using availableMinor_run by (fastforce simp: enough_def)
    then show "evolves d w1 (snd ((let x = decideTransfer (transfer_request_of s a sender available at) policy in
        bnd (newId v ''xfer'') (\<lambda>i. carry_out v a i (recipient_of s (xa_recipientDeviceId a)) x corr at)) w1))"
      unfolding Let_def by (rule tail)
  qed
  then have "keeps (evolves d) (attempt_transfer v policy a s sender at corr)" for s sender at corr by (simp add: keeps_def)
  then show ?thesis unfolding settleShopTransfer_def by (intro evolves_service_rules)
qed

section \<open>Reversals\<close>

lemma releaseFromUnderReview_evolves:
  "releaseFromUnderReview c w = (Inr u, w') \<Longrightarrow> amount_matches (w_db w) c \<Longrightarrow> evolves d w w'"
  using resolve_evolves [OF _ _ step_release_review] unfolding releaseFromUnderReview_def by (metis insertI1 insertI2)

lemma return_value_evolves: "return_value s tx m c w = (Inr u, w') \<Longrightarrow> amount_matches (w_db w) c \<Longrightarrow> evolves d w w'"
  by (auto simp: return_value_def split: option.splits if_splits intro: release_evolves releaseFromUnderReview_evolves)

lemma quiet_reversal_audit: "keeps quiet (reversal_audit d at a r m tx b af x corr)"
  unfolding reversal_audit_def by (intro quiet_rules)

lemma quiet_reversal_parts:
  "keeps quiet (known_correlation d k)" "keeps quiet (approve_case c ap at)" "keeps quiet (close_job tx s at)"
  "keeps quiet (open_reversal_case d tx m corr at e)"
  unfolding known_correlation_def approve_case_def close_job_def open_reversal_case_def
  by (intro quiet_rules quiet_approveSupportCase)+

lemma post_reversal_parts:
  assumes "post_reversal d tx m ap support at current w = (Inr r, w')"
  obtains t corr wa c wb wc t' wd we wf where "rehydrate current = Inr t"
    "known_correlation d (map_option sw_correlationId support) w = (Inr corr, wa)"
    "money_context d m tx (tx_amount t) at corr \<lparr>ac_userId = ''system'', ac_role = ra_role ap, ac_deviceId = None\<rparr> wa = (Inr c, wb)"
    "return_value (w_db w) tx m c wb = (Inr (), wc)"
    "transitionTo t REVERSED at (Some ''authorized adjustment posted'') None = Inr t'"
    "persistRehydrated t' current wc = (Inr (), wd)"
    "reversal_audit d at ADJUSTMENT_POSTED (ra_role ap) m tx REVERSAL_REQUIRED REVERSED None corr wd = (Inr (), we)"
    "approve_case support ap at we = (Inr (), wf)"
    "recordIdempotencyResult m (tw_idempotencyKey current) REVERSED at wf = (Inr (), w')"
    "r = reversedResult tx (tw_idempotencyKey current) (tw_providerReference current) (case_reference tx support)"
  using assms by (clarsimp simp: post_reversal_def bnd_Inr seq_Inr)

lemma post_reversal_evolves:
  assumes run: "post_reversal d tx m ap support at current w = (Inr r, w')" and ok: "sale_ok d w"
    and row: "current \<in> set (transactions (w_db w))" "tw_id current = tx"
  shows "evolves d w w'"
  using run
proof (rule post_reversal_parts)
  fix t corr wa c wb wc t' wd we wf
  assume s: "rehydrate current = Inr t"
    "known_correlation d (map_option sw_correlationId support) w = (Inr corr, wa)"
    "money_context d m tx (tx_amount t) at corr \<lparr>ac_userId = ''system'', ac_role = ra_role ap, ac_deviceId = None\<rparr> wa = (Inr c, wb)"
    "return_value (w_db w) tx m c wb = (Inr (), wc)"
    "transitionTo t REVERSED at (Some ''authorized adjustment posted'') None = Inr t'"
    "persistRehydrated t' current wc = (Inr (), wd)"
    "reversal_audit d at ADJUSTMENT_POSTED (ra_role ap) m tx REVERSAL_REQUIRED REVERSED None corr wd = (Inr (), we)"
    "approve_case support ap at we = (Inr (), wf)"
    "recordIdempotencyResult m (tw_idempotencyKey current) REVERSED at wf = (Inr (), w')"
  have q: "quiet w wb" using quiet.trans [OF keepsD [OF quiet_reversal_parts(1) s(2)] quiet_steps(4) [OF s(3)]] .
  then have eb: "evolves d w wb" by (rule evolves_quiet)
  then have okb: "sale_ok d wb" using ok by (simp add: evolves_def)
  have rowb: "current \<in> set (transactions (w_db wb))" using q row by (simp add: quiet_def same_on_def money_tables_def)
  have "amount_matches (w_db wb) c"
    by (rule amount_matches_row [OF okb rowb]) (use row money_context_Inr [OF s(3)] rehydrate_Inr [OF s(1)] in simp_all)
  then have ec: "evolves d w wc" using evolve.trans [OF eb return_value_evolves [OF s(4)]] by blast
  then have "ids_grow w wc" using ok by (simp add: evolves_def)
  then have "known_id d ''txn'' (tx_id t') wc"
    using transitionTo_Inr [OF s(5)] rehydrate_Inr [OF s(1)] row ok known_id_mono by (auto simp: sale_ok_def)
  then have "evolves d w wd" using evolve.trans [OF ec persistRehydrated_evolves [OF s(6)]] by blast
  from evolve.trans [OF this evolves_quiet [OF quiet.trans [OF keepsD [OF quiet_reversal_audit s(7)] keepsD [OF quiet_reversal_parts(2) s(8)]]]]
  show ?thesis using evolve.trans evolves_recordIdempotencyResult [OF s(9)] by blast
qed

lemma grow_quiet: "keeps quiet m \<Longrightarrow> keeps ids_grow m"
  by (erule keeps_mono) (simp add: quiet_def)

lemma grow_return_value: "keeps ids_grow (return_value s tx m c)"
  unfolding return_value_def
  by (intro grow.keeps_rules grow_service.keeps_writes grow_service.keeps_rest [OF rest_resolutions(4)])

lemma grow_persistRehydrated: "keeps ids_grow (persistRehydrated t row)"
  unfolding persistRehydrated_def by (intro grow_service.keeps_writes)

lemma reverse_phase_evolves: "keeps (evolves d) (reverse_phase d tx m ap support row)"
proof (rule keepsI, rule evolves_if_ok)
  fix w r w'
  assume run: "reverse_phase d tx m ap support row w = (r, w')" and ok: "sale_ok d w"
  show "evolves d w w'"
  proof (cases r)
    case (Inl e)
    have grow: "keeps ids_grow (reverse_phase d tx m ap support row)"
      unfolding reverse_phase_def post_reversal_def Let_def
      by (intro grow.keeps_rules grow_return_value grow_persistRehydrated grow_service.keeps_writes
          grow_quiet [OF quiet_reversal_parts(1)] grow_quiet [OF quiet_reversal_parts(2)] grow_quiet [OF quiet_reversal_audit]
          grow_quiet [OF quiet_money_context])
    show ?thesis by (rule rolled_back_evolves [OF run [unfolded Inl reverse_phase_def] keepsD [OF grow run]])
  next
    case (Inr x)
    from run [unfolded Inr reverse_phase_def db_transaction_Inr Let_def] obtain at w1 where
      n: "now d w = (Inr at, w1)" and body: "(case findTransaction (w_db w1) tx (Some m) of
         None \<Rightarrow> ret (reversedResult tx (tw_idempotencyKey row) (tw_providerReference row) (case_reference tx support))
       | Some cur \<Rightarrow>
           if tw_state cur \<noteq> REVERSAL_REQUIRED
           then ret (reversedResult tx (tw_idempotencyKey row) (tw_providerReference row) (case_reference tx support))
           else post_reversal d tx m ap support at cur) w1 = (Inr x, w')"
      by (auto simp: bnd_Inr)
    have e1: "evolves d w w1" by (rule evolves_quiet [OF quiet_steps(6) [OF n]])
    have ok1: "sale_ok d w1" using e1 ok by (simp add: evolves_def)
    have "evolves d w1 w'"
    proof (cases "findTransaction (w_db w1) tx (Some m)")
      case None
      then show ?thesis using body by (simp add: evolve.refl)
    next
      case (Some cur)
      then show ?thesis
        using body post_reversal_evolves [OF _ ok1] findTransaction_SomeD [OF Some] by (auto simp: evolve.refl split: if_splits)
    qed
    then show ?thesis using e1 evolve.trans by blast
  qed
qed

lemma refused_reversal_evolves: "keeps (evolves d) (refused_reversal v k r a tx)"
  unfolding refused_reversal_def by (intro evolves_service_rules)

lemma completeReversal_evolves:
  assumes "\<And>f a b. reverse = Some f \<Longrightarrow> keeps (evolves d) (f a b)"
  shows "keeps (evolves d) (completeReversal d reverse tx m ap)"
proof -
  have "keeps (evolves d) (request_reversal reverse tx ref)" for ref
    using assms by (auto simp: request_reversal_def evolve.keeps_ret split: option.split)
  then show ?thesis
    unfolding completeReversal_def Let_def by (intro evolve.keeps_rules refused_reversal_evolves reverse_phase_evolves)
qed

lemma mark_reversal_parts:
  assumes "mark_reversal d tx m reason row w = (Inr r, w')"
  obtains at wa t corr wb wc t' wd k we where "now d w = (Inr at, wa)" "rehydrate row = Inr t"
    "known_correlation d (map_option pw_correlationId (findPendingResolution (w_db wa) tx)) wa = (Inr corr, wb)"
    "close_job tx (tw_state row) at wb = (Inr (), wc)" "transitionTo t REVERSAL_REQUIRED at (Some reason) None = Inr t'"
    "persistRehydrated t' row wc = (Inr (), wd)" "open_reversal_case d tx m corr at k wd = (Inr (), we)"
    "reversal_audit d at TRANSACTION_TRANSITIONED OPS_SUPPORT m tx (tw_state row) REVERSAL_REQUIRED (Some reason) corr we = (Inr (), w')"
  using assms by (clarsimp simp: mark_reversal_def bnd_Inr seq_Inr)

lemma grow_mark: "keeps ids_grow (mark_reversal d tx m reason row)"
  unfolding mark_reversal_def
  by (intro grow.keeps_rules grow_persistRehydrated grow_service.keeps_writes quiet_reversal_parts [THEN grow_quiet]
      grow_quiet [OF quiet_reversal_audit])

lemma mark_reversal_evolves:
  assumes run: "mark_reversal d tx m reason row w = (r, w')" and ok: "sale_ok d w" and row: "row \<in> set (transactions (w_db w))" "tw_id row = tx"
  shows "evolves d w w'"
proof (cases r)
  case (Inl e)
  show ?thesis by (rule rolled_back_evolves [OF run [unfolded Inl mark_reversal_def] keepsD [OF grow_mark run]])
next
  case (Inr x)
  from run [unfolded Inr] show ?thesis
  proof (rule mark_reversal_parts)
    fix at wa t corr wb wc t' wd k we
    assume s: "now d w = (Inr at, wa)" "rehydrate row = Inr t"
      "known_correlation d (map_option pw_correlationId (findPendingResolution (w_db wa) tx)) wa = (Inr corr, wb)"
      "close_job tx (tw_state row) at wb = (Inr (), wc)" "transitionTo t REVERSAL_REQUIRED at (Some reason) None = Inr t'"
      "persistRehydrated t' row wc = (Inr (), wd)" "open_reversal_case d tx m corr at k wd = (Inr (), we)"
      "reversal_audit d at TRANSACTION_TRANSITIONED OPS_SUPPORT m tx (tw_state row) REVERSAL_REQUIRED (Some reason) corr we = (Inr (), w')"
    have q: "quiet w wc"
      using quiet.trans keepsD [OF quiet_now s(1)] keepsD [OF quiet_reversal_parts(1) s(3)] keepsD [OF quiet_reversal_parts(3) s(4)] by blast
    then have "known_id d ''txn'' (tx_id t') wc"
      using transitionTo_Inr [OF s(5)] rehydrate_Inr [OF s(2)] row ok known_id_mono by (auto simp: sale_ok_def quiet_def)
    then have "evolves d w wd" using evolve.trans [OF evolves_quiet [OF q] persistRehydrated_evolves [OF s(6)]] by blast
    then show ?thesis
      using evolve.trans evolves_quiet [OF quiet.trans [OF keepsD [OF quiet_reversal_parts(4) s(7)] keepsD [OF quiet_reversal_audit s(8)]]] by blast
  qed
qed

lemma requireReversal_evolves: "keeps (evolves d) (requireReversal d tx m reason)"
proof (rule keepsI, rule evolves_if_ok)
  fix w r w'
  assume run: "requireReversal d tx m reason w = (r, w')" and ok: "sale_ok d w"
  show "evolves d w w'"
  proof (cases "findTransaction (w_db w) tx (Some m)")
    case None
    then show ?thesis using run keepsD [OF refused_reversal_evolves] by (auto simp: requireReversal_def bnd_def get_db_def)
  next
    case (Some row)
    then show ?thesis
      using run mark_reversal_evolves [OF _ ok] findTransaction_SomeD [OF Some] keepsD [OF refused_reversal_evolves]
      by (auto simp: requireReversal_def bnd_def get_db_def ret_def evolve.refl split: if_splits)
  qed
qed

end
