(* ===== verification/Money_Service_Properties.thy ===== *)
theory Money_Service_Properties
  imports Money_Services
begin

text \<open>
  What each money service promises: a transfer between shops moves what it says and once, a deposit is credited once, profit is
  moved and never created, a gateway payment is credited at most once whatever is delivered when, and a reversal gives the value back.
\<close>

section \<open>Transfers between shops\<close>

definition available :: "world \<Rightarrow> string \<Rightarrow> int" where
  "available w m = netMinor (w_db w) m [MERCHANT_AVAILABLE, MERCHANT_FUNDS]"

lemma available_same: "ledger_entries (w_db w') = ledger_entries (w_db w) \<Longrightarrow> available w' m = available w m"
  by (simp add: available_def netMinor_net_rows)

definition moved :: "string \<Rightarrow> string \<Rightarrow> int \<Rightarrow> int \<Rightarrow> world \<Rightarrow> world \<Rightarrow> bool" where
  "moved sender recipient amount fee w w' \<longleftrightarrow>
     (\<forall>m. available w' m = available w m - (if m = sender then amount + fee else 0) + (if m = recipient then amount else 0))"

lemma postTransfer_moves:
  assumes "postTransfer p w = (Inr u, w')"
  shows "moved (xt_senderMerchantId p) (xt_recipientMerchantId p) (xt_amountMinor p) (xt_feeMinor p) w w' \<and>
    shop_transfers (w_db w') = shop_transfers (w_db w)"
proof -
  from assms obtain amount fee where m: "mk_money (JInt (xt_amountMinor p)) ETB = Inr amount" "mk_money (JInt (xt_feeMinor p)) ETB = Inr fee"
    and post: "postShopTransfer \<lparr>hs_senderMerchantId = xt_senderMerchantId p, hs_recipientMerchantId = xt_recipientMerchantId p,
      hs_amount = amount, hs_fee = fee, hs_at = xt_at p, hs_correlationId = xt_correlationId p, hs_postingId = xt_postingId p\<rparr> w = (Inr u, w')"
    by (auto simp: postTransfer_def bnd_Inr)
  let ?i = "\<lparr>hs_senderMerchantId = xt_senderMerchantId p, hs_recipientMerchantId = xt_recipientMerchantId p,
      hs_amount = amount, hs_fee = fee, hs_at = xt_at p, hs_correlationId = xt_correlationId p, hs_postingId = xt_postingId p\<rparr>"
  obtain debit where e: "posts (w_db w) (w_db w') (shop_transfer_entries ?i debit)" "minor debit = minor amount + minor fee"
    "shop_transfers (w_db w') = shop_transfers (w_db w)"
    using post by (rule postShopTransfer_effect) simp
  have "attributed [MERCHANT_AVAILABLE, MERCHANT_FUNDS] (shop_transfer_entries ?i debit)"
    by (simp add: attributed_def shop_transfer_entries_def)
  from posts_net [OF e(1) this] show ?thesis
    using m e(2,3) by (auto simp: moved_def available_def shop_transfer_entries_def mk_money_Inr)
qed

lemma saveShopTransfer_run: "saveShopTransfer n w = (Inr u, w') \<Longrightarrow>
   ledger_entries (w_db w') = ledger_entries (w_db w) \<and> shop_transfers (w_db w') = shop_transfers (w_db w) @ [transfer_row_of n]"
  by (auto simp: saveShopTransfer_def bnd_Inr seq_Inr)

lemma move_transfer_run:
  assumes "move_transfer v a i recipient x corr at w = (Inr r, w')"
  shows "r = Transfer_settled i (xd_creditMinor x) (xd_feeMinor x) recipient \<and>
    moved (xa_senderMerchantId a) recipient (xd_creditMinor x) (xd_feeMinor x) w w' \<and>
    (\<exists>row. shop_transfers (w_db w') = shop_transfers (w_db w) @ [row] \<and> zx_status row = XT_SETTLED \<and> zx_amountMinor row = xd_creditMinor x)"
proof -
  from assms obtain posting w1 w2 where n: "newId v ''post'' w = (Inr posting, w1)"
    and p: "postTransfer
           \<lparr>xt_postingId = posting, xt_senderMerchantId = xa_senderMerchantId a, xt_recipientMerchantId = recipient,
            xt_amountMinor = xd_creditMinor x, xt_feeMinor = xd_feeMinor x, xt_correlationId = corr, xt_at = at\<rparr> w1 = (Inr (), w2)"
    and s: "saveShopTransfer ((saved_transfer a i recipient (xd_creditMinor x) (xd_feeMinor x) XT_SETTLED corr at)\<lparr>nx_postingId := Some posting\<rparr>) w2 = (Inr (), w')"
    and r: "r = Transfer_settled i (xd_creditMinor x) (xd_feeMinor x) recipient"
    by (auto simp: move_transfer_def bnd_Inr seq_Inr)
  have w1: "available w1 m = available w m" "shop_transfers (w_db w1) = shop_transfers (w_db w)" for m
    using n by (auto simp: newId_def intro: available_same)
  have "available w' m = available w2 m" for m using saveShopTransfer_run [OF s] by (auto intro: available_same)
  then show ?thesis
    using r postTransfer_moves [OF p] saveShopTransfer_run [OF s] w1
    by (simp add: moved_def transfer_row_of_def saved_transfer_def)
qed

lemma carry_out_run:
  assumes "carry_out v a i recipient x corr at w = (Inr r, w')"
  obtains (refused) reason where "r = Transfer_turned_down reason" "ledger_entries (w_db w') = ledger_entries (w_db w)"
  | (queued) "xd_refusal x = None" "r = Transfer_queued i (xd_creditMinor x) (xd_feeMinor x)" "ledger_entries (w_db w') = ledger_entries (w_db w)"
  | (settled) to where "xd_refusal x = None" "recipient = Some to" "xd_outcome x \<noteq> TRANSFER_NEEDS_APPROVAL"
      "r = Transfer_settled i (xd_creditMinor x) (xd_feeMinor x) (xr_merchantId to)"
      "moved (xa_senderMerchantId a) (xr_merchantId to) (xd_creditMinor x) (xd_feeMinor x) w w'"
proof (cases "xd_refusal x")
  case (Some reason)
  then show thesis
    using assms refused by (auto simp: carry_out_def record_refusal_def seq_Inr dest: saveShopTransfer_run)
next
  case None
  then obtain to where to: "recipient = Some to" using assms by (cases recipient) (auto simp: carry_out_def)
  show thesis
  proof (cases "xd_outcome x = TRANSFER_NEEDS_APPROVAL")
    case True
    then show thesis
      using assms None to queued by (auto simp: carry_out_def queue_transfer_def seq_Inr dest: saveShopTransfer_run)
  next
    case False
    then show thesis
      using assms None to settled move_transfer_run [of v a i "xr_merchantId to" x corr at w r w'] by (auto simp: carry_out_def)
  qed
qed

text \<open>
  C5. A transfer between shops does what its result says: settled, the sender is debited the amount and the fee, which it had, another
  shop is credited the amount the sender asked for, and no other balance moves; queued or refused, no balance moves at all.
\<close>

theorem transfer_moves_what_it_says:
  assumes "settleShopTransfer d policy a w = (Inr r, w')" and "transfer_policy_ok policy"
  shows "case r of
      Transfer_settled i amount fee recipient \<Rightarrow>
        amount = xa_amountMinor a \<and> 0 < amount \<and> 0 \<le> fee \<and> amount + fee \<le> available w (xa_senderMerchantId a) \<and>
        recipient \<noteq> xa_senderMerchantId a \<and> moved (xa_senderMerchantId a) recipient amount fee w w'
    | _ \<Rightarrow> (\<forall>m. available w' m = available w m)"
proof -
  from assms(1) obtain at w1 corr w2 where n: "now d w = (Inr at, w1)" "newId d ''corr'' w1 = (Inr corr, w2)"
    and body: "(case findMerchant (w_db w2) (xa_senderMerchantId a) of
       None \<Rightarrow> ret (Transfer_turned_down SENDER_NOT_ACTIVE)
     | Some sender \<Rightarrow> attempt_transfer d policy a (w_db w2) sender at corr) w2 = (Inr r, w')"
    by (auto simp: settleShopTransfer_def bnd_Inr)
  have w2: "available w2 m = available w m" for m using n by (auto simp: now_def newId_def intro!: available_same)
  show ?thesis
  proof (cases "findMerchant (w_db w2) (xa_senderMerchantId a)")
    case None
    then show ?thesis using body w2 by auto
  next
    case (Some sender)
    let ?s = "xa_senderMerchantId a"
    from body Some obtain av w3 i w4 where run: "availableMinor ?s w2 = (Inr av, w3)" "newId d ''xfer'' w3 = (Inr i, w4)"
      "carry_out d a i (recipient_of (w_db w2) (xa_recipientDeviceId a))
         (decideTransfer (transfer_request_of (w_db w2) a sender av at) policy) corr at w4 = (Inr r, w')"
      by (auto simp: attempt_transfer_def Let_def bnd_Inr)
    let ?q = "transfer_request_of (w_db w2) a sender av at"
    have av: "w3 = w2" "av = available w2 ?s" using availableMinor_run [OF run(1)] by (auto simp: available_def)
    have w4: "available w4 m = available w m" for m using run(2) av(1) w2 by (auto simp: newId_def available_def)
    from run(3) show ?thesis
    proof (cases rule: carry_out_run)
      case (refused reason)
      then show ?thesis using w4 available_same [OF refused(2)] by simp
    next
      case queued
      then show ?thesis using w4 available_same [OF queued(3)] by simp
    next
      case (settled to)
      then show ?thesis
        using decideTransfer_moves [of policy ?q] assms(2) w4 w2 av
        by (auto simp: transfer_policy_ok_def transfer_request_of_def moved_def)
    qed
  qed
qed

section \<open>A concrete transfer\<close>

definition two_shops :: db where
  "two_shops = sample_db
     \<lparr>merchants := [\<lparr>me_id = ''m1'', me_status = MER_ACTIVE, me_createdAt = t0, me_updatedAt = t0\<rparr>,
                    \<lparr>me_id = ''m2'', me_status = MER_ACTIVE, me_createdAt = t0, me_updatedAt = t0\<rparr>],
      devices := [\<lparr>dv_id = ''d1'', dv_merchantId = ''m1'', dv_status = DEV_ACTIVE, dv_deviceType = ''WEB_POS'', dv_createdAt = t0, dv_updatedAt = t0\<rparr>,
                  \<lparr>dv_id = ''d2'', dv_merchantId = ''m2'', dv_status = DEV_ACTIVE, dv_deviceType = ''WEB_POS'', dv_createdAt = t0, dv_updatedAt = t0\<rparr>]\<rparr>"

definition shops_funded :: world where
  "shops_funded = snd (fundMerchant sample_fund \<lparr>w_db = two_shops, w_ticks = 0, w_ids = 0, w_calls = []\<rparr>)"

lemma shops_funded_eq:
  "shops_funded = \<lparr>w_db = two_shops\<lparr>ledger_accounts := funded_accounts, ledger_entries := funded_entries\<rparr>,
     w_ticks = 0, w_ids = 0, w_calls = []\<rparr>"
  by (simp add: shops_funded_def two_shops_def run_all run_start shop_rows cong: run_congs)

lemma shops_funded_fields:
  "merchants (w_db shops_funded) = merchants two_shops" "devices (w_db shops_funded) = devices two_shops"
  "transactions (w_db shops_funded) = [sample_tx]" "idempotency_records (w_db shops_funded) = []"
  "ledger_accounts (w_db shops_funded) = funded_accounts" "ledger_entries (w_db shops_funded) = funded_entries"
  "balance_reservations (w_db shops_funded) = []" "audit_events (w_db shops_funded) = []" "pending_resolutions (w_db shops_funded) = []"
  "support_cases (w_db shops_funded) = []" "recovery_claims (w_db shops_funded) = []" "platform_fee_settings (w_db shops_funded) = None"
  "provider_commission_rates (w_db shops_funded) = []" "commission_entries (w_db shops_funded) = []"
  "software_fee_charges (w_db shops_funded) = []" "pending_orders (w_db shops_funded) = []" "reversal_requests (w_db shops_funded) = []"
  "complaint_reviews (w_db shops_funded) = []" "shop_transfers (w_db shops_funded) = []" "topup_orders (w_db shops_funded) = []"
  "funding_submissions (w_db shops_funded) = []" "w_ticks shops_funded = 0" "w_ids shops_funded = 0" "w_calls shops_funded = []"
  by (simp_all add: shops_funded_eq two_shops_def sample_db_def empty_db_def)

definition plain_deps :: sale_deps where
  "plain_deps = shop_deps CONFIRMED_SUCCESS ST_SUCCESS"

definition send_800 :: transfer_attempt where
  "send_800 = \<lparr>xa_senderMerchantId = ''m1'', xa_senderDeviceId = ''d1'', xa_senderOperatorId = ''o1'', xa_recipientDeviceId = ''d2'', xa_amountMinor = 800\<rparr>"

definition careful_policy :: transfer_policy where
  "careful_policy = TRAINING_TRANSFER_POLICY\<lparr>xp_approvalThresholdMinor := 100\<rparr>"

lemmas run_money = run_all shop_rows shop_deps_fields moments_of_shop shops_funded_fields two_shops_def sample_tx_def plain_deps_def available_def
  availableMinor_def audit_merchant_def merchant_event_def

lemma no_fee: "transferFeeFor 800 0 = 0"
  by (simp add: transferFeeFor_def)

lemmas run_transfer = run_money no_fee settleShopTransfer_def attempt_transfer_def carry_out_def move_transfer_def queue_transfer_def
  record_refusal_def transfer_request_of_def recipient_of_def saved_transfer_def transfer_row_of_def saveShopTransfer_def
  sentTodayMinor_def shop_status_of.simps postTransfer_def postShopTransfer_def shop_transfer_entries_def
  decideTransfer_def send_800_def TRAINING_TRANSFER_POLICY_def

definition sent_800 where
  "sent_800 = settleShopTransfer plain_deps TRAINING_TRANSFER_POLICY send_800 shops_funded"

lemma transfer_run:
  "case sent_800 of (r, w) \<Rightarrow>
     r = Inr (Transfer_settled ''xfer_i'' 800 0 ''m2'') \<and> available w ''m1'' = 200 \<and> available w ''m2'' = 800"
  by (simp add: sent_800_def run_transfer cong: run_congs)

theorem transfer_moves_what_it_says_witness:
  "available (snd sent_800) ''m2'' = available shops_funded ''m2'' + 800"
proof -
  have p: "transfer_policy_ok TRAINING_TRANSFER_POLICY" by code_simp
  have "settleShopTransfer plain_deps TRAINING_TRANSFER_POLICY send_800 shops_funded =
      (Inr (Transfer_settled ''xfer_i'' 800 0 ''m2''), snd sent_800)"
    unfolding sent_800_def [symmetric] by (rule prod_eqI) (use transfer_run in \<open>simp_all add: case_prod_beta\<close>)
  from transfer_moves_what_it_says [OF this p] show ?thesis by (simp add: moved_def send_800_def)
qed

section \<open>A queued transfer\<close>

lemma update_count_run: "update_count table put P g w = (x, w') \<Longrightarrow>
   x = Inr (count_where P (table (w_db w))) \<and> w' = w\<lparr>w_db := put (update_where P g) (w_db w)\<rparr>"
  by (auto simp: update_count_def bnd_def seq_def get_db_def put_db_def ret_def)

definition waiting :: "string \<Rightarrow> world \<Rightarrow> bool" where
  "waiting i w \<longleftrightarrow> list_ex (awaits_approval i) (shop_transfers (w_db w))"

lemma approve_run:
  assumes "approveShopTransfer i p a t w = (x, w')"
  shows "x = Inr (count_where (awaits_approval i) (shop_transfers (w_db w)))" "\<not> waiting i w'"
    "ledger_entries (w_db w') = ledger_entries (w_db w)"
proof -
  note run = update_count_run [OF assms [unfolded approveShopTransfer_def]]
  show "x = Inr (count_where (awaits_approval i) (shop_transfers (w_db w)))" using run by blast
  have w': "w_db w' = update_transfers (update_where (awaits_approval i)
      (\<lambda>r. r\<lparr>zx_status := XT_SETTLED, zx_postingId := Some p, zx_approvedBy := Some a, zx_approvedAt := Some t, zx_updatedAt := t\<rparr>)) (w_db w)"
    using run by simp
  show "ledger_entries (w_db w') = ledger_entries (w_db w)" by (simp add: w' update_transfers_def)
  show "\<not> waiting i w'"
    by (simp add: waiting_def w' update_transfers_def update_where_def list_ex_iff) (auto simp: awaits_approval_def)
qed

lemma guarded_insert_run:
  "bnd (get_db (\<lambda>d. d)) (\<lambda>d. seq (require (a d) e) (seq (require (b d) f) (seq (require (c d) g) (put_db h)))) w = (x, w') \<Longrightarrow>
   w' = w \<or> w_db w' = h (w_db w) \<and> b (w_db w)"
  by (auto simp: bnd_def seq_def require_run get_db_def put_db_def split: if_splits)

text \<open>The id of a transfer is the primary key of its table: no write loses that.\<close>

definition unique_transfers :: "world \<Rightarrow> bool" where
  "unique_transfers w \<longleftrightarrow> distinct (map zx_id (shop_transfers (w_db w)))"

lemma unique_transfers_kept:
  "unique_transfers w \<Longrightarrow> unique_transfers (snd (saveShopTransfer n w))"
  "unique_transfers w \<Longrightarrow> unique_transfers (snd (approveShopTransfer i p a t w))"
  "unique_transfers w \<Longrightarrow> unique_transfers (snd (refuseShopTransfer i x a t w))"
proof -
  have same: "map zx_id (update_where P g rows) = map zx_id rows" if "\<And>r. zx_id (g r) = zx_id r" for P g rows
    using that by (simp add: update_where_def)
  assume ok: "unique_transfers w"
  show "unique_transfers (snd (approveShopTransfer i p a t w))" "unique_transfers (snd (refuseShopTransfer i x a t w))"
    using ok update_count_run [OF prod.collapse [symmetric], of shop_transfers update_transfers]
    by (simp_all add: unique_transfers_def approveShopTransfer_def refuseShopTransfer_def update_transfers_def same)
  have "unique_transfers w'" if "saveShopTransfer n w = (x, w')" for x w'
  proof -
    have "w' = w \<or> w_db w' = (w_db w)\<lparr>shop_transfers := shop_transfers (w_db w) @ [transfer_row_of n]\<rparr> \<and>
        nx_id n \<notin> zx_id ` set (shop_transfers (w_db w))"
      using guarded_insert_run [OF that [unfolded saveShopTransfer_def]] by (auto simp: image_iff)
    then show ?thesis using ok by (elim disjE conjE) (simp_all add: unique_transfers_def transfer_row_of_def)
  qed
  from this [OF prod.collapse [symmetric]] show "unique_transfers (snd (saveShopTransfer n w))" .
qed

lemma waiting_count:
  assumes "unique_transfers w"
  shows "count_where (awaits_approval i) (shop_transfers (w_db w)) = (if waiting i w then 1 else 0)"
proof -
  have eq: "awaits_approval i = (\<lambda>r. zx_id r = i \<and> zx_status r = XT_NEEDS_APPROVAL)" by (simp add: awaits_approval_def fun_eq_iff)
  have "count_where (awaits_approval i) (shop_transfers (w_db w)) \<le> 1"
    unfolding eq by (rule count_where_unique) (use assms in \<open>simp add: unique_transfers_def\<close>)
  moreover have "0 < count_where (awaits_approval i) (shop_transfers (w_db w)) \<longleftrightarrow> waiting i w"
    unfolding waiting_def count_where_pos list_ex_iff ..
  ultimately show ?thesis by auto
qed

text \<open>The posting of an approval, and the world it is made in: the one the claim leaves.\<close>

definition approval_posting :: "sale_deps \<Rightarrow> transfer_row \<Rightarrow> world \<Rightarrow> transfer_posting" where
  "approval_posting d row w =
     \<lparr>xt_postingId = sd_newId d ''post'' (w_ids w), xt_senderMerchantId = zx_senderMerchantId row,
      xt_recipientMerchantId = zx_recipientMerchantId row, xt_amountMinor = zx_amountMinor row,
      xt_feeMinor = zx_feeMinor row, xt_correlationId = zx_correlationId row, xt_at = sd_now d (w_ticks w)\<rparr>"

definition claimed_world :: "sale_deps \<Rightarrow> string \<Rightarrow> transfer_row \<Rightarrow> world \<Rightarrow> world" where
  "claimed_world d admin row w = snd (approveShopTransfer (zx_id row) (sd_newId d ''post'' (w_ids w)) admin (sd_now d (w_ticks w))
     (w\<lparr>w_ticks := Suc (w_ticks w), w_ids := Suc (w_ids w)\<rparr>))"

text \<open>
  C6. A queued transfer is posted once. An approval, however old the row it was decided on, moves the amount and the fee of that row exactly
  when the row in the database still waits and the ledger takes the posting, and then the row waits no more; where the row waits no
  more, or the ledger refuses the posting, the answer says so and the database is as it was.
\<close>

theorem queued_transfer_posts_once:
  assumes "approve_queued d admin row w = (r, w')" and "unique_transfers w"
  shows "if \<not> waiting (zx_id row) w then r = Inr Decided_by_other \<and> w_db w' = w_db w
    else case fst (postTransfer (approval_posting d row w) (claimed_world d admin row w)) of
      Inl e \<Rightarrow> r = Inr Not_posted \<and> w_db w' = w_db w
    | Inr u \<Rightarrow> r = Inr Queue_approved \<and> \<not> waiting (zx_id row) w' \<and>
        moved (zx_senderMerchantId row) (zx_recipientMerchantId row) (zx_amountMinor row) (zx_feeMinor row) w w'"
proof -
  let ?i = "zx_id row" and ?posting = "sd_newId d ''post'' (w_ids w)" and ?at = "sd_now d (w_ticks w)"
  let ?w = "w\<lparr>w_ticks := Suc (w_ticks w), w_ids := Suc (w_ids w)\<rparr>"
  let ?v = "claimed_world d admin row w" and ?p = "approval_posting d row w"
  have same: "available ?w m = available w m" "waiting ?i ?w = waiting ?i w" "unique_transfers ?w" for m
    using assms(2) by (simp_all add: available_def waiting_def unique_transfers_def)
  have claim: "approveShopTransfer ?i ?posting admin ?at ?w = (Inr (if waiting ?i w then 1 else 0), ?v)"
  proof -
    let ?a = "approveShopTransfer ?i ?posting admin ?at ?w"
    have "fst ?a = Inr (count_where (awaits_approval ?i) (shop_transfers (w_db ?w)))" by (rule approve_run(1) [OF prod.collapse [symmetric]])
    moreover have "snd ?a = ?v" by (simp add: claimed_world_def)
    ultimately show ?thesis unfolding waiting_count [OF same(3)] same(2) by (simp only: prod_eq_iff fst_conv snd_conv)
  qed
  note c = approve_run(2,3) [OF claim]
  have run: "(r, w') = (case claim_and_post admin row ?posting ?at ?w of
      (Inl e, v) \<Rightarrow> (Inr Not_posted, v) | (Inr b, v) \<Rightarrow> (Inr (if b then Queue_approved else Decided_by_other), v))"
    using assms(1) by (auto simp: approve_queued_def bnd_def now_def newId_def try_catch_def ret_def split: prod.splits sum.splits)
  show ?thesis
  proof (cases "waiting ?i w")
    case False
    then have "count_where (awaits_approval ?i) (shop_transfers (w_db w)) = 0" using waiting_count [OF assms(2)] by simp
    then have "w_db ?v = w_db w"
      using update_count_run [OF claim [unfolded approveShopTransfer_def]] by (simp add: update_transfers_def update_where_none)
    moreover have "claim_and_post admin row ?posting ?at ?w = (Inr False, ?v)"
      using False claim by (simp add: claim_and_post_def db_transaction_def bnd_def ret_def)
    ultimately show ?thesis using run False by simp
  next
    case True
    then have body: "claim_and_post admin row ?posting ?at ?w = db_transaction (\<lambda>_. seq (postTransfer ?p) (ret True) ?v) ?w"
      using claim by (simp add: claim_and_post_def db_transaction_def bnd_def approval_posting_def)
    show ?thesis
    proof (cases "fst (postTransfer ?p ?v)")
      case (Inl e)
      then have "claim_and_post admin row ?posting ?at ?w = (Inl e, (snd (postTransfer ?p ?v))\<lparr>w_db := w_db ?w\<rparr>)"
        by (auto simp: body db_transaction_def seq_def bnd_def split: prod.splits)
      then show ?thesis using run True Inl by simp
    next
      case (Inr u)
      then have p: "postTransfer ?p ?v = (Inr u, snd (postTransfer ?p ?v))" by (metis prod.collapse)
      then have "claim_and_post admin row ?posting ?at ?w = (Inr True, snd (postTransfer ?p ?v))"
        by (auto simp: body db_transaction_def seq_def bnd_def ret_def split: prod.splits)
      then have w': "r = Inr Queue_approved" "w' = snd (postTransfer ?p ?v)" using run by simp_all
      have "available ?v m = available w m" for m using available_same [OF c(2)] same(1) by simp
      then have "moved (zx_senderMerchantId row) (zx_recipientMerchantId row) (zx_amountMinor row) (zx_feeMinor row) w w' \<and> \<not> waiting ?i w'"
        using postTransfer_moves [OF p] c(1) w'(2) by (simp add: moved_def waiting_def approval_posting_def)
      then show ?thesis using True Inr w'(1) by simp
    qed
  qed
qed

lemmas run_approval = approve_queued_def claim_and_post_def decideQueuedTransfer_def refuse_queued_def findShopTransfer_def listTransferQueue_def
  approveShopTransfer_def refuseShopTransfer_def update_transfers_def update_count_def awaits_approval_def newest_first_def careful_policy_def

definition queued_800 :: world where
  "queued_800 = snd (settleShopTransfer plain_deps careful_policy send_800 shops_funded)"

definition row_800 :: transfer_row where
  "row_800 = hd (shop_transfers (w_db queued_800))"

definition approved_800 where
  "approved_800 = approve_queued plain_deps ''admin'' row_800 queued_800"

lemma approval_run:
  "fst approved_800 = Inr Queue_approved \<and> waiting (zx_id row_800) queued_800 \<and> unique_transfers queued_800 \<and>
   (zx_senderMerchantId row_800, zx_recipientMerchantId row_800, zx_amountMinor row_800, zx_feeMinor row_800) = (''m1'', ''m2'', 800, 0)"
  by (simp add: approved_800_def row_800_def queued_800_def waiting_def unique_transfers_def run_approval run_transfer cong: run_congs)

theorem queued_transfer_posts_once_witness:
  "\<not> waiting (zx_id row_800) (snd approved_800) \<and> available (snd approved_800) ''m2'' = available queued_800 ''m2'' + 800"
proof -
  have "approve_queued plain_deps ''admin'' row_800 queued_800 = (fst approved_800, snd approved_800)"
    by (simp add: approved_800_def)
  from queued_transfer_posts_once [OF this] show ?thesis using approval_run by (auto simp: moved_def split: sum.splits)
qed

text \<open>
  A queued transfer reserves nothing, and its approval looks at the claim and not at the balance: two transfers of 800, queued by
  a shop that has 1000, are both approved, and the shop is left with a negative balance.
\<close>

lemma approval_overdraws:
  "case settleShopTransfer plain_deps careful_policy send_800 shops_funded of (_, w1) \<Rightarrow>
     case settleShopTransfer plain_deps careful_policy send_800 w1 of (_, w2) \<Rightarrow>
     case map zx_id (listTransferQueue (w_db w2)) of
       [i, j] \<Rightarrow>
         case decideQueuedTransfer plain_deps ''admin'' i None w2 of (_, w3) \<Rightarrow>
         case decideQueuedTransfer plain_deps ''admin'' j None w3 of (r, w4) \<Rightarrow>
           r = Inr Queue_approved \<and> available w4 ''m1'' = - 600
     | _ \<Rightarrow> False"
  by (simp add: run_approval run_transfer cong: run_congs)

section \<open>Deposits\<close>

lemma simple_rows:
  assumes "db_transaction (seq (ensureAccounts m t) (appendEntries (simple_posting pid cid t es))) w = (Inr u, w')"
  obtains acc rows where
    "w' = w\<lparr>w_db := (w_db w)\<lparr>ledger_accounts := acc, ledger_entries := ledger_entries (w_db w) @ rows\<rparr>\<rparr>"
    "list_all2 mirrors rows es" "\<forall>r\<in>set rows. ew_postingId r = pid"
proof -
  from assms obtain w1 where ens: "ensureAccounts m t w = (Inr (), w1)"
    and app: "appendEntries (simple_posting pid cid t es) w1 = (Inr u, w')"
    by (auto simp: seq_Inr)
  obtain acc where w1: "w1 = w\<lparr>w_db := (w_db w)\<lparr>ledger_accounts := acc\<rparr>\<rparr>" using ens by (rule ensureAccounts_effect)
  obtain rows where "w' = w1\<lparr>w_db := (w_db w1)\<lparr>ledger_entries := ledger_entries (w_db w1) @ rows\<rparr>\<rparr>"
    "list_all2 mirrors rows es" "\<forall>r\<in>set rows. ew_postingId r = pid"
    using app by (rule appendEntries_effect) (simp add: simple_posting_def)
  then show thesis using that by (simp add: w1)
qed

lemma fundMerchant_moves:
  assumes "fundMerchant i w = (Inr u, w')"
  shows "available w' m = available w m + (if m = vi_merchantId i then minor (vi_amount i) else 0)" "0 < minor (vi_amount i)"
proof -
  let ?es = "[draft (merchantAccountId (vi_merchantId i) MERCHANT_AVAILABLE) MERCHANT_AVAILABLE
             (Some (vi_merchantId i)) None CREDIT (vi_amount i) FUNDING_CREDIT None,
           draft (platform_account BANK_CLEARING) BANK_CLEARING None None DEBIT (vi_amount i) FUNDING_CREDIT None]"
  have posts: "posts (w_db w) (w_db w') ?es" using simple_operation_effect assms unfolding fundMerchant_def by blast
  have "attributed [MERCHANT_AVAILABLE, MERCHANT_FUNDS] ?es" by (simp add: attributed_def)
  from posts_net [OF posts this, of m] show "available w' m = available w m + (if m = vi_merchantId i then minor (vi_amount i) else 0)"
    by (auto simp: available_def)
  show "0 < minor (vi_amount i)" using posts_positive [OF posts, of "hd ?es"] by simp
qed

lemma fundMerchant_posted:
  assumes "fundMerchant i w = (Inr u, w')"
  shows "postingExists (w_db w') (vi_postingId i)"
  using assms unfolding fundMerchant_def
  by (rule simple_rows) (auto simp: postingExists_def list_all2_Cons2)

lemma audit_merchant_run: "audit_merchant d c at k x corr m w = (Inr u, w') \<Longrightarrow> ledger_entries (w_db w') = ledger_entries (w_db w)"
  by (auto simp: audit_merchant_def saveAuditEvent_def bnd_Inr seq_Inr newId_def)

lemma depositRejection_None:
  "depositRejection n = None \<Longrightarrow> \<exists>a. n = JInt a \<and> safe_int a \<and> a mod 100 = 0 \<and> DEPOSIT_MIN_MINOR \<le> a \<and> a \<le> DEPOSIT_MAX_MINOR"
  by (auto simp: depositRejection_def not_less split: jsnum.splits if_splits)

text \<open>
  C7. A training deposit is credited once. A deposit that reports a credit was new, added its amount, which is whole birr within the limits,
  to the shop and to no other, and reports the balance after it; and wherever its posting exists, another deposit with the same
  request id writes nothing, whoever sends it.
\<close>

theorem deposit_credited_once:
  assumes "depositTrainingFunds d c q w = (Inr (Deposit_credited r), w')"
  shows "\<not> postingExists (w_db w) (deposit_posting (dq_clientRequestId q)) \<and>
    postingExists (w_db w') (deposit_posting (dq_clientRequestId q)) \<and>
    dq_amountMinor q = JInt (dr_amountMinor r) \<and> dr_amountMinor r mod 100 = 0 \<and>
    DEPOSIT_MIN_MINOR \<le> dr_amountMinor r \<and> dr_amountMinor r \<le> DEPOSIT_MAX_MINOR \<and>
    available w' m = available w m + (if m = ax_merchantId c then dr_amountMinor r else 0) \<and>
    dr_availableAfterMinor r = available w' (ax_merchantId c) \<and>
    (postingExists (w_db v) (deposit_posting (dq_clientRequestId q)) \<longrightarrow>
       w_db (snd (depositTrainingFunds d' c' (q'\<lparr>dq_clientRequestId := dq_clientRequestId q\<rparr>) v)) = w_db v)"
proof -
  let ?p = "deposit_posting (dq_clientRequestId q)"
  have replay: "postingExists (w_db v) ?p \<longrightarrow> w_db (snd (depositTrainingFunds d' c' (q'\<lparr>dq_clientRequestId := dq_clientRequestId q\<rparr>) v)) = w_db v"
    by (auto simp: depositTrainingFunds_def bnd_def now_def get_db_def ret_def lift_domain_def throw_def availableMinor_def
        split: option.split sum.split)
  have valid: "sd_mode d = TRAINING" "depositRejection (dq_amountMinor q) = None" "isCardMethod (dq_method q)"
    using assms by (auto simp: depositTrainingFunds_def split: if_splits option.splits)
  obtain a where a: "dq_amountMinor q = JInt a" "safe_int a" "a mod 100 = 0" "DEPOSIT_MIN_MINOR \<le> a" "a \<le> DEPOSIT_MAX_MINOR"
    using depositRejection_None [OF valid(2)] by (elim exE conjE) (rule that)
  from assms valid obtain at w1 amount where n: "now d w = (Inr at, w1)" and m: "mk_money (dq_amountMinor q) ETB = Inr amount"
    and body: "(if postingExists (w_db w1) ?p then
         bnd (availableMinor (ax_merchantId c)) (\<lambda>b. ret (Already_credited (receipt_of c q (minor amount) at b)))
       else credit_deposit d c q amount at) w1 = (Inr (Deposit_credited r), w')"
    by (auto simp: depositTrainingFunds_def bnd_Inr)
  have amount: "minor amount = a" using m a(1) by (simp add: mk_money_Inr)
  have w1: "w_db w1 = w_db w" using n by (auto simp: now_def)
  have new: "\<not> postingExists (w_db w1) ?p" using body by (auto simp: bnd_Inr split: if_splits)
  with body obtain w2 w3 b where fund: "fundMerchant
           \<lparr>vi_merchantId = ax_merchantId c, vi_amount = amount, vi_at = at, vi_correlationId = dq_clientRequestId q, vi_postingId = ?p\<rparr> w1 = (Inr (), w2)"
    and audit: "audit_merchant d c at TRAINING_DEPOSIT_CREDITED (Some (''TRAINING_DEPOSIT_'' @ dq_method q)) (dq_clientRequestId q)
            [(''depositId'', json_string ?p), (''amountMinor'', dec_int (minor amount)), (''method'', json_string (dq_method q))] w2 = (Inr (), w3)"
    and bal: "availableMinor (ax_merchantId c) w3 = (Inr b, w')" and r: "r = receipt_of c q (minor amount) at b"
    by (auto simp: credit_deposit_def bnd_Inr seq_Inr)
  have w': "w' = w3" "b = available w' (ax_merchantId c)" using availableMinor_run [OF bal] by (auto simp: available_def)
  have e: "ledger_entries (w_db w') = ledger_entries (w_db w2)" using audit_merchant_run [OF audit] w'(1) by simp
  have "available w1 m = available w m" by (simp add: available_def w1)
  then show ?thesis
    using replay new a amount fundMerchant_moves(1) [OF fund, of m] fundMerchant_posted [OF fund] available_same [OF e, of m] w'(2)
    by (auto simp: r receipt_of_def w1 postingExists_def e)
qed

definition shop_owner :: auth_context where
  "shop_owner = \<lparr>ax_userId = ''o1'', ax_role = MERCHANT_OWNER, ax_deviceId = ''d1'', ax_merchantId = ''m1''\<rparr>"

definition card_deposit :: deposit_request where
  "card_deposit = \<lparr>dq_amountMinor = JInt 50000, dq_method = ''TAP'', dq_clientRequestId = ''r1''\<rparr>"

definition deposited_500 where
  "deposited_500 = depositTrainingFunds plain_deps shop_owner card_deposit shops_funded"

definition receipt_500 :: deposit_receipt where
  "receipt_500 = receipt_of shop_owner card_deposit 50000 t0 51000"

lemma deposit_metadata_safe:
  "assertSafeMetadata (Some [(''depositId'', a), (''amountMinor'', b), (''method'', c)]) = Inr ()"
  by code_simp

lemmas run_deposit = run_money deposit_metadata_safe postingExists_def depositTrainingFunds_def depositRejection_def DEPOSIT_MIN_MINOR_def DEPOSIT_MAX_MINOR_def isCardMethod_def
  deposit_posting_def credit_deposit_def receipt_of_def funding_exists_def card_deposit_def shop_owner_def

lemma deposit_run: "fst deposited_500 = Inr (Deposit_credited receipt_500)"
  by (simp add: deposited_500_def receipt_500_def run_deposit cong: run_congs)

theorem deposit_credited_once_witness:
  "available (snd deposited_500) ''m1'' = available shops_funded ''m1'' + 50000"
proof -
  have "depositTrainingFunds plain_deps shop_owner card_deposit shops_funded = (Inr (Deposit_credited receipt_500), snd deposited_500)"
    unfolding deposited_500_def [symmetric] by (rule prod_eqI) (simp_all add: deposit_run)
  from deposit_credited_once [OF this, of "''m1''"] show ?thesis by (simp add: receipt_500_def receipt_of_def shop_owner_def)
qed

text \<open>
  The request id is not scoped by shop: another shop that reuses it is told its deposit was credited, with its own name and
  amount on the receipt, and has nothing.
\<close>

definition other_owner :: auth_context where
  "other_owner = \<lparr>ax_userId = ''o2'', ax_role = MERCHANT_OWNER, ax_deviceId = ''d2'', ax_merchantId = ''m2''\<rparr>"

lemma replay_reports_uncredited:
  "case depositTrainingFunds plain_deps shop_owner card_deposit shops_funded of (_, w) \<Rightarrow>
     fst (depositTrainingFunds plain_deps other_owner (card_deposit\<lparr>dq_amountMinor := JInt 100000\<rparr>) w) =
       Inr (Already_credited (receipt_of other_owner (card_deposit\<lparr>dq_amountMinor := JInt 100000\<rparr>) 100000 t0 0))"
  by (simp add: other_owner_def run_deposit cong: run_congs)

section \<open>Profit\<close>

definition profit :: "world \<Rightarrow> string \<Rightarrow> int" where
  "profit w m = profitAvailableMinor (w_db w) m"

lemma profit_net: "profit w m = netMinor (w_db w) m [TELGA_REVENUE]"
  by (simp add: profit_def profitAvailableMinor_def netMinor_def)

lemma profit_same: "ledger_entries (w_db w') = ledger_entries (w_db w) \<Longrightarrow> profit w' m = profit w m"
  by (simp add: profit_net netMinor_net_rows)

lemma transferProfit_moves:
  assumes "transferProfitToBalance i w = (Inr u, w')"
  shows "available w' m = available w m + (if m = vi_merchantId i then minor (vi_amount i) else 0)"
    "profit w' m = profit w m - (if m = vi_merchantId i then minor (vi_amount i) else 0)"
proof -
  let ?es = "[draft (merchantAccountId (vi_merchantId i) MERCHANT_AVAILABLE) MERCHANT_AVAILABLE
             (Some (vi_merchantId i)) None CREDIT (vi_amount i) ADJUSTMENT None,
           draft (platform_account TELGA_REVENUE) TELGA_REVENUE (Some (vi_merchantId i)) None DEBIT (vi_amount i) ADJUSTMENT None]"
  have posts: "posts (w_db w) (w_db w') ?es" using simple_operation_effect assms unfolding transferProfitToBalance_def by blast
  have "attributed [MERCHANT_AVAILABLE, MERCHANT_FUNDS] ?es" "attributed [TELGA_REVENUE] ?es" by (simp_all add: attributed_def)
  from this [THEN posts_net [OF posts], of m]
  show "available w' m = available w m + (if m = vi_merchantId i then minor (vi_amount i) else 0)"
    "profit w' m = profit w m - (if m = vi_merchantId i then minor (vi_amount i) else 0)"
    by (auto simp: available_def profit_net)
qed

lemma move_profit_run:
  assumes "move_profit d c corr a earned w = (Inr r, w')"
  shows "\<exists>left b. r = Profit_transferred a left b \<and> left = profit w' (ax_merchantId c) \<and> b = available w' (ax_merchantId c) \<and>
    (\<forall>m. available w' m = available w m + (if m = ax_merchantId c then a else 0) \<and>
         profit w' m = profit w m - (if m = ax_merchantId c then a else 0))"
proof -
  from assms obtain at w1 amount posting w2 w3 w4 b where n: "now d w = (Inr at, w1)" "newId d ''post'' w1 = (Inr posting, w2)"
    and m: "mk_money (JInt a) ETB = Inr amount"
    and move: "transferProfitToBalance \<lparr>vi_merchantId = ax_merchantId c, vi_amount = amount, vi_at = at, vi_correlationId = corr,
      vi_postingId = posting\<rparr> w2 = (Inr (), w3)"
    and audit: "audit_merchant d c at PROFIT_TRANSFERRED_TO_BALANCE (Some ''PROFIT_TO_SELLING_BALANCE'') corr
            [(''amountMinor'', dec_int a), (''profitBeforeMinor'', dec_int earned)] w3 = (Inr (), w4)"
    and bal: "availableMinor (ax_merchantId c) w4 = (Inr b, w')" and r: "r = Profit_transferred a (profitAvailableMinor (w_db w4) (ax_merchantId c)) b"
    by (auto simp: move_profit_def bnd_Inr seq_Inr)
  have w': "w' = w4" "b = available w' (ax_merchantId c)" using availableMinor_run [OF bal] by (auto simp: available_def)
  have e: "ledger_entries (w_db w') = ledger_entries (w_db w3)" using audit_merchant_run [OF audit] w'(1) by simp
  have "ledger_entries (w_db w2) = ledger_entries (w_db w)" using n by (auto simp: now_def newId_def)
  then show ?thesis
    using transferProfit_moves [OF move] available_same [OF e] profit_same [OF e] available_same [of w2 w] profit_same [of w2 w] m w'
    by (auto simp: r mk_money_Inr profit_def)
qed

text \<open>
  C8. Profit is moved, never made: a transfer that goes through takes at most what the shop has earned and not yet moved, adds exactly that
  to its balance and takes exactly that from its profit; every other answer leaves the books as they were.
\<close>

theorem profit_is_moved_not_made:
  assumes "transferProfit d c amount corr w = (r, w')"
  shows "case r of
      Inr (Profit_transferred a left b) \<Rightarrow>
        amount = JInt a \<and> 100 \<le> a \<and> a \<le> profit w (ax_merchantId c) \<and> left = profit w' (ax_merchantId c) \<and>
        b = available w' (ax_merchantId c) \<and>
        (\<forall>m. available w' m = available w m + (if m = ax_merchantId c then a else 0) \<and>
             profit w' m = profit w m - (if m = ax_merchantId c then a else 0))
    | _ \<Rightarrow> w_db w' = w_db w"
proof (cases "sd_mode d = TRAINING \<and> profit_rejection amount = None")
  case False
  then show ?thesis using assms by (auto simp: transferProfit_def ret_def split: if_splits option.splits)
next
  case True
  then obtain a where a: "amount = JInt a" "100 \<le> a" by (auto simp: profit_rejection_def not_less split: jsnum.splits if_splits)
  let ?m = "bnd (get_db (\<lambda>s. profitAvailableMinor s (ax_merchantId c))) (\<lambda>earned.
      if earned < a then ret (Exceeds_profit a earned) else move_profit d c corr a earned)"
  have run: "db_transaction ?m w = (r, w')" using assms True a by (simp add: transferProfit_def)
  show ?thesis
  proof (cases r)
    case (Inl e)
    then show ?thesis using run db_transaction_rollback by fastforce
  next
    case (Inr x)
    then have body: "(if profit w (ax_merchantId c) < a then ret (Exceeds_profit a (profit w (ax_merchantId c)))
        else move_profit d c corr a (profit w (ax_merchantId c))) w = (Inr x, w')"
      using run by (simp only: db_transaction_Inr bnd_Inr) (auto simp: profit_def get_db_def split: if_splits)
    show ?thesis
    proof (cases "profit w (ax_merchantId c) < a")
      case True
      then show ?thesis using body Inr by auto
    next
      case False
      then show ?thesis using body move_profit_run [of d c corr a "profit w (ax_merchantId c)" w x w'] a Inr by auto
    qed
  qed
qed

text \<open>The shop after a sale of 400 that earned it 200.\<close>

definition shop_with_profit :: world where
  "shop_with_profit = shops_funded\<lparr>w_db := (w_db shops_funded)\<lparr>ledger_entries := funded_entries @
     [shop_entry ''sale_0'' ''sale'' (Some ''tx1'') ''acct_m1_merchant_available'' (Some ''m1'') MERCHANT_AVAILABLE DEBIT 400 SALE_DEBIT ''c1'' None,
      shop_entry ''sale_1'' ''sale'' (Some ''tx1'') ''acct_platform_provider_settlement'' None PROVIDER_SETTLEMENT CREDIT 200 SALE_DEBIT ''c1'' None,
      shop_entry ''sale_2'' ''sale'' (Some ''tx1'') ''acct_platform_telga_revenue'' (Some ''m1'') TELGA_REVENUE CREDIT 200 COMMISSION_CREDIT ''c1'' None]\<rparr>\<rparr>"

definition profit_100 where
  "profit_100 = transferProfit plain_deps shop_owner (JInt 100) ''c9'' shop_with_profit"

lemma profit_metadata_safe: "assertSafeMetadata (Some [(''amountMinor'', a), (''profitBeforeMinor'', b)]) = Inr ()"
  by code_simp

lemma profit_run: "fst profit_100 = Inr (Profit_transferred 100 100 700)"
  by (simp add: profit_100_def shop_with_profit_def profit_metadata_safe transferProfit_def profit_rejection_def move_profit_def
      profitAvailableMinor_def transferProfitToBalance_def shop_owner_def run_money cong: run_congs)

theorem profit_is_moved_not_made_witness:
  "profit (snd profit_100) ''m1'' = profit shop_with_profit ''m1'' - 100"
proof -
  have "transferProfit plain_deps shop_owner (JInt 100) ''c9'' shop_with_profit = (fst profit_100, snd profit_100)"
    by (simp add: profit_100_def)
  from profit_is_moved_not_made [OF this] show ?thesis by (simp add: profit_run shop_owner_def)
qed

end
