(* ===== verification/Gateway_Properties.thy ===== *)
theory Gateway_Properties
  imports Money_Service_Properties
begin

text \<open>
  A payment made through the gateway is credited at most once, for the amount of its order, however often, late or concurrently the
  gateway's word arrives. The lock is the order itself: a reference that has an order but no open one is spent, and stays spent.
  Payments are counted where they count, as the ledger's credits under the reference, not by what the deliveries report.
\<close>

section \<open>Spent references\<close>

definition spent :: "string \<Rightarrow> world \<Rightarrow> bool" where
  "spent r w \<longleftrightarrow> (\<exists>x\<in>set (topup_orders (w_db w)). zt_reference x = r) \<and> \<not> (\<exists>x\<in>set (topup_orders (w_db w)). open_reference r x)"

definition stays_spent :: "world \<Rightarrow> world \<Rightarrow> bool" where
  "stays_spent w w' \<longleftrightarrow> (\<forall>r. spent r w \<longrightarrow> spent r w')"

interpretation spend: guarantee stays_spent
proof
  show "stays_spent w w" for w by (simp add: stays_spent_def)
  show "stays_spent u w" if "stays_spent u v" "stays_spent v w" for u v w using that by (simp add: stays_spent_def)
  show "stays_spent w (w'\<lparr>w_db := w_db w\<rparr>)" for w w' by (simp add: stays_spent_def spent_def)
qed

lemma stays_spent_same: "topup_orders (w_db w') = topup_orders (w_db w) \<Longrightarrow> stays_spent w w'"
  by (simp add: stays_spent_def spent_def)

lemma spent_put_db: "(\<And>s. topup_orders (f s) = topup_orders s) \<Longrightarrow> keeps stays_spent (put_db f)"
  by (simp add: keeps_def put_db_def stays_spent_def spent_def)

lemma spent_lift_result: "keeps stays_spent (lift_result r)"
  by (simp add: keeps_def lift_result_def ret_def throw_def spend.refl split: sum.split)

lemma spent_saveAuditEvent: "keeps stays_spent (saveAuditEvent i)"
  unfolding saveAuditEvent_def by (intro spend.keeps_rules spent_lift_result spent_put_db) simp

lemma spent_new: "keeps stays_spent (now d)" "keeps stays_spent (newId d k)"
  by (simp_all add: keeps_def now_def newId_def stays_spent_same)

text \<open>An update that opens no order and renames none.\<close>

definition no_reopening :: "(topup_row \<Rightarrow> topup_row) \<Rightarrow> bool" where
  "no_reopening g \<longleftrightarrow> (\<forall>x. zt_reference (g x) = zt_reference x \<and> (zt_status (g x) = TU_OPEN \<longrightarrow> zt_status x = TU_OPEN))"

definition spent_in :: "string \<Rightarrow> topup_row list \<Rightarrow> bool" where
  "spent_in r xs \<longleftrightarrow> (\<exists>x\<in>set xs. zt_reference x = r) \<and> (\<forall>x\<in>set xs. \<not> open_reference r x)"

lemma spent_orders: "spent r w = spent_in r (topup_orders (w_db w))"
  by (simp add: spent_def spent_in_def)

lemma spent_update_where:
  assumes g: "no_reopening g" and spent: "spent_in r xs"
  shows "spent_in r (update_where P g xs)"
proof -
  have set: "set (update_where P g xs) = (\<lambda>x. if P x then g x else x) ` set xs" by (simp add: update_where_def)
  have ref: "zt_reference (if P x then g x else x) = zt_reference x" for x
    using g unfolding no_reopening_def by (cases "P x") auto
  have opened: "open_reference r (if P x then g x else x) \<Longrightarrow> open_reference r x" for x
    using g unfolding no_reopening_def open_reference_def by (cases "P x") auto
  from spent have "\<exists>x\<in>set xs. zt_reference x = r" "\<forall>x\<in>set xs. \<not> open_reference r x" by (simp_all add: spent_in_def)
  then show ?thesis unfolding spent_in_def set using ref opened by blast
qed

lemma spent_update:
  assumes "no_reopening g"
  shows "keeps stays_spent (update_count topup_orders update_topups P g)"
proof (rule keepsI)
  fix w x w'
  assume "update_count topup_orders update_topups P g w = (x, w')"
  from update_count_run [OF this] have "topup_orders (w_db w') = update_where P g (topup_orders (w_db w))"
    by (simp add: update_topups_def)
  then show "stays_spent w w'"
    unfolding stays_spent_def using spent_update_where [OF assms] by (simp add: spent_orders)
qed

lemma spent_insert: "keeps stays_spent (insert_topup i r)"
proof (rule keepsI)
  fix w x w'
  assume run: "insert_topup i r w = (x, w')"
  then have "topup_orders (w_db w') = topup_orders (w_db w) \<or>
      (topup_orders (w_db w') = topup_orders (w_db w) @ [topup_row_of i r] \<and> \<not> (\<exists>y\<in>set (topup_orders (w_db w)). zt_reference y = r))"
    by (auto simp: insert_topup_def bnd_def seq_def require_run get_db_def put_db_def split: if_splits)
  moreover have "zt_reference (topup_row_of i r) = r" by (simp add: topup_row_of_def)
  ultimately show "stays_spent w w'"
    unfolding stays_spent_def spent_orders spent_in_def open_reference_def by auto
qed

lemma spent_updates:
  "keeps stays_spent (markTopupOrderPaid r f t)" "keeps stays_spent (claimTopupOrderForSettlement r t)"
  "keeps stays_spent (linkTopupOrderSubmission r f t)" "keeps stays_spent (cancelTopupOrder i t)"
  "keeps stays_spent (expireTopupOrders t)" "keeps stays_spent (recordTopupProviderOutcome r p s t)"
  "keeps stays_spent (insertFundingSubmission fi)"
  unfolding markTopupOrderPaid_def claimTopupOrderForSettlement_def linkTopupOrderSubmission_def cancelTopupOrder_def
    expireTopupOrders_def recordTopupProviderOutcome_def insertFundingSubmission_def
  by (intro spend.keeps_rules spent_update spent_put_db; simp add: no_reopening_def)+

lemma spent_saveTopupOrder:
  assumes "keeps stays_spent newReference"
  shows "keeps stays_spent (saveTopupOrder i newReference norm)"
proof -
  have "keeps stays_spent (draw_references n i newReference norm)" for n
    by (induction n) (auto intro!: spend.keeps_rules spent_insert assms)
  then show ?thesis unfolding saveTopupOrder_def by blast
qed

lemma fundMerchant_orders: "fundMerchant i w = (x, w') \<Longrightarrow> topup_orders (w_db w') = topup_orders (w_db w)"
proof (cases x)
  case (Inl e)
  assume "fundMerchant i w = (x, w')"
  from this [unfolded Inl fundMerchant_def] show ?thesis using db_transaction_rollback by metis
next
  case (Inr u)
  assume "fundMerchant i w = (x, w')"
  from this [unfolded Inr fundMerchant_def] have "ledger_frame w w'" using simple_operation_effect by blast
  then have "rest_of (w_db w') = rest_of (w_db w)" using ledger_frame_fields by blast
  from arg_cong [OF this, of topup_orders] show ?thesis by (simp add: rest_of_def)
qed

lemma spent_fundMerchant: "keeps stays_spent (fundMerchant i)"
  by (rule keepsI, rule stays_spent_same) (rule fundMerchant_orders)

lemma spent_audit_merchant: "keeps stays_spent (audit_merchant d c at k x corr m)"
  unfolding audit_merchant_def by (intro spend.keeps_rules spent_new spent_saveAuditEvent)

lemmas spend_rules = spend.keeps_rules spent_new spent_saveAuditEvent spent_updates spent_fundMerchant spent_audit_merchant

section \<open>Payments in the ledger\<close>

text \<open>The credits of a selling balance that the ledger holds for a reference.\<close>

definition pays :: "string \<Rightarrow> entry_row \<Rightarrow> bool" where
  "pays r e \<longleftrightarrow> ew_accountType e = MERCHANT_AVAILABLE \<and> ew_direction e = CREDIT \<and>
     (ew_postingId e = chapa_posting r \<or> ew_correlationId e = r)"

definition payments :: "string \<Rightarrow> world \<Rightarrow> nat" where
  "payments r w = length (filter (pays r) (ledger_entries (w_db w)))"

text \<open>A spent reference stays spent and is paid no more; one that is not is paid at most once, and is spent by it.\<close>

definition pays_once :: "world \<Rightarrow> world \<Rightarrow> bool" where
  "pays_once w w' \<longleftrightarrow> (\<forall>r. (spent r w \<longrightarrow> spent r w' \<and> payments r w' = payments r w) \<and>
     (payments r w' = payments r w \<or> payments r w' = Suc (payments r w) \<and> spent r w'))"

lemma pays_once_refl: "pays_once w w"
  by (simp add: pays_once_def)

lemma pays_once_trans:
  assumes "pays_once u v" and "pays_once v w"
  shows "pays_once u w"
  unfolding pays_once_def
proof
  fix r
  from assms have 1: "spent r u \<longrightarrow> spent r v \<and> payments r v = payments r u"
      "payments r v = payments r u \<or> payments r v = Suc (payments r u) \<and> spent r v"
    and 2: "spent r v \<longrightarrow> spent r w \<and> payments r w = payments r v"
      "payments r w = payments r v \<or> payments r w = Suc (payments r v) \<and> spent r w"
    unfolding pays_once_def by blast+
  show "(spent r u \<longrightarrow> spent r w \<and> payments r w = payments r u) \<and>
     (payments r w = payments r u \<or> payments r w = Suc (payments r u) \<and> spent r w)"
    using 1 2 by (cases "spent r v") auto
qed

interpretation pay: guarantee pays_once
proof
  show "pays_once w w" for w by (rule pays_once_refl)
  show "pays_once u w" if "pays_once u v" "pays_once v w" for u v w using that by (rule pays_once_trans)
  show "pays_once w (w'\<lparr>w_db := w_db w\<rparr>)" for w w' by (simp add: pays_once_def payments_def spent_def)
qed

lemma pays_once_quiet: "stays_spent w w' \<Longrightarrow> quiet w w' \<Longrightarrow> pays_once w w'"
  by (simp add: pays_once_def stays_spent_def payments_def quiet_def same_on_def money_tables_def)

lemma keeps_pays_once: "keeps stays_spent m \<Longrightarrow> keeps quiet m \<Longrightarrow> keeps pays_once m"
  by (rule keepsI) (blast intro: pays_once_quiet dest: keepsD)

lemma append_loop_correlation:
  "append_loop p md i es w = (Inr u, w') \<Longrightarrow> ledger_entries (w_db w') = ledger_entries (w_db w) @ rows \<Longrightarrow>
   x \<in> set rows \<Longrightarrow> ew_correlationId x = po_correlationId p"
proof (induction p md i es arbitrary: w rows rule: append_loop.induct)
  case (1 p md i)
  then show ?case by simp
next
  case (2 p md i e es)
  from "2.prems"(1) obtain a w1 where ins: "insert_entry (entry_row_of p md i e a) w = (Inr (), w1)"
    and rest: "append_loop p md (Suc i) es w1 = (Inr u, w')"
    and a: "find_account_by_id (w_db w) (de_accountId e) = Some a"
    by (auto simp: bnd_Inr seq_Inr split: option.splits)
  let ?r = "entry_row_of p md i e a"
  have w1: "ledger_entries (w_db w1) = ledger_entries (w_db w) @ [?r]" using ins by (auto simp: insert_entry_Inr)
  obtain more where more: "ledger_entries (w_db w') = ledger_entries (w_db w1) @ more"
    using append_loop_effect [OF rest] by auto
  then have "rows = ?r # more" using "2.prems"(2) w1 by simp
  then have "x = ?r \<or> x \<in> set more" using "2.prems"(3) by simp
  then show ?case using "2.IH" [OF rest more] by (auto simp: entry_row_of_def)
qed

lemma fundMerchant_pays:
  assumes "fundMerchant i w = (Inr u, w')"
  shows "payments r w' = payments r w + (if vi_postingId i = chapa_posting r \<or> vi_correlationId i = r then 1 else 0)"
proof -
  let ?es = "[draft (merchantAccountId (vi_merchantId i) MERCHANT_AVAILABLE) MERCHANT_AVAILABLE
             (Some (vi_merchantId i)) None CREDIT (vi_amount i) FUNDING_CREDIT None,
           draft (platform_account BANK_CLEARING) BANK_CLEARING None None DEBIT (vi_amount i) FUNDING_CREDIT None]"
  let ?p = "simple_posting (vi_postingId i) (vi_correlationId i) (vi_at i) ?es"
  from assms obtain w1 where ens: "ensureAccounts (vi_merchantId i) (vi_at i) w = (Inr (), w1)" and app: "appendEntries ?p w1 = (Inr u, w')"
    by (auto simp: fundMerchant_def seq_Inr)
  have w1: "ledger_entries (w_db w1) = ledger_entries (w_db w)" using ens by (rule ensureAccounts_effect) simp
  from app obtain md where loop: "append_loop ?p md 0 (po_entries ?p) w1 = (Inr u, w')"
    by (auto simp: appendEntries_def seq_Inr bnd_Inr)
  obtain rows where rows: "ledger_entries (w_db w') = ledger_entries (w_db w1) @ rows" "list_all2 mirrors rows ?es"
    "\<forall>x\<in>set rows. ew_postingId x = vi_postingId i"
    using append_loop_effect [OF loop] by (auto simp: simple_posting_def)
  have corr: "\<forall>x\<in>set rows. ew_correlationId x = vi_correlationId i"
    using append_loop_correlation [OF loop rows(1)] by (simp add: simple_posting_def)
  obtain x y where xy: "rows = [x, y]" "mirrors x (hd ?es)" "mirrors y (last ?es)"
    using rows(2) unfolding list_all2_Cons2 by auto
  have "ew_accountType x = MERCHANT_AVAILABLE" "ew_direction x = CREDIT" "ew_accountType y = BANK_CLEARING"
    using xy(2,3) by (simp_all add: mirrors_def draft_def)
  then show ?thesis using rows(3) corr xy(1) by (simp add: payments_def rows(1) w1 pays_def)
qed

lemma chapa_posting_inject: "chapa_posting r = chapa_posting r' \<longleftrightarrow> r = r'"
  by (simp add: chapa_posting_def)

section \<open>One credit\<close>

lemma claim_run:
  assumes "claimTopupOrderForSettlement r t w = (Inr n, w')" and "n = 1"
  shows "\<not> spent r w \<and> spent r w' \<and> ledger_entries (w_db w') = ledger_entries (w_db w)"
proof -
  note run = update_count_run [OF assms(1) [unfolded claimTopupOrderForSettlement_def]]
  have orders: "topup_orders (w_db w') = update_where (open_reference r) (\<lambda>x. x\<lparr>zt_status := TU_PAID, zt_updatedAt := t\<rparr>) (topup_orders (w_db w))"
    and same: "ledger_entries (w_db w') = ledger_entries (w_db w)"
    using run by (simp_all add: update_topups_def)
  have "0 < count_where (open_reference r) (topup_orders (w_db w))" using run assms(2) by simp
  then obtain x where x: "x \<in> set (topup_orders (w_db w))" "open_reference r x" unfolding count_where_pos by blast
  then have "\<not> spent r w" by (auto simp: spent_def)
  moreover have "spent_in r (topup_orders (w_db w'))"
    unfolding spent_in_def
  proof
    have "x\<lparr>zt_status := TU_PAID, zt_updatedAt := t\<rparr> \<in> set (topup_orders (w_db w'))"
      unfolding orders update_where_def set_map using x by (intro image_eqI [where x = x]) simp_all
    then show "\<exists>x\<in>set (topup_orders (w_db w')). zt_reference x = r" using x(2) by (intro bexI) (simp_all add: open_reference_def)
    show "\<forall>x\<in>set (topup_orders (w_db w')). \<not> open_reference r x"
    proof
      fix y
      assume "y \<in> set (topup_orders (w_db w'))"
      then obtain z where "y = (if open_reference r z then z\<lparr>zt_status := TU_PAID, zt_updatedAt := t\<rparr> else z)"
        unfolding orders update_where_def set_map by blast
      then show "\<not> open_reference r y" by (cases "open_reference r z") (simp_all add: open_reference_def)
    qed
  qed
  then have "spent r w'" by (simp add: spent_orders)
  ultimately show ?thesis using same by blast
qed

lemma credit_claimed_run:
  assumes "credit_claimed order r a p s at w = (Inr True, w')"
  shows "\<not> spent r w \<and> spent r w' \<and>
    (\<forall>m. available w' m = available w m + (if m = zt_merchantId order then a else 0)) \<and>
    (\<forall>x. payments x w' = payments x w + (if x = r then 1 else 0)) \<and> stays_spent w w'"
proof -
  from assms obtain w1 m w2 w3 k where claim: "claimTopupOrderForSettlement r at w = (Inr 1, w1)" and m: "mk_money (JInt a) ETB = Inr m"
    and fund: "fundMerchant \<lparr>vi_merchantId = zt_merchantId order, vi_amount = m, vi_at = at, vi_correlationId = r,
              vi_postingId = chapa_posting r\<rparr> w1 = (Inr (), w2)"
    and submit: "insertFundingSubmission \<lparr>nf_id = s, nf_merchantId = zt_merchantId order, nf_quotedReference = r,
              nf_bankReference = p, nf_claimedAmountMinor = zt_amountMinor order, nf_bankAmountMinor = a,
              nf_status = ''CREDITED'', nf_evidence = ''Chapa '' @ p, nf_at = at\<rparr> w2 = (Inr (), w3)"
    and link: "linkTopupOrderSubmission r s at w3 = (Inr k, w')"
    by (auto simp: credit_claimed_def bnd_Inr seq_Inr split: if_splits)
  note c = claim_run [OF claim refl]
  have after: "stays_spent w1 w'"
    using keepsD [OF spent_fundMerchant fund] keepsD [OF spent_updates(7) submit] keepsD [OF spent_updates(3) link] spend.trans by blast
  have "stays_spent w w'" by (rule spend.trans [OF keepsD [OF spent_updates(2) claim] after])
  moreover have "spent r w'" using c after unfolding stays_spent_def by blast
  moreover have "same_on money_tables w2 w'"
    using quiet.trans [OF keepsD [OF quiet_topups(8) submit] keepsD [OF quiet_topups(4) link]] by (simp add: quiet_def)
  then have e: "ledger_entries (w_db w') = ledger_entries (w_db w2)" by (simp add: same_on_def money_tables_def)
  from available_same [OF this] have "available w' m' = available w1 m' + (if m' = zt_merchantId order then a else 0)" for m'
    using fundMerchant_moves(1) [OF fund, of m'] m by (simp add: mk_money_Inr)
  moreover have "payments x w' = payments x w + (if x = r then 1 else 0)" for x
    using fundMerchant_pays [OF fund, of x] c e by (auto simp: payments_def chapa_posting_inject)
  ultimately show ?thesis using c available_same [of w1 w] by simp
qed

lemma settle_answered_run:
  assumes "settle_answered d r order a w = (Inr (Chapa_credited s x), w')"
  shows "\<not> spent r w \<and> spent r w' \<and> decideChapaCredit a order = Inr x \<and>
    (\<forall>m. available w' m = available w m + (if m = zt_merchantId order then x else 0)) \<and> payments r w' = Suc (payments r w)"
proof -
  from assms obtain t w1 k w2 sub w3 at w4 where run: "now d w = (Inr t, w1)"
    "recordTopupProviderOutcome r (ca_providerReference a) (chapa_status_name (ca_status a)) t w1 = (Inr k, w2)"
    "newId d ''fund'' w2 = (Inr sub, w3)" "now d w3 = (Inr at, w4)"
    and x: "decideChapaCredit a order = Inr x"
    and credit: "credit_claimed order r x (ca_providerReference a) sub at w4 = (Inr True, w')"
    by (auto simp: settle_answered_def bnd_Inr split: sum.splits if_splits)
  have "stays_spent w w4"
    using keepsD [OF spent_new(1) run(1)] keepsD [OF spent_updates(6) run(2)] keepsD [OF spent_new(2) run(3)]
      keepsD [OF spent_new(1) run(4)] spend.trans by blast
  moreover have "same_on money_tables w w4"
    using quiet.trans [OF quiet.trans [OF keepsD [OF quiet_now run(1)] keepsD [OF quiet_topups(7) run(2)]]
      quiet.trans [OF keepsD [OF quiet_newId run(3)] keepsD [OF quiet_now run(4)]]] by (simp add: quiet_def)
  then have "ledger_entries (w_db w4) = ledger_entries (w_db w)" by (simp add: same_on_def money_tables_def)
  ultimately show ?thesis using credit_claimed_run [OF credit] x available_same [of w4 w] 
    by (auto simp: stays_spent_def payments_def)
qed

lemma settle_parts:
  assumes "settleChapaDeposit d key verify txRef w = (Inr (Chapa_credited s x), w')"
  obtains order a w1 where "findTopupOrderByReference (w_db w) (normalizeDepositReference txRef) = Some order"
    "verify (normalizeDepositReference txRef) w = (Inr (Answered a), w1)"
    "settle_answered d (normalizeDepositReference txRef) order a w1 = (Inr (Chapa_credited s x), w')"
proof -
  let ?n = "normalizeDepositReference txRef"
  from assms obtain order v w1 where found: "findTopupOrderByReference (w_db w) ?n = Some order" and v: "verify ?n w = (Inr v, w1)"
    and body: "(case v of Unreachable m \<Rightarrow> ret (Unverifiable m) | Not_found \<Rightarrow> ret (Chapa_not_credited REFERENCE_MISMATCH)
      | Answered a \<Rightarrow> settle_answered d ?n order a) w1 = (Inr (Chapa_credited s x), w')"
    by (auto simp: settleChapaDeposit_def assertChapaSandbox_def seq_Inr bnd_Inr split: option.splits)
  from body obtain a where "v = Answered a" by (cases v) auto
  then show thesis using that [OF found] v body by simp
qed

lemma decideChapaCredit_Inr:
  "decideChapaCredit a order = Inr x \<Longrightarrow> x = zt_amountMinor order \<and> ca_amountMinor a = x \<and> ca_currency a = ''ETB'' \<and>
     ca_status a = CH_SUCCESS \<and> zt_status order = TU_OPEN \<and>
     normalizeDepositReference (ca_txRef a) = normalizeDepositReference (zt_reference order)"
  by (auto simp: decideChapaCredit_def split: if_splits)

text \<open>
  C3. A gateway payment is credited for what the shop ordered, and only on the gateway's own word: the order was open, the gateway
  answered for that reference that the payment succeeded in birr and in exactly the order's amount, and that amount went to the shop
  that ordered and to no other. Whatever the database went through while the gateway was asked, the reference was not spent before.
\<close>

theorem gateway_credits_the_order:
  assumes "settleChapaDeposit d key verify txRef w = (Inr (Chapa_credited s x), w')" and "\<And>r. keeps stays_spent (verify r)"
  shows "\<exists>order a w1. findTopupOrderByReference (w_db w) (normalizeDepositReference txRef) = Some order \<and> zt_status order = TU_OPEN \<and>
    verify (normalizeDepositReference txRef) w = (Inr (Answered a), w1) \<and> ca_status a = CH_SUCCESS \<and> ca_currency a = ''ETB'' \<and>
    normalizeDepositReference (ca_txRef a) = normalizeDepositReference (zt_reference order) \<and>
    ca_amountMinor a = zt_amountMinor order \<and> x = zt_amountMinor order \<and>
    available w' m = available w1 m + (if m = zt_merchantId order then x else 0) \<and>
    \<not> spent (normalizeDepositReference txRef) w \<and> spent (normalizeDepositReference txRef) w'"
  using assms(1)
proof (rule settle_parts)
  fix order a w1
  assume s: "findTopupOrderByReference (w_db w) (normalizeDepositReference txRef) = Some order"
    "verify (normalizeDepositReference txRef) w = (Inr (Answered a), w1)"
    "settle_answered d (normalizeDepositReference txRef) order a w1 = (Inr (Chapa_credited s x), w')"
  note r = settle_answered_run [OF s(3)]
  have "\<not> spent (normalizeDepositReference txRef) w" using keepsD [OF assms(2) s(2)] r by (auto simp: stays_spent_def)
  then show ?thesis using s r decideChapaCredit_Inr [of a order x] by blast
qed

section \<open>The services\<close>

lemma pay_parts:
  "keeps pays_once (now d)" "keeps pays_once (newId d k)" "keeps pays_once (insert_topup n r)" "keeps pays_once (cancelTopupOrder i t)"
  "keeps pays_once (recordTopupProviderOutcome r p s t)" "keeps pays_once (audit_merchant d c at action x corr m)"
  by (intro keeps_pays_once spend_rules spent_insert quiet_now quiet_newId quiet_topups quiet_audit_merchant)+

lemma pay_credit_claimed: "keeps pays_once (credit_claimed order r a p s at)"
proof (rule keepsI)
  fix w x w'
  assume run: "credit_claimed order r a p s at w = (x, w')"
  show "pays_once w w'"
  proof (cases x)
    case (Inl e)
    then have "w_db w' = w_db w" using run unfolding credit_claimed_def by (blast intro: db_transaction_rollback)
    then show ?thesis by (simp add: pays_once_def payments_def spent_def)
  next
    case (Inr b)
    show ?thesis
    proof (cases b)
      case True
      then show ?thesis using credit_claimed_run [of order r a p s at w w'] run Inr by (auto simp: pays_once_def stays_spent_def)
    next
      case False
      then obtain n where "claimTopupOrderForSettlement r at w = (Inr n, w')"
        using run Inr by (auto simp: credit_claimed_def bnd_Inr seq_Inr split: if_splits)
      then show ?thesis by (rule keepsD [OF keeps_pays_once [OF spent_updates(2) quiet_topups(3)]])
    qed
  qed
qed

lemmas pay_rules = pay.keeps_rules pay_parts pay_credit_claimed

lemma pay_settleChapaDeposit:
  assumes "\<And>r. keeps pays_once (verify r)"
  shows "keeps pays_once (settleChapaDeposit d key verify txRef)"
proof -
  have "keeps pays_once (case v of Unreachable m \<Rightarrow> ret (Unverifiable m) | Not_found \<Rightarrow> ret (Chapa_not_credited REFERENCE_MISMATCH)
      | Answered a \<Rightarrow> settle_answered d r order a)" for v r order
    by (cases v) (auto simp: settle_answered_def intro!: pay_rules)
  then show ?thesis
    unfolding settleChapaDeposit_def assertChapaSandbox_def by (intro pay_rules assms)
qed

lemma pay_saveTopupOrder:
  assumes "keeps pays_once newReference"
  shows "keeps pays_once (saveTopupOrder i newReference norm)"
proof -
  have "keeps pays_once (draw_references n i newReference norm)" for n
    by (induction n) (auto intro!: pay_rules assms)
  then show ?thesis unfolding saveTopupOrder_def by blast
qed

lemma pay_startChapaDeposit:
  assumes "keeps pays_once newReference" and "\<And>a r. keeps pays_once (initialize a r)"
  shows "keeps pays_once (startChapaDeposit d key newReference initialize c q p)"
proof -
  have "keeps pays_once (case s of Chapa_started url \<Rightarrow> ret (Payment_started r url)
      | Chapa_refused m \<Rightarrow> bnd (cancelTopupOrder i at) (\<lambda>_. ret (Payment_unavailable m))
      | Chapa_unreachable m \<Rightarrow> bnd (cancelTopupOrder i at) (\<lambda>_. ret (Payment_unavailable m)))" for s r i at
    by (cases s) (auto intro!: pay_rules)
  then show ?thesis
    unfolding startChapaDeposit_def assertChapaSandbox_def by (intro pay_rules pay_saveTopupOrder assms)
qed

lemma pay_orderBankDeposit: "keeps pays_once newReference \<Longrightarrow> keeps pays_once (orderBankDeposit d newReference c q p)"
  unfolding orderBankDeposit_def by (intro pay_rules pay_saveTopupOrder)

lemma pay_cancelBankDeposit: "keeps pays_once (cancelBankDeposit d c)"
  unfolding cancelBankDeposit_def by (intro pay_rules)

section \<open>Any sequence of deliveries\<close>

text \<open>What a delivery credited, if it did.\<close>

definition credited_of :: "string \<Rightarrow> err + settle_result \<Rightarrow> string list" where
  "credited_of txRef r = (case r of Inr (Chapa_credited s x) \<Rightarrow> [normalizeDepositReference txRef] | _ \<Rightarrow> [])"

inductive gateway_run :: "sale_deps \<Rightarrow> string list \<Rightarrow> world \<Rightarrow> world \<Rightarrow> bool" for d where
  nothing: "gateway_run d [] w w"
| webhook: "gateway_run d rs u w \<Longrightarrow> settleChapaDeposit d key verify txRef w = (r, w') \<Longrightarrow> (\<And>x. keeps pays_once (verify x)) \<Longrightarrow>
    gateway_run d (rs @ credited_of txRef r) u w'"
| checkout: "gateway_run d rs u w \<Longrightarrow> startChapaDeposit d key fresh initialize c q p w = (sr, w') \<Longrightarrow> keeps pays_once fresh \<Longrightarrow>
    (\<And>a x. keeps pays_once (initialize a x)) \<Longrightarrow> gateway_run d rs u w'"
| slip: "gateway_run d rs u w \<Longrightarrow> orderBankDeposit d fresh c q p w = (b, w') \<Longrightarrow> keeps pays_once fresh \<Longrightarrow> gateway_run d rs u w'"
| cancel: "gateway_run d rs u w \<Longrightarrow> cancelBankDeposit d c w = (y, w') \<Longrightarrow> gateway_run d rs u w'"
| other: "gateway_run d rs u w \<Longrightarrow> pays_once w w' \<Longrightarrow> gateway_run d rs u w'"

definition once_each :: "string list \<Rightarrow> world \<Rightarrow> world \<Rightarrow> bool" where
  "once_each rs u w \<longleftrightarrow> distinct rs \<and> (\<forall>r\<in>set rs. \<not> spent r u \<and> spent r w \<and> payments r w = Suc (payments r u)) \<and> pays_once u w"

lemma once_each_on: "once_each rs u w \<Longrightarrow> pays_once w w' \<Longrightarrow> once_each rs u w'"
  using pays_once_trans [of u w w'] unfolding once_each_def by (auto simp: pays_once_def)

lemma unspent_before: "pays_once u v \<Longrightarrow> \<not> spent r v \<Longrightarrow> \<not> spent r u \<and> payments r v = payments r u"
  unfolding pays_once_def by blast

lemma once_each_credit:
  assumes "once_each rs u w" and "pays_once w w1" and "pays_once w w'"
    and "\<not> spent r w1" "spent r w'" "payments r w' = Suc (payments r w1)"
  shows "once_each (rs @ [r]) u w'"
proof -
  have w: "\<not> spent r w \<and> payments r w1 = payments r w" using unspent_before [OF assms(2,4)] .
  moreover have "pays_once u w" using assms(1) by (simp add: once_each_def)
  ultimately have "\<not> spent r u \<and> payments r w = payments r u" "r \<notin> set rs"
    using unspent_before [of u w r] assms(1) by (auto simp: once_each_def)
  then show ?thesis using once_each_on [OF assms(1,3)] assms(5,6) w by (simp add: once_each_def)
qed

text \<open>
  C2. However many notifications arrive, for the same payment or another, repeated, late, out of order or while another is still being
  verified, the ledger gains at most one credit for each reference, and none for one that was spent before. The references reported as
  credited are distinct; each was not spent before, is spent after, and has exactly one credit more.
\<close>

theorem gateway_credits_once:
  "gateway_run d rs u w \<Longrightarrow> distinct rs \<and>
     (\<forall>r\<in>set rs. \<not> spent r u \<and> spent r w \<and> payments r w = Suc (payments r u)) \<and>
     (\<forall>r. payments r w \<le> Suc (payments r u) \<and> (spent r u \<longrightarrow> payments r w = payments r u))"
proof -
  have "gateway_run d rs u w \<Longrightarrow> once_each rs u w"
  proof (induction rule: gateway_run.induct)
    case (nothing w)
    then show ?case by (simp add: once_each_def pays_once_refl)
  next
    case (webhook rs u w key verify txRef r w')
    have step: "pays_once w w'" using keepsD [OF pay_settleChapaDeposit webhook.hyps(2)] webhook.hyps(3) by blast
    show ?case
    proof (cases "\<exists>s x. r = Inr (Chapa_credited s x)")
      case True
      then obtain s x where r: "r = Inr (Chapa_credited s x)" by blast
      let ?n = "normalizeDepositReference txRef"
      obtain a order w1 where v: "verify ?n w = (Inr (Answered a), w1)" and run: "settle_answered d ?n order a w1 = (Inr (Chapa_credited s x), w')"
        by (rule settle_parts [OF webhook.hyps(2) [unfolded r]])
      from once_each_credit [OF webhook.IH keepsD [OF webhook.hyps(3) v] step] settle_answered_run [OF run]
      show ?thesis by (simp add: credited_of_def r)
    next
      case False
      then have "credited_of txRef r = []" by (auto simp: credited_of_def split: sum.split settle_result.split)
      then show ?thesis using once_each_on [OF webhook.IH step] by simp
    qed
  next
    case (checkout rs u w key fresh initialize c q p sr w')
    then show ?case using once_each_on keepsD [OF pay_startChapaDeposit] by blast
  next
    case (slip rs u w fresh c q p b w')
    then show ?case using once_each_on keepsD [OF pay_orderBankDeposit] by blast
  next
    case (cancel rs u w c y w')
    then show ?case using once_each_on keepsD [OF pay_cancelBankDeposit] by blast
  next
    case (other rs u w w')
    then show ?case using once_each_on by blast
  qed
  moreover have "once_each rs u w \<Longrightarrow> payments r w \<le> Suc (payments r u) \<and> (spent r u \<longrightarrow> payments r w = payments r u)" for r
    by (auto simp: once_each_def pays_once_def dest!: spec [where x = r])
  ultimately show "gateway_run d rs u w \<Longrightarrow> ?thesis" by (simp add: once_each_def)
qed

section \<open>A concrete delivery\<close>

definition chapa_order :: topup_row where
  "chapa_order = topup_row_of
     \<lparr>nt_id = ''top_1'', nt_method = Some CHAPA, nt_merchantId = ''m1'', nt_deviceId = ''d1'', nt_operatorId = ''o1'', nt_amountMinor = 50000,
      nt_correlationId = ''c1'', nt_mode = TRAINING, nt_at = t0, nt_expiresAt = ''2026-09-15T08:00:00.000Z''\<rparr> ''TLG7''"

definition ordered :: world where
  "ordered = shops_funded\<lparr>w_db := (w_db shops_funded)\<lparr>topup_orders := [chapa_order]\<rparr>\<rparr>"

definition gateway_says :: "string \<Rightarrow> verify_result prog" where
  "gateway_says r = ret (Answered \<lparr>ca_status = CH_SUCCESS, ca_amountMinor = 50000, ca_currency = ''ETB'', ca_txRef = r, ca_providerReference = ''AP1''\<rparr>)"

definition delivery where
  "delivery = settleChapaDeposit plain_deps ''CHASECK_TEST-1'' gateway_says ''tlg-7''"

definition delivered_once where
  "delivered_once = delivery ordered"

definition delivered_twice where
  "delivered_twice = delivery (snd delivered_once)"

lemma delivery_values:
  "(case delivery ordered of (r, w) \<Rightarrow> r = Inr (Chapa_credited ''fund_'' 50000) \<and> fst (delivery w) = Inr (Chapa_not_credited ALREADY_CREDITED)) \<and>
   normalizeDepositReference ''tlg-7'' = ''TLG7''"
  by code_simp

lemmas delivery_run = delivery_values [unfolded case_prod_beta, folded delivered_once_def, folded delivered_twice_def]

lemma gateway_says_spends: "keeps stays_spent (gateway_says r)" "keeps pays_once (gateway_says r)"
  unfolding gateway_says_def by (rule spend.keeps_ret pay.keeps_ret)+

lemma delivery_runs:
  "settleChapaDeposit plain_deps ''CHASECK_TEST-1'' gateway_says ''tlg-7'' ordered = (fst delivered_once, snd delivered_once)"
  "settleChapaDeposit plain_deps ''CHASECK_TEST-1'' gateway_says ''tlg-7'' (snd delivered_once) = (fst delivered_twice, snd delivered_twice)"
  by (simp_all add: delivered_once_def delivered_twice_def delivery_def)

theorem gateway_credits_the_order_witness:
  "available (snd delivered_once) ''m1'' = available ordered ''m1'' + 50000"
proof -
  from delivery_runs(1) have "settleChapaDeposit plain_deps ''CHASECK_TEST-1'' gateway_says ''tlg-7'' ordered =
      (Inr (Chapa_credited ''fund_'' 50000), snd delivered_once)" by (simp add: delivery_run)
  from gateway_credits_the_order [OF this gateway_says_spends(1), of "''m1''"]
  obtain order a w1 where "findTopupOrderByReference (w_db ordered) (normalizeDepositReference ''tlg-7'') = Some order"
    "gateway_says (normalizeDepositReference ''tlg-7'') ordered = (Inr (Answered a), w1)"
    "available (snd delivered_once) ''m1'' = available w1 ''m1'' + (if ''m1'' = zt_merchantId order then 50000 else 0)" by blast
  then show ?thesis
    by (auto simp: delivery_run gateway_says_def ret_def findTopupOrderByReference_def ordered_def chapa_order_def topup_row_of_def)
qed

theorem gateway_credits_once_witness:
  "\<not> spent ''TLG7'' ordered \<and> spent ''TLG7'' (snd delivered_twice) \<and> payments ''TLG7'' (snd delivered_twice) = Suc (payments ''TLG7'' ordered)"
proof -
  have 1: "gateway_run plain_deps ([] @ credited_of ''tlg-7'' (fst delivered_once)) ordered (snd delivered_once)"
    by (rule webhook) (rule nothing, rule delivery_runs, rule gateway_says_spends(2))
  have "gateway_run plain_deps (([] @ credited_of ''tlg-7'' (fst delivered_once)) @ credited_of ''tlg-7'' (fst delivered_twice))
      ordered (snd delivered_twice)"
    by (rule webhook) (rule 1, rule delivery_runs, rule gateway_says_spends(2))
  then have "gateway_run plain_deps [''TLG7''] ordered (snd delivered_twice)"
    by (simp add: credited_of_def delivery_run)
  from gateway_credits_once [OF this] show ?thesis by simp
qed

end
