(* ===== verification/Reversal_Properties.thy ===== *)
theory Reversal_Properties
  imports Money_Service_Properties Recovery_Properties
begin

text \<open>
  What completing a reversal does: a supervisor, and only a supervisor, gives the shop back the value of a sale that needs a reversal, once.
\<close>

lemma return_value_effect:
  assumes run: "return_value s tx m c w = (Inr u, w')" and ok: "sale_ok d w"
    and t: "t \<in> set (transactions (w_db w))" "tw_id t = oc_transactionId c"
  shows "available w' n = available w n + (if n = oc_merchantId c then minor (oc_amount c) else 0) \<and>
    sale_stands (oc_transactionId c) (tw_state t) RELEASED w'"
proof -
  have ids: "distinct (map rr_id (balance_reservations (w_db w)))"
    using ok by (simp add: sale_ok_def ledger_ok_def reservations_ok_def)
  obtain source bucket action where source: "source \<in> {HELD, RES_UNDER_REVIEW}" and bucket: "bucket \<in> {MERCHANT_RESERVED, MERCHANT_UNDER_REVIEW}"
    and r: "resolve_reservation c source RELEASED
       (bucketTransfer (oc_merchantId c) bucket MERCHANT_AVAILABLE (oc_amount c) (oc_transactionId c) REVERSAL)
       action ''balance_reservation'' w = (Inr u, w')"
    using run by (auto simp: return_value_def release_def releaseFromUnderReview_def split: option.splits if_splits)
  let ?es = "bucketTransfer (oc_merchantId c) bucket MERCHANT_AVAILABLE (oc_amount c) (oc_transactionId c) REVERSAL"
  have posts: "posts (w_db w) (w_db w') ?es" by (rule resolve_reservation_effect [OF r source ids])
  have "attributed [MERCHANT_AVAILABLE, MERCHANT_FUNDS] ?es" using bucket by (auto simp: attributed_def bucketTransfer_def)
  from posts_net [OF posts this, of n] have "available w' n = available w n + (if n = oc_merchantId c then minor (oc_amount c) else 0)"
    using bucket by (auto simp: available_def bucketTransfer_def)
  then show ?thesis using resolve_stands [OF r source ok t refl] by blast
qed

text \<open>Writing a sale's state leaves its reservation where it was.\<close>

lemma persist_stands:
  assumes run: "persistRehydrated t row w = (Inr u, w')" and stands: "sale_stands (tx_id t) s rs w"
  shows "sale_stands (tx_id t) (tx_state t) rs w' \<and> ledger_entries (w_db w') = ledger_entries (w_db w)"
proof -
  have "balance_reservations (w_db w') = balance_reservations (w_db w)" "ledger_entries (w_db w') = ledger_entries (w_db w)"
    using run saveTransaction_other_tables [of t _ w u w'] unfolding persistRehydrated_def by auto
  moreover obtain r where "r \<in> set (transactions (w_db w'))" "tw_id r = tx_id t" "tw_state r = tx_state t"
    using saveTransaction_row [OF run [unfolded persistRehydrated_def]] by auto
  ultimately show ?thesis using stands by (auto simp: sale_stands_def)
qed

lemma post_reversal_run:
  assumes run: "post_reversal d tx m ap support at current w = (Inr r, w')" and ok: "sale_ok d w"
    and row: "current \<in> set (transactions (w_db w))" "tw_id current = tx" "tw_merchantId current = m"
  shows "available w' n = available w n + (if n = m then tw_amountMinor current else 0) \<and> sale_stands tx REVERSED RELEASED w' \<and>
    r = reversedResult tx (tw_idempotencyKey current) (tw_providerReference current) (case_reference tx support)"
  using run
proof (rule post_reversal_parts)
  fix t corr wa c wb wc t' wd we wf
  assume s: "rehydrate current = Inr t"
    "known_correlation d (map_option sw_correlationId support) w = (Inr corr, wa)"
    "money_context d m tx (tx_amount t) at corr \<lparr>ac_userId = ''system'', ac_role = ra_role ap, ac_deviceId = None\<rparr> wa = (Inr c, wb)"
    "return_value (w_db w) tx m c wb = (Inr (), wc)"
    "transitionTo t REVERSED at (Some ''authorized adjustment posted'') None = Inr t'"
    "persistRehydrated t' current wc = (Inr (), wd)"
    "reversal_audit d at ADJUSTMENT_POSTED (ra_role ap) m tx REVERSAL_REQUIRED REVERSED None corr wd = (Inr (), we)"
    "approve_case support ap at we = (Inr (), wf)"
    "recordIdempotencyResult m (tw_idempotencyKey current) REVERSED at wf = (Inr (), w')"
    "r = reversedResult tx (tw_idempotencyKey current) (tw_providerReference current) (case_reference tx support)"
  have q: "quiet w wb" using quiet.trans [OF keepsD [OF quiet_reversal_parts(1) s(2)] quiet_steps(4) [OF s(3)]] .
  have okb: "sale_ok d wb" using evolves_quiet [OF q] ok by (simp add: evolves_def)
  have rowb: "current \<in> set (transactions (w_db wb))" and eb: "ledger_entries (w_db wb) = ledger_entries (w_db w)"
    using q row by (simp_all add: quiet_def same_on_def money_tables_def)
  have c: "oc_transactionId c = tx" "oc_merchantId c = m" "minor (oc_amount c) = tw_amountMinor current"
    using money_context_Inr [OF s(3)] rehydrate_Inr [OF s(1)] by simp_all
  note v = return_value_effect [OF s(4) okb rowb, of n]
  have id: "tx_id t' = tx" "tx_state t' = REVERSED" using transitionTo_Inr [OF s(5)] rehydrate_Inr [OF s(1)] row by auto
  have p: "sale_stands tx REVERSED RELEASED wd" "ledger_entries (w_db wd) = ledger_entries (w_db wc)"
    using persist_stands [OF s(6)] v id c row by auto
  have q': "quiet wd wf" using quiet.trans [OF keepsD [OF quiet_reversal_audit s(7)] keepsD [OF quiet_reversal_parts(2) s(8)]] .
  have same: "same_on money_tables wd w'"
    using q' result_same_money [OF s(9)] by (simp add: quiet_def same_on_def)
  then have "ledger_entries (w_db w') = ledger_entries (w_db wc)" using p(2) by (simp add: same_on_def money_tables_def)
  then show ?thesis
    using available_same [of w' wc] available_same [OF eb] v c row sale_stands_same [OF same p(1)] s(10) by simp
qed

text \<open>
  The world in which the completion decides: for a supervisor and a sale that needs a reversal, the one the provider's answer leaves,
  with whatever other requests did meanwhile; otherwise the one the request came to.
\<close>

definition needs_reversal :: "string \<Rightarrow> string \<Rightarrow> world \<Rightarrow> bool" where
  "needs_reversal tx m w \<longleftrightarrow> (case findTransaction (w_db w) tx (Some m) of None \<Rightarrow> False | Some row \<Rightarrow> tw_state row = REVERSAL_REQUIRED)"

definition when_answered ::
  "(string \<Rightarrow> string \<Rightarrow> unit prog) option \<Rightarrow> string \<Rightarrow> string \<Rightarrow> reversal_approval \<Rightarrow> world \<Rightarrow> world" where
  "when_answered reverse tx m ap w =
     (if ra_role ap \<in> set SUPERVISOR_ROLES \<and> needs_reversal tx m w
      then snd (request_reversal reverse tx (case findTransaction (w_db w) tx (Some m) of None \<Rightarrow> None | Some row \<Rightarrow> tw_providerReference row) w)
      else w)"

text \<open>The transaction of the completion: it looks at the sale again before it moves anything.\<close>

lemma reverse_phase_run:
  assumes run: "reverse_phase d tx m ap support row w = (r, w')" and ok: "sale_ok d w"
  shows "if (\<exists>x. r = Inr x) \<and> needs_reversal tx m w
    then \<exists>cur. findTransaction (w_db w) tx (Some m) = Some cur \<and> sale_stands tx REVERSED RELEASED w' \<and>
      available w' n = available w n + (if n = m then tw_amountMinor cur else 0)
    else same_on money_tables w w'"
proof (cases r)
  case (Inl e)
  then have "w_db w' = w_db w" using run unfolding reverse_phase_def by (blast intro: db_transaction_rollback)
  then show ?thesis using Inl by (simp add: same_on_def)
next
  case (Inr x)
  let ?already = "ret (reversedResult tx (tw_idempotencyKey row) (tw_providerReference row) (case_reference tx support))"
  from run [unfolded Inr reverse_phase_def db_transaction_Inr Let_def] obtain at w1 where n: "now d w = (Inr at, w1)"
    and body: "(case findTransaction (w_db w1) tx (Some m) of None \<Rightarrow> ?already
      | Some cur \<Rightarrow> if tw_state cur \<noteq> REVERSAL_REQUIRED then ?already else post_reversal d tx m ap support at cur) w1 = (Inr x, w')"
    by (auto simp: bnd_Inr)
  have q: "quiet w w1" by (rule quiet_steps(6) [OF n])
  have ok1: "sale_ok d w1" using evolves_quiet [OF q] ok by (simp add: evolves_def)
  have same: "transactions (w_db w1) = transactions (w_db w)" "ledger_entries (w_db w1) = ledger_entries (w_db w)"
    "same_on money_tables w w1"
    using q by (simp_all add: quiet_def same_on_def money_tables_def)
  have find: "findTransaction (w_db w1) tx (Some m) = findTransaction (w_db w) tx (Some m)" using same by (simp add: findTransaction_def)
  show ?thesis
  proof (cases "needs_reversal tx m w")
    case True
    then obtain cur where cur: "findTransaction (w_db w1) tx (Some m) = Some cur" "tw_state cur = REVERSAL_REQUIRED"
      by (auto simp: needs_reversal_def find split: option.splits)
    have "post_reversal d tx m ap support at cur w1 = (Inr x, w')" using body cur by simp
    from post_reversal_run [OF this ok1, of n] findTransaction_SomeD [OF cur(1)] show ?thesis
      using True Inr cur find available_same [OF same(2)] by auto
  next
    case False
    then have "w' = w1" using body by (auto simp: needs_reversal_def find split: option.splits if_splits)
    then show ?thesis using False same(3) by simp
  qed
qed

text \<open>
  C4. A reversal gives the value back once, and only a supervisor can, whatever runs while the provider answers, other completions of the
  same reversal included: when the completion returns a result and the sale still needs its reversal once the provider has answered, the
  shop's available balance gains the amount of the sale, the sale is reversed and its reservation released. In every other case (another
  role, another state, a sale meanwhile reversed by another request, or an error, its own or the provider's) it changes no sale, no
  reservation and no entry.
\<close>

theorem reversal_returns_the_value:
  assumes run: "completeReversal d reverse tx m ap w = (r, w')" and ok: "sale_ok d w"
    and provider: "\<And>f a b. reverse = Some f \<Longrightarrow> keeps (evolves d) (f a b)"
  shows "if (\<exists>x. r = Inr x) \<and> ra_role ap \<in> set SUPERVISOR_ROLES \<and> needs_reversal tx m w \<and> needs_reversal tx m (when_answered reverse tx m ap w)
    then \<exists>row. findTransaction (w_db (when_answered reverse tx m ap w)) tx (Some m) = Some row \<and> sale_stands tx REVERSED RELEASED w' \<and>
      available w' n = available (when_answered reverse tx m ap w) n + (if n = m then tw_amountMinor row else 0)
    else same_on money_tables (when_answered reverse tx m ap w) w'"
proof -
  let ?w1 = "when_answered reverse tx m ap w"
  have refused: "same_on money_tables w w'" if "refused_reversal d k x a i w = (r, w')" for k x a i
    using that by (auto simp: refused_reversal_def bnd_def newId_def ret_def same_on_def)
  show ?thesis
  proof (cases "ra_role ap \<in> set SUPERVISOR_ROLES \<and> needs_reversal tx m w")
    case False
    have "same_on money_tables w w'"
      using run False refused
      by (auto simp: completeReversal_def needs_reversal_def bnd_def get_db_def ret_def Let_def same.refl split: if_splits option.splits)
    moreover have w: "?w1 = w" unfolding when_answered_def using False by (rule if_not_P)
    ultimately show ?thesis unfolding w using False by auto
  next
    case True
    then obtain row where row: "findTransaction (w_db w) tx (Some m) = Some row" "tw_state row = REVERSAL_REQUIRED"
      by (auto simp: needs_reversal_def split: option.splits)
    let ?ask = "request_reversal reverse tx (tw_providerReference row)" and ?support = "findSupportCaseByTransaction (w_db w) tx (Some m)"
    have w1: "?w1 = snd (?ask w)" using True row by (simp add: when_answered_def)
    have body: "seq ?ask (reverse_phase d tx m ap ?support row) w = (r, w')"
      using run True row by (simp add: completeReversal_def bnd_def get_db_def Let_def)
    have "keeps (evolves d) ?ask" using provider by (auto simp: request_reversal_def evolve.keeps_ret split: option.split)
    then have "evolves d w ?w1" unfolding w1 by (rule keepsD [OF _ prod.collapse [symmetric]])
    then have ok1: "sale_ok d ?w1" using ok by (simp add: evolves_def)
    show ?thesis
    proof (cases "fst (?ask w)")
      case (Inl e)
      then have "r = Inl e" "w' = ?w1" using body by (auto simp: w1 seq_def bnd_def split: prod.splits)
      then show ?thesis by (simp add: same.refl)
    next
      case (Inr u)
      then have "reverse_phase d tx m ap ?support row ?w1 = (r, w')" using body by (auto simp: w1 seq_def bnd_def split: prod.splits)
      from reverse_phase_run [OF this ok1, of n] show ?thesis using True by auto
    qed
  qed
qed

section \<open>A concrete reversal\<close>

definition slow_deps :: sale_deps where
  "slow_deps = shop_deps INDETERMINATE ST_STILL_PENDING"

definition reversal_needed :: world where
  "reversal_needed = snd (requireReversal slow_deps ''txn_'' ''m1'' ''paid twice'' world_pending)"

definition supervisor :: reversal_approval where
  "supervisor = \<lparr>ra_approvedBy = ''a1'', ra_role = OPS_APPROVER\<rparr>"

definition reversal_done where
  "reversal_done = completeReversal slow_deps None ''txn_'' ''m1'' supervisor reversal_needed"

text \<open>A provider call during which another supervisor completes the same reversal.\<close>

definition overlapping :: "string \<Rightarrow> string \<Rightarrow> unit prog" where
  "overlapping tx ref = bnd (completeReversal slow_deps None tx ''m1'' supervisor) (\<lambda>_. ret ())"

definition reversal_overlapped where
  "reversal_overlapped = completeReversal slow_deps (Some overlapping) ''txn_'' ''m1'' supervisor reversal_needed"

lemmas run_reversal = requireReversal_def mark_reversal_def refused_reversal_def known_correlation_def close_job_def
  open_reversal_case_def reversal_audit_def case_reference_def completeReversal_def supervisor_def SUPERVISOR_ROLES_def request_reversal_def
  reverse_phase_def post_reversal_def return_value_def approve_case_def releaseFromUnderReview_def

lemma reversal_states_known: "isTransactionState ''REVERSAL_REQUIRED''" "isTransactionState ''REVERSED''"
  by (simp_all add: isTransactionState_def TRANSACTION_STATES_def)

lemma reversal_values:
  "case requireReversal slow_deps ''txn_'' ''m1'' ''paid twice'' world_pending of (x, v) \<Rightarrow>
     map_option (\<lambda>r. (tw_state r, tw_amountMinor r, tw_providerReference r)) (findTransaction (w_db v) ''txn_'' (Some ''m1'')) =
       Some (REVERSAL_REQUIRED, 400, Some ''ref1'') \<and>
     (case completeReversal slow_deps None ''txn_'' ''m1'' supervisor v of (r, v') \<Rightarrow> (\<exists>x. r = Inr x) \<and>
       map_option tw_state (findTransaction (w_db v') ''txn_'' (Some ''m1'')) = Some REVERSED)"
  unfolding slow_deps_def
  by (simp add: run_reversal findSupportCaseByTransaction_def approveSupportCase_def reversal_states_known run_recovery run_all run_shop cong: run_congs)

lemma reversal_needed_row:
  "map_option (\<lambda>r. (tw_state r, tw_amountMinor r, tw_providerReference r)) (findTransaction (w_db reversal_needed) ''txn_'' (Some ''m1'')) =
     Some (REVERSAL_REQUIRED, 400, Some ''ref1'')"
  and reversal_run: "\<exists>r. fst reversal_done = Inr r"
  and reversal_done_row: "map_option tw_state (findTransaction (w_db (snd reversal_done)) ''txn_'' (Some ''m1'')) = Some REVERSED"
  using reversal_values unfolding reversal_done_def reversal_needed_def by (auto split: prod.splits)

lemma reversal_needed_ok: "sale_ok slow_deps reversal_needed"
proof -
  have "evolves slow_deps world_pending reversal_needed"
    using keepsD [OF requireReversal_evolves prod.collapse [symmetric]] unfolding reversal_needed_def .
  then show ?thesis using world_pending_ok by (simp add: evolves_def slow_deps_def)
qed

lemma overlapping_evolves: "keeps (evolves slow_deps) (overlapping a b)"
  unfolding overlapping_def by (intro evolve.keeps_rules completeReversal_evolves) simp

text \<open>Two supervisors complete the same reversal, one while the other's provider call is under way: the value comes back once.\<close>

theorem reversal_returns_the_value_witness:
  "available (snd reversal_overlapped) ''m1'' = available reversal_needed ''m1'' + 400 \<and>
   sale_stands ''txn_'' REVERSED RELEASED (snd reversal_overlapped)"
proof -
  obtain row where row: "findTransaction (w_db reversal_needed) ''txn_'' (Some ''m1'') = Some row" "tw_state row = REVERSAL_REQUIRED"
    "tw_amountMinor row = 400" "tw_providerReference row = Some ''ref1''" using reversal_needed_row by auto
  have first: "when_answered None ''txn_'' ''m1'' supervisor reversal_needed = reversal_needed"
    by (simp add: when_answered_def request_reversal_def ret_def)
  have needed: "needs_reversal ''txn_'' ''m1'' reversal_needed" "\<not> needs_reversal ''txn_'' ''m1'' (snd reversal_done)"
    using row reversal_done_row by (auto simp: needs_reversal_def)
  have role: "ra_role supervisor \<in> set SUPERVISOR_ROLES" by (simp add: supervisor_def SUPERVISOR_ROLES_def)
  have "completeReversal slow_deps None ''txn_'' ''m1'' supervisor reversal_needed = (fst reversal_done, snd reversal_done)"
    by (simp add: reversal_done_def)
  from reversal_returns_the_value [OF this reversal_needed_ok, of "''m1''"]
  have once: "available (snd reversal_done) ''m1'' = available reversal_needed ''m1'' + 400" "sale_stands ''txn_'' REVERSED RELEASED (snd reversal_done)"
    using reversal_run row needed role by (simp_all add: first)
  have "overlapping ''txn_'' ''ref1'' reversal_needed = (Inr (), snd reversal_done)"
    using reversal_run by (auto simp: overlapping_def reversal_done_def bnd_def ret_def split: prod.splits)
  then have second: "when_answered (Some overlapping) ''txn_'' ''m1'' supervisor reversal_needed = snd reversal_done"
    using row needed role by (simp add: when_answered_def request_reversal_def)
  have "same_on money_tables (snd reversal_done) w'" if "reversal_overlapped = (r, w')" for r w'
  proof -
    have no: "needs_reversal ''txn_'' ''m1'' (snd reversal_done) = False" using needed(2) by blast
    show ?thesis
      by (rule reversal_returns_the_value [OF that [unfolded reversal_overlapped_def] reversal_needed_ok, unfolded second no simp_thms if_False])
        (metis option.inject overlapping_evolves)
  qed
  from this [OF prod.collapse [symmetric]] have same: "same_on money_tables (snd reversal_done) (snd reversal_overlapped)" .
  then have "ledger_entries (w_db (snd reversal_overlapped)) = ledger_entries (w_db (snd reversal_done))" by (simp add: same_on_def money_tables_def)
  from available_same [OF this, of "''m1''"] show ?thesis unfolding once(1) using sale_stands_same [OF same once(2)] by blast
qed

end
