(* ===== verification/Service_System.thy ===== *)
theory Service_System
  imports Software_Fee_Properties Worker Reversal_Properties
begin

text \<open>
  All services together: sales, questions, recovery sweeps with their fee run, deposits by card, slip and gateway, profit and shop
  transfers and reversals, in any order. Each keeps \<open>evolves\<close>, so the books stay right; the one thing left out is the approval of
  a queued transfer, which does not look at the sender's balance (\<open>approval_overdraws\<close>).
\<close>

section \<open>Software fees\<close>

lemma holdings_charge: "keeps same_holdings (chargeSoftwareFee i)"
proof -
  have row: "keeps same_holdings (insert_charge r)" for r
    unfolding insert_charge_def by (intro holdings.keeps_rules holdings_put_db) (simp add: holdings_def)
  have "keeps same_holdings (insertPaidCharge i)" "keeps same_holdings (insertArrears i)"
    unfolding insertPaidCharge_def insertArrears_def by (intro holdings.keeps_rules holdings_put_db row; simp add: holdings_def)+
  then show ?thesis
    unfolding chargeSoftwareFee_def collect_fee_def by (intro holdings.keeps_rules holdings_ensureAccounts holdings_appendEntries)
qed

lemma quiet_writePlatformFeeSettings: "keeps quiet (writePlatformFeeSettings u)"
  unfolding writePlatformFeeSettings_def
  by (intro quiet.keeps_rules quiet_readPlatformFeeSettings quiet_put_db) (simp_all add: money_tables_def)

interpretation fee_evolve: fee_guarantee "evolves d" for d
proof unfold_locales
  show "evolves d w w'" if "w_db w' = w_db w" "ids_grow w w'" for w w'
    by (rule evolves_same_money) (use that in \<open>simp_all add: same_on_def\<close>)
  show "keeps (evolves d) (chargeSoftwareFee i)" for i
    by (rule keepsI) (rule holdings_evolves [OF holdings_charge _ step_fee])
  show "keeps (evolves d) (writePlatformFeeSettings u)" for u
    by (rule keeps_evolves [OF quiet_writePlatformFeeSettings])
qed

section \<open>The worker's sweep\<close>

lemma attempt_evolves: "keeps (evolves d) m \<Longrightarrow> keeps (evolves d) (attempt m)"
  unfolding attempt_def by (intro evolve.keeps_rules)

lemma runSweep_evolves:
  assumes "provider_evolves (rd_sale r)" and "\<And>go. so_shouldContinue o' = Some go \<Longrightarrow> keeps (evolves (rd_sale r)) go"
  shows "keeps (evolves (rd_sale r)) (runSweep r o')"
  unfolding runSweep_def
  by (intro evolve.keeps_rules attempt_evolves fee_evolve.keeps_due recoverInFlight_evolves assms)

section \<open>Every request\<close>

inductive system_step :: "sale_deps \<Rightarrow> world \<Rightarrow> world \<Rightarrow> bool" for d where
  service: "service_step d w w' \<Longrightarrow> system_step d w w'"
| sweep: "runSweep v o' w = (p, w') \<Longrightarrow> rd_sale v = d \<Longrightarrow>
    (\<And>go. so_shouldContinue o' = Some go \<Longrightarrow> keeps (evolves d) go) \<Longrightarrow> system_step d w w'"
| fee_run: "runSoftwareFeeCharges d period w = (f, w') \<Longrightarrow> system_step d w w'"
| training_deposit: "depositTrainingFunds d c q w = (x, w') \<Longrightarrow> system_step d w w'"
| slip: "orderBankDeposit d fresh c oq pol w = (b, w') \<Longrightarrow> keeps quiet fresh \<Longrightarrow> system_step d w w'"
| cancel: "cancelBankDeposit d c w = (y, w') \<Longrightarrow> system_step d w w'"
| checkout: "startChapaDeposit d key fresh initialize c oq pol w = (sr, w') \<Longrightarrow> keeps quiet fresh \<Longrightarrow>
    (\<And>a r. keeps (evolves d) (initialize a r)) \<Longrightarrow> system_step d w w'"
| webhook: "settleChapaDeposit d key verify ref w = (z, w') \<Longrightarrow> (\<And>r. keeps (evolves d) (verify r)) \<Longrightarrow> system_step d w w'"
| take_profit: "transferProfit d c amount corr w = (pr, w') \<Longrightarrow> system_step d w w'"
| send: "settleShopTransfer d policy a w = (t, w') \<Longrightarrow> transfer_policy_ok policy \<Longrightarrow> system_step d w w'"
| need_reversal: "requireReversal d tx m reason w = (s, w') \<Longrightarrow> system_step d w w'"
| reverse: "completeReversal d pv tx m ap w = (s, w') \<Longrightarrow> (\<And>f a b. pv = Some f \<Longrightarrow> keeps (evolves d) (f a b)) \<Longrightarrow> system_step d w w'"

lemma system_step_evolves:
  assumes provider: "provider_evolves d" and ids: "fresh_ids d"
  shows "system_step d w w' \<Longrightarrow> evolves d w w'"
proof (induction rule: system_step.induct)
  case (service w w')
  then show ?case by (rule service_step_evolves [OF provider ids])
next
  case (sweep v o' w p w')
  then show ?case using keepsD [OF runSweep_evolves [of v o']] provider by blast
next
  case (fee_run period w f w')
  then show ?case using keepsD [OF fee_evolve.keeps_run] by blast
next
  case (training_deposit c q w x w')
  then show ?case using keepsD [OF depositTrainingFunds_evolves] by blast
next
  case (slip fresh c oq pol w b w')
  then show ?case using keepsD [OF orderBankDeposit_evolves] by blast
next
  case (cancel c w y w')
  then show ?case using keepsD [OF cancelBankDeposit_evolves] by blast
next
  case (checkout key fresh initialize c oq pol w sr w')
  then show ?case using keepsD [OF startChapaDeposit_evolves] by blast
next
  case (webhook key verify ref w z w')
  then show ?case using keepsD [OF settleChapaDeposit_evolves] by blast
next
  case (take_profit c amount corr w pr w')
  then show ?case using keepsD [OF transferProfit_evolves] by blast
next
  case (send policy a w t w')
  then show ?case using keepsD [OF settleShopTransfer_evolves] by blast
next
  case (need_reversal tx m reason w s w')
  then show ?case using keepsD [OF requireReversal_evolves] by blast
next
  case (reverse pv tx m ap w s w')
  then show ?case using keepsD [OF completeReversal_evolves] by blast
qed

lemma system_evolves:
  assumes "provider_evolves d" "fresh_ids d"
  shows "(system_step d)\<^sup>*\<^sup>* w w' \<Longrightarrow> evolves d w w'"
  by (induction rule: rtranclp_induct) (blast intro: evolve.refl evolve.trans system_step_evolves [OF assms])+

text \<open>
  C1. Whatever the services do together, from empty books and in any order: the ledger sums to zero, no shop's available balance is
  negative, and reserved and reviewed money is exactly what the live reservations hold.
\<close>

theorem the_books_are_kept:
  assumes "provider_evolves d" and "fresh_ids d" and "(system_step d)\<^sup>*\<^sup>* w w'"
    and "transactions (w_db w) = []" and "ledger_entries (w_db w) = []" and "balance_reservations (w_db w) = []"
  shows "ledgerResidualMinor (w_db w') = 0 \<and>
    0 \<le> netMinor (w_db w') m [MERCHANT_AVAILABLE, MERCHANT_FUNDS] \<and>
    netMinor (w_db w') m [MERCHANT_RESERVED] = live_sum m HELD (balance_reservations (w_db w')) \<and>
    netMinor (w_db w') m [MERCHANT_UNDER_REVIEW] = live_sum m RES_UNDER_REVIEW (balance_reservations (w_db w')) \<and>
    (\<forall>r\<in>set (balance_reservations (w_db w')). belongs (transactions (w_db w')) r)"
proof -
  have "sale_ok d w'" using system_evolves [OF assms(1-3)] sale_ok_empty [OF assms(4-6)] by (simp add: evolves_def)
  then show ?thesis by (simp add: sale_ok_def ledger_ok_def)
qed

text \<open>A deposit, a sale left in doubt, the request to reverse it and the reversal.\<close>

theorem the_books_are_kept_witness:
  "ledgerResidualMinor (w_db (snd reversal_done)) = 0 \<and> 0 \<le> netMinor (w_db (snd reversal_done)) ''m1'' [MERCHANT_AVAILABLE, MERCHANT_FUNDS]"
proof -
  let ?d = "shop_deps INDETERMINATE ST_STILL_PENDING"
  have "service_step ?d shop_funded world_pending"
    by (rule service_step.sell [OF shop_leaves_pending safe_request])
  then have s1: "system_step ?d shop_world shop_funded" and s2: "system_step ?d shop_funded world_pending"
    using shop_deposit by (auto intro: service)
  have s3: "system_step ?d world_pending reversal_needed"
    unfolding reversal_needed_def slow_deps_def by (rule need_reversal [OF prod.collapse [symmetric]])
  have s4: "system_step ?d reversal_needed (snd reversal_done)"
    unfolding reversal_done_def slow_deps_def by (rule system_step.reverse [OF prod.collapse [symmetric]]) simp
  have "(system_step ?d)\<^sup>*\<^sup>* shop_world (snd reversal_done)"
    by (rule rtranclp.rtrancl_into_rtrancl, rule rtranclp.rtrancl_into_rtrancl, rule rtranclp.rtrancl_into_rtrancl,
        rule rtranclp.rtrancl_into_rtrancl, rule rtranclp.rtrancl_refl, rule s1, rule s2, rule s3, rule s4)
  from the_books_are_kept [OF shop_provider_evolves shop_fresh_ids this, of "''m1''"] show ?thesis
    by (simp add: shop_world_def sample_db_def empty_db_def)
qed

end
