(* ===== verification/Spec2Isabelle.thy ===== *)
theory Spec2Isabelle
  imports Commission Deposit_Reference Sale_Properties Sale_Results Software_Fee_Properties Submission
    Recovery_Properties Recovery_Metrics Delayed_Sales Feature_Flags Decisions Vouchers Read_Model Polling
    Worker_Properties Money_Service_Properties Gateway_Properties Reversal_Properties Service_System
begin

text \<open>
  Telga sells airtime through shops: a merchant's terminal asks the API for a sale, the API
  reserves the amount on the shop's balance, submits the sale to a provider and settles or releases
  the reservation when the outcome is known; a worker resolves what stayed pending. All
  money is double entry in an append-only ledger, and every balance is derived from it.

  \<^bold>\<open>Where each part is.\<close>

  \<^item> \<open>Telga_Prelude\<close>: hint collections, the result type \<open>'e + 'a\<close>, JavaScript numbers (rounding to 53
    bits), printing, and the list lemmas every component shares. \<open>Js_Number\<close>: \<open>String.trim\<close> and
    \<open>Number(text)\<close>. \<open>Js_Time\<close>: ISO timestamps, \<open>Date.parse\<close> and \<open>toISOString\<close>, with the round
    trip and the agreement of string order and time order.
  \<^item> \<open>States\<close> (\<open>packages/domain/src/states.ts\<close>, \<open>errors.ts\<close>, \<open>mode.ts\<close>, \<open>provider.ts\<close>), \<open>Money\<close>
    (\<open>money.ts\<close>), \<open>Access\<close> (\<open>auth.ts\<close>, \<open>admin.ts\<close>), \<open>Commission\<close> (\<open>commission.ts\<close>,
    \<open>commissionSplit.ts\<close>), \<open>Deposit_Reference\<close> (\<open>depositReference.ts\<close>), \<open>Idempotency\<close>
    (\<open>idempotency.ts\<close>), \<open>Ledger\<close> (\<open>ledger.ts\<close>, \<open>balance.ts\<close>, \<open>audit.ts\<close>, \<open>transaction.ts\<close>):
    the domain package, one definition per exported function, a class with a private array
    as functions on the list of its elements. \<open>Feature_Flags\<close> (\<open>featureFlags.ts\<close>), \<open>Decisions\<close>
    (\<open>fundingSubmission.ts\<close>, \<open>reversal.ts\<close>, \<open>transfer.ts\<close>, \<open>topupOrder.ts\<close>) and \<open>Vouchers\<close> (\<open>attempt.ts\<close>,
    \<open>receipt.ts\<close>, \<open>voucherCode.ts\<close>, \<open>productId.ts\<close>, \<open>cardPayment.ts\<close>) are its pure decisions.
  \<^item> \<open>Tables\<close>: what a SQL statement does to a table that is a list of rows (\<open>update_where\<close>,
    \<open>count_where\<close>, \<open>order_by\<close>, \<open>guarded_move\<close>), the error values of the store, and
    the program monad: a program takes a world and returns an error or a value, and the new world.
  \<^item> \<open>Store\<close> (\<open>packages/persistence/src/schema/types.ts\<close>): the rows, the database (a record of tables) and the
    world, which is the database, a clock, a supply of identifiers and the log of calls to the provider;
    \<open>db_transaction\<close> rolls the database back when its body throws.
  \<^item> \<open>Repositories\<close>, \<open>Job_Repositories\<close> (\<open>packages/persistence/src/repositories\<close>, \<open>privacy.ts\<close>): each
    SQL statement as an update of its table, with the primary keys, unique indexes, foreign keys and
    checks the migrations declare as the errors they raise.
  \<^item> \<open>Operations\<close> (\<open>packages/persistence/src/operations.ts\<close>): everything that moves money.
  \<^item> \<open>Application\<close> (\<open>services/api/src/application/context.ts\<close>, \<open>results.ts\<close>, \<open>rehydrate.ts\<close>): what the services
    share. \<open>Sale\<close> (\<open>createSale.ts\<close>, \<open>resolvePending.ts\<close>): selling, and asking again about a pending sale, one
    definition for each unit of work.
  \<^item> \<open>Recovery\<close> (\<open>recovery/config.ts\<close>, \<open>results.ts\<close>, \<open>recoverInFlight.ts\<close>): the sweep that finds sales left in flight,
    claims each under a lease, asks the provider and settles, releases, holds or escalates it;
    \<open>Recovery_Metrics\<close> (\<open>recovery/metrics.ts\<close>): its gauges and alerts.
  \<^item> \<open>Software_Fee\<close> (\<open>services/worker/src/softwareFeeRun.ts\<close>): the month-end fee run. \<open>Worker\<close> (the rest of
    \<open>services/worker/src\<close>): the policy of the recovery worker, its backoff, its health, the loop that supervises it and the sweep it runs.
  \<^item> \<open>Extension_Repositories\<close> (\<open>repositories/extensions.ts\<close>, \<open>topupOrders.ts\<close>): reversal requests, complaints, transfers and
    deposit slips. \<open>Deposits\<close> (\<open>application/deposits.ts\<close>, \<open>bankDeposit.ts\<close>, \<open>chapaDeposit.ts\<close>, \<open>profitTransfer.ts\<close> and
    the decision of \<open>provider-adapters/chapa\<close>), \<open>Shop_Transfers\<close> (\<open>shopTransfer.ts\<close> and the console's decision of a queued
    transfer) and \<open>Reversals\<close> (\<open>reversal.ts\<close>): the services that move money beside a sale.
  \<^item> \<open>View_Model\<close>, \<open>Polling\<close> (\<open>packages/pos-view-model/src\<close>) and \<open>Read_Model\<close> (\<open>http/readModel.ts\<close>, \<open>redaction.ts\<close>): what a
    terminal shows of a sale, how it asks for news, and what may leave the server.
  \<^item> \<open>Running\<close>, \<open>Evaluation\<close>: lemmas that run a program of the model on a concrete world inside the simplifier, and the
    worlds of one shop before and after a sale written out as tables, for the witnesses.

  \<^bold>\<open>Interfaces.\<close> \<open>append_only\<close> (the ledger and the audit log), \<open>keyed_store\<close> (the idempotency
  store) and \<open>guarded_rows\<close> (a table whose rows move between states by a guarded \<open>UPDATE\<close>: reservations,
  pending resolutions, voucher orders) are locales, each interpreted on the model's definitions.

  \<^bold>\<open>What is shown.\<close> \<open>Ledger_Invariant\<close> gives the effect of each money operation on the ledger and proves that all keep
  \<open>ledger_ok\<close>: the entries sum to zero, no available balance is negative, the reserved and
  under-review accounts of every shop equal its live reservations. \<open>Ledger_Properties\<close> concludes for
  every reachable store, relates the balances read by SQL with the ones the domain
  derives, and shows that a resolved reservation is final. \<open>Guarantees\<close> gives relations between worlds that a program
  keeps whatever it does (the locales \<open>guarantee\<close> and \<open>service_guarantee\<close>), \<open>Sale_Invariant\<close> the invariant
  that ties every reservation to its sale, \<open>Sale_Evolution\<close> that selling and asking keep it while other
  requests run during every call to the provider; \<open>Sale_Properties\<close> and \<open>Sale_Results\<close> conclude. \<open>Submission\<close> shows
  that a request is submitted once, \<open>Recovery_Evolution\<close> that a sweep keeps the invariant of selling,
  \<open>Recovery_Properties\<close> that only an answer moves the money of submitted sales, that a sweep's report is true, that waiting ends and
  that one worker at a time holds a sale. \<open>Delayed_Sales\<close> shows what a late outcome changes.
  \<open>Software_Fee_Properties\<close> shows that a month is charged once, that a run with the fee on passes no active shop over, and that no month before
  the first on record is charged (the month the worker first swept in, which need not be the month the fee was switched on in).
  \<open>Money_Services\<close> shows that every other service keeps the invariant of selling, and \<open>Service_System\<close> concludes that the books are
  kept by all of them together; \<open>Money_Service_Properties\<close>, \<open>Gateway_Properties\<close> and \<open>Reversal_Properties\<close> say what each
  moves, and that it moves it once. \<open>Worker_Properties\<close> shows that the worker neither spins nor stops trying, stops when it must, and reports
  itself healthy only after a last sweep that succeeded. Its settings are integers, as in all policies of the repository's configuration.
  \<open>Feature_Flags\<close> shows that a capability that is off blocks its whole route tree, and no other path, and that the configuration
  starts without live money; \<open>Decisions\<close> what an accepted transfer, reversal or deposit is worth and that the flow of a
  submission ends; \<open>Vouchers\<close> the form of a voucher code and how the text of a product identifier is cut.

  \<^bold>\<open>Not modelled.\<close> HTTP, HTML, the SQLite file, process management and the
  cryptographic primitives of Node, which are parameters where the code uses them.
\<close>

end
